(* ===== verification/Js_Prelude.thy ===== *)
theory Js_Prelude
  imports Main "HOL-Library.AList"
begin

text \<open>
  The prelude of the development: the pieces of JavaScript that every component uses.

  \<^item> Fallible code is a sum: \<open>Inl\<close> is a thrown (or rejected) error, \<open>Inr\<close> a returned
    (or resolved) value; \<open>await\<close> sequences two such computations.
  \<^item> A string is the list of the bytes of its UTF-8 encoding. On well-formed strings this is
    a bijection, and every operation the sources use (equality, concatenation, \<open>startsWith\<close>,
    \<open>split\<close>, \<open>indexOf\<close> and \<open>slice\<close> at ASCII delimiters, \<open>trim\<close>,
    \<open>encodeURIComponent\<close>, \<open>TextDecoder\<close>) commutes with it.
  \<^item> \<open>Map\<close> and \<open>Set\<close> remember insertion order: an association list with distinct keys in
    which writing a present key keeps its position, and a list without duplicates. The laws
    the components rely on are stated as the locales \<open>ordered_map\<close> and \<open>ordered_set\<close>
    and proved of these lists by interpretation.
\<close>

named_theorems js_simps \<open>evaluation of the modelled standard library\<close>

section \<open>Results\<close>

type_synonym ('e, 'a) result = "'e + 'a"

definition await :: "('e, 'a) result \<Rightarrow> ('a \<Rightarrow> ('e, 'b) result) \<Rightarrow> ('e, 'b) result" where
  "await r f = (case r of Inl e \<Rightarrow> Inl e | Inr a \<Rightarrow> f a)"

lemma await_simps [simp]:
  "await (Inl e) f = Inl e"
  "await (Inr a) f = f a"
  by (simp_all add: await_def)

lemma await_eq_Inr: "await r f = Inr b \<longleftrightarrow> (\<exists>a. r = Inr a \<and> f a = Inr b)"
  by (cases r) auto

lemma await_eq_Inl: "await r f = Inl e \<longleftrightarrow> r = Inl e \<or> (\<exists>a. r = Inr a \<and> f a = Inl e)"
  by (cases r) auto

lemma await_assoc: "await (await r f) g = await r (\<lambda>a. await (f a) g)"
  by (cases r) auto

lemma find_append: "find P (xs @ ys) = (case find P xs of None \<Rightarrow> find P ys | Some x \<Rightarrow> Some x)"
  by (induction xs) auto

lemma find_SomeD: "find P xs = Some x \<Longrightarrow> P x \<and> x \<in> set xs"
  by (auto simp: find_Some_iff)

section \<open>Insertion-ordered maps\<close>

type_synonym ('k, 'v) js_map = "('k \<times> 'v) list"

definition map_get :: "('k, 'v) js_map \<Rightarrow> 'k \<Rightarrow> 'v option" where
  "map_get m = map_of m"

definition map_set :: "'k \<Rightarrow> 'v \<Rightarrow> ('k, 'v) js_map \<Rightarrow> ('k, 'v) js_map" where
  "map_set = AList.update"

definition map_del :: "'k \<Rightarrow> ('k, 'v) js_map \<Rightarrow> ('k, 'v) js_map" where
  "map_del = AList.delete"

definition map_keys :: "('k, 'v) js_map \<Rightarrow> 'k list" where
  "map_keys m = map fst m"

definition map_values :: "('k, 'v) js_map \<Rightarrow> 'v list" where
  "map_values m = map snd m"

definition map_wf :: "('k, 'v) js_map \<Rightarrow> bool" where
  "map_wf m \<longleftrightarrow> distinct (map fst m)"

text \<open>The contract of \<open>Map\<close>: lookups, enumeration order and well-formedness.\<close>

locale ordered_map =
  fixes emp :: "'m"
    and get :: "'m \<Rightarrow> 'k \<Rightarrow> 'v option"
    and put :: "'k \<Rightarrow> 'v \<Rightarrow> 'm \<Rightarrow> 'm"
    and del :: "'k \<Rightarrow> 'm \<Rightarrow> 'm"
    and entries :: "'m \<Rightarrow> ('k \<times> 'v) list"
    and wf :: "'m \<Rightarrow> bool"
  assumes entries_emp: "entries emp = []"
    and wf_emp: "wf emp"
    and get_entries: "get m = map_of (entries m)"
    and get_put: "get (put k v m) = (get m)(k \<mapsto> v)"
    and get_del: "get (del k m) = (get m)(k := None)"
    and wf_put: "wf m \<Longrightarrow> wf (put k v m)"
    and wf_del: "wf m \<Longrightarrow> wf (del k m)"
    and wf_distinct: "wf m \<Longrightarrow> distinct (map fst (entries m))"
    and keys_put: "map fst (entries (put k v m)) =
      (if get m k = None then map fst (entries m) @ [k] else map fst (entries m))"
begin

lemma get_emp: "get emp k = None"
  by (simp add: get_entries entries_emp)

lemma wf_fold_put: "wf m \<Longrightarrow> wf (fold (\<lambda>x. put (kf x) (vf x)) xs m)"
  by (induction xs arbitrary: m) (auto intro: wf_put)

lemma get_fold_put:
  "get (fold (\<lambda>x. put (kf x) (vf x)) xs m) k =
     (case map_of (rev (map (\<lambda>x. (kf x, vf x)) xs)) k of None \<Rightarrow> get m k | Some v \<Rightarrow> Some v)"
  by (induction xs arbitrary: m)
     (auto simp: get_put map_add_def split: option.splits)

lemma mem_entries: "wf m \<Longrightarrow> (k, v) \<in> set (entries m) \<longleftrightarrow> get m k = Some v"
  using wf_distinct by (fastforce simp: get_entries)

lemma get_eq_None_iff: "get m k = None \<longleftrightarrow> k \<notin> fst ` set (entries m)"
  by (simp add: get_entries map_of_eq_None_iff)

lemma keys_fold_put_new:
  assumes "distinct (map kf xs)" and "\<And>x. x \<in> set xs \<Longrightarrow> get m (kf x) = None"
  shows "map fst (entries (fold (\<lambda>x. put (kf x) (vf x)) xs m)) = map fst (entries m) @ map kf xs"
  using assms
proof (induction xs arbitrary: m)
  case (Cons x xs)
  have "get (put (kf x) (vf x) m) (kf y) = None" if "y \<in> set xs" for y
  proof -
    from that Cons.prems(1) have "kf y \<noteq> kf x" by (metis distinct.simps(2) image_eqI list.set_map list.simps(9))
    with that Cons.prems(2) show ?thesis by (simp add: get_put)
  qed
  with Cons show ?case by (simp add: keys_put)
qed simp

end

interpretation jm: ordered_map "[]" map_get map_set map_del "\<lambda>m. m" map_wf
proof unfold_locales
  fix m :: "('k, 'v) js_map" and k :: 'k and v :: 'v
  show "map_wf ([] :: ('k, 'v) js_map)" by (simp add: map_wf_def)
  show "map_get m = map_of m" by (simp add: map_get_def)
  show "map_get (map_set k v m) = (map_get m)(k \<mapsto> v)"
    by (simp add: map_get_def map_set_def update_conv')
  show "map_get (map_del k m) = (map_get m)(k := None)"
    by (simp add: map_get_def map_del_def delete_conv')
  show "map_wf m \<Longrightarrow> map_wf (map_set k v m)"
    by (simp add: map_wf_def map_set_def distinct_update)
  show "map_wf m \<Longrightarrow> map_wf (map_del k m)"
    by (simp add: map_wf_def map_del_def distinct_delete)
  show "map_wf m \<Longrightarrow> distinct (map fst m)" by (simp add: map_wf_def)
  show "map fst (map_set k v m) = (if map_get m k = None then map fst m @ [k] else map fst m)"
    by (auto simp: map_set_def map_get_def update_keys map_of_eq_None_iff image_iff)
qed simp

lemmas js_map_rules =
  jm.get_put jm.get_del jm.wf_put jm.wf_del jm.wf_emp jm.get_emp

section \<open>Insertion-ordered sets\<close>

definition set_add :: "'a \<Rightarrow> 'a list \<Rightarrow> 'a list" where
  "set_add x xs = (if x \<in> set xs then xs else xs @ [x])"

definition set_del :: "'a \<Rightarrow> 'a list \<Rightarrow> 'a list" where
  "set_del x xs = filter (\<lambda>y. y \<noteq> x) xs"

text \<open>The contract of \<open>Set\<close>.\<close>

locale ordered_set =
  fixes emp :: "'s"
    and add :: "'a \<Rightarrow> 's \<Rightarrow> 's"
    and del :: "'a \<Rightarrow> 's \<Rightarrow> 's"
    and elems :: "'s \<Rightarrow> 'a list"
    and wf :: "'s \<Rightarrow> bool"
  assumes elems_emp: "elems emp = []"
    and wf_emp: "wf emp"
    and elems_add: "set (elems (add x s)) = insert x (set (elems s))"
    and elems_del: "set (elems (del x s)) = set (elems s) - {x}"
    and wf_add: "wf s \<Longrightarrow> wf (add x s)"
    and wf_del: "wf s \<Longrightarrow> wf (del x s)"
    and wf_distinct: "wf s \<Longrightarrow> distinct (elems s)"
begin

lemma elems_fold_add: "set (elems (fold add xs s)) = set xs \<union> set (elems s)"
  by (induction xs arbitrary: s) (auto simp: elems_add)

lemma wf_fold_add: "wf s \<Longrightarrow> wf (fold add xs s)"
  by (induction xs arbitrary: s) (auto intro: wf_add)

lemma del_add_elems: "set (elems (del x (add x s))) = set (elems s) - {x}"
  by (simp add: elems_add elems_del)

end

interpretation js_set: ordered_set "[]" set_add set_del "\<lambda>s. s" distinct
  by unfold_locales (auto simp: set_add_def set_del_def)

end
