(* ===== verification/Js_String.thy ===== *)
theory Js_String
  imports Js_Prelude
begin

text \<open>
  JavaScript's string operations on UTF-8 byte lists: \<open>startsWith\<close>, \<open>indexOf\<close>, \<open>trim\<close>,
  \<open>split\<close>, \<open>join\<close>, the removal of trailing slashes by \<open>replace(/\/+$/, '')\<close>,
  \<open>encodeURIComponent\<close>, the decimal numeral a template literal prints, and
  \<open>parseInt\<close>. The lemmas are the laws the components need: what a search finds, that
  splitting and joining are inverse, that the URI encoding is injective and never produces a
  path separator.
\<close>

abbreviation nl :: char where "nl \<equiv> CHR 0x0A"

section \<open>Prefixes and search\<close>

definition starts_with :: "string \<Rightarrow> string \<Rightarrow> bool" where
  "starts_with p s \<longleftrightarrow> take (length p) s = p"

lemma starts_with_simps [simp, js_simps]:
  "starts_with [] s"
  "\<not> starts_with (c # p) []"
  "starts_with (c # p) (d # s) \<longleftrightarrow> c = d \<and> starts_with p s"
  by (auto simp: starts_with_def)

lemma starts_with_append [simp]: "starts_with p (p @ s)"
  by (simp add: starts_with_def)

lemma starts_with_iff: "starts_with p s \<longleftrightarrow> (\<exists>t. s = p @ t)"
  by (metis append_take_drop_id starts_with_append starts_with_def)

lemma starts_with_code [code]:
  "starts_with p s = (case p of [] \<Rightarrow> True | c # p' \<Rightarrow>
     (case s of [] \<Rightarrow> False | d # s' \<Rightarrow> c = d \<and> starts_with p' s'))"
  by (auto split: list.splits)

fun js_index_of :: "string \<Rightarrow> string \<Rightarrow> nat option" where
  "js_index_of p [] = (if p = [] then Some 0 else None)"
| "js_index_of p (c # s) =
     (if starts_with p (c # s) then Some 0 else map_option Suc (js_index_of p s))"

lemma js_index_of_SomeD:
  "js_index_of p s = Some i \<Longrightarrow> starts_with p (drop i s) \<and> i + length p \<le> length s"
proof (induction p s arbitrary: i rule: js_index_of.induct)
  case (2 p c s)
  then show ?case
    by (auto split: if_splits simp: starts_with_iff dest!: arg_cong [of "c # s" _ length])
qed (auto split: if_splits)

lemma js_index_of_append:
  "js_index_of p s = Some i \<Longrightarrow> js_index_of p (s @ t) = Some i"
proof (induction p s arbitrary: i rule: js_index_of.induct)
  case (1 p)
  then show ?case by (cases t) (auto split: if_splits)
next
  case (2 p c s)
  have mono: "starts_with p (c # s) \<Longrightarrow> starts_with p (c # s @ t)"
    unfolding starts_with_iff by (metis append_Cons append_assoc)
  have from_long: "starts_with p (c # s)" if "starts_with p (c # s @ t)" "js_index_of p s = Some j" for j
  proof -
    have "length p \<le> length (c # s)" using js_index_of_SomeD [OF that(2)] by simp
    with that(1) take_append [of "length p" "c # s" t] show ?thesis
      by (simp add: starts_with_def)
  qed
  show ?case
  proof (cases "starts_with p (c # s)")
    case True
    with "2.prems" mono show ?thesis by simp
  next
    case False
    with "2.prems" obtain j where j: "js_index_of p s = Some j" "i = Suc j" by auto
    with False from_long have "\<not> starts_with p (c # s @ t)" by blast
    with j "2.IH" [OF False j(1)] show ?thesis by simp
  qed
qed

lemma js_index_of_None_Cons:
  "js_index_of p (c # s) = None \<Longrightarrow> \<not> starts_with p (c # s) \<and> js_index_of p s = None"
  by (auto split: if_splits)

lemma js_index_of_two:
  assumes "nl \<notin> set u"
  shows "js_index_of [nl, nl] (u @ nl # nl # s) = Some (length u)"
  using assms by (induction u) auto

section \<open>Whitespace\<close>

text \<open>The white space and line terminators of ECMAScript, in UTF-8.\<close>

definition js_ws :: "string list" where
  "js_ws = [[CHR 0x09], [CHR 0x0A], [CHR 0x0B], [CHR 0x0C], [CHR 0x0D], '' '',
     [CHR 0xC2, CHR 0xA0], [CHR 0xE1, CHR 0x9A, CHR 0x80],
     [CHR 0xE2, CHR 0x80, CHR 0x80], [CHR 0xE2, CHR 0x80, CHR 0x81],
     [CHR 0xE2, CHR 0x80, CHR 0x82], [CHR 0xE2, CHR 0x80, CHR 0x83],
     [CHR 0xE2, CHR 0x80, CHR 0x84], [CHR 0xE2, CHR 0x80, CHR 0x85],
     [CHR 0xE2, CHR 0x80, CHR 0x86], [CHR 0xE2, CHR 0x80, CHR 0x87],
     [CHR 0xE2, CHR 0x80, CHR 0x88], [CHR 0xE2, CHR 0x80, CHR 0x89],
     [CHR 0xE2, CHR 0x80, CHR 0x8A], [CHR 0xE2, CHR 0x80, CHR 0xA8],
     [CHR 0xE2, CHR 0x80, CHR 0xA9], [CHR 0xE2, CHR 0x80, CHR 0xAF],
     [CHR 0xE2, CHR 0x81, CHR 0x9F], [CHR 0xE3, CHR 0x80, CHR 0x80],
     [CHR 0xEF, CHR 0xBB, CHR 0xBF]]"

function strip_start :: "string list \<Rightarrow> string \<Rightarrow> string" where
  "strip_start ws s =
     (case find (\<lambda>w. w \<noteq> [] \<and> starts_with w s) ws of
        None \<Rightarrow> s
      | Some w \<Rightarrow> strip_start ws (drop (length w) s))"
  by pat_completeness auto
termination
proof (relation "measure (\<lambda>(ws, s). length s)")
  fix ws :: "string list" and s w
  assume "find (\<lambda>w. w \<noteq> [] \<and> starts_with w s) ws = Some w"
  then have "w \<noteq> []" "starts_with w s" by (auto simp: find_Some_iff)
  then have "w \<noteq> []" "length w \<le> length s" by (auto simp: starts_with_iff)
  then show "((ws, drop (length w) s), ws, s) \<in> measure (\<lambda>(ws, s). length s)"
    by (cases w) auto
qed simp

declare strip_start.simps [simp del]

definition js_trim :: "string \<Rightarrow> string" where
  "js_trim s = rev (strip_start (map rev js_ws) (rev (strip_start js_ws s)))"

text \<open>A visible ASCII character at an end of a string stops the trimming there.\<close>

definition visible :: "char \<Rightarrow> bool" where
  "visible c \<longleftrightarrow> 0x20 < (of_char c :: nat) \<and> (of_char c :: nat) < 0x7F"

lemma js_ws_invisible: "w \<in> set js_ws \<Longrightarrow> w \<noteq> [] \<and> \<not> visible (hd w) \<and> \<not> visible (last w)"
  by (auto simp: js_ws_def visible_def)

lemma strip_start_stop:
  assumes "\<And>w. w \<in> set ws \<Longrightarrow> w \<noteq> [] \<Longrightarrow> hd w \<noteq> c"
  shows "strip_start ws (c # s) = c # s"
proof -
  have "\<not> (w \<noteq> [] \<and> starts_with w (c # s))" if "w \<in> set ws" for w
    using assms [OF that] by (cases w) auto
  then have "find (\<lambda>w. w \<noteq> [] \<and> starts_with w (c # s)) ws = None"
    by (simp add: find_None_iff)
  then show ?thesis by (subst strip_start.simps) simp
qed

lemma strip_start_visible:
  assumes "visible c"
  shows "strip_start js_ws (c # s) = c # s" "strip_start (map rev js_ws) (c # s) = c # s"
  using assms js_ws_invisible by (auto intro!: strip_start_stop simp: hd_rev)

lemma strip_start_keeps:
  assumes "\<And>w. w \<in> set ws \<Longrightarrow> c \<notin> set w" and "c \<in> set s"
  shows "c \<in> set (strip_start ws s)"
  using assms
proof (induction ws s rule: strip_start.induct)
  case (1 ws s)
  show ?case
  proof (cases "find (\<lambda>w. w \<noteq> [] \<and> starts_with w s) ws")
    case None
    with "1.prems" show ?thesis by (simp add: strip_start.simps)
  next
    case (Some w)
    then have step: "strip_start ws s = strip_start ws (drop (length w) s)"
      by (subst strip_start.simps) simp
    from Some have "w \<in> set ws" "starts_with w s" using find_SomeD [OF Some] by auto
    then obtain t where "s = w @ t" "c \<in> set t"
      using "1.prems" by (auto simp: starts_with_iff)
    with "1.IH" [OF Some] "1.prems"(1) step show ?thesis by simp
  qed
qed

lemma js_ws_no_visible: "w \<in> set js_ws \<Longrightarrow> visible c \<Longrightarrow> c \<notin> set w"
  by (auto simp: js_ws_def visible_def)

lemma js_trim_keeps: "visible c \<Longrightarrow> c \<in> set s \<Longrightarrow> c \<in> set (js_trim s)"
  unfolding js_trim_def using js_ws_no_visible by (auto intro!: strip_start_keeps)

lemma strip_start_Nil [simp]: "strip_start js_ws [] = []" "strip_start (map rev js_ws) [] = []"
  by (subst strip_start.simps, simp add: js_ws_def)+

lemma strip_start_space: "strip_start js_ws (CHR '' '' # s) = strip_start js_ws s"
  by (subst strip_start.simps) (simp add: js_ws_def)

lemma js_trim_visible:
  assumes "visible c" and "visible d"
  shows "js_trim (c # s @ [d]) = c # s @ [d]"
  using assms by (simp add: js_trim_def strip_start_visible)

lemma js_trim_space: "js_trim (CHR '' '' # s) = js_trim s"
  by (simp add: js_trim_def strip_start_space)

section \<open>Splitting and joining\<close>

fun js_split :: "char \<Rightarrow> string \<Rightarrow> string list" where
  "js_split c [] = [[]]"
| "js_split c (x # xs) =
     (if x = c then [] # js_split c xs
      else (case js_split c xs of [] \<Rightarrow> [[x]] | l # ls \<Rightarrow> (x # l) # ls))"

fun js_join :: "string \<Rightarrow> string list \<Rightarrow> string" where
  "js_join sep [] = []"
| "js_join sep [x] = x"
| "js_join sep (x # y # ys) = x @ sep @ js_join sep (y # ys)"

lemma js_split_not_Nil [simp]: "js_split c s \<noteq> []"
  by (cases s) (auto split: list.splits)

lemma js_join_split: "js_join [c] (js_split c s) = s"
proof (induction s)
  case (Cons x xs)
  obtain l ls where l: "js_split c xs = l # ls" by (cases "js_split c xs") auto
  with Cons show ?case by (cases ls) auto
qed simp

lemma js_split_no_sep: "c \<notin> set s \<Longrightarrow> js_split c s = [s]"
  by (induction s) auto

lemma js_split_append: "c \<notin> set s \<Longrightarrow> js_split c (s @ c # t) = s # js_split c t"
  by (induction s) auto

lemma js_split_parts: "l \<in> set (js_split c s) \<Longrightarrow> c \<notin> set l"
proof (induction s arbitrary: l)
  case (Cons x xs)
  then show ?case by (cases "js_split c xs") (auto split: if_splits)
qed simp

lemma js_split_join:
  "ls \<noteq> [] \<Longrightarrow> (\<And>l. l \<in> set ls \<Longrightarrow> c \<notin> set l) \<Longrightarrow> js_split c (js_join [c] ls) = ls"
  by (induction "[c]" ls rule: js_join.induct) (auto simp: js_split_append js_split_no_sep)

section \<open>Trailing slashes\<close>

text \<open>\<open>s.replace(/\/+$/, '')\<close> removes the longest run of slashes at the end.\<close>

definition strip_trailing_slashes :: "string \<Rightarrow> string" where
  "strip_trailing_slashes s = rev (dropWhile (\<lambda>c. c = CHR ''/'') (rev s))"

lemma strip_trailing_slashes_last: "strip_trailing_slashes s = [] \<or> last (strip_trailing_slashes s) \<noteq> CHR ''/''"
proof (cases "dropWhile (\<lambda>c. c = CHR ''/'') (rev s)")
  case (Cons c t)
  then have "c \<noteq> CHR ''/''" unfolding dropWhile_eq_Cons_conv by blast
  with Cons show ?thesis by (simp add: strip_trailing_slashes_def)
qed (simp add: strip_trailing_slashes_def)

lemma strip_trailing_slashes_snoc [simp]:
  "strip_trailing_slashes (s @ ''/'') = strip_trailing_slashes s"
  by (simp add: strip_trailing_slashes_def)

lemma strip_trailing_slashes_idem [simp]:
  "strip_trailing_slashes (strip_trailing_slashes s) = strip_trailing_slashes s"
  by (simp add: strip_trailing_slashes_def dropWhile_idem)

section \<open>Percent encoding\<close>

definition uri_unreserved :: "char \<Rightarrow> bool" where
  "uri_unreserved c \<longleftrightarrow>
     c \<in> set ''ABCDEFGHIJKLMNOPQRSTUVWXYZabcdefghijklmnopqrstuvwxyz0123456789-_.!~*()'' \<or> c = CHR 0x27"

definition hex_digits :: string where
  "hex_digits = ''0123456789ABCDEF''"

definition hex_upper :: "nat \<Rightarrow> char" where
  "hex_upper n = hex_digits ! n"

definition pct :: "char \<Rightarrow> string" where
  "pct c = (if uri_unreserved c then [c]
     else [CHR 0x25, hex_upper (of_char c div 16), hex_upper (of_char c mod 16)])"

definition encodeURIComponent :: "string \<Rightarrow> string" where
  "encodeURIComponent s = concat (map pct s)"

lemma encodeURIComponent_simps [simp, js_simps]:
  "encodeURIComponent [] = []"
  "encodeURIComponent (c # s) = pct c @ encodeURIComponent s"
  by (simp_all add: encodeURIComponent_def)

lemma hex_upper_inj: "m < 16 \<Longrightarrow> n < 16 \<Longrightarrow> hex_upper m = hex_upper n \<Longrightarrow> m = n"
  unfolding hex_upper_def by (subst (asm) nth_eq_iff_index_eq) (auto simp: hex_digits_def)

lemma hex_upper_unreserved: "n < 16 \<Longrightarrow> hex_upper n \<in> set hex_digits"
  unfolding hex_upper_def by (rule nth_mem) (simp add: hex_digits_def)

lemma of_char_lt: "(of_char c :: nat) < 256"
  by (metis of_char_mod_256 mod_less_divisor zero_less_numeral)

lemma of_char_div_lt: "(of_char c :: nat) div 16 < 16"
  using of_char_lt [of c] by (intro less_mult_imp_div_less) simp

lemma char_div_mod:
  assumes "(of_char c :: nat) div 16 = of_char d div 16" and "(of_char c :: nat) mod 16 = of_char d mod 16"
  shows "c = d"
proof -
  have "(of_char c :: nat) = of_char d" using assms by (metis div_mult_mod_eq)
  then show ?thesis by (simp add: of_char_eq_iff)
qed

lemma pct_prefix_free: "pct c @ s = pct d @ t \<Longrightarrow> c = d \<and> s = t"
proof -
  assume eq: "pct c @ s = pct d @ t"
  have "\<not> uri_unreserved (CHR 0x25)" by (simp add: uri_unreserved_def)
  then show ?thesis
    using eq hex_upper_inj [OF of_char_div_lt of_char_div_lt, of c d]
      hex_upper_inj [of "of_char c mod 16" "of_char d mod 16"] char_div_mod [of c d]
    by (auto simp: pct_def split: if_splits)
qed

lemma pct_not_Nil [simp]: "pct c \<noteq> []"
  by (simp add: pct_def)

lemma encodeURIComponent_inj: "encodeURIComponent s = encodeURIComponent t \<Longrightarrow> s = t"
proof (induction s arbitrary: t)
  case Nil
  then show ?case by (cases t) auto
next
  case (Cons c s)
  then obtain d t' where t: "t = d # t'" by (cases t) auto
  with Cons.prems have "c = d \<and> encodeURIComponent s = encodeURIComponent t'"
    by (simp add: pct_prefix_free)
  with Cons.IH t show ?case by simp
qed

lemma pct_safe: "x \<in> set (pct c) \<Longrightarrow> x \<notin> {CHR ''/'', CHR ''?'', CHR ''#''}"
proof -
  have hex: "h \<notin> {CHR ''/'', CHR ''?'', CHR ''#''}" if "h \<in> set hex_digits" for h
    using that by (auto simp: hex_digits_def)
  have hexes: "hex_upper (of_char c div 16) \<in> set hex_digits" "hex_upper (of_char c mod 16) \<in> set hex_digits"
    using of_char_div_lt by (auto intro: hex_upper_unreserved)
  assume x: "x \<in> set (pct c)"
  show ?thesis
  proof (cases "uri_unreserved c")
    case True
    with x show ?thesis by (auto simp: pct_def uri_unreserved_def)
  next
    case False
    with x have "x = CHR 0x25 \<or> x \<in> set hex_digits" using hexes by (auto simp: pct_def)
    with hex show ?thesis by auto
  qed
qed

lemma encodeURIComponent_safe:
  "x \<in> set (encodeURIComponent s) \<Longrightarrow> x \<notin> {CHR ''/'', CHR ''?'', CHR ''#''}"
  by (induction s) (use pct_safe in auto)

lemma encodeURIComponent_no_slash: "CHR ''/'' \<notin> set (encodeURIComponent s)"
  using encodeURIComponent_safe by blast

section \<open>Decimal numerals\<close>

definition digit_char :: "nat \<Rightarrow> char" where
  "digit_char n = char_of (48 + n)"

fun show_nat :: "nat \<Rightarrow> string" where
  "show_nat n = (if n < 10 then [digit_char n] else show_nat (n div 10) @ [digit_char (n mod 10)])"

declare show_nat.simps [simp del]

definition show_int :: "int \<Rightarrow> string" where
  "show_int i = (if i < 0 then CHR ''-'' # show_nat (nat (- i)) else show_nat (nat i))"

definition is_digit :: "char \<Rightarrow> bool" where
  "is_digit c \<longleftrightarrow> 48 \<le> (of_char c :: nat) \<and> (of_char c :: nat) \<le> 57"

definition digit_val :: "char \<Rightarrow> nat" where
  "digit_val c = of_char c - 48"

definition digits_val :: "string \<Rightarrow> nat" where
  "digits_val ds = foldl (\<lambda>n c. 10 * n + digit_val c) 0 ds"

text \<open>
  \<open>parseInt(s, 10)\<close>: leading white space, an optional sign, then the longest run of digits;
  \<open>None\<close> is \<open>NaN\<close>.
\<close>

definition parse_int :: "string \<Rightarrow> int option" where
  "parse_int s =
     (let t = strip_start js_ws s;
          (sgn, u) = (case t of c # r \<Rightarrow> if c = CHR ''-'' then (-1, r) else if c = CHR ''+'' then (1, r) else (1, t)
                              | [] \<Rightarrow> (1, t));
          ds = takeWhile is_digit u
      in if ds = [] then None else Some (sgn * int (digits_val ds)))"

lemma digit_char_props: "n < 10 \<Longrightarrow> is_digit (digit_char n) \<and> digit_val (digit_char n) = n"
  by (simp add: is_digit_def digit_char_def digit_val_def)

lemma show_nat_digits: "c \<in> set (show_nat n) \<Longrightarrow> is_digit c"
proof (induction n rule: show_nat.induct)
  case (1 n)
  then show ?case
    by (subst (asm) show_nat.simps) (auto simp: digit_char_props split: if_splits)
qed

lemma digits_val_snoc: "digits_val (ds @ [c]) = 10 * digits_val ds + digit_val c"
  by (simp add: digits_val_def)

lemma digits_val_show_nat: "digits_val (show_nat n) = n"
proof (induction n rule: show_nat.induct)
  case (1 n)
  then show ?case
    by (subst show_nat.simps)
       (auto simp: digits_val_snoc digit_char_props, simp add: digits_val_def digit_char_props)
qed

lemma show_nat_not_Nil [simp]: "show_nat n \<noteq> []"
  by (subst show_nat.simps) simp

lemma show_nat_inj: "show_nat m = show_nat n \<Longrightarrow> m = n"
  by (metis digits_val_show_nat)

lemma is_digit_visible: "is_digit c \<Longrightarrow> visible c"
  by (simp add: is_digit_def visible_def)

lemma parse_int_show_nat: "parse_int (show_nat n) = Some (int n)"
proof -
  obtain c t where ct: "show_nat n = c # t" by (cases "show_nat n") auto
  then have c: "is_digit c" using show_nat_digits [of c n] by simp
  then have "c \<noteq> CHR ''-''" "c \<noteq> CHR ''+''" by (auto simp: is_digit_def)
  moreover have "takeWhile is_digit (show_nat n) = show_nat n"
    using show_nat_digits by (simp add: takeWhile_eq_all_conv)
  then have "takeWhile is_digit t = t" using ct c by simp
  ultimately have "parse_int (show_nat n) = Some (int (digits_val (show_nat n)))"
    using c by (simp add: parse_int_def strip_start_visible is_digit_visible ct
      takeWhile_eq_all_conv [THEN iffD2])
  then show ?thesis by (simp add: digits_val_show_nat)
qed

end
