(* ===== verification/Json.thy ===== *)
theory Json
  imports Js_String
begin

text \<open>
  JSON as \<open>JSON.parse\<close> and \<open>JSON.stringify\<close> implement it. A number is kept as its
  literal, since no component computes with a number it parsed; an object is an
  insertion-ordered map. The parser is fuelled by twice the length of its input: the lemma
  \<open>json_fuel\<close> shows that more fuel never changes an answer, so \<open>None\<close> always means
  that the text is not JSON. The round trip \<open>json_parse_stringify\<close> is for values without
  numbers, which is what the evaluation context and the flag events are made of.
\<close>

datatype json =
    JNull
  | JBool bool
  | JNum string
  | JStr string
  | JArr "json list"
  | JObj "(string \<times> json) list"

section \<open>Lexical level\<close>

definition is_json_ws :: "char \<Rightarrow> bool" where
  "is_json_ws c \<longleftrightarrow> c \<in> {CHR '' '', CHR 0x09, CHR 0x0A, CHR 0x0D}"

definition skip_ws :: "string \<Rightarrow> string" where
  "skip_ws s = dropWhile is_json_ws s"

lemma skip_ws_stop [simp]: "\<not> is_json_ws c \<Longrightarrow> skip_ws (c # s) = c # s"
  by (simp add: skip_ws_def)

lemma skip_ws_Nil [simp]: "skip_ws [] = []"
  by (simp add: skip_ws_def)

lemma length_skip_ws: "length (skip_ws s) \<le> length s"
  by (simp add: skip_ws_def length_dropWhile_le)

definition utf8 :: "nat \<Rightarrow> string" where
  "utf8 n =
     (if n < 0x80 then [char_of n]
      else if n < 0x800 then [char_of (0xC0 + n div 64), char_of (0x80 + n mod 64)]
      else if n < 0x10000 then
        [char_of (0xE0 + n div 4096), char_of (0x80 + n div 64 mod 64), char_of (0x80 + n mod 64)]
      else [char_of (0xF0 + n div 262144), char_of (0x80 + n div 4096 mod 64),
            char_of (0x80 + n div 64 mod 64), char_of (0x80 + n mod 64)])"

definition hex_val :: "char \<Rightarrow> nat option" where
  "hex_val c = (let n = of_char c :: nat in
     if 48 \<le> n \<and> n \<le> 57 then Some (n - 48)
     else if 65 \<le> n \<and> n \<le> 70 then Some (n - 55)
     else if 97 \<le> n \<and> n \<le> 102 then Some (n - 87) else None)"

definition hex4 :: "char \<Rightarrow> char \<Rightarrow> char \<Rightarrow> char \<Rightarrow> nat option" where
  "hex4 a b c d = (case (hex_val a, hex_val b, hex_val c, hex_val d) of
     (Some w, Some x, Some y, Some z) \<Rightarrow> Some (w * 4096 + x * 256 + y * 16 + z) | _ \<Rightarrow> None)"

definition simple_escape :: "char \<Rightarrow> char option" where
  "simple_escape c = map_of
     [(CHR 0x22, CHR 0x22), (CHR 0x5C, CHR 0x5C), (CHR ''/'', CHR ''/''), (CHR ''b'', CHR 0x08),
      (CHR ''f'', CHR 0x0C), (CHR ''n'', CHR 0x0A), (CHR ''r'', CHR 0x0D), (CHR ''t'', CHR 0x09)] c"

definition prepend :: "string \<Rightarrow> (string \<times> string) option \<Rightarrow> (string \<times> string) option" where
  "prepend u = map_option (\<lambda>(t, r). (u @ t, r))"

text \<open>
  A \<open>\u\<close> escape, after the \<open>u\<close>: four hexadecimal digits, and with a leading surrogate
  the trailing surrogate escape that follows it.
\<close>

definition parse_unicode :: "string \<Rightarrow> (string \<times> string) option" where
  "parse_unicode s = (if length s < 4 then None else
     (case hex4 (s ! 0) (s ! 1) (s ! 2) (s ! 3) of None \<Rightarrow> None
      | Some n \<Rightarrow>
         (let r = drop 4 s;
              m = (if 6 \<le> length r \<and> starts_with [CHR 0x5C, CHR ''u''] r
                   then hex4 (r ! 2) (r ! 3) (r ! 4) (r ! 5) else None)
          in case m of
               Some k \<Rightarrow> if 0xD800 \<le> n \<and> n < 0xDC00 \<and> 0xDC00 \<le> k \<and> k < 0xE000
                 then Some (utf8 (0x10000 + (n - 0xD800) * 0x400 + (k - 0xDC00)), drop 6 r)
                 else Some (utf8 n, r)
             | None \<Rightarrow> Some (utf8 n, r))))"

text \<open>An escape sequence, after its backslash.\<close>

definition parse_escape :: "string \<Rightarrow> (string \<times> string) option" where
  "parse_escape s = (case s of [] \<Rightarrow> None
     | e # r \<Rightarrow> if e = CHR ''u'' then parse_unicode r
               else map_option (\<lambda>d. ([d], r)) (simple_escape e))"

lemma parse_unicode_length: "parse_unicode s = Some (u, r) \<Longrightarrow> length r < length s"
  by (auto simp: parse_unicode_def Let_def split: if_splits option.splits)

lemma parse_escape_length: "parse_escape s = Some (u, r) \<Longrightarrow> length r < length s"
  by (cases s) (auto simp: parse_escape_def split: if_splits dest: parse_unicode_length)

text \<open>The characters of a string literal, after its opening quote.\<close>

function parse_chars :: "string \<Rightarrow> (string \<times> string) option" where
  "parse_chars [] = None"
| "parse_chars (c # s) =
     (if c = CHR 0x22 then Some ([], s)
      else if c = CHR 0x5C then
        (case parse_escape s of None \<Rightarrow> None | Some (u, r) \<Rightarrow> prepend u (parse_chars r))
      else if (of_char c :: nat) < 0x20 then None
      else prepend [c] (parse_chars s))"
  by pat_completeness auto
termination
  by (relation "measure length") (auto dest: parse_escape_length)

text \<open>A number literal: sign, integer part without leading zero, fraction, exponent.\<close>

definition take_sign :: "char set \<Rightarrow> string \<Rightarrow> string \<times> string" where
  "take_sign cs s = (case s of c # r \<Rightarrow> if c \<in> cs then ([c], r) else ([], s) | [] \<Rightarrow> ([], s))"

definition parse_int_part :: "string \<Rightarrow> (string \<times> string) option" where
  "parse_int_part s = (let i = takeWhile is_digit s in
     if i = [] \<or> (hd i = CHR ''0'' \<and> 1 < length i) then None else Some (i, dropWhile is_digit s))"

definition parse_frac :: "string \<Rightarrow> (string \<times> string) option" where
  "parse_frac s = (case s of c # r \<Rightarrow>
       if c = CHR ''.'' then
         (let d = takeWhile is_digit r in if d = [] then None else Some (c # d, dropWhile is_digit r))
       else Some ([], s)
     | [] \<Rightarrow> Some ([], s))"

definition parse_exp :: "string \<Rightarrow> (string \<times> string) option" where
  "parse_exp s = (case s of c # r \<Rightarrow>
       if c = CHR ''e'' \<or> c = CHR ''E'' then
         (let (g, r1) = take_sign {CHR ''+'', CHR ''-''} r; d = takeWhile is_digit r1
          in if d = [] then None else Some (c # g @ d, dropWhile is_digit r1))
       else Some ([], s)
     | [] \<Rightarrow> Some ([], s))"

definition parse_number :: "string \<Rightarrow> (string \<times> string) option" where
  "parse_number s = (case take_sign {CHR ''-''} s of (m, s1) \<Rightarrow>
     (case parse_int_part s1 of None \<Rightarrow> None
      | Some (i, s2) \<Rightarrow>
         (case parse_frac s2 of None \<Rightarrow> None
          | Some (f, s3) \<Rightarrow>
             (case parse_exp s3 of None \<Rightarrow> None
              | Some (e, s4) \<Rightarrow> Some (m @ i @ f @ e, s4)))))"

section \<open>JSON.parse\<close>

definition keyword :: "string \<Rightarrow> json \<Rightarrow> string \<Rightarrow> (json \<times> string) option" where
  "keyword w v s = (if starts_with w s then Some (v, drop (length w) s) else None)"

fun pvalue :: "nat \<Rightarrow> string \<Rightarrow> (json \<times> string) option"
  and pelems :: "nat \<Rightarrow> string \<Rightarrow> (json list \<times> string) option"
  and pmembers :: "nat \<Rightarrow> (string \<times> json) list \<Rightarrow> string \<Rightarrow> ((string \<times> json) list \<times> string) option" where
  "pvalue 0 s = None"
| "pvalue (Suc n) s = (case skip_ws s of [] \<Rightarrow> None
     | c # r \<Rightarrow>
        if c = CHR 0x22 then map_option (\<lambda>(t, r'). (JStr t, r')) (parse_chars r)
        else if c = CHR ''{'' then
          (case skip_ws r of d # r' \<Rightarrow>
             if d = CHR ''}'' then Some (JObj [], r') else map_option (\<lambda>(m, r''). (JObj m, r'')) (pmembers n [] r)
           | [] \<Rightarrow> None)
        else if c = CHR ''['' then
          (case skip_ws r of d # r' \<Rightarrow>
             if d = CHR '']'' then Some (JArr [], r') else map_option (\<lambda>(m, r''). (JArr m, r'')) (pelems n r)
           | [] \<Rightarrow> None)
        else if c = CHR ''n'' then keyword ''null'' JNull (c # r)
        else if c = CHR ''t'' then keyword ''true'' (JBool True) (c # r)
        else if c = CHR ''f'' then keyword ''false'' (JBool False) (c # r)
        else map_option (\<lambda>(l, r'). (JNum l, r')) (parse_number (c # r)))"
| "pelems 0 s = None"
| "pelems (Suc n) s = (case pvalue n s of None \<Rightarrow> None
     | Some (v, r) \<Rightarrow>
        (case skip_ws r of [] \<Rightarrow> None
         | d # r' \<Rightarrow>
            if d = CHR '','' then map_option (\<lambda>(vs, r''). (v # vs, r'')) (pelems n r')
            else if d = CHR '']'' then Some ([v], r') else None))"
| "pmembers 0 acc s = None"
| "pmembers (Suc n) acc s = (case skip_ws s of [] \<Rightarrow> None
     | c # r \<Rightarrow>
        if c \<noteq> CHR 0x22 then None
        else (case parse_chars r of None \<Rightarrow> None
          | Some (k, r1) \<Rightarrow>
             (case skip_ws r1 of [] \<Rightarrow> None
              | d # r2 \<Rightarrow>
                 if d \<noteq> CHR '':'' then None
                 else (case pvalue n r2 of None \<Rightarrow> None
                   | Some (v, r3) \<Rightarrow>
                      (case skip_ws r3 of [] \<Rightarrow> None
                       | e # r4 \<Rightarrow>
                          if e = CHR '','' then pmembers n (map_set k v acc) r4
                          else if e = CHR ''}'' then Some (map_set k v acc, r4) else None)))))"

definition json_parse :: "string \<Rightarrow> json option" where
  "json_parse s = (case pvalue (2 * length s + 2) s of
     None \<Rightarrow> None
   | Some (v, r) \<Rightarrow> if skip_ws r = [] then Some v else None)"

section \<open>JSON.stringify\<close>

definition hex_lower :: "nat \<Rightarrow> char" where
  "hex_lower n = ''0123456789abcdef'' ! n"

definition esc :: "char \<Rightarrow> string" where
  "esc c =
     (if c = CHR 0x22 then [CHR 0x5C, CHR 0x22]
      else if c = CHR 0x5C then [CHR 0x5C, CHR 0x5C]
      else if c = CHR 0x08 then [CHR 0x5C, CHR ''b'']
      else if c = CHR 0x0C then [CHR 0x5C, CHR ''f'']
      else if c = CHR 0x0A then [CHR 0x5C, CHR ''n'']
      else if c = CHR 0x0D then [CHR 0x5C, CHR ''r'']
      else if c = CHR 0x09 then [CHR 0x5C, CHR ''t'']
      else if (of_char c :: nat) < 0x20 then
        [CHR 0x5C, CHR ''u'', CHR ''0'', CHR ''0'', hex_lower (of_char c div 16), hex_lower (of_char c mod 16)]
      else [c])"

definition quote_json :: "string \<Rightarrow> string" where
  "quote_json s = CHR 0x22 # concat (map esc s) @ [CHR 0x22]"

fun json_stringify :: "json \<Rightarrow> string" where
  "json_stringify JNull = ''null''"
| "json_stringify (JBool b) = (if b then ''true'' else ''false'')"
| "json_stringify (JNum l) = l"
| "json_stringify (JStr s) = quote_json s"
| "json_stringify (JArr vs) = ''['' @ js_join '','' (map json_stringify vs) @ '']''"
| "json_stringify (JObj kvs) =
     ''{'' @ js_join '','' (map (\<lambda>(k, v). quote_json k @ '':'' @ json_stringify v) kvs) @ ''}''"

section \<open>Fuel\<close>

lemma length_dropWhile_lt: "takeWhile P s \<noteq> [] \<Longrightarrow> length (dropWhile P s) < length s"
  by (cases s) (auto simp: length_dropWhile_le less_Suc_eq_le split: if_splits)

lemma prepend_Some: "prepend u x = Some (t, r) \<longleftrightarrow> (\<exists>t'. x = Some (t', r) \<and> t = u @ t')"
  by (cases x) (auto simp: prepend_def)

lemma parse_chars_length: "parse_chars s = Some (t, r) \<Longrightarrow> length r < length s"
proof (induction s arbitrary: t r rule: parse_chars.induct)
  case (2 c s)
  show ?case
  proof (cases "c = CHR 0x5C")
    case True
    with "2.prems" obtain u r' t' where *: "parse_escape s = Some (u, r')" "parse_chars r' = Some (t', r)"
      by (auto simp: prepend_Some split: option.splits)
    have "c \<noteq> CHR 0x22" using True by simp
    from "2.IH"(1) [OF this True *(1) refl *(2)] parse_escape_length [OF *(1)] show ?thesis by simp
  next
    case False
    with "2.prems" "2.IH"(2) show ?thesis by (auto simp: prepend_Some split: if_splits)
  qed
qed simp

lemma take_sign_length: "take_sign cs s = (g, r) \<Longrightarrow> length r \<le> length s"
  by (auto simp: take_sign_def split: list.splits if_splits)

lemma parse_int_part_length: "parse_int_part s = Some (i, r) \<Longrightarrow> length r < length s"
  by (auto simp: parse_int_part_def Let_def length_dropWhile_lt split: if_splits)

lemma parse_frac_length: "parse_frac s = Some (f, r) \<Longrightarrow> length r \<le> length s"
  by (cases s) (auto simp: parse_frac_def Let_def length_dropWhile_le le_SucI split: if_splits)

lemma parse_exp_length: "parse_exp s = Some (e, r) \<Longrightarrow> length r \<le> length s"
proof (cases s)
  case (Cons c t)
  obtain g r1 where g: "take_sign {CHR ''+'', CHR ''-''} t = (g, r1)" by fastforce
  assume "parse_exp s = Some (e, r)"
  with Cons g take_sign_length [OF g] length_dropWhile_le [of is_digit r1] show ?thesis
    by (auto simp: parse_exp_def Let_def split: if_splits)
qed (simp add: parse_exp_def)

lemma parse_number_length: "parse_number s = Some (l, r) \<Longrightarrow> length r < length s"
  by (fastforce simp: parse_number_def split: prod.splits option.splits
      dest: take_sign_length parse_int_part_length parse_frac_length parse_exp_length)

lemma skip_ws_Cons_length: "skip_ws s = c # r \<Longrightarrow> length r < length s"
  using length_skip_ws [of s] by simp

lemma keyword_length: "w \<noteq> [] \<Longrightarrow> keyword w v s = Some (x, r) \<Longrightarrow> length r < length s"
  by (auto simp: keyword_def starts_with_iff split: if_splits)

lemma parse_lengths:
  "pvalue n s = Some (v, r) \<Longrightarrow> length r < length s"
  "pelems n s = Some (vs, r) \<Longrightarrow> length r < length s"
  "pmembers n acc s = Some (m, r) \<Longrightarrow> length r < length s"
proof (induction n s and n s and n acc s arbitrary: v r and vs r and m r
    rule: pvalue_pelems_pmembers.induct)
  case (2 n s)
  then show ?case
    by (auto split: list.splits if_splits dest!: skip_ws_Cons_length parse_chars_length
        parse_number_length keyword_length [rotated]) (blast intro: less_trans)+
next
  case (4 n s)
  then show ?case
    by (fastforce split: list.splits if_splits option.splits prod.splits dest!: skip_ws_Cons_length)
next
  case (6 n acc s)
  then show ?case
    by (fastforce split: list.splits if_splits option.splits prod.splits
        dest!: skip_ws_Cons_length parse_chars_length)
qed simp_all

lemma fuel_step:
  "2 * length s < n \<Longrightarrow> pvalue (Suc n) s = pvalue n s"
  "2 * length s + 1 < n \<Longrightarrow> pelems (Suc n) s = pelems n s"
  "2 * length s < n \<Longrightarrow> pmembers (Suc n) acc s = pmembers n acc s"
proof (induction n s and n s and n acc s rule: pvalue_pelems_pmembers.induct)
  case (2 n s)
  show ?case
  proof (cases "skip_ws s")
    case (Cons c r)
    then have "length r < length s" by (rule skip_ws_Cons_length)
    with "2.prems" have "2 * length r < n" "2 * length r + 1 < n" by simp_all
    then have "pmembers (Suc n) [] r = pmembers n [] r"
        if "c = CHR ''{''" "skip_ws r = d # r'" "d \<noteq> CHR ''}''" for d r'
      using "2.IH"(1) [OF Cons _ that] that by simp
    moreover have "pelems (Suc n) r = pelems n r"
        if "c = CHR ''[''" "skip_ws r = d # r'" "d \<noteq> CHR '']''" for d r'
      using "2.IH"(2) [OF Cons _ _ that] that \<open>2 * length r + 1 < n\<close> by simp
    ultimately show ?thesis using Cons
      by (simp only: pvalue.simps list.case)
         (auto split: list.splits simp del: pelems.simps pmembers.simps)
  qed simp
next
  case (4 n s)
  then have v: "pvalue (Suc n) s = pvalue n s" by simp
  have "pelems (Suc n) r' = pelems n r'" if "pvalue n s = Some (x, r)" "skip_ws r = d # r'" "d = CHR '',''"
    for x r d r'
  proof -
    have "length r' < length s"
      using parse_lengths(1) [OF that(1)] skip_ws_Cons_length [OF that(2)] by simp
    with "4.prems" have "2 * length r' + 1 < n" by simp
    with "4.IH"(2) [OF that(1) refl that(2) that(3)] show ?thesis by simp
  qed
  then show ?case
    by (simp only: pelems.simps v) (auto split: option.splits prod.splits list.splits)
next
  case (6 n acc s)
  have "pvalue (Suc n) r2 = pvalue n r2"
    if "skip_ws s = CHR 0x22 # r" "parse_chars r = Some (k, r1)" "skip_ws r1 = CHR '':'' # r2" for r k r1 r2
  proof -
    have "length r2 < length s"
      using skip_ws_Cons_length [OF that(1)] parse_chars_length [OF that(2)] skip_ws_Cons_length [OF that(3)]
      by simp
    with "6.prems" have "2 * length r2 < n" by simp
    with "6.IH"(1) [OF that(1) _ that(2) refl that(3)] show ?thesis by simp
  qed
  moreover have "pmembers (Suc n) (map_set k v acc) r4 = pmembers n (map_set k v acc) r4"
    if "skip_ws s = CHR 0x22 # r" "parse_chars r = Some (k, r1)" "skip_ws r1 = CHR '':'' # r2"
      "pvalue n r2 = Some (v, r3)" "skip_ws r3 = CHR '','' # r4" for r k r1 r2 v r3 r4
  proof -
    have "length r4 < length s"
      using skip_ws_Cons_length [OF that(1)] parse_chars_length [OF that(2)] skip_ws_Cons_length [OF that(3)]
        parse_lengths(1) [OF that(4)] skip_ws_Cons_length [OF that(5)] by simp
    with "6.prems" have "2 * length r4 < n" by simp
    with "6.IH"(2) [OF that(1) _ that(2) refl that(3) _ that(4) refl that(5)] show ?thesis by simp
  qed
  ultimately show ?case
    by (simp only: pmembers.simps) (auto split: option.splits prod.splits list.splits)
qed simp_all

lemma json_fuel: "2 * length s < n \<Longrightarrow> pvalue (n + k) s = pvalue n s"
  by (induction k) (simp_all add: fuel_step(1) del: pvalue.simps)

section \<open>Round trip\<close>

fun plain_json :: "json \<Rightarrow> bool" where
  "plain_json (JNum _) = False"
| "plain_json (JArr vs) = list_all plain_json vs"
| "plain_json (JObj kvs) = (distinct (map fst kvs) \<and> list_all (\<lambda>(k, v). plain_json v) kvs)"
| "plain_json _ = True"

lemma hex_val_lower: "k < 16 \<Longrightarrow> hex_val (hex_lower k) = Some k"
proof -
  have "list_all (\<lambda>k. hex_val (hex_lower k) = Some k) [0..<16]" by code_simp
  then show "k < 16 \<Longrightarrow> ?thesis" by (simp add: list_all_iff)
qed

lemma parse_escape_control:
  assumes "(of_char c :: nat) < 0x20"
  shows "parse_escape (CHR ''u'' # CHR ''0'' # CHR ''0'' # hex_lower (of_char c div 16)
    # hex_lower (of_char c mod 16) # t) = Some ([c], t)"
proof -
  let ?n = "of_char c :: nat"
  have "hex_val CHR ''0'' = Some 0" by (simp add: hex_val_def)
  moreover have "hex_val (hex_lower (?n div 16)) = Some (?n div 16)"
    "hex_val (hex_lower (?n mod 16)) = Some (?n mod 16)"
    using of_char_div_lt by (simp_all add: hex_val_lower)
  ultimately have "hex4 CHR ''0'' CHR ''0'' (hex_lower (?n div 16)) (hex_lower (?n mod 16)) = Some ?n"
    by (simp add: hex4_def)
  moreover have "utf8 ?n = [c]" using assms by (simp add: utf8_def)
  ultimately show ?thesis using assms
    by (auto simp: parse_escape_def parse_unicode_def Let_def split: option.splits)
qed

lemma parse_chars_esc: "parse_chars (esc c @ t) = prepend [c] (parse_chars t)"
proof (cases "esc c = [c]")
  case True
  then have "c \<noteq> CHR 0x22" "c \<noteq> CHR 0x5C" "\<not> (of_char c :: nat) < 0x20"
    by (auto simp: esc_def split: if_splits)
  with True show ?thesis by simp
next
  case False
  then show ?thesis
    by (auto simp: esc_def parse_escape_control split: if_splits)
       (simp_all add: parse_escape_def simple_escape_def)
qed

lemma parse_chars_quote: "parse_chars (concat (map esc s) @ CHR 0x22 # r) = Some (s, r)"
  by (induction s) (simp_all add: parse_chars_esc prepend_def)

lemma map_set_fresh: "k \<notin> fst ` set m \<Longrightarrow> map_set k v m = m @ [(k, v)]"
  unfolding map_set_def by (induction m) auto

lemma pelems_stringify:
  assumes "\<And>v n r. v \<in> set vs \<Longrightarrow> 2 * length (json_stringify v) < n \<Longrightarrow>
      pvalue n (json_stringify v @ r) = Some (v, r)"
    and "vs \<noteq> []" and "2 * length (js_join '','' (map json_stringify vs)) + 1 < n"
  shows "pelems n (js_join '','' (map json_stringify vs) @ CHR '']'' # r) = Some (vs, r)"
  using assms
proof (induction vs arbitrary: n)
  case (Cons v vs)
  obtain m where n: "n = Suc m" using Cons.prems(3) by (cases n) auto
  show ?case
  proof (cases vs)
    case Nil
    then show ?thesis using Cons.prems n by (simp add: is_json_ws_def)
  next
    case (Cons w ws)
    then have "pelems m (js_join '','' (map json_stringify vs) @ CHR '']'' # r) = Some (vs, r)"
      using Cons.prems Cons.IH [of m] n by simp
    moreover have "pvalue m (json_stringify v @ t) = Some (v, t)" for t
      using Cons.prems n \<open>vs = w # ws\<close> by simp
    ultimately show ?thesis using n Cons by (simp add: is_json_ws_def)
  qed
qed simp

definition member_string :: "string \<times> json \<Rightarrow> string" where
  "member_string kv = quote_json (fst kv) @ '':'' @ json_stringify (snd kv)"

lemma json_stringify_JObj:
  "json_stringify (JObj kvs) = ''{'' @ js_join '','' (map member_string kvs) @ ''}''"
  by (simp add: member_string_def [abs_def] case_prod_beta')

lemma pmembers_stringify:
  assumes "\<And>kv n r. kv \<in> set kvs \<Longrightarrow> 2 * length (json_stringify (snd kv)) < n \<Longrightarrow>
      pvalue n (json_stringify (snd kv) @ r) = Some (snd kv, r)"
    and "kvs \<noteq> []" and "2 * length (js_join '','' (map member_string kvs)) < n"
    and "distinct (map fst (acc @ kvs))"
  shows "pmembers n acc (js_join '','' (map member_string kvs) @ CHR ''}'' # r) = Some (acc @ kvs, r)"
  using assms
proof (induction kvs arbitrary: n acc)
  case (Cons kv kvs)
  obtain m where n: "n = Suc m" using Cons.prems(3) by (cases n) auto
  obtain k v where kv: "kv = (k, v)" by fastforce
  have ms: "member_string kv = CHR 0x22 # concat (map esc k) @ CHR 0x22 # CHR '':'' # json_stringify v"
    by (simp add: member_string_def quote_json_def kv)
  have fresh: "map_set k v acc = acc @ [(k, v)]"
    using Cons.prems(4) kv by (auto intro!: map_set_fresh)
  have len: "2 * length (json_stringify v) < m"
    using Cons.prems(3) n kv by (cases kvs) (auto simp: member_string_def quote_json_def)
  have val: "pvalue m (json_stringify v @ t) = Some (v, t)" for t
    using Cons.prems(1) [of kv m t] len kv by simp
  show ?case
  proof (cases kvs)
    case Nil
    then show ?thesis using n kv val fresh ms
      by (simp add: is_json_ws_def parse_chars_quote)
  next
    case (Cons w ws)
    then have "pmembers m (acc @ [(k, v)]) (js_join '','' (map member_string kvs) @ CHR ''}'' # r)
        = Some (acc @ (k, v) # kvs, r)"
      using Cons.prems Cons.IH [of m "acc @ [(k, v)]"] n kv by simp
    then show ?thesis using n kv val fresh Cons ms
      by (simp add: is_json_ws_def parse_chars_quote)
  qed
qed simp

lemma js_join_Cons_append: "\<exists>t. js_join sep (x # xs) = x @ t"
  by (cases xs) auto

lemma json_stringify_head:
  "plain_json v \<Longrightarrow> \<exists>c t. json_stringify v = c # t \<and> \<not> is_json_ws c \<and> c \<noteq> CHR '']''"
  by (cases v) (auto simp: quote_json_def is_json_ws_def)

lemma pvalue_stringify:
  "plain_json v \<Longrightarrow> 2 * length (json_stringify v) < n \<Longrightarrow> pvalue n (json_stringify v @ r) = Some (v, r)"
proof (induction v arbitrary: n r)
  case (JArr vs)
  obtain m where n: "n = Suc m" using JArr.prems(2) by (cases n) auto
  show ?case
  proof (cases vs)
    case Nil
    then show ?thesis using n by (simp add: is_json_ws_def)
  next
    case (Cons w ws)
    obtain t where t: "js_join '','' (map json_stringify vs) = json_stringify w @ t"
      using js_join_Cons_append [of "'',''" "json_stringify w" "map json_stringify ws"] Cons by auto
    obtain c u where c: "json_stringify w = c # u" "\<not> is_json_ws c" "c \<noteq> CHR '']''"
      using json_stringify_head [of w] JArr.prems(1) Cons by auto
    have "pelems m (js_join '','' (map json_stringify vs) @ CHR '']'' # r) = Some (vs, r)"
      using JArr n Cons by (intro pelems_stringify) (auto simp: list_all_iff)
    then show ?thesis using n t c by (simp add: is_json_ws_def)
  qed
next
  case (JObj kvs)
  obtain m where n: "n = Suc m" using JObj.prems(2) by (cases n) auto
  show ?case
  proof (cases kvs)
    case Nil
    then show ?thesis using n by (simp add: is_json_ws_def)
  next
    case (Cons w ws)
    obtain t where t: "js_join '','' (map member_string kvs) = CHR 0x22 # t"
      using js_join_Cons_append [of "'',''" "member_string w" "map member_string ws"] Cons
      by (auto simp: member_string_def quote_json_def)
    have fuel: "2 * length (js_join '','' (map member_string kvs)) < m"
      using JObj.prems(2) n unfolding json_stringify_JObj by simp
    have "pmembers m [] (js_join '','' (map member_string kvs) @ CHR ''}'' # r) = Some ([] @ kvs, r)"
    proof (rule pmembers_stringify)
      fix kv k' r' assume "kv \<in> set kvs" "2 * length (json_stringify (snd kv)) < k'"
      moreover have "snd kv \<in> Basic_BNFs.snds kv" by (simp add: snds.simps)
      ultimately show "pvalue k' (json_stringify (snd kv) @ r') = Some (snd kv, r')"
        using JObj.IH [of kv "snd kv"] JObj.prems(1) by (auto simp: list_all_iff case_prod_beta')
    qed (use JObj.prems(1) Cons fuel in simp_all)
    then show ?thesis using n t
      by (simp add: json_stringify_JObj is_json_ws_def del: json_stringify.simps(6))
  qed
qed (auto simp: quote_json_def parse_chars_quote keyword_def is_json_ws_def gr0_conv_Suc less_eq_Suc_le
      numeral_2_eq_2 dest!: Suc_le_D)

lemma json_parse_stringify: "plain_json v \<Longrightarrow> json_parse (json_stringify v) = Some v"
  using pvalue_stringify [of v "2 * length (json_stringify v) + 2" "[]"] by (simp add: json_parse_def)

text \<open>A stringified value is one line: every line feed in it is escaped.\<close>

lemma esc_no_nl: "nl \<notin> set (esc c)"
proof -
  have "hex_lower k \<noteq> nl" if "k < 16" for k
    using hex_val_lower [OF that] by (auto simp: hex_val_def)
  then have "nl \<noteq> hex_lower (of_char c div 16)" "nl \<noteq> hex_lower (of_char c mod 16)"
    using of_char_div_lt by (metis, metis mod_less_divisor zero_less_numeral)
  then show ?thesis by (auto simp: esc_def)
qed

lemma quote_json_no_nl: "nl \<notin> set (quote_json s)"
  using esc_no_nl by (auto simp: quote_json_def)

lemma js_join_set: "x \<in> set (js_join sep xs) \<Longrightarrow> x \<in> set sep \<or> (\<exists>y \<in> set xs. x \<in> set y)"
  by (induction sep xs rule: js_join.induct) auto

lemma json_stringify_no_nl: "plain_json v \<Longrightarrow> nl \<notin> set (json_stringify v)"
proof (induction v)
  case (JArr vs)
  then show ?case by (fastforce simp: list_all_iff dest!: js_join_set)
next
  case (JObj kvs)
  have "nl \<notin> set (member_string kv)" if "kv \<in> set kvs" for kv
    using JObj.IH [OF that, of "snd kv"] JObj.prems that quote_json_no_nl
    by (auto simp: member_string_def list_all_iff snds.simps)
  then show ?case unfolding json_stringify_JObj by (auto dest!: js_join_set)
qed (auto simp: quote_json_no_nl)

end
