(* ===== verification/Zod.thy ===== *)
theory Zod
  imports Json
begin

text \<open>
  The schema library \<open>zod\<close> is not part of the repository. The schemas the sources build are
  values of the type \<open>schema\<close>; \<open>safeParse\<close> is a parameter of every definition that calls
  it, and the locale \<open>zod\<close> states the documented behaviour of the combinators that are
  used. \<open>undefined\<close> (a missing property) is \<open>None\<close>. The locale is interpreted by the
  executable \<open>zod_parse\<close>, which witnesses evaluate.
\<close>

datatype schema =
    ZString
  | ZBoolean
  | ZLiteral string
  | ZNullable schema
  | ZDefault schema json
  | ZArray schema
  | ZObject "(string \<times> schema) list"

fun all_some :: "'a option list \<Rightarrow> 'a list option" where
  "all_some [] = Some []"
| "all_some (None # xs) = None"
| "all_some (Some x # xs) = map_option ((#) x) (all_some xs)"

lemma all_some_eq_Some: "all_some xs = Some ys \<longleftrightarrow> xs = map Some ys"
proof (induction xs arbitrary: ys)
  case (Cons x xs)
  then show ?case by (cases x; cases ys) auto
qed auto

lemma all_some_map: "all_some (map f xs) = Some ys \<longleftrightarrow> list_all2 (\<lambda>x y. f x = Some y) xs ys"
  unfolding all_some_eq_Some list.rel_eq [symmetric] list_all2_map1 list_all2_map2 ..

lemma all_some_map_Some [simp]: "all_some (map (\<lambda>x. Some (f x)) xs) = Some (map f xs)"
  by (induction xs) auto

locale zod =
  fixes safeParse :: "schema \<Rightarrow> json option \<Rightarrow> json option"
  assumes z_string: "safeParse ZString x = (case x of Some (JStr s) \<Rightarrow> Some (JStr s) | _ \<Rightarrow> None)"
    and z_boolean: "safeParse ZBoolean x = (case x of Some (JBool b) \<Rightarrow> Some (JBool b) | _ \<Rightarrow> None)"
    and z_literal: "safeParse (ZLiteral l) x = (if x = Some (JStr l) then x else None)"
    and z_nullable: "safeParse (ZNullable t) x = (if x = Some JNull then Some JNull else safeParse t x)"
    and z_default: "safeParse (ZDefault t d) x = (case x of None \<Rightarrow> Some d | Some j \<Rightarrow> safeParse t (Some j))"
    and z_array: "safeParse (ZArray t) x =
      (case x of Some (JArr vs) \<Rightarrow> map_option JArr (all_some (map (\<lambda>v. safeParse t (Some v)) vs)) | _ \<Rightarrow> None)"
    and z_object: "safeParse (ZObject fs) x =
      (case x of Some (JObj kvs) \<Rightarrow>
         map_option (\<lambda>vs. JObj (zip (map fst fs) vs)) (all_some (map (\<lambda>(k, t). safeParse t (map_get kvs k)) fs))
       | _ \<Rightarrow> None)"
begin

lemmas z_rules = z_string z_boolean z_literal z_nullable z_default z_array z_object

lemma z_string_Some: "safeParse ZString x = Some y \<longleftrightarrow> (\<exists>s. x = Some (JStr s) \<and> y = JStr s)"
  by (auto simp: z_string split: option.splits json.splits)

lemma z_boolean_Some: "safeParse ZBoolean x = Some y \<longleftrightarrow> (\<exists>b. x = Some (JBool b) \<and> y = JBool b)"
  by (auto simp: z_boolean split: option.splits json.splits)

lemma z_nullable_string_Some:
  "safeParse (ZNullable ZString) x = Some y \<longleftrightarrow>
     x = Some JNull \<and> y = JNull \<or> (\<exists>s. x = Some (JStr s) \<and> y = JStr s)"
  by (auto simp: z_nullable z_string_Some)

lemma z_default_string_Some:
  "safeParse (ZDefault ZString d) x = Some y \<longleftrightarrow>
     x = None \<and> y = d \<or> (\<exists>s. x = Some (JStr s) \<and> y = JStr s)"
  by (auto simp: z_default z_string_Some split: option.splits)

lemma z_array_Some:
  "safeParse (ZArray t) x = Some y \<longleftrightarrow>
     (\<exists>vs ws. x = Some (JArr vs) \<and> y = JArr ws \<and> list_all2 (\<lambda>v w. safeParse t (Some v) = Some w) vs ws)"
  by (auto simp: z_array all_some_map split: option.splits json.splits)

lemma z_not_object: "(\<And>kvs. x \<noteq> Some (JObj kvs)) \<Longrightarrow> safeParse (ZObject fs) x = None"
  by (auto simp: z_object split: option.splits json.splits)

end

fun zod_parse :: "schema \<Rightarrow> json option \<Rightarrow> json option" where
  "zod_parse ZString x = (case x of Some (JStr s) \<Rightarrow> Some (JStr s) | _ \<Rightarrow> None)"
| "zod_parse ZBoolean x = (case x of Some (JBool b) \<Rightarrow> Some (JBool b) | _ \<Rightarrow> None)"
| "zod_parse (ZLiteral l) x = (if x = Some (JStr l) then x else None)"
| "zod_parse (ZNullable t) x = (if x = Some JNull then Some JNull else zod_parse t x)"
| "zod_parse (ZDefault t d) x = (case x of None \<Rightarrow> Some d | Some j \<Rightarrow> zod_parse t (Some j))"
| "zod_parse (ZArray t) x =
     (case x of Some (JArr vs) \<Rightarrow> map_option JArr (all_some (map (\<lambda>v. zod_parse t (Some v)) vs)) | _ \<Rightarrow> None)"
| "zod_parse (ZObject fs) x =
     (case x of Some (JObj kvs) \<Rightarrow>
        map_option (\<lambda>vs. JObj (zip (map fst fs) vs)) (all_some (map (\<lambda>(k, t). zod_parse t (map_get kvs k)) fs))
      | _ \<Rightarrow> None)"

interpretation zp: zod zod_parse
  by unfold_locales simp_all

end
