(* ===== verification/Sdk_Types.thy ===== *)
theory Sdk_Types
  imports Zod
begin

text \<open>
  The wire and configuration types of the SDK (\<open>sdk/js/src/types.ts\<close>), the SDK's error
  class, and the platform's \<open>fetch\<close> as the SDK uses it. Field names carry a prefix per
  record (\<open>r_\<close> for \<open>EvalResult\<close>, \<open>e_\<close> for \<open>FlagStoreEntry\<close>, \<open>f_\<close> for
  \<open>FlagResult\<close>, \<open>c_\<close> for the configuration) because HOL record fields are global.
\<close>

datatype EvalReason = Disabled | Default | RuleMatch | Rollout

datatype FlagType = FBool | FString | FNumber | FJson

record EvalResponse =
  resp_key :: string
  resp_enabled :: bool
  resp_value :: "string option"
  resp_value_key :: string
  resp_reason :: EvalReason
  resp_type :: FlagType

record EvalContext =
  user_id :: string
  attributes :: "(string, string) js_map"

record EvalRequest =
  req_context :: EvalContext

record FlagDefault =
  d_enabled :: bool
  d_variant :: string

text \<open>\<open>timeout\<close> and \<open>defaults\<close> are optional; \<open>fetch\<close> is a parameter of the operations.\<close>

record CuttlegateConfig =
  c_baseUrl :: string
  c_token :: string
  c_project :: string
  c_environment :: string
  c_timeout :: "nat option"
  c_defaults :: "(string, FlagDefault) js_map option"

record ApiError =
  ae_error :: string
  ae_message :: string

record FlagStoreEntry =
  e_key :: string
  e_enabled :: bool
  e_value :: "string option"
  e_variant :: string
  e_reason :: string
  e_evaluatedAt :: string

text \<open>
  A store is a pair of operations on its own contents: \<open>save\<close> replaces or extends them,
  \<open>load\<close> reads them (\<open>None\<close> when the returned promise rejects).
\<close>

record 's FlagStore =
  save :: "FlagStoreEntry list \<Rightarrow> 's \<Rightarrow> 's"
  load :: "'s \<Rightarrow> FlagStoreEntry list option"

definition noopFlagStore :: "'s FlagStore" where
  "noopFlagStore = \<lparr>save = (\<lambda>_ s. s), load = (\<lambda>_. Some [])\<rparr>"

record EvalResult =
  r_key :: string
  r_enabled :: bool
  r_value :: "string option"
  r_variant :: string
  r_reason :: string
  r_evaluatedAt :: string

record FlagResult =
  f_enabled :: bool
  f_value :: "string option"
  f_variant :: string
  f_reason :: string

text \<open>
  Thrown values: the SDK's own error class, a \<open>DOMException\<close> (with its name), any other
  \<open>Error\<close> object, and a thrown value that is not an \<open>Error\<close>.
\<close>

datatype js_error =
    CuttlegateError (err_code: string) (err_msg: string)
  | DOMException (exc_name: string) (err_msg: string)
  | ErrorObj (err_msg: string)
  | NonError

definition message_or :: "string \<Rightarrow> js_error \<Rightarrow> string" where
  "message_or dflt e = (case e of NonError \<Rightarrow> dflt | _ \<Rightarrow> err_msg e)"

section \<open>fetch\<close>

record request =
  url :: string
  http_method :: string
  headers :: "(string \<times> string) list"
  req_body :: "string option"

text \<open>
  A response: its status and its body, which is absent or fails to arrive (\<open>None\<close>), or is
  a text. \<open>res.json()\<close> rejects exactly when the body does not arrive or is not JSON.
\<close>

record response =
  status :: nat
  body :: "string option"

definition res_ok :: "response \<Rightarrow> bool" where
  "res_ok r \<longleftrightarrow> 200 \<le> status r \<and> status r \<le> 299"

definition res_json :: "response \<Rightarrow> json option" where
  "res_json r = Option.bind (body r) json_parse"

datatype fetch_outcome = Rejected js_error | Responded response

text \<open>
  The network answers a request after a delay in milliseconds. A request whose
  \<open>AbortController\<close> fires first rejects with an \<open>AbortError\<close>.
\<close>

type_synonym net = "request \<Rightarrow> nat \<times> fetch_outcome"

definition abort_error :: js_error where
  "abort_error = DOMException ''AbortError'' ''This operation was aborted''"

definition fetch_timeout :: "nat \<Rightarrow> net \<Rightarrow> request \<Rightarrow> fetch_outcome" where
  "fetch_timeout ms net rq =
     (case net rq of (delay, out) \<Rightarrow> if ms < delay then Rejected abort_error else out)"

end
