(* ===== verification/Client.thy ===== *)
theory Client
  imports Sdk_Types
begin

text \<open>
  The HTTP client of the SDK (\<open>sdk/js/src/client.ts\<close>). \<open>createClient\<close> validates the
  configuration and returns the closure's constants; \<open>evaluateAll\<close> is one bulk request, and
  \<open>evaluate\<close>, \<open>bool\<close>, \<open>string\<close> and \<open>evaluateFlag\<close> read its result. The operations take
  the network (what it answers to each request, and when) and zod's \<open>safeParse\<close> as
  arguments. The locale \<open>flag_client\<close> is the interface \<open>CuttlegateClient\<close>, which the cached
  client and the mock implement as well.
\<close>

section \<open>Construction\<close>

definition DEFAULT_TIMEOUT :: nat where
  "DEFAULT_TIMEOUT = 5000"

definition FlagSchema :: schema where
  "FlagSchema = ZObject
     [(''key'', ZString), (''enabled'', ZBoolean), (''value'', ZNullable ZString),
      (''value_key'', ZDefault ZString (JStr [])), (''reason'', ZString), (''type'', ZString)]"

definition BulkEvaluateResponseSchema :: schema where
  "BulkEvaluateResponseSchema = ZObject [(''flags'', ZArray FlagSchema), (''evaluated_at'', ZString)]"

definition validate_config :: "CuttlegateConfig \<Rightarrow> (js_error, unit) result" where
  "validate_config config =
     (if c_baseUrl config = [] then Inl (CuttlegateError ''invalid_config'' ''baseUrl is required'')
      else if c_token config = [] then Inl (CuttlegateError ''invalid_config'' ''token is required'')
      else if c_project config = [] then Inl (CuttlegateError ''invalid_config'' ''project is required'')
      else if c_environment config = [] then Inl (CuttlegateError ''invalid_config'' ''environment is required'')
      else Inr ())"

definition env_url :: "CuttlegateConfig \<Rightarrow> string \<Rightarrow> string" where
  "env_url config tail =
     strip_trailing_slashes (c_baseUrl config) @ ''/api/v1/projects/'' @ encodeURIComponent (c_project config)
     @ ''/environments/'' @ encodeURIComponent (c_environment config) @ tail"

text \<open>What the closure of \<open>createClient\<close> captures.\<close>

record client =
  cl_url :: string
  cl_token :: string
  cl_timeout :: nat
  cl_defaults :: "(string, FlagDefault) js_map"

definition createClient :: "CuttlegateConfig \<Rightarrow> (js_error, client) result" where
  "createClient config =
     await (validate_config config) (\<lambda>_.
       Inr \<lparr>cl_url = env_url config ''/evaluate'',
            cl_token = c_token config,
            cl_timeout = (case c_timeout config of None \<Rightarrow> DEFAULT_TIMEOUT | Some t \<Rightarrow> t),
            cl_defaults = (case c_defaults config of None \<Rightarrow> [] | Some d \<Rightarrow> d)\<rparr>)"

section \<open>Evaluation\<close>

definition defaultFallbacks :: "client \<Rightarrow> EvalResult list" where
  "defaultFallbacks cl = map (\<lambda>(key, def).
     \<lparr>r_key = key, r_enabled = d_enabled def, r_value = None, r_variant = d_variant def,
      r_reason = ''default_fallback'', r_evaluatedAt = []\<rparr>) (cl_defaults cl)"

definition context_json :: "EvalContext \<Rightarrow> json" where
  "context_json ctx = JObj
     [(''context'', JObj [(''user_id'', JStr (user_id ctx)),
                         (''attributes'', JObj (map (\<lambda>(k, v). (k, JStr v)) (attributes ctx)))])]"

definition evaluate_request :: "client \<Rightarrow> EvalContext \<Rightarrow> request" where
  "evaluate_request cl ctx =
     \<lparr>url = cl_url cl, http_method = ''POST'',
      headers = [(''Content-Type'', ''application/json''), (''Authorization'', ''Bearer '' @ cl_token cl)],
      req_body = Some (json_stringify (context_json ctx))\<rparr>"

text \<open>One flag of a bulk response, as the parsed data holds it.\<close>

record WireFlag =
  w_key :: string
  w_enabled :: bool
  w_value :: "string option"
  w_value_key :: string
  w_reason :: string
  w_type :: string

definition variant_of :: "string \<Rightarrow> string option \<Rightarrow> string" where
  "variant_of value_key value =
     (if value_key \<noteq> [] then value_key else case value of Some v \<Rightarrow> v | None \<Rightarrow> [])"

definition to_result :: "string \<Rightarrow> WireFlag \<Rightarrow> EvalResult" where
  "to_result evaluatedAt flag =
     \<lparr>r_key = w_key flag, r_enabled = w_enabled flag, r_value = w_value flag,
      r_variant = variant_of (w_value_key flag) (w_value flag),
      r_reason = w_reason flag, r_evaluatedAt = evaluatedAt\<rparr>"

text \<open>Reading the fields of parsed data; \<open>None\<close> is a value of another type.\<close>

definition jfield :: "string \<Rightarrow> json \<Rightarrow> json option" where
  "jfield k j = (case j of JObj kvs \<Rightarrow> map_get kvs k | _ \<Rightarrow> None)"

definition as_string :: "json option \<Rightarrow> string option" where
  "as_string x = (case x of Some (JStr s) \<Rightarrow> Some s | _ \<Rightarrow> None)"

definition as_bool :: "json option \<Rightarrow> bool option" where
  "as_bool x = (case x of Some (JBool b) \<Rightarrow> Some b | _ \<Rightarrow> None)"

definition as_nullable :: "json option \<Rightarrow> string option option" where
  "as_nullable x = (case x of Some JNull \<Rightarrow> Some None | Some (JStr s) \<Rightarrow> Some (Some s) | _ \<Rightarrow> None)"

definition as_array :: "json option \<Rightarrow> json list option" where
  "as_array x = (case x of Some (JArr vs) \<Rightarrow> Some vs | _ \<Rightarrow> None)"

definition decode_flag :: "json \<Rightarrow> WireFlag option" where
  "decode_flag j =
     (case (as_string (jfield ''key'' j), as_bool (jfield ''enabled'' j), as_nullable (jfield ''value'' j),
            as_string (jfield ''value_key'' j), as_string (jfield ''reason'' j), as_string (jfield ''type'' j)) of
        (Some k, Some e, Some v, Some vk, Some r, Some t) \<Rightarrow>
          Some \<lparr>w_key = k, w_enabled = e, w_value = v, w_value_key = vk, w_reason = r, w_type = t\<rparr>
      | _ \<Rightarrow> None)"

definition decode_bulk :: "json \<Rightarrow> (WireFlag list \<times> string) option" where
  "decode_bulk j =
     (case (as_array (jfield ''flags'' j), as_string (jfield ''evaluated_at'' j)) of
        (Some fs, Some t) \<Rightarrow> map_option (\<lambda>ws. (ws, t)) (all_some (map decode_flag fs))
      | _ \<Rightarrow> None)"

definition evaluateAll ::
    "(schema \<Rightarrow> json option \<Rightarrow> json option) \<Rightarrow> client \<Rightarrow> net \<Rightarrow> EvalContext \<Rightarrow> (js_error, EvalResult list) result" where
  "evaluateAll safeParse cl net ctx =
     (case fetch_timeout (cl_timeout cl) net (evaluate_request cl ctx) of
        Rejected err \<Rightarrow>
          (if cl_defaults cl \<noteq> [] then Inr (defaultFallbacks cl)
           else if is_DOMException err \<and> exc_name err = ''AbortError''
           then Inl (CuttlegateError ''timeout'' (''Request timed out after '' @ show_nat (cl_timeout cl) @ ''ms''))
           else Inl (CuttlegateError ''network_error'' (message_or ''Network request failed'' err)))
      | Responded res \<Rightarrow>
          (if status res = 401 then Inl (CuttlegateError ''unauthorized'' ''Server returned 401 Unauthorized'')
           else if status res = 403 then Inl (CuttlegateError ''forbidden'' ''Server returned 403 Forbidden'')
           else if \<not> res_ok res then
             (if cl_defaults cl \<noteq> [] \<and> 500 \<le> status res then Inr (defaultFallbacks cl)
              else Inl (CuttlegateError ''network_error'' (''Server returned '' @ show_nat (status res))))
           else
             (case res_json res of
                None \<Rightarrow> Inl (CuttlegateError ''invalid_response'' ''Response is not valid JSON'')
              | Some json \<Rightarrow>
                  (case safeParse BulkEvaluateResponseSchema (Some json) of
                     None \<Rightarrow> Inl (CuttlegateError ''invalid_response'' ''Server returned an unexpected response shape'')
                   | Some data \<Rightarrow>
                       (case decode_bulk data of
                          None \<Rightarrow> Inl (ErrorObj ''TypeError'')
                        | Some (flags, evaluatedAt) \<Rightarrow> Inr (map (to_result evaluatedAt) flags))))))"

definition evaluate ::
    "(schema \<Rightarrow> json option \<Rightarrow> json option) \<Rightarrow> client \<Rightarrow> net \<Rightarrow> string \<Rightarrow> EvalContext \<Rightarrow> (js_error, EvalResult) result" where
  "evaluate safeParse cl net key ctx =
     await (evaluateAll safeParse cl net ctx) (\<lambda>results.
       case find (\<lambda>r. r_key r = key) results of
         None \<Rightarrow> Inl (CuttlegateError ''not_found'' ([CHR ''F'', CHR ''l'', CHR ''a'', CHR ''g'', CHR '' '', CHR 0x22] @ key @ [CHR 0x22] @ '' not found''))
       | Some match \<Rightarrow> Inr match)"

definition bool_flag ::
    "(schema \<Rightarrow> json option \<Rightarrow> json option) \<Rightarrow> client \<Rightarrow> net \<Rightarrow> string \<Rightarrow> EvalContext \<Rightarrow> (js_error, bool) result" where
  "bool_flag safeParse cl net key ctx =
     await (evaluate safeParse cl net key ctx) (\<lambda>result. Inr (r_variant result = ''true''))"

definition string_flag ::
    "(schema \<Rightarrow> json option \<Rightarrow> json option) \<Rightarrow> client \<Rightarrow> net \<Rightarrow> string \<Rightarrow> EvalContext \<Rightarrow> (js_error, string) result" where
  "string_flag safeParse cl net key ctx =
     await (evaluate safeParse cl net key ctx) (\<lambda>result. Inr (r_variant result))"

definition flag_result :: "EvalResult \<Rightarrow> FlagResult" where
  "flag_result m = \<lparr>f_enabled = r_enabled m, f_value = r_value m, f_variant = r_variant m, f_reason = r_reason m\<rparr>"

definition evaluateFlag ::
    "(schema \<Rightarrow> json option \<Rightarrow> json option) \<Rightarrow> client \<Rightarrow> net \<Rightarrow> string \<Rightarrow> EvalContext \<Rightarrow> (js_error, FlagResult) result" where
  "evaluateFlag safeParse cl net key ctx =
     await (evaluateAll safeParse cl net ctx) (\<lambda>results.
       case find (\<lambda>r. r_key r = key) results of
         None \<Rightarrow> Inr \<lparr>f_enabled = False, f_value = None, f_variant = [], f_reason = ''not_found''\<rparr>
       | Some match \<Rightarrow> Inr (flag_result match))"

section \<open>The interface CuttlegateClient\<close>

text \<open>
  The contract every implementation of \<open>CuttlegateClient\<close> keeps, on a state \<open>'s\<close> of its
  own (the network of the HTTP client, the cache of the cached client, the mock's flags).
\<close>

locale flag_client =
  fixes ev :: "string \<Rightarrow> EvalContext \<Rightarrow> 's \<Rightarrow> (js_error, EvalResult) result \<times> 's"
    and bo :: "string \<Rightarrow> EvalContext \<Rightarrow> 's \<Rightarrow> (js_error, bool) result \<times> 's"
    and st :: "string \<Rightarrow> EvalContext \<Rightarrow> 's \<Rightarrow> (js_error, string) result \<times> 's"
    and ef :: "string \<Rightarrow> EvalContext \<Rightarrow> 's \<Rightarrow> (js_error, FlagResult) result \<times> 's"
    and wf :: "'s \<Rightarrow> bool"
  assumes ev_key: "wf s \<Longrightarrow> ev k c s = (Inr r, s') \<Longrightarrow> r_key r = k"
    and ev_wf: "wf s \<Longrightarrow> wf (snd (ev k c s))"
    and bo_ev: "bo k c s = map_prod (\<lambda>x. await x (\<lambda>r. Inr (r_variant r = ''true''))) id (ev k c s)"
    and st_ev: "st k c s = map_prod (\<lambda>x. await x (\<lambda>r. Inr (r_variant r))) id (ev k c s)"
    and ef_ev: "ev k c s = (Inr r, s') \<Longrightarrow> ef k c s = (Inr (flag_result r), s')"
begin

lemma bo_st: "bo k c s = map_prod (\<lambda>x. await x (\<lambda>v. Inr (v = ''true''))) id (st k c s)"
  by (cases "ev k c s"; cases "fst (ev k c s)") (auto simp: bo_ev st_ev)

lemma st_error_iff: "(\<exists>s'. st k c s = (Inl e, s')) \<longleftrightarrow> (\<exists>s'. ev k c s = (Inl e, s'))"
  by (cases "ev k c s"; cases "fst (ev k c s)") (auto simp: st_ev)

lemma ef_st: "st k c s = (Inr v, s') \<Longrightarrow> \<exists>r. ef k c s = (Inr r, s') \<and> f_variant r = v"
  by (cases "ev k c s"; cases "fst (ev k c s)") (auto simp: st_ev ef_ev flag_result_def)

end

lemma evaluate_eq_Inr:
  "evaluate safeParse cl net key ctx = Inr r \<longleftrightarrow>
     (\<exists>rs. evaluateAll safeParse cl net ctx = Inr rs \<and> find (\<lambda>r. r_key r = key) rs = Some r)"
  by (auto simp: evaluate_def await_eq_Inr split: option.splits)

interpretation http: flag_client
  "\<lambda>k c net. (evaluate safeParse cl net k c, net)"
  "\<lambda>k c net. (bool_flag safeParse cl net k c, net)"
  "\<lambda>k c net. (string_flag safeParse cl net k c, net)"
  "\<lambda>k c net. (evaluateFlag safeParse cl net k c, net)"
  "\<lambda>_. True"
  for safeParse cl
  by unfold_locales
     (auto simp: evaluate_eq_Inr bool_flag_def string_flag_def evaluateFlag_def dest: find_SomeD)

section \<open>Properties\<close>

lemma validate_config_Inr:
  "validate_config config = Inr () \<longleftrightarrow>
     c_baseUrl config \<noteq> [] \<and> c_token config \<noteq> [] \<and> c_project config \<noteq> [] \<and> c_environment config \<noteq> []"
  by (simp add: validate_config_def)

text \<open>
  A client is constructed exactly when the four required fields are present; every
  refusal is the error \<open>invalid_config\<close>, and the client posts to the evaluation endpoint of
  the configured environment with the configured token, timeout (5000 ms by default) and
  defaults.
\<close>

theorem createClient_spec:
  "createClient config =
     (if c_baseUrl config \<noteq> [] \<and> c_token config \<noteq> [] \<and> c_project config \<noteq> [] \<and> c_environment config \<noteq> []
      then Inr \<lparr>cl_url = env_url config ''/evaluate'', cl_token = c_token config,
                cl_timeout = case_option 5000 id (c_timeout config),
                cl_defaults = case_option [] id (c_defaults config)\<rparr>
      else Inl (CuttlegateError ''invalid_config''
        ((if c_baseUrl config = [] then ''baseUrl'' else if c_token config = [] then ''token''
          else if c_project config = [] then ''project'' else ''environment'') @ '' is required'')))"
  by (simp add: createClient_def validate_config_def DEFAULT_TIMEOUT_def split: option.splits)

lemma append_slash_eq:
  assumes "CHR ''/'' \<notin> set u" and "CHR ''/'' \<notin> set v" and "u @ CHR ''/'' # s = v @ CHR ''/'' # t"
  shows "u = v \<and> s = t"
  using assms
proof (induction u arbitrary: v)
  case Nil
  then show ?case by (cases v) auto
next
  case (Cons c u)
  then show ?case by (cases v) auto
qed

text \<open>
  Two configurations with the same base URL address the same endpoint only when they
  name the same project and the same environment, whatever characters the slugs hold.
\<close>

theorem env_url_inj:
  assumes "c_baseUrl c = c_baseUrl d"
    and "env_url c (CHR ''/'' # t) = env_url d (CHR ''/'' # t)"
  shows "c_project c = c_project d \<and> c_environment c = c_environment d"
proof -
  let ?p = "encodeURIComponent (c_project c)" and ?q = "encodeURIComponent (c_project d)"
  let ?e = "encodeURIComponent (c_environment c)" and ?f = "encodeURIComponent (c_environment d)"
  from assms have "?p @ CHR ''/'' # (''environments/'' @ ?e @ CHR ''/'' # t)
      = ?q @ CHR ''/'' # (''environments/'' @ ?f @ CHR ''/'' # t)"
    by (simp add: env_url_def)
  from append_slash_eq [OF encodeURIComponent_no_slash encodeURIComponent_no_slash this]
  have "?p = ?q" and rest: "?e @ CHR ''/'' # t = ?f @ CHR ''/'' # t" by simp_all
  from append_slash_eq [OF encodeURIComponent_no_slash encodeURIComponent_no_slash rest] have "?e = ?f" by simp
  with \<open>?p = ?q\<close> show ?thesis by (auto dest: encodeURIComponent_inj)
qed

text \<open>The two hypotheses can hold together: slugs that contain a slash are kept apart.\<close>

theorem env_url_inj_witness:
  "let c = \<lparr>c_baseUrl = ''https://f/'', c_token = ''t'', c_project = ''a/b'', c_environment = ''e'',
            c_timeout = None, c_defaults = None\<rparr>
   in env_url c ''/evaluate'' = ''https://f/api/v1/projects/a%2Fb/environments/e/evaluate''
      \<and> c_project c = c_project c \<and> c_environment c = c_environment c"
proof -
  let ?c = "\<lparr>c_baseUrl = ''https://f/'', c_token = ''t'', c_project = ''a/b'', c_environment = ''e'',
            c_timeout = None, c_defaults = None\<rparr> :: CuttlegateConfig"
  have "env_url ?c ''/evaluate'' = ''https://f/api/v1/projects/a%2Fb/environments/e/evaluate''"
    by code_simp
  with env_url_inj [of ?c ?c "''evaluate''"] show ?thesis by (simp add: Let_def)
qed

section \<open>Errors and fallbacks\<close>

text \<open>
  C9: an authentication failure is never masked. When the server answers 401 or 403 in time,
  \<open>evaluateAll\<close> fails with the matching error code, whatever defaults are configured.
\<close>

theorem evaluateAll_auth_error:
  assumes "net (evaluate_request cl ctx) = (delay, Responded res)" and "delay \<le> cl_timeout cl"
    and "status res = 401 \<or> status res = 403"
  shows "\<exists>msg. evaluateAll safeParse cl net ctx =
    Inl (CuttlegateError (if status res = 401 then ''unauthorized'' else ''forbidden'') msg)"
  using assms by (auto simp: evaluateAll_def fetch_timeout_def)

definition demo_client :: "(string, FlagDefault) js_map \<Rightarrow> client" where
  "demo_client ds = \<lparr>cl_url = ''http://h/evaluate'', cl_token = ''tok'', cl_timeout = 5000, cl_defaults = ds\<rparr>"

definition demo_context :: EvalContext where
  "demo_context = \<lparr>user_id = ''u1'', attributes = [(''plan'', ''pro'')]\<rparr>"

definition demo_defaults :: "(string, FlagDefault) js_map" where
  "demo_defaults = [(''dark'', \<lparr>d_enabled = True, d_variant = ''true''\<rparr>)]"

theorem evaluateAll_auth_error_witness:
  "\<exists>msg. evaluateAll zod_parse (demo_client demo_defaults)
      (\<lambda>_. (3, Responded \<lparr>status = 403, body = None\<rparr>)) demo_context = Inl (CuttlegateError ''forbidden'' msg)"
  using evaluateAll_auth_error [of "\<lambda>_. (3, Responded \<lparr>status = 403, body = None\<rparr>)"
      "demo_client demo_defaults" demo_context 3 "\<lparr>status = 403, body = None\<rparr>" zod_parse]
  by (simp add: demo_client_def)

text \<open>The request fails without an answer: it is rejected, or the timeout fires first.\<close>

definition unreachable :: "client \<Rightarrow> net \<Rightarrow> EvalContext \<Rightarrow> bool" where
  "unreachable cl net ctx \<longleftrightarrow>
     (case net (evaluate_request cl ctx) of
        (delay, Rejected _) \<Rightarrow> True
      | (delay, Responded res) \<Rightarrow>
          cl_timeout cl < delay \<or> 500 \<le> status res \<and> status res \<noteq> 401 \<and> status res \<noteq> 403)"

text \<open>
  C10: with defaults configured, an unreachable server (a rejected request, a timeout, or a
  5xx answer) never makes \<open>evaluateAll\<close> throw: it returns one result per default, in the
  configured order, with the configured state and the reason \<open>default_fallback\<close>.
\<close>

theorem evaluateAll_fallback:
  assumes "cl_defaults cl \<noteq> []" and "unreachable cl net ctx"
  shows "evaluateAll safeParse cl net ctx = Inr (map (\<lambda>(k, d).
    \<lparr>r_key = k, r_enabled = d_enabled d, r_value = None, r_variant = d_variant d,
     r_reason = ''default_fallback'', r_evaluatedAt = []\<rparr>) (cl_defaults cl))"
  using assms
  by (auto simp: unreachable_def evaluateAll_def fetch_timeout_def defaultFallbacks_def res_ok_def
      split: prod.splits fetch_outcome.splits)

theorem evaluateAll_fallback_witness:
  "evaluateAll zod_parse (demo_client demo_defaults) (\<lambda>_. (6000, Responded \<lparr>status = 200, body = None\<rparr>)) demo_context
    = Inr [\<lparr>r_key = ''dark'', r_enabled = True, r_value = None, r_variant = ''true'',
            r_reason = ''default_fallback'', r_evaluatedAt = []\<rparr>]"
  using evaluateAll_fallback [of "demo_client demo_defaults" "\<lambda>_. (6000, Responded \<lparr>status = 200, body = None\<rparr>)"
      demo_context zod_parse]
  by (simp add: demo_client_def demo_defaults_def unreachable_def)

section \<open>Successful evaluation\<close>

text \<open>The body the evaluation endpoint sends for a list of flags.\<close>

definition opt_json :: "string option \<Rightarrow> json" where
  "opt_json x = (case x of None \<Rightarrow> JNull | Some s \<Rightarrow> JStr s)"

definition flag_json :: "WireFlag \<Rightarrow> json" where
  "flag_json f = JObj [(''key'', JStr (w_key f)), (''enabled'', JBool (w_enabled f)),
     (''value'', opt_json (w_value f)), (''value_key'', JStr (w_value_key f)),
     (''reason'', JStr (w_reason f)), (''type'', JStr (w_type f))]"

definition bulk_json :: "WireFlag list \<Rightarrow> string \<Rightarrow> json" where
  "bulk_json fs t = JObj [(''flags'', JArr (map flag_json fs)), (''evaluated_at'', JStr t)]"

lemma plain_bulk_json: "plain_json (bulk_json fs t)"
  by (auto simp: bulk_json_def flag_json_def opt_json_def list_all_iff split: option.splits)

lemmas decode_defs = decode_flag_def jfield_def as_string_def as_bool_def as_nullable_def as_array_def map_get_def

lemma decode_flag_json: "decode_flag (flag_json f) = Some f"
  by (cases f) (simp add: decode_defs flag_json_def opt_json_def split: option.splits)

lemma decode_bulk_json: "decode_bulk (bulk_json fs t) = Some (fs, t)"
  by (simp add: decode_bulk_def bulk_json_def decode_defs(2-7) o_def decode_flag_json)

context zod
begin

lemma parse_flag_json: "safeParse FlagSchema (Some (flag_json f)) = Some (flag_json f)"
  by (simp add: FlagSchema_def z_rules flag_json_def opt_json_def map_get_def split: option.splits)

lemma parse_bulk_json: "safeParse BulkEvaluateResponseSchema (Some (bulk_json fs t)) = Some (bulk_json fs t)"
  unfolding BulkEvaluateResponseSchema_def z_object
  by (simp add: bulk_json_def map_get_def z_array z_string o_def parse_flag_json)

lemma parsed_flag_decodes:
  assumes "safeParse FlagSchema (Some j) = Some d"
  shows "\<exists>f. decode_flag d = Some f"
  using assms unfolding FlagSchema_def z_object
  by (auto simp: all_some_eq_Some z_string_Some z_boolean_Some z_nullable_string_Some z_default_string_Some
      decode_defs Cons_eq_map_conv split: json.splits)

lemma parsed_bulk_decodes:
  assumes "safeParse BulkEvaluateResponseSchema (Some j) = Some d"
  shows "\<exists>fs t. decode_bulk d = Some (fs, t)"
proof -
  from assms obtain vs ws t where d: "d = JObj [(''flags'', JArr ws), (''evaluated_at'', JStr t)]"
    and ws: "list_all2 (\<lambda>v w. safeParse FlagSchema (Some v) = Some w) vs ws"
    unfolding BulkEvaluateResponseSchema_def z_object
    by (auto simp: all_some_eq_Some z_string_Some z_array_Some Cons_eq_map_conv split: json.splits)
  from ws have "\<forall>w \<in> set ws. \<exists>f. decode_flag w = Some f"
    by (induction rule: list_all2_induct) (auto dest: parsed_flag_decodes)
  then obtain g where "\<forall>w \<in> set ws. decode_flag w = Some (g w)" by metis
  then have "all_some (map decode_flag ws) = Some (map g ws)" by (simp add: all_some_eq_Some)
  then have "decode_bulk d = Some (map g ws, t)"
    unfolding decode_bulk_def d by (simp add: decode_defs(2-7))
  then show ?thesis by blast
qed

end

lemma evaluateAll_bulk:
  assumes "zod safeParse"
    and "net (evaluate_request cl ctx) = (delay, Responded res)" and "delay \<le> cl_timeout cl"
    and "res_ok res" and "body res = Some (json_stringify (bulk_json fs t))"
  shows "evaluateAll safeParse cl net ctx = Inr (map (to_result t) fs)"
proof -
  have "res_json res = Some (bulk_json fs t)"
    using assms(5) by (simp add: res_json_def json_parse_stringify [OF plain_bulk_json])
  moreover have "status res \<noteq> 401" "status res \<noteq> 403" using assms(4) by (auto simp: res_ok_def)
  ultimately show ?thesis
    using assms zod.parse_bulk_json [OF assms(1)]
    by (simp add: evaluateAll_def fetch_timeout_def decode_bulk_json)
qed

text \<open>
  C1: what the server evaluated is what the caller gets. If the server answers in time with
  status 2xx and a body that lists the flags \<open>fs\<close> (\<open>JSON.stringify\<close> of the endpoint's
  shape), \<open>evaluateAll\<close> returns exactly one result per flag, in the server's order, with its
  key, state, value and reason, and with the variant taken from \<open>value_key\<close>, or from
  \<open>value\<close> when that is empty.
\<close>

theorem evaluateAll_delivers:
  assumes "zod safeParse"
    and "net (evaluate_request cl ctx) = (delay, Responded res)" and "delay \<le> cl_timeout cl"
    and "res_ok res" and "body res = Some (json_stringify (bulk_json fs t))"
  shows "evaluateAll safeParse cl net ctx = Inr (map (\<lambda>f.
    \<lparr>r_key = w_key f, r_enabled = w_enabled f, r_value = w_value f,
     r_variant = (if w_value_key f \<noteq> [] then w_value_key f else case_option [] id (w_value f)),
     r_reason = w_reason f, r_evaluatedAt = t\<rparr>) fs)"
  using evaluateAll_bulk [OF assms(1), of net cl ctx, OF assms(2-5)]
  by (simp add: to_result_def variant_of_def split: option.split)

definition demo_flag :: WireFlag where
  "demo_flag = \<lparr>w_key = ''dark'', w_enabled = True, w_value = None, w_value_key = ''true'',
     w_reason = ''rule_match'', w_type = ''bool''\<rparr>"

definition demo_net :: net where
  "demo_net = (\<lambda>_. (20, Responded \<lparr>status = 200, body = Some (json_stringify (bulk_json [demo_flag] ''now''))\<rparr>))"

lemma demo_results: "evaluateAll zod_parse (demo_client []) demo_net demo_context = Inr [to_result ''now'' demo_flag]"
  using evaluateAll_bulk [OF zp.zod_axioms, of demo_net "demo_client []" demo_context 20
      "\<lparr>status = 200, body = Some (json_stringify (bulk_json [demo_flag] ''now''))\<rparr>" "[demo_flag]" "''now''"]
  by (simp add: demo_net_def demo_client_def res_ok_def)

theorem evaluateAll_delivers_witness:
  "evaluateAll zod_parse (demo_client []) demo_net demo_context =
     Inr [\<lparr>r_key = ''dark'', r_enabled = True, r_value = None, r_variant = ''true'',
           r_reason = ''rule_match'', r_evaluatedAt = ''now''\<rparr>]"
  using evaluateAll_delivers [OF zp.zod_axioms, of demo_net "demo_client []" demo_context 20
      "\<lparr>status = 200, body = Some (json_stringify (bulk_json [demo_flag] ''now''))\<rparr>" "[demo_flag]" "''now''"]
  by (simp add: demo_net_def demo_client_def demo_flag_def res_ok_def)



text \<open>
  \<open>evaluate\<close> returns the first result that carries the requested key, \<open>bool\<close> and
  \<open>string\<close> read that result's variant, and \<open>evaluateFlag\<close> is the same result without its key
  and time; when no result has the key, \<open>evaluate\<close>, \<open>bool\<close> and \<open>string\<close> fail with
  \<open>not_found\<close> while \<open>evaluateFlag\<close> returns a disabled flag.
\<close>

theorem evaluate_lookup:
  assumes "evaluateAll safeParse cl net ctx = Inr rs"
  shows "case find (\<lambda>r. r_key r = key) rs of
      Some r \<Rightarrow> r \<in> set rs \<and> r_key r = key \<and> evaluate safeParse cl net key ctx = Inr r
        \<and> bool_flag safeParse cl net key ctx = Inr (r_variant r = ''true'')
        \<and> string_flag safeParse cl net key ctx = Inr (r_variant r)
        \<and> evaluateFlag safeParse cl net key ctx = Inr (flag_result r)
    | None \<Rightarrow> key \<notin> r_key ` set rs
        \<and> (\<exists>msg. evaluate safeParse cl net key ctx = Inl (CuttlegateError ''not_found'' msg)
              \<and> bool_flag safeParse cl net key ctx = Inl (CuttlegateError ''not_found'' msg)
              \<and> string_flag safeParse cl net key ctx = Inl (CuttlegateError ''not_found'' msg))
        \<and> evaluateFlag safeParse cl net key ctx =
            Inr \<lparr>f_enabled = False, f_value = None, f_variant = [], f_reason = ''not_found''\<rparr>"
  using assms
  by (auto simp: evaluate_def bool_flag_def string_flag_def evaluateFlag_def find_None_iff
      dest: find_SomeD split: option.splits)

theorem evaluate_lookup_witness:
  "evaluate zod_parse (demo_client []) demo_net ''dark'' demo_context = Inr (to_result ''now'' demo_flag)
   \<and> bool_flag zod_parse (demo_client []) demo_net ''dark'' demo_context = Inr True"
  using evaluate_lookup [OF demo_results, of "''dark''"]
  by (simp add: to_result_def demo_flag_def variant_of_def)

end
