(* ===== verification/Mock_Client.thy ===== *)
theory Mock_Client
  imports Client
begin

text \<open>
  The in-process mock of the SDK (\<open>sdk/js/src/testing.ts\<close>): a map of configured flags and
  the set of keys evaluated so far. It is a third flag client. Its specification is stated on
  the history of calls: what a key evaluates to is decided by the last configuration call for
  it since the last \<open>reset\<close>, and an assertion passes exactly according to the calls since
  then.
\<close>

definition MOCK_EVALUATED_AT :: string where
  "MOCK_EVALUATED_AT = ''1970-01-01T00:00:00Z''"

record FlagConfig =
  fc_enabled :: bool
  fc_value :: "string option"
  fc_variant :: string

record mock =
  m_flags :: "(string, FlagConfig) js_map"
  m_evaluated :: "string list"

definition createMockClient :: mock where
  "createMockClient = \<lparr>m_flags = [], m_evaluated = []\<rparr>"

definition mock_result :: "string \<Rightarrow> FlagConfig \<Rightarrow> EvalResult" where
  "mock_result key config = \<lparr>r_key = key, r_enabled = fc_enabled config, r_value = fc_value config,
     r_variant = fc_variant config, r_reason = ''mock'', r_evaluatedAt = MOCK_EVALUATED_AT\<rparr>"

definition mock_evaluate :: "string \<Rightarrow> EvalContext \<Rightarrow> mock \<Rightarrow> EvalResult \<times> mock" where
  "mock_evaluate key ctx m =
     (let m = m\<lparr>m_evaluated := set_add key (m_evaluated m)\<rparr> in
      case map_get (m_flags m) key of
        None \<Rightarrow> (\<lparr>r_key = key, r_enabled = False, r_value = None, r_variant = [], r_reason = ''mock_default'',
                 r_evaluatedAt = MOCK_EVALUATED_AT\<rparr>, m)
      | Some config \<Rightarrow> (mock_result key config, m))"

definition mock_evaluateAll :: "EvalContext \<Rightarrow> mock \<Rightarrow> EvalResult list \<times> mock" where
  "mock_evaluateAll ctx m =
     fold (\<lambda>(key, config) (results, m).
         (results @ [mock_result key config], m\<lparr>m_evaluated := set_add key (m_evaluated m)\<rparr>))
       (m_flags m) ([], m)"

definition mock_bool :: "string \<Rightarrow> EvalContext \<Rightarrow> mock \<Rightarrow> bool \<times> mock" where
  "mock_bool key ctx m = (case mock_evaluate key ctx m of (result, m) \<Rightarrow> (r_variant result = ''true'', m))"

definition mock_string :: "string \<Rightarrow> EvalContext \<Rightarrow> mock \<Rightarrow> string \<times> mock" where
  "mock_string key ctx m = (case mock_evaluate key ctx m of (result, m) \<Rightarrow> (r_variant result, m))"

definition mock_evaluateFlag :: "string \<Rightarrow> EvalContext \<Rightarrow> mock \<Rightarrow> FlagResult \<times> mock" where
  "mock_evaluateFlag key ctx m =
     (let m = m\<lparr>m_evaluated := set_add key (m_evaluated m)\<rparr> in
      case map_get (m_flags m) key of
        None \<Rightarrow> (\<lparr>f_enabled = False, f_value = None, f_variant = [], f_reason = ''mock_default''\<rparr>, m)
      | Some config \<Rightarrow> (\<lparr>f_enabled = fc_enabled config, f_value = fc_value config, f_variant = fc_variant config,
                         f_reason = ''mock''\<rparr>, m))"

definition mock_enable :: "string \<Rightarrow> mock \<Rightarrow> mock" where
  "mock_enable key m = m\<lparr>m_flags := map_set key \<lparr>fc_enabled = True, fc_value = None, fc_variant = ''true''\<rparr> (m_flags m)\<rparr>"

definition mock_disable :: "string \<Rightarrow> mock \<Rightarrow> mock" where
  "mock_disable key m = m\<lparr>m_flags := map_set key \<lparr>fc_enabled = False, fc_value = None, fc_variant = ''false''\<rparr> (m_flags m)\<rparr>"

definition mock_setVariant :: "string \<Rightarrow> string \<Rightarrow> mock \<Rightarrow> mock" where
  "mock_setVariant key v m = m\<lparr>m_flags := map_set key \<lparr>fc_enabled = True, fc_value = Some v, fc_variant = v\<rparr> (m_flags m)\<rparr>"

definition assertEvaluated :: "string \<Rightarrow> mock \<Rightarrow> (js_error, unit) result" where
  "assertEvaluated key m =
     (if key \<notin> set (m_evaluated m)
      then Inl (ErrorObj (''Expected flag \"'' @ key @ ''\" to have been evaluated, but it was not''))
      else Inr ())"

definition assertNotEvaluated :: "string \<Rightarrow> mock \<Rightarrow> (js_error, unit) result" where
  "assertNotEvaluated key m =
     (if key \<in> set (m_evaluated m)
      then Inl (ErrorObj (''Expected flag \"'' @ key @ ''\" to NOT have been evaluated, but it was''))
      else Inr ())"

definition mock_reset :: "mock \<Rightarrow> mock" where
  "mock_reset m = \<lparr>m_flags = [], m_evaluated = []\<rparr>"

section \<open>A flag client\<close>

interpretation mock_fc: flag_client
  "\<lambda>k c m. map_prod Inr id (mock_evaluate k c m)"
  "\<lambda>k c m. map_prod Inr id (mock_bool k c m)"
  "\<lambda>k c m. map_prod Inr id (mock_string k c m)"
  "\<lambda>k c m. map_prod Inr id (mock_evaluateFlag k c m)"
  "\<lambda>_. True"
  by unfold_locales
     (auto simp: mock_evaluate_def mock_bool_def mock_string_def mock_evaluateFlag_def mock_result_def flag_result_def Let_def
       split: option.splits)

section \<open>Histories\<close>

datatype mock_op =
    MEvaluate string EvalContext
  | MEvaluateAll EvalContext
  | MBool string EvalContext
  | MString string EvalContext
  | MEvaluateFlag string EvalContext
  | MEnable string
  | MDisable string
  | MSetVariant string string
  | MReset

fun mock_apply :: "mock_op \<Rightarrow> mock \<Rightarrow> mock" where
  "mock_apply (MEvaluate k c) m = snd (mock_evaluate k c m)"
| "mock_apply (MEvaluateAll c) m = snd (mock_evaluateAll c m)"
| "mock_apply (MBool k c) m = snd (mock_bool k c m)"
| "mock_apply (MString k c) m = snd (mock_string k c m)"
| "mock_apply (MEvaluateFlag k c) m = snd (mock_evaluateFlag k c m)"
| "mock_apply (MEnable k) m = mock_enable k m"
| "mock_apply (MDisable k) m = mock_disable k m"
| "mock_apply (MSetVariant k v) m = mock_setVariant k v m"
| "mock_apply MReset m = mock_reset m"

text \<open>The history since the last reset, and what it says of a key.\<close>

definition since_reset :: "mock_op list \<Rightarrow> mock_op list" where
  "since_reset ops = rev (takeWhile (\<lambda>p. p \<noteq> MReset) (rev ops))"

fun configures :: "string \<Rightarrow> mock_op \<Rightarrow> FlagConfig option" where
  "configures k (MEnable k') = (if k' = k then Some \<lparr>fc_enabled = True, fc_value = None, fc_variant = ''true''\<rparr> else None)"
| "configures k (MDisable k') = (if k' = k then Some \<lparr>fc_enabled = False, fc_value = None, fc_variant = ''false''\<rparr> else None)"
| "configures k (MSetVariant k' v) = (if k' = k then Some \<lparr>fc_enabled = True, fc_value = Some v, fc_variant = v\<rparr> else None)"
| "configures k _ = None"

fun last_config :: "string \<Rightarrow> mock_op list \<Rightarrow> FlagConfig option" where
  "last_config k [] = None"
| "last_config k (p # ops) = (case last_config k ops of Some c \<Rightarrow> Some c | None \<Rightarrow> configures k p)"

definition asks :: "string \<Rightarrow> mock_op \<Rightarrow> bool" where
  "asks k p \<longleftrightarrow> (\<exists>c. p \<in> {MEvaluate k c, MBool k c, MString k c, MEvaluateFlag k c})"

definition was_evaluated :: "string \<Rightarrow> mock_op list \<Rightarrow> bool" where
  "was_evaluated k ops \<longleftrightarrow> (\<exists>i < length ops. asks k (ops ! i) \<or>
     ((\<exists>c. ops ! i = MEvaluateAll c) \<and> last_config k (take i ops) \<noteq> None))"

lemma last_config_snoc: "last_config k (ops @ [p]) = (case configures k p of Some c \<Rightarrow> Some c | None \<Rightarrow> last_config k ops)"
  by (induction ops) (auto split: option.splits)

lemma was_evaluated_snoc:
  "was_evaluated k (ops @ [p]) \<longleftrightarrow> was_evaluated k ops \<or> asks k p \<or> ((\<exists>c. p = MEvaluateAll c) \<and> last_config k ops \<noteq> None)"
  unfolding was_evaluated_def by (auto simp: nth_append less_Suc_eq)

lemma since_reset_snoc: "since_reset (ops @ [p]) = (if p = MReset then [] else since_reset ops @ [p])"
  by (simp add: since_reset_def)

lemma evaluateAll_fold:
  "fold (\<lambda>(key, config) (results, m). (results @ [mock_result key config], m\<lparr>m_evaluated := set_add key (m_evaluated m)\<rparr>))
     kvs (rs, m) =
   (rs @ map (\<lambda>(k, c). mock_result k c) kvs, m\<lparr>m_evaluated := fold set_add (map fst kvs) (m_evaluated m)\<rparr>)"
  by (induction kvs arbitrary: rs m) auto

lemma mock_run_state:
  "let m = fold mock_apply ops createMockClient in
   map_wf (m_flags m) \<and> map_get (m_flags m) k = last_config k (since_reset ops)
   \<and> (k \<in> set (m_evaluated m) \<longleftrightarrow> was_evaluated k (since_reset ops))"
proof (induction ops rule: rev_induct)
  case Nil
  then show ?case by (simp add: createMockClient_def since_reset_def was_evaluated_def map_get_def map_wf_def)
next
  case (snoc p ops)
  note frame = mock_evaluate_def mock_bool_def mock_string_def mock_evaluateFlag_def Let_def
  show ?case
  proof (cases p)
    case (MEvaluateAll c)
    let ?m = "fold mock_apply ops createMockClient"
    have "k \<in> fst ` set (m_flags ?m) \<longleftrightarrow> map_get (m_flags ?m) k \<noteq> None"
      using jm.get_eq_None_iff [of "m_flags ?m" k] by metis
    with MEvaluateAll snoc show ?thesis
      by (auto simp: mock_evaluateAll_def evaluateAll_fold js_set.elems_fold_add since_reset_snoc last_config_snoc
          was_evaluated_snoc asks_def Let_def simp del: not_None_eq)
  next
    case MReset
    then show ?thesis
      by (simp add: since_reset_snoc mock_reset_def was_evaluated_def map_get_def map_wf_def)
  qed (use snoc in \<open>auto simp: frame mock_enable_def mock_disable_def mock_setVariant_def since_reset_snoc last_config_snoc
        was_evaluated_snoc asks_def js_map_rules js_set.elems_add split: option.splits\<close>)
qed

text \<open>
  C18: the mock refines its history. After any sequence of calls on a new mock, \<open>evaluate\<close>
  answers with the configuration of the last \<open>enable\<close>, \<open>disable\<close> or \<open>setVariant\<close> of
  that key since the last \<open>reset\<close> (or the disabled default if there is none), and
  \<open>assertEvaluated\<close> passes, and \<open>assertNotEvaluated\<close> throws, exactly if since then the key
  was asked for directly or listed by \<open>evaluateAll\<close>.
\<close>

theorem mock_refines_history:
  "let m = fold mock_apply ops createMockClient; recent = since_reset ops in
   fst (mock_evaluate k c m) = (case last_config k recent of
       Some config \<Rightarrow> mock_result k config
     | None \<Rightarrow> \<lparr>r_key = k, r_enabled = False, r_value = None, r_variant = [], r_reason = ''mock_default'',
               r_evaluatedAt = MOCK_EVALUATED_AT\<rparr>)
   \<and> (assertEvaluated k m = Inr ()) = was_evaluated k recent
   \<and> (assertNotEvaluated k m = Inr ()) = (\<not> was_evaluated k recent)"
  using mock_run_state [of ops k]
  by (auto simp: Let_def mock_evaluate_def assertEvaluated_def assertNotEvaluated_def split: option.splits)

end
