(* ===== verification/Streaming.thy ===== *)
theory Streaming
  imports Complex_Main Client
begin

text \<open>
  The SSE stream of the SDK (\<open>sdk/js/src/streaming.ts\<close>): framing and decoding of events
  (\<open>processSSEBlock\<close>, \<open>readSSEStream\<close>), one connection attempt (\<open>attemptStream\<close>) and the
  reconnecting loop with exponential backoff (\<open>runConnectionLoop\<close>).

  What the code does to the outside is the list of the consumer callbacks it invokes, in
  order. The consumer may close the connection or throw inside a callback; both are given by
  a function \<open>react\<close>. The environment is explicit: the outcome of each fetch, the sequence
  of the reader's results with the time since the last one, and when the abort signal fires
  from outside. A run on a finite list of environment steps that is not over yet ends in
  \<open>Waiting\<close> or \<open>Running\<close>.
\<close>

section \<open>Events and callbacks\<close>

record FlagStateChangedEvent =
  ev_type :: string
  ev_project :: string
  ev_environment :: string
  ev_flagKey :: string
  ev_enabled :: bool
  ev_occurredAt :: string

datatype callback =
    OnFlagChange FlagStateChangedEvent
  | OnError js_error
  | OnConnected bool
  | OnDisconnect

text \<open>Which of the optional callbacks of \<open>StreamOptions\<close> are present.\<close>

record StreamOptions =
  has_onError :: bool
  has_onConnected :: bool
  has_onDisconnect :: bool

record reaction =
  closes :: bool
  throws :: bool

definition FlagStateChangedWireSchema :: schema where
  "FlagStateChangedWireSchema = ZObject
     [(''type'', ZLiteral ''flag.state_changed''), (''project'', ZString), (''environment'', ZString),
      (''flag_key'', ZString), (''enabled'', ZBoolean), (''occurred_at'', ZString)]"

definition INITIAL_BACKOFF_MS :: nat where "INITIAL_BACKOFF_MS = 1000"

definition MAX_BACKOFF_MS :: nat where "MAX_BACKOFF_MS = 30000"

definition HEARTBEAT_TIMEOUT_MS :: nat where "HEARTBEAT_TIMEOUT_MS = 90000"

section \<open>Actions: callbacks, the abort flag, exceptions\<close>

text \<open>
  An action takes the abort flag and returns the callbacks it invoked, the abort flag after
  it, and whether an exception left it.
\<close>

type_synonym act = "bool \<Rightarrow> callback list \<times> bool \<times> bool"

definition skip :: act where
  "skip = (\<lambda>ab. ([], ab, False))"

definition invoke :: "(callback \<Rightarrow> reaction) \<Rightarrow> callback \<Rightarrow> act" where
  "invoke react cb = (\<lambda>ab. ([cb], ab \<or> closes (react cb), throws (react cb)))"

definition invoke_if :: "bool \<Rightarrow> (callback \<Rightarrow> reaction) \<Rightarrow> callback \<Rightarrow> act" where
  "invoke_if present react cb = (if present then invoke react cb else skip)"

definition raise :: act where
  "raise = (\<lambda>ab. ([], ab, True))"

definition then_do :: "act \<Rightarrow> act \<Rightarrow> act" where
  "then_do a b = (\<lambda>ab. case a ab of (cs, ab', thr) \<Rightarrow>
     if thr then (cs, ab', True) else (case b ab' of (ds, ab'', t) \<Rightarrow> (cs @ ds, ab'', t)))"

fun for_each :: "('a \<Rightarrow> act) \<Rightarrow> 'a list \<Rightarrow> act" where
  "for_each f [] = skip"
| "for_each f (x # xs) = then_do (f x) (for_each f xs)"

lemma skip_then [simp]: "then_do skip b = b"
  by (auto simp: then_do_def skip_def)

lemma then_skip [simp]: "then_do a skip = a"
  by (auto simp: then_do_def skip_def split: prod.splits)

lemma then_do_assoc: "then_do (then_do a b) c = then_do a (then_do b c)"
  by (rule ext) (auto simp: then_do_def split: prod.splits)

lemma for_each_append: "for_each f (xs @ ys) = then_do (for_each f xs) (for_each f ys)"
  by (induction xs) (simp_all add: then_do_assoc)

section \<open>Decoding\<close>

definition decode_event :: "json \<Rightarrow> FlagStateChangedEvent option" where
  "decode_event j =
     (case (as_string (jfield ''type'' j), as_string (jfield ''project'' j), as_string (jfield ''environment'' j),
            as_string (jfield ''flag_key'' j), as_bool (jfield ''enabled'' j), as_string (jfield ''occurred_at'' j)) of
        (Some t, Some p, Some e, Some k, Some b, Some occ) \<Rightarrow>
          Some \<lparr>ev_type = t, ev_project = p, ev_environment = e, ev_flagKey = k, ev_enabled = b, ev_occurredAt = occ\<rparr>
      | _ \<Rightarrow> None)"

text \<open>
  One line of a block. The last case, data that passed the schema but lacks a field, does not
  occur when zod keeps its contract (\<open>parsed_event_decodes\<close> below).
\<close>

definition processSSELine ::
    "(schema \<Rightarrow> json option \<Rightarrow> json option) \<Rightarrow> StreamOptions \<Rightarrow> (callback \<Rightarrow> reaction) \<Rightarrow> string \<Rightarrow> act" where
  "processSSELine safeParse options react line =
     (if starts_with '':'' line \<or> js_trim line = [] then skip
      else if starts_with ''data:'' line then
        (let jsonStr = js_trim (drop 5 line) in
         if jsonStr = [] then skip
         else (case json_parse jsonStr of
             None \<Rightarrow> invoke_if (has_onError options) react
               (OnError (CuttlegateError ''invalid_response'' ''SSE data is not valid JSON''))
           | Some parsed \<Rightarrow>
               (case safeParse FlagStateChangedWireSchema (Some parsed) of
                  None \<Rightarrow> invoke_if (has_onError options) react
                    (OnError (CuttlegateError ''invalid_response'' ''SSE event has unexpected shape''))
                | Some wire \<Rightarrow>
                    (case decode_event wire of
                       Some event \<Rightarrow> invoke react (OnFlagChange event)
                     | None \<Rightarrow> raise))))
      else skip)"

definition processSSEBlock ::
    "(schema \<Rightarrow> json option \<Rightarrow> json option) \<Rightarrow> StreamOptions \<Rightarrow> (callback \<Rightarrow> reaction) \<Rightarrow> string \<Rightarrow> act" where
  "processSSEBlock safeParse options react block =
     for_each (processSSELine safeParse options react) (js_split nl block)"

section \<open>Reading the stream\<close>

text \<open>The complete blocks at the front of the buffer, and what is left of it.\<close>

function sse_blocks :: "string \<Rightarrow> string list \<times> string" where
  "sse_blocks buffer =
     (case js_index_of [nl, nl] buffer of
        None \<Rightarrow> ([], buffer)
      | Some boundary \<Rightarrow>
          (case sse_blocks (drop (boundary + 2) buffer) of
             (blocks, rest) \<Rightarrow> (take boundary buffer # blocks, rest)))"
  by pat_completeness auto
termination
  by (relation "measure length") (auto dest!: js_index_of_SomeD)

declare sse_blocks.simps [simp del]

datatype read_result = Chunk string | ReadDone | ReadError

text \<open>
  One \<open>reader.read()\<close>: the time it took, its result, and whether the signal was aborted from
  outside meanwhile.
\<close>

record read_step =
  rd_gap :: nat
  rd_result :: read_result
  rd_abort :: bool

datatype stream_end = Waiting string | Ended | Threw

text \<open>The heartbeat timer cancels the reader, whose pending read then reports the end.\<close>

definition heartbeat :: "read_step \<Rightarrow> read_result" where
  "heartbeat e = (if HEARTBEAT_TIMEOUT_MS \<le> rd_gap e then ReadDone else rd_result e)"

fun readSSEStream ::
    "(string \<Rightarrow> act) \<Rightarrow> string \<Rightarrow> read_step list \<Rightarrow> bool \<Rightarrow> callback list \<times> bool \<times> stream_end" where
  "readSSEStream process buffer [] ab = ([], ab, if ab then Ended else Waiting buffer)"
| "readSSEStream process buffer (e # es) ab =
     (if ab then ([], ab, Ended)
      else
        (case heartbeat e of
           ReadError \<Rightarrow> ([], rd_abort e, Threw)
         | ReadDone \<Rightarrow> ([], rd_abort e, Ended)
         | Chunk value \<Rightarrow>
             (if rd_abort e then ([], True, Ended)
              else
                (case sse_blocks (buffer @ value) of
                   (blocks, rest) \<Rightarrow>
                     (case for_each process blocks False of
                        (cs, ab', True) \<Rightarrow> (cs, ab', Threw)
                      | (cs, ab', False) \<Rightarrow>
                          (case readSSEStream process rest es ab' of
                             (ds, ab'', en) \<Rightarrow> (cs @ ds, ab'', en)))))))"

section \<open>One attempt\<close>

datatype StreamResult = Reconnect | Terminal | Closed

text \<open>The outcome of the stream request: rejected, or a status and whether there is a body.\<close>

datatype stream_fetch = FetchRejected | FetchResponse nat bool

record attempt_env =
  at_rand :: rat
  at_sleep_abort :: bool
  at_fetch :: stream_fetch
  at_fetch_abort :: bool
  at_reads :: "read_step list"

text \<open>An attempt gives a result, is still reading, or dies of an exception of a callback.\<close>

datatype attempt_end = Result StreamResult | Reading | Crashed

definition status_ok :: "nat \<Rightarrow> bool" where
  "status_ok n \<longleftrightarrow> 200 \<le> n \<and> n \<le> 299"

definition attemptStream ::
    "(string \<Rightarrow> act) \<Rightarrow> StreamOptions \<Rightarrow> (callback \<Rightarrow> reaction) \<Rightarrow> attempt_env \<Rightarrow> bool
       \<Rightarrow> callback list \<times> bool \<times> attempt_end" where
  "attemptStream process options react env isReconnect =
     (let ab = at_fetch_abort env in
      case at_fetch env of
        FetchRejected \<Rightarrow> ([], ab, Result (if ab then Closed else Reconnect))
      | FetchResponse st has_body \<Rightarrow>
          (if st = 401 \<or> st = 403 then
             (case invoke_if (has_onError options) react
                (OnError (CuttlegateError (if st = 401 then ''unauthorized'' else ''forbidden'')
                   (''Server returned '' @ show_nat st))) ab of
                (cs, ab', thr) \<Rightarrow> (cs, ab', if thr then Crashed else Result Terminal))
           else if \<not> status_ok st then ([], ab, Result Reconnect)
           else if \<not> has_body then ([], ab, Result Reconnect)
           else
             (case invoke_if (has_onConnected options) react (OnConnected isReconnect) ab of
                (cs, ab', True) \<Rightarrow> (cs, ab', Crashed)
              | (cs, ab', False) \<Rightarrow>
                  (case readSSEStream process [] (at_reads env) ab' of
                     (ds, ab'', Waiting _) \<Rightarrow> (cs @ ds, ab'', Reading)
                   | (ds, ab'', _) \<Rightarrow> (cs @ ds, ab'', Result (if ab'' then Closed else Reconnect))))))"

section \<open>The connection loop\<close>

definition backoff_base :: "nat \<Rightarrow> nat" where
  "backoff_base attempt = min (INITIAL_BACKOFF_MS * 2 ^ attempt) MAX_BACKOFF_MS"

definition backoffDelay :: "rat \<Rightarrow> nat \<Rightarrow> rat" where
  "backoffDelay rnd attempt = rnd * of_nat (backoff_base attempt)"

datatype log = Sleep rat | Fetch | Call callback

datatype loop_end = Stopped | Running | Died

fun runConnectionLoop ::
    "(string \<Rightarrow> act) \<Rightarrow> StreamOptions \<Rightarrow> (callback \<Rightarrow> reaction) \<Rightarrow> nat \<Rightarrow> bool \<Rightarrow> attempt_env list \<Rightarrow> bool
       \<Rightarrow> log list \<times> loop_end" where
  "runConnectionLoop process options react attempt hasConnectedBefore [] ab =
     ([], if ab then Stopped else Running)"
| "runConnectionLoop process options react attempt hasConnectedBefore (env # envs) ab =
     (if ab then ([], Stopped)
      else
        (let sleep = (if 0 < attempt then [Sleep (backoffDelay (at_rand env) (attempt - 1))] else []) in
         if 0 < attempt \<and> at_sleep_abort env then (sleep, Stopped)
         else
           (case attemptStream process options react env hasConnectedBefore of
              (cs, ab', res) \<Rightarrow>
                (let calls = sleep @ Fetch # map Call cs in
                 case res of
                   Reading \<Rightarrow> (calls, Running)
                 | Crashed \<Rightarrow> (calls, Died)
                 | Result Closed \<Rightarrow> (calls, Stopped)
                 | Result Terminal \<Rightarrow> (calls, Stopped)
                 | Result Reconnect \<Rightarrow>
                     (case invoke_if (hasConnectedBefore \<and> has_onDisconnect options) react OnDisconnect ab' of
                        (ds, ab'', True) \<Rightarrow> (calls @ map Call ds, Died)
                      | (ds, ab'', False) \<Rightarrow>
                          (case runConnectionLoop process options react (attempt + 1) True envs ab'' of
                             (ls, en) \<Rightarrow> (calls @ map Call ds @ ls, en)))))))"

definition connectStream ::
    "(schema \<Rightarrow> json option \<Rightarrow> json option) \<Rightarrow> CuttlegateConfig \<Rightarrow> StreamOptions \<Rightarrow> (callback \<Rightarrow> reaction)
       \<Rightarrow> attempt_env list \<Rightarrow> (js_error, request \<times> log list \<times> loop_end) result" where
  "connectStream safeParse config options react envs =
     await (validate_config config) (\<lambda>_.
       Inr (\<lparr>url = env_url config ''/flags/stream'', http_method = ''GET'',
             headers = [(''Authorization'', ''Bearer '' @ c_token config), (''Accept'', ''text/event-stream'')],
             req_body = None\<rparr>,
            runConnectionLoop (processSSEBlock safeParse options react) options react 0 False envs False))"

section \<open>Framing\<close>

lemma sse_blocks_None: "js_index_of [nl, nl] b = None \<Longrightarrow> sse_blocks b = ([], b)"
  by (simp add: sse_blocks.simps)

lemma sse_blocks_Some:
  "js_index_of [nl, nl] b = Some i \<Longrightarrow>
     sse_blocks b = (take i b # fst (sse_blocks (drop (i + 2) b)), snd (sse_blocks (drop (i + 2) b)))"
  by (subst sse_blocks.simps) (simp add: case_prod_beta)

text \<open>
  Framing is compositional: consuming a buffer that grows is the same as consuming the whole
  text at once.
\<close>

lemma sse_blocks_append:
  "sse_blocks (b @ c) =
     (fst (sse_blocks b) @ fst (sse_blocks (snd (sse_blocks b) @ c)), snd (sse_blocks (snd (sse_blocks b) @ c)))"
proof (induction b rule: sse_blocks.induct)
  case (1 b)
  show ?case
  proof (cases "js_index_of [nl, nl] b")
    case None
    then show ?thesis by (simp add: sse_blocks_None)
  next
    case (Some i)
    then have "i + 2 \<le> length b" using js_index_of_SomeD [OF Some] by simp
    then have "take i (b @ c) = take i b" "drop (i + 2) (b @ c) = drop (i + 2) b @ c" by simp_all
    with "1.IH" [OF Some] sse_blocks_Some [OF Some] sse_blocks_Some [OF js_index_of_append [OF Some]]
    show ?thesis by simp
  qed
qed

lemma sse_blocks_rest: "sse_blocks (snd (sse_blocks b)) = ([], snd (sse_blocks b))"
proof (induction b rule: sse_blocks.induct)
  case (1 b)
  then show ?case
    by (cases "js_index_of [nl, nl] b") (simp_all add: sse_blocks_None sse_blocks_Some)
qed

lemma sse_blocks_frame:
  assumes "nl \<notin> set u"
  shows "sse_blocks (u @ nl # nl # s) = (u # fst (sse_blocks s), snd (sse_blocks s))"
  using sse_blocks_Some [OF js_index_of_two [OF assms]] by simp

text \<open>Reads that bring data in time, with no abort.\<close>

definition chunk_step :: "read_step \<Rightarrow> bool" where
  "chunk_step e \<longleftrightarrow> rd_gap e < HEARTBEAT_TIMEOUT_MS \<and> \<not> rd_abort e \<and> (case rd_result e of Chunk _ \<Rightarrow> True | _ \<Rightarrow> False)"

definition chunk_bytes :: "read_step \<Rightarrow> string" where
  "chunk_bytes e = (case rd_result e of Chunk c \<Rightarrow> c | _ \<Rightarrow> [])"

definition quiet :: "act \<Rightarrow> bool" where
  "quiet a \<longleftrightarrow> (\<forall>ab. \<exists>cs. a ab = (cs, ab, False))"

lemma quietE:
  assumes "quiet a"
  obtains cs where "a ab = (cs, ab, False)"
  using assms by (auto simp: quiet_def)

lemma quiet_then_do: "quiet a \<Longrightarrow> quiet b \<Longrightarrow> quiet (then_do a b)"
  unfolding quiet_def
proof
  fix ab
  assume "\<forall>ab. \<exists>cs. a ab = (cs, ab, False)" and "\<forall>ab. \<exists>cs. b ab = (cs, ab, False)"
  then obtain cs ds where "a ab = (cs, ab, False)" "b ab = (ds, ab, False)" by blast
  then show "\<exists>cs. then_do a b ab = (cs, ab, False)" by (simp add: then_do_def)
qed

lemma quiet_skip [simp]: "quiet skip"
  by (simp add: quiet_def skip_def)

lemma quiet_for_each: "(\<And>x. x \<in> set xs \<Longrightarrow> quiet (f x)) \<Longrightarrow> quiet (for_each f xs)"
  by (induction xs) (auto intro: quiet_then_do)

lemma readSSEStream_chunks:
  assumes "\<And>b. quiet (process b)" and "list_all chunk_step es"
    and "sse_blocks buffer = ([], buffer)"
  shows "readSSEStream process buffer es False =
    (let (blocks, rest) = sse_blocks (buffer @ concat (map chunk_bytes es))
     in (fst (for_each process blocks False), False, Waiting rest))"
  using assms(2,3)
proof (induction es arbitrary: buffer)
  case Nil
  then show ?case by (simp add: skip_def)
next
  case (Cons e es)
  obtain c where c: "heartbeat e = Chunk c" "\<not> rd_abort e" "chunk_bytes e = c"
    using Cons.prems(1) by (auto simp: chunk_step_def heartbeat_def chunk_bytes_def split: read_result.splits)
  obtain bs r where br: "sse_blocks (buffer @ c) = (bs, r)" by fastforce
  then have r: "sse_blocks r = ([], r)" using sse_blocks_rest [of "buffer @ c"] by simp
  obtain cs where cs: "for_each process bs False = (cs, False, False)"
    using quietE [OF quiet_for_each [of bs process]] assms(1) by metis
  obtain bs2 r2 where br2: "sse_blocks (r @ concat (map chunk_bytes es)) = (bs2, r2)" by fastforce
  have "sse_blocks (buffer @ concat (map chunk_bytes (e # es))) = (bs @ bs2, r2)"
    using sse_blocks_append [of "buffer @ c" "concat (map chunk_bytes es)"] br br2 c(3) by simp
  moreover have "readSSEStream process r es False = (fst (for_each process bs2 False), False, Waiting r2)"
    using Cons.IH [OF _ r] Cons.prems(1) br2 by simp
  ultimately show ?case
    using c cs br by (simp add: for_each_append then_do_def case_prod_beta)
qed

section \<open>Events on the wire\<close>

definition event_json :: "FlagStateChangedEvent \<Rightarrow> json" where
  "event_json e = JObj [(''type'', JStr (ev_type e)), (''project'', JStr (ev_project e)),
     (''environment'', JStr (ev_environment e)), (''flag_key'', JStr (ev_flagKey e)),
     (''enabled'', JBool (ev_enabled e)), (''occurred_at'', JStr (ev_occurredAt e))]"

lemma plain_event_json: "plain_json (event_json e)"
  by (simp add: event_json_def)

lemma decode_event_json: "decode_event (event_json e) = Some e"
  by (cases e) (simp add: decode_event_def event_json_def decode_defs(2-7))

context zod
begin

lemma parse_event_json:
  "ev_type e = ''flag.state_changed'' \<Longrightarrow>
     safeParse FlagStateChangedWireSchema (Some (event_json e)) = Some (event_json e)"
  by (simp add: FlagStateChangedWireSchema_def z_rules event_json_def map_get_def)

lemma parsed_event_decodes:
  assumes "safeParse FlagStateChangedWireSchema (Some j) = Some d"
  shows "\<exists>e. decode_event d = Some e \<and> ev_type e = ''flag.state_changed''"
  using assms unfolding FlagStateChangedWireSchema_def z_object
  by (auto simp: all_some_eq_Some z_string_Some z_boolean_Some z_literal Cons_eq_map_conv decode_event_def
      decode_defs(2-7) split: json.splits if_splits)

text \<open>A consumer that neither closes nor throws is never cut off.\<close>

lemma quiet_processSSELine:
  assumes "\<And>cb. \<not> closes (react cb) \<and> \<not> throws (react cb)"
  shows "quiet (processSSELine safeParse options react line)"
proof -
  have inv: "quiet (invoke react cb)" "quiet (invoke_if b react cb)" for cb b
    using assms by (auto simp: quiet_def invoke_def invoke_if_def skip_def)
  show ?thesis
    using inv by (auto simp: processSSELine_def Let_def dest!: parsed_event_decodes split: option.splits)
qed

lemma quiet_processSSEBlock:
  "(\<And>cb. \<not> closes (react cb) \<and> \<not> throws (react cb)) \<Longrightarrow> quiet (processSSEBlock safeParse options react block)"
  unfolding processSSEBlock_def by (intro quiet_for_each quiet_processSSELine)

end

text \<open>What a server writes: an event, a comment, or a data line that is not JSON.\<close>

datatype item = Event FlagStateChangedEvent | Comment string | Malformed string

fun item_line :: "item \<Rightarrow> string" where
  "item_line (Event e) = ''data: '' @ json_stringify (event_json e)"
| "item_line (Comment c) = '':'' @ c"
| "item_line (Malformed s) = ''data: '' @ s"

definition frame :: "item \<Rightarrow> string" where
  "frame i = item_line i @ [nl, nl]"

fun item_ok :: "item \<Rightarrow> bool" where
  "item_ok (Event e) = (ev_type e = ''flag.state_changed'')"
| "item_ok (Comment c) = (nl \<notin> set c)"
| "item_ok (Malformed s) = (nl \<notin> set s \<and> js_trim s \<noteq> [] \<and> json_parse (js_trim s) = None)"

fun item_calls :: "StreamOptions \<Rightarrow> item \<Rightarrow> callback list" where
  "item_calls opts (Event e) = [OnFlagChange e]"
| "item_calls opts (Comment c) = []"
| "item_calls opts (Malformed s) =
     (if has_onError opts then [OnError (CuttlegateError ''invalid_response'' ''SSE data is not valid JSON'')] else [])"

lemma json_stringify_obj_ends: "\<exists>m. json_stringify (event_json e) = CHR ''{'' # m @ [CHR ''}'']"
  unfolding event_json_def json_stringify_JObj by (metis append_Cons append_Nil)

lemma trim_event: "js_trim (json_stringify (event_json e)) = json_stringify (event_json e)"
proof -
  obtain m where "json_stringify (event_json e) = CHR ''{'' # m @ [CHR ''}'']"
    using json_stringify_obj_ends by blast
  then show ?thesis by (simp add: js_trim_visible visible_def)
qed

lemma data_line_visible: "js_trim (''data: '' @ s) \<noteq> []"
proof -
  have "CHR ''d'' \<in> set (js_trim (''data: '' @ s))"
    by (rule js_trim_keeps) (simp_all add: visible_def)
  then show ?thesis by auto
qed

lemma item_line_no_nl: "item_ok i \<Longrightarrow> nl \<notin> set (item_line i)"
  by (cases i) (auto simp: json_stringify_no_nl [OF plain_event_json])

lemma processSSELine_item:
  assumes "zod safeParse" and "item_ok i"
  shows "processSSELine safeParse opts react (item_line i) = for_each (invoke react) (item_calls opts i)"
proof (cases i)
  case (Event e)
  have "json_stringify (event_json e) \<noteq> []" using json_stringify_obj_ends [of e] by auto
  then show ?thesis
    using Event assms data_line_visible [of "json_stringify (event_json e)"]
      zod.parse_event_json [OF assms(1)] json_parse_stringify [OF plain_event_json]
    by (simp add: processSSELine_def js_trim_space trim_event decode_event_json)
next
  case (Malformed s)
  then show ?thesis using assms data_line_visible [of s]
    by (simp add: processSSELine_def js_trim_space invoke_if_def)
qed (simp add: processSSELine_def)

lemma sse_blocks_frames:
  "list_all item_ok items \<Longrightarrow> sse_blocks (concat (map frame items)) = (map item_line items, [])"
proof (induction items)
  case (Cons i items)
  have "frame i = item_line i @ [nl, nl]" by (simp add: frame_def)
  with Cons show ?case using sse_blocks_frame [OF item_line_no_nl, of i "concat (map frame items)"]
    by simp
qed (simp add: sse_blocks_None)

lemma for_each_invoke:
  assumes "\<And>cb. \<not> closes (react cb) \<and> \<not> throws (react cb)"
  shows "for_each (invoke react) cs ab = (cs, ab, False)"
  using assms by (induction cs) (auto simp: then_do_def invoke_def skip_def)

lemma for_each_items:
  assumes "zod safeParse" and "\<And>cb. \<not> closes (react cb) \<and> \<not> throws (react cb)" and "list_all item_ok items"
  shows "for_each (processSSEBlock safeParse opts react) (map item_line items) ab =
    (concat (map (item_calls opts) items), ab, False)"
  using assms(3)
proof (induction items)
  case (Cons i items)
  then have "processSSEBlock safeParse opts react (item_line i) = for_each (invoke react) (item_calls opts i)"
    using processSSELine_item [OF assms(1)]
    by (simp add: processSSEBlock_def js_split_no_sep item_line_no_nl)
  with Cons show ?case by (simp add: then_do_def for_each_invoke [OF assms(2)])
qed (simp add: skip_def)

section \<open>Properties of the reader\<close>

lemma readSSEStream_zod:
  assumes "zod safeParse" and "\<And>cb. \<not> closes (react cb) \<and> \<not> throws (react cb)" and "list_all chunk_step es"
  shows "readSSEStream (processSSEBlock safeParse opts react) [] es False =
    (let (blocks, rest) = sse_blocks (concat (map chunk_bytes es))
     in (fst (for_each (processSSEBlock safeParse opts react) blocks False), False, Waiting rest))"
  using readSSEStream_chunks [where process = "processSSEBlock safeParse opts react" and buffer = "[]"]
    zod.quiet_processSSEBlock [OF assms(1,2)] assms(3)
  by (simp add: sse_blocks_None)

text \<open>
  C2: the stream delivers every event exactly once and in order. Whatever the way the network
  cuts the server's bytes into chunks, even inside a character or between the two line feeds
  of a frame, a consumer that neither closes nor throws sees exactly the events the server
  wrote, in that order; comments are dropped, a line that is not JSON is reported through
  \<open>onError\<close> (when present) and loses nothing that follows, and nothing is left in the buffer.
\<close>

theorem stream_delivers:
  assumes "zod safeParse" and "\<And>cb. \<not> closes (react cb) \<and> \<not> throws (react cb)"
    and "list_all item_ok items" and "list_all chunk_step es"
    and "concat (map chunk_bytes es) = concat (map frame items)"
  shows "readSSEStream (processSSEBlock safeParse opts react) [] es False =
    (concat (map (item_calls opts) items), False, Waiting [])"
  using sse_blocks_frames [OF assms(3)] for_each_items [OF assms(1,2,3)] assms(5)
  by (simp add: readSSEStream_zod [OF assms(1,2,4)])

definition demo_event :: FlagStateChangedEvent where
  "demo_event = \<lparr>ev_type = ''flag.state_changed'', ev_project = ''p'', ev_environment = ''e'',
     ev_flagKey = ''dark'', ev_enabled = False, ev_occurredAt = ''t1''\<rparr>"

definition plain_reaction :: "callback \<Rightarrow> reaction" where
  "plain_reaction = (\<lambda>_. \<lparr>closes = False, throws = False\<rparr>)"

definition demo_options :: StreamOptions where
  "demo_options = \<lparr>has_onError = True, has_onConnected = True, has_onDisconnect = True\<rparr>"

definition demo_read :: "string \<Rightarrow> read_step" where
  "demo_read c = \<lparr>rd_gap = 10, rd_result = Chunk c, rd_abort = False\<rparr>"

lemma demo_read_ok: "chunk_step (demo_read c)" "chunk_bytes (demo_read c) = c"
  by (simp_all add: demo_read_def chunk_step_def chunk_bytes_def HEARTBEAT_TIMEOUT_MS_def)

theorem stream_delivers_witness:
  "readSSEStream (processSSEBlock zod_parse demo_options plain_reaction) []
     (map (\<lambda>c. demo_read [c]) (frame (Event demo_event) @ frame (Comment ''ping''))) False
   = ([OnFlagChange demo_event], False, Waiting [])"
proof -
  let ?s = "frame (Event demo_event) @ frame (Comment ''ping'')"
  have "concat (map chunk_bytes (map (\<lambda>c. demo_read [c]) ?s)) = ?s"
    by (simp add: o_def demo_read_ok)
  moreover have "list_all chunk_step (map (\<lambda>c. demo_read [c]) ?s)"
    by (auto simp: list_all_iff demo_read_ok)
  ultimately show ?thesis
    using stream_delivers [OF zp.zod_axioms, of plain_reaction "[Event demo_event, Comment ''ping'']"
        "map (\<lambda>c. demo_read [c]) ?s" demo_options]
    by (simp add: plain_reaction_def demo_event_def)
qed



section \<open>Properties of the connection loop\<close>

text \<open>
  The backoff doubles from one second and is capped at thirty: the \<open>n\<close>-th delay is a
  fraction \<open>rnd\<close> (full jitter) of \<open>min (1000 * 2 ^ n) 30000\<close> milliseconds, so with
  \<open>Math.random()\<close> in \<open>[0, 1)\<close> it is never negative, always below thirty seconds, and from
  the sixth delay on the bound is exactly thirty seconds.
\<close>

theorem backoffDelay_bounds:
  assumes "0 \<le> rnd" and "rnd < 1"
  shows "0 \<le> backoffDelay rnd n \<and> backoffDelay rnd n < of_nat (backoff_base n) \<and> backoff_base n \<le> 30000
    \<and> backoff_base n \<le> backoff_base (Suc n) \<and> (n \<le> 4 \<longrightarrow> backoff_base n = 1000 * 2 ^ n)
    \<and> (5 \<le> n \<longrightarrow> backoff_base n = 30000)"
proof -
  have pos: "0 < backoff_base n" by (simp add: backoff_base_def INITIAL_BACKOFF_MS_def MAX_BACKOFF_MS_def)
  have small: "n \<le> 4 \<Longrightarrow> (2::nat) ^ n \<le> 2 ^ 4" by (rule power_increasing) simp_all
  have large: "5 \<le> n \<Longrightarrow> (2::nat) ^ 5 \<le> 2 ^ n" by (rule power_increasing) simp_all
  have "backoffDelay rnd n < of_nat (backoff_base n)"
    using mult_strict_right_mono [OF assms(2), of "of_nat (backoff_base n)"] pos by (simp add: backoffDelay_def)
  moreover have "n \<le> 4 \<longrightarrow> backoff_base n = 1000 * 2 ^ n" "5 \<le> n \<longrightarrow> backoff_base n = 30000"
    using small large by (auto simp: backoff_base_def INITIAL_BACKOFF_MS_def MAX_BACKOFF_MS_def)
  moreover have "backoff_base n \<le> 30000" "backoff_base n \<le> backoff_base (Suc n)"
    by (simp_all add: backoff_base_def INITIAL_BACKOFF_MS_def MAX_BACKOFF_MS_def)
  moreover have "0 \<le> backoffDelay rnd n" using assms(1) by (simp add: backoffDelay_def)
  ultimately show ?thesis by blast
qed

theorem backoffDelay_bounds_witness: "0 \<le> backoffDelay (1 / 2) 3 \<and> backoffDelay (1 / 2) 3 < 8000"
  using backoffDelay_bounds [of "1 / 2" 3]
  by (simp add: backoff_base_def INITIAL_BACKOFF_MS_def MAX_BACKOFF_MS_def)

fun sleeps :: "log list \<Rightarrow> rat list" where
  "sleeps [] = []"
| "sleeps (Sleep d # ls) = d # sleeps ls"
| "sleeps (_ # ls) = sleeps ls"

lemma sleeps_append [simp]: "sleeps (xs @ ys) = sleeps xs @ sleeps ys"
  by (induction xs rule: sleeps.induct) auto

lemma sleeps_calls [simp]: "sleeps (map Call cs) = []"
  by (induction cs) auto

text \<open>The delays of the retries with the environments \<open>envs\<close>, from the \<open>a\<close>-th retry on.\<close>

fun planned :: "nat \<Rightarrow> attempt_env list \<Rightarrow> rat list" where
  "planned a [] = []"
| "planned a (e # envs) = backoffDelay (at_rand e) a # planned (Suc a) envs"

lemma run_sleeps_later:
  "\<exists>n. n \<le> length envs \<and> sleeps (fst (runConnectionLoop process opts react (Suc a) h envs ab)) = take n (planned a envs)"
proof (induction envs arbitrary: a h ab)
  case (Cons e envs)
  obtain cs ab' res where att: "attemptStream process opts react e h = (cs, ab', res)"
    by (metis prod_cases3)
  show ?case
  proof (cases "ab \<or> at_sleep_abort e \<or> res \<noteq> Result Reconnect")
    case True
    then have "sleeps (fst (runConnectionLoop process opts react (Suc a) h (e # envs) ab)) \<in>
        {[], [backoffDelay (at_rand e) a]}"
      using att by (auto simp: Let_def split: attempt_end.splits StreamResult.splits)
    then show ?thesis by (auto intro: exI [of _ 0] exI [of _ 1])
  next
    case False
    obtain ds ab'' thr where dis: "invoke_if (h \<and> has_onDisconnect opts) react OnDisconnect ab' = (ds, ab'', thr)"
      by (metis prod_cases3)
    obtain n where n: "n \<le> length envs"
      "sleeps (fst (runConnectionLoop process opts react (Suc (Suc a)) True envs ab'')) = take n (planned (Suc a) envs)"
      using Cons.IH by blast
    show ?thesis
    proof (cases thr)
      case True
      then show ?thesis using False att dis
        by (intro exI [of _ 1]) (simp add: Let_def)
    next
      case no: False
      then show ?thesis using False att dis n
        by (intro exI [of _ "Suc n"]) (simp add: Let_def case_prod_beta)
    qed
  qed
qed simp


text \<open>An action raises the abort flag exactly when a callback it invoked closes.\<close>

definition tracks :: "(callback \<Rightarrow> reaction) \<Rightarrow> act \<Rightarrow> bool" where
  "tracks react a \<longleftrightarrow> (\<forall>ab. case a ab of (cs, ab', t) \<Rightarrow> ab' = (ab \<or> (\<exists>cb \<in> set cs. closes (react cb))))"

lemma tracks_basic [simp]:
  "tracks react skip" "tracks react raise" "tracks react (invoke react cb)" "tracks react (invoke_if b react cb)"
  by (simp_all add: tracks_def skip_def raise_def invoke_def invoke_if_def)

lemma tracksD: "tracks react a \<Longrightarrow> a ab = (cs, ab', t) \<Longrightarrow> ab' = (ab \<or> (\<exists>cb \<in> set cs. closes (react cb)))"
  unfolding tracks_def by (drule spec [of _ ab]) simp

lemma tracks_then_do:
  assumes "tracks react a" and "tracks react b"
  shows "tracks react (then_do a b)"
  unfolding tracks_def
proof
  fix ab
  obtain cs ab1 t1 where a: "a ab = (cs, ab1, t1)" by (metis prod_cases3)
  obtain ds ab2 t2 where b: "b ab1 = (ds, ab2, t2)" by (metis prod_cases3)
  show "case then_do a b ab of (cs, ab', t) \<Rightarrow> ab' = (ab \<or> (\<exists>cb \<in> set cs. closes (react cb)))"
    using a b tracksD [OF assms(1) a] tracksD [OF assms(2) b] by (auto simp: then_do_def)
qed

lemma tracks_for_each: "(\<And>x. tracks react (f x)) \<Longrightarrow> tracks react (for_each f xs)"
  by (induction xs) (auto intro: tracks_then_do)

lemma tracks_processSSEBlock: "tracks react (processSSEBlock safeParse opts react block)"
proof -
  have "tracks react (processSSELine safeParse opts react line)" for line
    by (simp add: processSSELine_def Let_def split: option.splits)
  then show ?thesis unfolding processSSEBlock_def by (rule tracks_for_each)
qed

lemma readSSEStream_closes:
  assumes "\<And>b. tracks react (process b)"
    and "readSSEStream process buffer es ab = (cs, ab', en)" and "cb \<in> set cs" and "closes (react cb)"
  shows "ab'"
  using assms(2-)
proof (induction es arbitrary: buffer ab cs)
  case (Cons e es)
  then obtain vl bs rest where v: "heartbeat e = Chunk vl" "\<not> ab" "\<not> rd_abort e"
      "sse_blocks (buffer @ vl) = (bs, rest)"
    by (fastforce split: if_splits read_result.splits)
  obtain ds ab1 t where f: "for_each process bs False = (ds, ab1, t)" by (metis prod_cases3)
  have ab1: "ab1 = (\<exists>cb \<in> set ds. closes (react cb))"
    using tracksD [OF tracks_for_each [OF assms(1)] f] by simp
  show ?case
  proof (cases t)
    case True
    with Cons.prems v f ab1 show ?thesis by auto
  next
    case False
    obtain fs ab2 en' where r: "readSSEStream process rest es ab1 = (fs, ab2, en')" by (metis prod_cases3)
    have out: "cs = ds @ fs" "ab' = ab2" "en = en'" using Cons.prems(1) v f False r by auto
    show ?thesis
    proof (cases "cb \<in> set ds")
      case True
      with ab1 Cons.prems(3) have "ab1" by blast
      with r out show ?thesis by (cases es) auto
    next
      case False
      with Cons.prems(2,3) out r Cons.IH show ?thesis by auto
    qed
  qed
qed auto

lemma attemptStream_closes:
  assumes "\<And>b. tracks react (process b)"
    and "attemptStream process opts react env h = (cs, ab', res)" and "cb \<in> set cs" and "closes (react cb)"
  shows "ab'"
proof (cases "at_fetch env")
  case FetchRejected
  with assms(2,3) show ?thesis by (simp add: attemptStream_def Let_def)
next
  case (FetchResponse st has_body)
  show ?thesis
  proof (cases "st = 401 \<or> st = 403 \<or> \<not> status_ok st \<or> \<not> has_body")
    case True
    with FetchResponse assms(2-) show ?thesis
      by (auto simp: attemptStream_def Let_def invoke_if_def invoke_def skip_def split: if_splits)
  next
    case False
    obtain ds ab1 thr where c: "invoke_if (has_onConnected opts) react (OnConnected h) (at_fetch_abort env) = (ds, ab1, thr)"
      by (metis prod_cases3)
    obtain fs ab2 en where r: "readSSEStream process [] (at_reads env) ab1 = (fs, ab2, en)" by (metis prod_cases3)
    have keep: "ab1 \<Longrightarrow> ab2" using r by (cases "at_reads env") auto
    have d: "cb \<in> set ds \<Longrightarrow> ab1" using tracksD [OF tracks_basic(4) c] assms(4) by blast
    show ?thesis
    proof (cases thr)
      case True
      with FetchResponse False assms(2,3) c d show ?thesis by (simp add: attemptStream_def Let_def)
    next
      case no: False
      with FetchResponse False assms(2) c r have "cs = ds @ fs" "ab' = ab2"
        by (auto simp: attemptStream_def Let_def split: stream_end.splits)
      with assms(3,4) d keep readSSEStream_closes [OF assms(1) r] show ?thesis by auto
    qed
  qed
qed

text \<open>In a log, nothing but callbacks follows a callback that closes.\<close>

fun quiet_after_close :: "(callback \<Rightarrow> reaction) \<Rightarrow> log list \<Rightarrow> bool" where
  "quiet_after_close react [] = True"
| "quiet_after_close react (Call cb # ls) =
     (if closes (react cb) then list_all (\<lambda>l. l \<noteq> Fetch \<and> (\<forall>d. l \<noteq> Sleep d)) ls else quiet_after_close react ls)"
| "quiet_after_close react (_ # ls) = quiet_after_close react ls"

lemma quiet_after_close_calls:
  "quiet_after_close react (map Call cs @ ls) \<longleftrightarrow>
     (if \<exists>cb \<in> set cs. closes (react cb) then list_all (\<lambda>l. l \<noteq> Fetch \<and> (\<forall>d. l \<noteq> Sleep d)) ls
      else quiet_after_close react ls)"
  by (induction cs) (auto simp: list_all_iff)

lemma run_quiet_after_close:
  assumes "\<And>b. tracks react (process b)"
  shows "quiet_after_close react (fst (runConnectionLoop process opts react a h envs ab))"
proof (induction envs arbitrary: a h ab)
  case (Cons e envs)
  obtain cs ab' res where att: "attemptStream process opts react e h = (cs, ab', res)" by (metis prod_cases3)
  obtain ds ab'' thr where dis: "invoke_if (h \<and> has_onDisconnect opts) react OnDisconnect ab' = (ds, ab'', thr)"
    by (metis prod_cases3)
  have ab'': "ab'' = (ab' \<or> (\<exists>cb \<in> set ds. closes (react cb)))" using tracksD [OF tracks_basic(4) dis] .
  obtain ls en where run: "runConnectionLoop process opts react (a + 1) True envs ab'' = (ls, en)" by fastforce
  have stop: "ab'' \<Longrightarrow> ls = []" using run by (cases envs) auto
  have IH: "quiet_after_close react ls" using Cons.IH [of "a + 1" True ab''] run by simp
  have closed: "\<exists>cb \<in> set cs. closes (react cb) \<Longrightarrow> ab'" using attemptStream_closes [OF assms att] by blast
  have "quiet_after_close react (map Call cs)" "quiet_after_close react (map Call cs @ map Call ds)"
    by (simp_all add: quiet_after_close_calls [of _ _ "[]", simplified] quiet_after_close_calls list_all_iff)
  moreover have "quiet_after_close react (map Call cs @ map Call ds @ ls)"
    using closed stop ab'' IH by (auto simp: quiet_after_close_calls list_all_iff)
  ultimately show ?case
    using att dis run by (cases thr) (simp_all add: Let_def split: attempt_end.splits StreamResult.splits)
qed simp


text \<open>
  An authentication failure is terminal at any point of the loop. When the server answers
  401 or 403, \<open>onError\<close> (when present) is called exactly once with the matching code, no
  other callback follows, and the loop stops whatever the network would have offered next.
\<close>

theorem auth_error_terminal:
  assumes "at_fetch env = FetchResponse st has_body" and "st = 401 \<or> st = 403"
    and "\<not> (0 < attempt \<and> at_sleep_abort env)" and "\<not> throws (react (OnError
      (CuttlegateError (if st = 401 then ''unauthorized'' else ''forbidden'') (''Server returned '' @ show_nat st))))"
  shows "runConnectionLoop process opts react attempt before (env # envs) False =
    ((if 0 < attempt then [Sleep (backoffDelay (at_rand env) (attempt - 1))] else []) @ [Fetch] @
     (if has_onError opts then [Call (OnError
       (CuttlegateError (if st = 401 then ''unauthorized'' else ''forbidden'') (''Server returned '' @ show_nat st)))]
      else []), Stopped)"
  using assms by (auto simp: Let_def attemptStream_def invoke_if_def invoke_def skip_def)

definition demo_env :: "stream_fetch \<Rightarrow> read_step list \<Rightarrow> attempt_env" where
  "demo_env f rs = \<lparr>at_rand = 1 / 2, at_sleep_abort = False, at_fetch = f, at_fetch_abort = False, at_reads = rs\<rparr>"

theorem auth_error_terminal_witness:
  "snd (runConnectionLoop (processSSEBlock zod_parse demo_options plain_reaction) demo_options plain_reaction 2 True
     [demo_env (FetchResponse 403 True) [], demo_env (FetchResponse 200 True) []] False) = Stopped"
  using auth_error_terminal [of "demo_env (FetchResponse 403 True) []" 403 True 2 plain_reaction]
  by (simp add: demo_env_def plain_reaction_def)

lemma drop_step:
  assumes "attemptStream process opts react env before = (cs, ab', Result Reconnect)"
    and "\<not> throws (react OnDisconnect)" and "\<not> (0 < attempt \<and> at_sleep_abort env)"
  shows "runConnectionLoop process opts react attempt before (env # envs) False =
    (let ds = (if before \<and> has_onDisconnect opts then [OnDisconnect] else []);
         ab'' = (ab' \<or> ds \<noteq> [] \<and> closes (react OnDisconnect));
         r = runConnectionLoop process opts react (attempt + 1) True envs ab''
     in ((if 0 < attempt then [Sleep (backoffDelay (at_rand env) (attempt - 1))] else []) @ Fetch # map Call cs
         @ map Call ds @ fst r, snd r))"
  using assms by (auto simp: Let_def invoke_if_def invoke_def skip_def split: prod.splits)

text \<open>
  A dropped connection is reported by \<open>onDisconnect\<close> only when it was not the first
  attempt: the very first drop is silent, even if the stream had been connected, and from
  the second attempt on every failed attempt is reported, even if no connection was ever
  established.
\<close>

theorem drop_reported_after_first:
  assumes "attemptStream process opts react env before = (cs, False, Result Reconnect)"
    and "\<not> throws (react OnDisconnect)" and "\<not> closes (react OnDisconnect)"
    and "\<not> (0 < attempt \<and> at_sleep_abort env)" and "has_onDisconnect opts"
  shows "runConnectionLoop process opts react attempt before (env # envs) False =
    ((if 0 < attempt then [Sleep (backoffDelay (at_rand env) (attempt - 1))] else []) @ Fetch # map Call cs @ (if before then [Call OnDisconnect] else [])
       @ fst (runConnectionLoop process opts react (attempt + 1) True envs False),
     snd (runConnectionLoop process opts react (attempt + 1) True envs False))"
  using drop_step [OF assms(1,2,4)] assms(3,5) by (cases before) (simp_all add: Let_def)

definition demo_drop :: attempt_env where
  "demo_drop = demo_env (FetchResponse 200 True) [\<lparr>rd_gap = 1, rd_result = ReadDone, rd_abort = False\<rparr>]"

theorem drop_reported_after_first_witness:
  "fst (runConnectionLoop (processSSEBlock zod_parse demo_options plain_reaction) demo_options plain_reaction 0 False
     [demo_drop] False) = [Fetch, Call (OnConnected False)]"
proof -
  let ?p = "processSSEBlock zod_parse demo_options plain_reaction"
  have "attemptStream ?p demo_options plain_reaction demo_drop False = ([OnConnected False], False, Result Reconnect)"
    by (simp add: attemptStream_def demo_drop_def demo_env_def status_ok_def demo_options_def invoke_if_def
        invoke_def plain_reaction_def heartbeat_def HEARTBEAT_TIMEOUT_MS_def)
  from drop_reported_after_first [OF this, of 0 "[]"] show ?thesis
    by (simp add: plain_reaction_def demo_options_def)
qed

end
