(* ===== verification/Cached_Client.thy ===== *)
theory Cached_Client
  imports Streaming
begin

text \<open>
  The cached client (\<open>sdk/js/src/cached-client.ts\<close>): an in-memory cache seeded by one
  HTTP hydration and kept current by the SSE stream. The closure's variables are the record
  \<open>cc\<close>; every handler of the source (stream callbacks, promise continuations, the public
  operations) is a function on it, and \<open>cc_step\<close> is the relation of all their
  interleavings: each \<open>await\<close> or \<open>.then\<close> ends a step, so a hydration is several steps
  between which anything else may happen.

  What leaves the client is recorded in it: the calls of \<open>store.save\<close>, of subscribers and
  of \<open>options.onError\<close>. A subscriber is an identity (functions compare by reference); it may
  throw but does not call back into the client. A response body whose \<open>flags\<close> is an array
  of entries that lack the declared fields is outside the model (the code casts without
  checking).
\<close>

section \<open>State\<close>

datatype ready_state = Pending | Resolved | RejectedWith js_error

text \<open>Where the hydration is: awaiting the response, its body, the store's answer, or over.\<close>

datatype hydration = AwaitFetch | AwaitBody response | AwaitStore js_error | HydDone

record cc =
  cache :: "(string, EvalResult) js_map"
  subscribers :: "(string, nat list) js_map"
  sseBuffer :: "FlagStateChangedEvent list"
  hydrationComplete :: bool
  closed :: bool
  ready :: ready_state
  sseClosed :: bool
  hyd :: hydration
  rehydFetches :: nat
  rehydBodies :: "response list"
  saves :: "FlagStoreEntry list list"
  notified :: "(nat \<times> bool) list"
  reported :: "js_error list"

definition settle :: "ready_state \<Rightarrow> cc \<Rightarrow> cc" where
  "settle r st = (if ready st = Pending then st\<lparr>ready := r\<rparr> else st)"

definition closed_error :: js_error where
  "closed_error = CuttlegateError ''closed'' ''Client was closed before hydration completed''"

section \<open>Cache and store\<close>

definition populate :: "WireFlag list \<Rightarrow> string \<Rightarrow> (string, EvalResult) js_map" where
  "populate flags evaluatedAt = fold (\<lambda>flag. map_set (w_key flag) (to_result evaluatedAt flag)) flags []"

definition populateCache :: "WireFlag list \<times> string \<Rightarrow> cc \<Rightarrow> cc" where
  "populateCache data st = st\<lparr>cache := populate (fst data) (snd data)\<rparr>"

definition to_entry :: "EvalResult \<Rightarrow> FlagStoreEntry" where
  "to_entry r = \<lparr>e_key = r_key r, e_enabled = r_enabled r, e_value = r_value r, e_variant = r_variant r,
     e_reason = r_reason r, e_evaluatedAt = r_evaluatedAt r\<rparr>"

definition cacheToEntries :: "cc \<Rightarrow> FlagStoreEntry list" where
  "cacheToEntries st = map to_entry (map_values (cache st))"

text \<open>The cast of a parsed body to \<open>BulkEvaluateResponse\<close>.\<close>

datatype cast = Typed "WireFlag list \<times> string" | NotIterable | Untyped

definition cast_bulk :: "json \<Rightarrow> cast" where
  "cast_bulk j = (case decode_bulk j of
     Some data \<Rightarrow> Typed data
   | None \<Rightarrow> (case jfield ''flags'' j of Some (JArr _) \<Rightarrow> Untyped | Some (JStr _) \<Rightarrow> Untyped | _ \<Rightarrow> NotIterable))"

section \<open>Stream callbacks\<close>

text \<open>
  Subscribers are called in subscription order until one throws; \<open>thrown cb\<close> is what \<open>cb\<close>
  throws, if it does.
\<close>

fun notify :: "(nat \<Rightarrow> js_error option) \<Rightarrow> bool \<Rightarrow> nat list \<Rightarrow> (nat \<times> bool) list \<times> js_error option" where
  "notify thrown enabled [] = ([], None)"
| "notify thrown enabled (cb # cbs) =
     (case thrown cb of
        Some e \<Rightarrow> ([(cb, enabled)], Some e)
      | None \<Rightarrow> (case notify thrown enabled cbs of (ns, x) \<Rightarrow> ((cb, enabled) # ns, x)))"

definition applyCacheEvent ::
    "(nat \<Rightarrow> js_error option) \<Rightarrow> FlagStateChangedEvent \<Rightarrow> cc \<Rightarrow> cc \<times> js_error option" where
  "applyCacheEvent thrown event st =
     (case map_get (cache st) (ev_flagKey event) of
        None \<Rightarrow> (st, None)
      | Some existing \<Rightarrow>
          (let st1 = st\<lparr>cache := map_set (ev_flagKey event)
                 (existing\<lparr>r_enabled := ev_enabled event, r_reason := ''default''\<rparr>) (cache st)\<rparr>;
               st2 = st1\<lparr>saves := saves st1 @ [cacheToEntries st1]\<rparr>;
               cbs = (case map_get (subscribers st) (ev_flagKey event) of None \<Rightarrow> [] | Some cbs \<Rightarrow> cbs)
           in case notify thrown (ev_enabled event) cbs of
                (ns, x) \<Rightarrow> (st2\<lparr>notified := notified st2 @ ns\<rparr>, x)))"

definition onFlagChange ::
    "(nat \<Rightarrow> js_error option) \<Rightarrow> FlagStateChangedEvent \<Rightarrow> cc \<Rightarrow> cc \<times> js_error option" where
  "onFlagChange thrown event st =
     (if closed st then (st, None)
      else if \<not> hydrationComplete st then (st\<lparr>sseBuffer := sseBuffer st @ [event]\<rparr>, None)
      else applyCacheEvent thrown event st)"

definition report :: "bool \<Rightarrow> js_error \<Rightarrow> cc \<Rightarrow> cc" where
  "report wants_errors err st = (if wants_errors then st\<lparr>reported := reported st @ [err]\<rparr> else st)"

definition onSSEError :: "bool \<Rightarrow> js_error \<Rightarrow> cc \<Rightarrow> cc" where
  "onSSEError wants_errors err st = (if \<not> closed st then report wants_errors err st else st)"

definition onConnected :: "bool \<Rightarrow> cc \<Rightarrow> cc" where
  "onConnected reconnect st =
     (if \<not> reconnect \<or> closed st then st else st\<lparr>rehydFetches := rehydFetches st + 1\<rparr>)"

text \<open>The continuation of a re-hydration request, and of its \<open>res.json()\<close>.\<close>

definition rehydrate_response :: "bool \<Rightarrow> fetch_outcome \<Rightarrow> cc \<Rightarrow> cc" where
  "rehydrate_response wants_errors out st0 =
     (let st = st0\<lparr>rehydFetches := rehydFetches st0 - 1\<rparr> in
      case out of
        Rejected _ \<Rightarrow> st
      | Responded res \<Rightarrow>
          (if closed st then st
           else if \<not> res_ok res then
             (if status res = 401 then report wants_errors (CuttlegateError ''unauthorized'' ''Re-hydration returned 401'') st
              else if status res = 403 then report wants_errors (CuttlegateError ''forbidden'' ''Re-hydration returned 403'') st
              else st)
           else st\<lparr>rehydBodies := rehydBodies st @ [res]\<rparr>))"

definition rehydrate_body :: "response \<Rightarrow> cc \<Rightarrow> cc" where
  "rehydrate_body res st0 =
     (let st = st0\<lparr>rehydBodies := remove1 res (rehydBodies st0)\<rparr> in
      case res_json res of
        None \<Rightarrow> st
      | Some json \<Rightarrow>
          (if closed st then st
           else (case cast_bulk json of
                   Typed data \<Rightarrow> populateCache data st
                 | _ \<Rightarrow> st\<lparr>cache := []\<rparr>)))"

section \<open>Hydration\<close>

definition failHydration :: "js_error \<Rightarrow> cc \<Rightarrow> cc" where
  "failHydration err st = settle (RejectedWith err) (st\<lparr>sseClosed := True, closed := True, hyd := HydDone\<rparr>)"

text \<open>\<open>store.load()\<close> is called; its answer is a later step.\<close>

definition tryStoreFallback :: "js_error \<Rightarrow> cc \<Rightarrow> cc" where
  "tryStoreFallback err st = st\<lparr>hyd := AwaitStore err\<rparr>"

definition of_entry :: "FlagStoreEntry \<Rightarrow> EvalResult" where
  "of_entry e = \<lparr>r_key = e_key e, r_enabled = e_enabled e, r_value = e_value e, r_variant = e_variant e,
     r_reason = e_reason e, r_evaluatedAt = e_evaluatedAt e\<rparr>"

definition store_loaded :: "js_error \<Rightarrow> FlagStoreEntry list option \<Rightarrow> cc \<Rightarrow> cc" where
  "store_loaded err loaded st =
     (case loaded of
        None \<Rightarrow> failHydration err st
      | Some entries \<Rightarrow>
          (if entries \<noteq> [] then
             settle Resolved (st\<lparr>cache := fold (\<lambda>e. map_set (e_key e) (of_entry e)) entries [],
                                hydrationComplete := True, hyd := HydDone\<rparr>)
           else failHydration err st))"

definition reject_closed :: "cc \<Rightarrow> cc" where
  "reject_closed st = settle (RejectedWith closed_error) (st\<lparr>hyd := HydDone\<rparr>)"

definition hydration_catch :: "nat \<Rightarrow> js_error \<Rightarrow> cc \<Rightarrow> cc" where
  "hydration_catch timeout err st =
     (if closed st then reject_closed st
      else if is_DOMException err \<and> exc_name err = ''AbortError''
      then tryStoreFallback (CuttlegateError ''timeout'' (''Hydration timed out after '' @ show_nat timeout @ ''ms'')) st
      else tryStoreFallback (CuttlegateError ''network_error'' (message_or ''Hydration network request failed'' err)) st)"

definition hydrate_response :: "nat \<Rightarrow> fetch_outcome \<Rightarrow> cc \<Rightarrow> cc" where
  "hydrate_response timeout out st =
     (case out of
        Rejected err \<Rightarrow> hydration_catch timeout err st
      | Responded res \<Rightarrow>
          (if closed st then reject_closed st
           else if status res = 401
           then failHydration (CuttlegateError ''unauthorized'' ''Hydration returned 401 Unauthorized'') st
           else if status res = 403
           then failHydration (CuttlegateError ''forbidden'' ''Hydration returned 403 Forbidden'') st
           else if \<not> res_ok res
           then tryStoreFallback (CuttlegateError ''network_error'' (''Hydration returned '' @ show_nat (status res))) st
           else st\<lparr>hyd := AwaitBody res\<rparr>))"

fun drain :: "(nat \<Rightarrow> js_error option) \<Rightarrow> FlagStateChangedEvent list \<Rightarrow> cc \<Rightarrow> cc \<times> js_error option" where
  "drain thrown [] st = (st, None)"
| "drain thrown (event # events) st =
     (case applyCacheEvent thrown event st of
        (st', Some e) \<Rightarrow> (st', Some e)
      | (st', None) \<Rightarrow> drain thrown events st')"

definition hydrate_body :: "(nat \<Rightarrow> js_error option) \<Rightarrow> nat \<Rightarrow> response \<Rightarrow> cc \<Rightarrow> cc" where
  "hydrate_body thrown timeout res st =
     (case res_json res of
        None \<Rightarrow> tryStoreFallback (CuttlegateError ''invalid_response'' ''Hydration response is not valid JSON'') st
      | Some json \<Rightarrow>
          (if closed st then reject_closed st
           else
             (case cast_bulk json of
                Typed data \<Rightarrow>
                  (let st1 = (populateCache data st)\<lparr>hydrationComplete := True\<rparr> in
                   case drain thrown (sseBuffer st1) st1 of
                     (st2, Some err) \<Rightarrow> hydration_catch timeout err st2
                   | (st2, None) \<Rightarrow>
                       (let st3 = st2\<lparr>sseBuffer := []\<rparr>;
                            st4 = st3\<lparr>saves := saves st3 @ [cacheToEntries st3]\<rparr>
                        in settle Resolved (st4\<lparr>hyd := HydDone\<rparr>)))
              | _ \<Rightarrow> hydration_catch timeout (ErrorObj ''data.flags is not iterable'') (st\<lparr>cache := []\<rparr>))))"

section \<open>Public operations\<close>

definition cc_evaluateFlag :: "string \<Rightarrow> EvalContext \<Rightarrow> cc \<Rightarrow> FlagResult" where
  "cc_evaluateFlag key ctx st =
     (case map_get (cache st) key of
        None \<Rightarrow> \<lparr>f_enabled = False, f_value = None, f_variant = [], f_reason = ''not_found''\<rparr>
      | Some entry \<Rightarrow> \<lparr>f_enabled = r_enabled entry, f_value = r_value entry, f_variant = r_variant entry,
                       f_reason = r_reason entry\<rparr>)"

definition cc_evaluate :: "string \<Rightarrow> EvalContext \<Rightarrow> cc \<Rightarrow> EvalResult" where
  "cc_evaluate key ctx st =
     (case map_get (cache st) key of
        None \<Rightarrow> \<lparr>r_key = key, r_enabled = False, r_value = None, r_variant = [], r_reason = ''not_found'', r_evaluatedAt = []\<rparr>
      | Some entry \<Rightarrow> entry)"

definition cc_evaluateAll :: "EvalContext \<Rightarrow> cc \<Rightarrow> EvalResult list" where
  "cc_evaluateAll ctx st = map_values (cache st)"

definition cc_bool :: "string \<Rightarrow> EvalContext \<Rightarrow> cc \<Rightarrow> bool" where
  "cc_bool key ctx st = (r_variant (cc_evaluate key ctx st) = ''true'')"

definition cc_string :: "string \<Rightarrow> EvalContext \<Rightarrow> cc \<Rightarrow> string" where
  "cc_string key ctx st = r_variant (cc_evaluate key ctx st)"

definition cc_close :: "cc \<Rightarrow> cc" where
  "cc_close st = (if closed st then st else st\<lparr>closed := True, sseClosed := True\<rparr>)"

definition cc_subscribe :: "string \<Rightarrow> nat \<Rightarrow> cc \<Rightarrow> cc" where
  "cc_subscribe key cb st =
     (let cbs = (case map_get (subscribers st) key of None \<Rightarrow> [] | Some cbs \<Rightarrow> cbs)
      in st\<lparr>subscribers := map_set key (set_add cb cbs) (subscribers st)\<rparr>)"

definition cc_unsubscribe :: "string \<Rightarrow> nat \<Rightarrow> cc \<Rightarrow> cc" where
  "cc_unsubscribe key cb st =
     (case map_get (subscribers st) key of
        None \<Rightarrow> st
      | Some cbs \<Rightarrow> st\<lparr>subscribers := map_set key (set_del cb cbs) (subscribers st)\<rparr>)"

definition cc_init :: cc where
  "cc_init = \<lparr>cache = [], subscribers = [], sseBuffer = [], hydrationComplete = False, closed = False,
     ready = Pending, sseClosed = False, hyd = AwaitFetch, rehydFetches = 0, rehydBodies = [],
     saves = [], notified = [], reported = []\<rparr>"

text \<open>Construction: the configuration is checked, the stream opened, the hydration request sent.\<close>

definition createCachedClient ::
    "CuttlegateConfig \<Rightarrow> EvalContext option \<Rightarrow> (js_error, cc \<times> request) result" where
  "createCachedClient config context =
     await (validate_config config) (\<lambda>_.
       Inr (cc_init,
            \<lparr>url = env_url config ''/evaluate'', http_method = ''POST'',
             headers = [(''Content-Type'', ''application/json''), (''Authorization'', ''Bearer '' @ c_token config)],
             req_body = Some (json_stringify (context_json
               (case context of None \<Rightarrow> \<lparr>user_id = [], attributes = []\<rparr> | Some c \<Rightarrow> c)))\<rparr>))"

section \<open>Steps\<close>

text \<open>
  What can happen next: a stream callback (at any time, even after the stream was closed), a
  settled promise, or a call of the consumer. The guards say which promises are pending.
\<close>

datatype cc_event =
    SseEvent FlagStateChangedEvent
  | SseError js_error
  | SseConnected bool
  | HydrateResponse fetch_outcome
  | HydrateBody
  | StoreLoaded "FlagStoreEntry list option"
  | RehydrateResponse fetch_outcome
  | RehydrateBody response
  | CloseClient
  | Subscribe string nat
  | Unsubscribe string nat

definition in_model :: "response \<Rightarrow> bool" where
  "in_model res \<longleftrightarrow> (case res_json res of None \<Rightarrow> True | Some j \<Rightarrow> cast_bulk j \<noteq> Untyped)"

inductive cc_step :: "(nat \<Rightarrow> js_error option) \<Rightarrow> nat \<Rightarrow> bool \<Rightarrow> cc \<Rightarrow> cc_event \<Rightarrow> cc \<Rightarrow> bool"
  for thrown timeout wants_errors where
  sse_event: "cc_step thrown timeout wants_errors st (SseEvent ev) (fst (onFlagChange thrown ev st))"
| sse_error: "cc_step thrown timeout wants_errors st (SseError e) (onSSEError wants_errors e st)"
| sse_connected: "cc_step thrown timeout wants_errors st (SseConnected r) (onConnected r st)"
| hydrate_response: "hyd st = AwaitFetch \<Longrightarrow>
    cc_step thrown timeout wants_errors st (HydrateResponse out) (hydrate_response timeout out st)"
| hydrate_body: "hyd st = AwaitBody res \<Longrightarrow> in_model res \<Longrightarrow>
    cc_step thrown timeout wants_errors st HydrateBody (hydrate_body thrown timeout res st)"
| store_loaded: "hyd st = AwaitStore err \<Longrightarrow>
    cc_step thrown timeout wants_errors st (StoreLoaded es) (store_loaded err es st)"
| rehydrate_response: "0 < rehydFetches st \<Longrightarrow>
    cc_step thrown timeout wants_errors st (RehydrateResponse out) (rehydrate_response wants_errors out st)"
| rehydrate_body: "res \<in> set (rehydBodies st) \<Longrightarrow> in_model res \<Longrightarrow>
    cc_step thrown timeout wants_errors st (RehydrateBody res) (rehydrate_body res st)"
| close_client: "cc_step thrown timeout wants_errors st CloseClient (cc_close st)"
| subscribe: "cc_step thrown timeout wants_errors st (Subscribe k cb) (cc_subscribe k cb st)"
| unsubscribe: "cc_step thrown timeout wants_errors st (Unsubscribe k cb) (cc_unsubscribe k cb st)"

inductive_cases cc_step_cases: "cc_step thrown timeout wants_errors st ev st'"

inductive cc_run :: "(nat \<Rightarrow> js_error option) \<Rightarrow> nat \<Rightarrow> bool \<Rightarrow> cc \<Rightarrow> cc_event list \<Rightarrow> cc \<Rightarrow> bool"
  for thrown timeout wants_errors where
  run_nil: "cc_run thrown timeout wants_errors st [] st"
| run_snoc: "cc_run thrown timeout wants_errors st evs st' \<Longrightarrow> cc_step thrown timeout wants_errors st' ev st'' \<Longrightarrow>
    cc_run thrown timeout wants_errors st (evs @ [ev]) st''"

definition reachable :: "(nat \<Rightarrow> js_error option) \<Rightarrow> nat \<Rightarrow> bool \<Rightarrow> cc \<Rightarrow> bool" where
  "reachable thrown timeout wants_errors st \<longleftrightarrow> (\<exists>evs. cc_run thrown timeout wants_errors cc_init evs st)"

text \<open>Invariants of reachable states, one step at a time.\<close>

lemma reachable_invariant:
  assumes "reachable thrown timeout wants_errors st" and "I cc_init"
    and "\<And>st ev st'. I st \<Longrightarrow> cc_step thrown timeout wants_errors st ev st' \<Longrightarrow> I st'"
  shows "I st"
proof -
  obtain evs where "cc_run thrown timeout wants_errors cc_init evs st"
    using assms(1) by (auto simp: reachable_def)
  then show ?thesis
    using assms(2) by (induction rule: cc_run.induct) (blast intro: assms(3))+
qed

section \<open>Frames\<close>

lemma settle_fields [simp]:
  "cache (settle r st) = cache st" "subscribers (settle r st) = subscribers st" "sseBuffer (settle r st) = sseBuffer st"
  "hydrationComplete (settle r st) = hydrationComplete st" "closed (settle r st) = closed st"
  "sseClosed (settle r st) = sseClosed st" "hyd (settle r st) = hyd st" "saves (settle r st) = saves st"
  "notified (settle r st) = notified st" "rehydBodies (settle r st) = rehydBodies st"
  "ready (settle r st) = (if ready st = Pending then r else ready st)"
  by (simp_all add: settle_def)

lemma report_fields [simp]:
  "cache (report b e st) = cache st" "subscribers (report b e st) = subscribers st"
  "sseBuffer (report b e st) = sseBuffer st" "hydrationComplete (report b e st) = hydrationComplete st"
  "closed (report b e st) = closed st" "sseClosed (report b e st) = sseClosed st" "hyd (report b e st) = hyd st"
  "saves (report b e st) = saves st" "notified (report b e st) = notified st" "ready (report b e st) = ready st"
  by (simp_all add: report_def)

lemma applyCacheEvent_frame:
  assumes "applyCacheEvent thrown ev st = (st', x)"
  shows "subscribers st' = subscribers st \<and> sseBuffer st' = sseBuffer st \<and> hydrationComplete st' = hydrationComplete st
    \<and> closed st' = closed st \<and> ready st' = ready st \<and> sseClosed st' = sseClosed st \<and> hyd st' = hyd st
    \<and> reported st' = reported st"
  using assms by (auto simp: applyCacheEvent_def Let_def split: option.splits prod.splits)

lemma drain_frame:
  "drain thrown evs st = (st', x) \<Longrightarrow>
    subscribers st' = subscribers st \<and> sseBuffer st' = sseBuffer st \<and> hydrationComplete st' = hydrationComplete st
    \<and> closed st' = closed st \<and> ready st' = ready st \<and> sseClosed st' = sseClosed st \<and> hyd st' = hyd st"
proof (induction evs arbitrary: st)
  case (Cons ev evs)
  obtain st1 y where ap: "applyCacheEvent thrown ev st = (st1, y)" by fastforce
  from Cons ap applyCacheEvent_frame [OF ap] show ?case by (cases y) auto
qed auto

lemmas hydration_defs = hydrate_response_def hydration_catch_def tryStoreFallback_def failHydration_def reject_closed_def

section \<open>Well-formedness\<close>

definition cache_wf :: "(string, EvalResult) js_map \<Rightarrow> bool" where
  "cache_wf m \<longleftrightarrow> map_wf m \<and> (\<forall>(k, r) \<in> set m. r_key r = k)"

lemma cache_wf_get: "cache_wf m \<Longrightarrow> map_get m k = Some r \<Longrightarrow> r_key r = k"
  by (auto simp: cache_wf_def map_get_def dest: map_of_SomeD)

lemma cache_wf_iff: "cache_wf m \<longleftrightarrow> map_wf m \<and> (\<forall>k r. map_get m k = Some r \<longrightarrow> r_key r = k)"
proof
  assume wf: "cache_wf m"
  then have "map_wf m" by (simp add: cache_wf_def)
  with cache_wf_get [OF wf] show "map_wf m \<and> (\<forall>k r. map_get m k = Some r \<longrightarrow> r_key r = k)" by blast
qed (auto simp: cache_wf_def jm.mem_entries)

lemma cache_wf_empty [simp]: "cache_wf []"
  by (simp add: cache_wf_def map_wf_def)

lemma cache_wf_set: "cache_wf m \<Longrightarrow> r_key r = k \<Longrightarrow> cache_wf (map_set k r m)"
  by (auto simp: cache_wf_iff js_map_rules)

lemma cache_wf_fold: "cache_wf m \<Longrightarrow> (\<And>x. r_key (g x) = f x) \<Longrightarrow> cache_wf (fold (\<lambda>x. map_set (f x) (g x)) xs m)"
  by (induction xs arbitrary: m) (auto intro: cache_wf_set)

lemma cache_wf_populate: "cache_wf (populate fs t)"
  unfolding populate_def by (rule cache_wf_fold) (simp_all add: to_result_def)

lemma applyCacheEvent_wf: "cache_wf (cache st) \<Longrightarrow> cache_wf (cache (fst (applyCacheEvent thrown ev st)))"
  by (auto simp: applyCacheEvent_def Let_def cache_wf_get intro!: cache_wf_set split: option.splits prod.splits)

lemma drain_wf: "cache_wf (cache st) \<Longrightarrow> cache_wf (cache (fst (drain thrown evs st)))"
proof (induction evs arbitrary: st)
  case (Cons ev evs)
  obtain st1 x where ap: "applyCacheEvent thrown ev st = (st1, x)" by fastforce
  then have "cache_wf (cache st1)" using applyCacheEvent_wf [OF Cons.prems, of thrown ev] by simp
  with Cons.IH ap show ?case by (cases x) simp_all
qed simp

definition cc_inv :: "cc \<Rightarrow> bool" where
  "cc_inv st \<longleftrightarrow> cache_wf (cache st)
     \<and> map_wf (subscribers st) \<and> (\<forall>k cbs. map_get (subscribers st) k = Some cbs \<longrightarrow> distinct cbs)
     \<and> (ready st = Pending \<longleftrightarrow> hyd st \<noteq> HydDone)
     \<and> (ready st = Resolved \<longrightarrow> hydrationComplete st)
     \<and> (\<not> hydrationComplete st \<longrightarrow> saves st = [] \<and> notified st = [])
     \<and> (sseClosed st \<longrightarrow> closed st) \<and> (closed st \<longrightarrow> sseClosed st)"

lemma applyCacheEvent_inv:
  assumes "cc_inv st" and "hydrationComplete st"
  shows "cc_inv (fst (applyCacheEvent thrown ev st))"
proof -
  obtain st' x where st': "applyCacheEvent thrown ev st = (st', x)" by fastforce
  with assms applyCacheEvent_wf [of st thrown ev] applyCacheEvent_frame [OF st'] show ?thesis
    by (auto simp: cc_inv_def)
qed

lemma hydrate_body_inv:
  assumes inv: "cc_inv st" and hyd: "hyd st = AwaitBody res" and model: "in_model res"
  shows "cc_inv (hydrate_body thrown timeout res st)"
proof (cases "res_json res")
  case None
  then show ?thesis using inv hyd by (auto simp: hydrate_body_def cc_inv_def hydration_defs)
next
  case (Some json)
  show ?thesis
  proof (cases "closed st \<or> (\<forall>data. cast_bulk json \<noteq> Typed data)")
    case True
    then show ?thesis using inv hyd Some
      by (auto simp: hydrate_body_def cc_inv_def hydration_defs split: cast.splits)
  next
    case False
    then obtain data where data: "cast_bulk json = Typed data" "\<not> closed st" by auto
    let ?st1 = "(populateCache data st)\<lparr>hydrationComplete := True\<rparr>"
    obtain st2 x where dr: "drain thrown (sseBuffer st) ?st1 = (st2, x)" by fastforce
    have "cache_wf (cache st2)"
      using drain_wf [of ?st1 thrown "sseBuffer st"] dr by (simp add: populateCache_def cache_wf_populate)
    then show ?thesis using inv hyd Some data dr drain_frame [OF dr]
      by (cases x) (auto simp: hydrate_body_def cc_inv_def hydration_defs Let_def populateCache_def)
  qed
qed

lemma subscribe_inv: "cc_inv st \<Longrightarrow> cc_inv (cc_subscribe k cb st)"
  using js_set.wf_add
  by (fastforce simp: cc_subscribe_def cc_inv_def Let_def js_map_rules set_add_def split: option.splits if_splits)

lemma unsubscribe_inv: "cc_inv st \<Longrightarrow> cc_inv (cc_unsubscribe k cb st)"
  by (auto simp: cc_unsubscribe_def cc_inv_def js_map_rules set_del_def split: option.splits if_splits)

lemma store_loaded_inv: "cc_inv st \<Longrightarrow> hyd st = AwaitStore err \<Longrightarrow> cc_inv (store_loaded err es st)"
  by (auto simp: store_loaded_def cc_inv_def failHydration_def of_entry_def intro!: cache_wf_fold split: option.splits)

lemma rehydrate_body_inv: "cc_inv st \<Longrightarrow> cc_inv (rehydrate_body res st)"
  by (auto simp: rehydrate_body_def cc_inv_def Let_def populateCache_def cache_wf_populate split: option.splits cast.splits)

lemma cc_step_inv: "cc_inv st \<Longrightarrow> cc_step thrown timeout wants_errors st ev st' \<Longrightarrow> cc_inv st'"
proof (erule cc_step_cases)
  fix ev'
  assume "cc_inv st" "st' = fst (onFlagChange thrown ev' st)"
  then show ?thesis
    using applyCacheEvent_inv by (auto simp: onFlagChange_def) (auto simp: cc_inv_def)
next
  fix out
  assume "cc_inv st" "hyd st = AwaitFetch" "st' = hydrate_response timeout out st"
  then show ?thesis by (auto simp: cc_inv_def hydration_defs split: fetch_outcome.splits)
next
  fix out
  assume "cc_inv st" "st' = rehydrate_response wants_errors out st"
  then show ?thesis
    by (auto simp: cc_inv_def rehydrate_response_def Let_def report_def split: fetch_outcome.splits)
qed (auto simp: hydrate_body_inv subscribe_inv unsubscribe_inv store_loaded_inv rehydrate_body_inv,
     auto simp: cc_inv_def onSSEError_def onConnected_def cc_close_def report_def)

lemma cc_inv_init: "cc_inv cc_init"
  by (simp add: cc_inv_def cc_init_def map_wf_def map_get_def)

lemma cc_inv_reachable: "reachable thrown timeout wants_errors st \<Longrightarrow> cc_inv st"
  by (erule reachable_invariant) (auto intro: cc_inv_init cc_step_inv)

text \<open>
  C5: in every reachable state, whatever the interleaving of stream callbacks, promises and
  consumer calls: every cached result is stored once and under its own key; no subscriber is
  registered twice for a key; \<open>ready\<close> is pending exactly while the hydration runs, and when
  it resolved the hydration is complete; before that nothing was persisted and no subscriber
  called; and the stream is closed exactly when the client is.
\<close>

theorem cached_client_invariant:
  assumes "reachable thrown timeout wants_errors st"
  shows "distinct (map_keys (cache st)) \<and> (\<forall>k r. map_get (cache st) k = Some r \<longrightarrow> r_key r = k)
    \<and> (\<forall>k cbs. map_get (subscribers st) k = Some cbs \<longrightarrow> distinct cbs)
    \<and> (ready st = Pending \<longleftrightarrow> hyd st \<noteq> HydDone) \<and> (ready st = Resolved \<longrightarrow> hydrationComplete st)
    \<and> (\<not> hydrationComplete st \<longrightarrow> saves st = [] \<and> notified st = []) \<and> (sseClosed st \<longleftrightarrow> closed st)"
  using cc_inv_reachable [OF assms]
  by (auto simp: cc_inv_def cache_wf_iff map_wf_def map_keys_def)

theorem cached_client_invariant_witness: "distinct (map_keys (cache cc_init)) \<and> ready cc_init = Pending"
proof -
  have "reachable (\<lambda>_. None) 5000 True cc_init" by (auto simp: reachable_def intro: run_nil)
  from cached_client_invariant [OF this] show ?thesis by (simp add: cc_init_def)
qed

section \<open>No update is lost\<close>

definition last_event :: "FlagStateChangedEvent list \<Rightarrow> string \<Rightarrow> FlagStateChangedEvent option" where
  "last_event evs k = find (\<lambda>e. ev_flagKey e = k) (rev evs)"

definition overlay :: "FlagStateChangedEvent list \<Rightarrow> string \<Rightarrow> EvalResult \<Rightarrow> EvalResult" where
  "overlay evs k r = (case last_event evs k of
     None \<Rightarrow> r | Some e \<Rightarrow> r\<lparr>r_enabled := ev_enabled e, r_reason := ''default''\<rparr>)"

lemma overlay_Nil [simp]: "overlay [] k r = r"
  by (simp add: overlay_def last_event_def)

lemma overlay_append: "overlay (as @ bs) k r = overlay bs k (overlay as k r)"
  by (auto simp: overlay_def last_event_def find_append split: option.splits)

lemma overlay_single: "overlay [e] k r = (if ev_flagKey e = k then r\<lparr>r_enabled := ev_enabled e, r_reason := ''default''\<rparr> else r)"
  by (simp add: overlay_def last_event_def)

lemma applyCacheEvent_get:
  "map_get (cache (fst (applyCacheEvent thrown e st))) k = map_option (overlay [e] k) (map_get (cache st) k)"
  by (cases "map_get (cache st) k")
     (auto simp: applyCacheEvent_def Let_def overlay_single js_map_rules split: option.splits prod.splits)

lemma drain_get:
  "drain thrown evs st = (st', None) \<Longrightarrow> map_get (cache st') k = map_option (overlay evs k) (map_get (cache st) k)"
proof (induction evs arbitrary: st)
  case (Cons e evs)
  obtain st1 x where ap: "applyCacheEvent thrown e st = (st1, x)" by fastforce
  with Cons.prems have x: "x = None" and dr: "drain thrown evs st1 = (st', None)" by (cases x; simp)+
  have "map_get (cache st1) k = map_option (overlay [e] k) (map_get (cache st) k)"
    using applyCacheEvent_get [of thrown e st k] ap by simp
  then show ?case
    using Cons.IH [OF dr] overlay_append [of "[e]" evs] by (simp add: option.map_comp o_def)
next
  case Nil
  then show ?case by (cases "map_get (cache st) k") auto
qed

text \<open>Subscribers that never throw.\<close>

abbreviation no_throw :: "nat \<Rightarrow> js_error option" where
  "no_throw \<equiv> \<lambda>_. None"

lemma notify_quiet: "notify no_throw b cbs = (map (\<lambda>cb. (cb, b)) cbs, None)"
  by (induction cbs) auto

lemma applyCacheEvent_quiet: "snd (applyCacheEvent no_throw e st) = None"
  by (auto simp: applyCacheEvent_def Let_def notify_quiet split: option.splits)

lemma drain_quiet: "snd (drain no_throw evs st) = None"
proof (induction evs arbitrary: st)
  case (Cons e evs)
  then show ?case using applyCacheEvent_quiet [of e st]
    by (auto split: prod.splits option.splits)
qed simp

lemma populate_get: "map_get (populate fs t) k = map_option (to_result t) (find (\<lambda>f. w_key f = k) (rev fs))"
proof -
  have "map_of (map (\<lambda>f. (w_key f, to_result t f)) xs) k = map_option (to_result t) (find (\<lambda>f. w_key f = k) xs)" for xs
    by (induction xs) auto
  from this [of "rev fs"] show ?thesis
    unfolding populate_def jm.get_fold_put by (simp add: rev_map js_map_rules split: option.splits)
qed

text \<open>The state a successful hydration leaves.\<close>

lemma hydrate_body_ok:
  assumes "\<not> closed st" and "ready st = Pending" and "res_json res = Some json" and "cast_bulk json = Typed (fs, t)"
  shows "let st' = hydrate_body no_throw timeout res st in
    ready st' = Resolved \<and> hydrationComplete st' \<and> sseBuffer st' = [] \<and> hyd st' = HydDone \<and> \<not> closed st'
    \<and> (\<forall>k. map_get (cache st') k =
        map_option (\<lambda>f. overlay (sseBuffer st) k (to_result t f)) (find (\<lambda>f. w_key f = k) (rev fs)))"
proof -
  let ?st1 = "(populateCache (fs, t) st)\<lparr>hydrationComplete := True\<rparr>"
  obtain st2 x where dr0: "drain no_throw (sseBuffer st) ?st1 = (st2, x)" by fastforce
  with drain_quiet [of "sseBuffer st" ?st1] have "x = None" by simp
  with dr0 have dr: "drain no_throw (sseBuffer st) ?st1 = (st2, None)" by simp
  have "map_get (cache st2) k =
      map_option (\<lambda>f. overlay (sseBuffer st) k (to_result t f)) (find (\<lambda>f. w_key f = k) (rev fs))" for k
    using drain_get [OF dr] by (simp add: populateCache_def populate_get option.map_comp o_def)
  then show ?thesis
    using assms dr drain_frame [OF dr] by (simp add: hydrate_body_def Let_def populateCache_def)
qed

subsection \<open>Runs\<close>

lemma cc_run_append:
  "cc_run thrown timeout we st xs st' \<Longrightarrow> cc_run thrown timeout we st' ys st'' \<Longrightarrow> cc_run thrown timeout we st (xs @ ys) st''"
proof (induction ys arbitrary: st'' rule: rev_induct)
  case Nil
  from Nil.prems(2) have "st'' = st'" by (cases rule: cc_run.cases) auto
  with Nil.prems(1) show ?case by simp
next
  case (snoc y ys)
  from snoc.prems(2) obtain st1 where ys: "cc_run thrown timeout we st' ys st1" and y: "cc_step thrown timeout we st1 y st''"
    by (cases rule: cc_run.cases) auto
  from run_snoc [OF snoc.IH [OF snoc.prems(1) ys] y] show ?case by simp
qed

lemma cc_run_appendD:
  "cc_run thrown timeout we st (xs @ ys) st'' \<Longrightarrow> \<exists>st'. cc_run thrown timeout we st xs st' \<and> cc_run thrown timeout we st' ys st''"
proof (induction ys arbitrary: st'' rule: rev_induct)
  case Nil
  then show ?case by (auto intro: run_nil)
next
  case (snoc y ys)
  from snoc.prems obtain st1 where "cc_run thrown timeout we st (xs @ ys) st1" "cc_step thrown timeout we st1 y st''"
    by (cases rule: cc_run.cases) auto
  with snoc.IH show ?case by (blast intro: run_snoc)
qed

lemma cc_run_NilD: "cc_run thrown timeout we st [] st' \<Longrightarrow> st' = st"
  by (cases rule: cc_run.cases) auto

lemma cc_run_ConsD:
  "cc_run thrown timeout we st (x # xs) st'' \<Longrightarrow> \<exists>st'. cc_step thrown timeout we st x st' \<and> cc_run thrown timeout we st' xs st''"
proof -
  assume "cc_run thrown timeout we st (x # xs) st''"
  then obtain st' where run: "cc_run thrown timeout we st [x] st'" "cc_run thrown timeout we st' xs st''"
    using cc_run_appendD [of thrown timeout we st "[x]" xs st''] by auto
  from run(1) obtain st1 where "cc_run thrown timeout we st [] st1" "cc_step thrown timeout we st1 x st'"
    by (cases rule: cc_run.cases) auto
  with run(2) show ?thesis by (auto dest: cc_run_NilD)
qed

inductive_cases sse_step: "cc_step thrown timeout we st (SseEvent e) st'"
inductive_cases response_step: "cc_step thrown timeout we st (HydrateResponse out) st'"
inductive_cases body_step: "cc_step thrown timeout we st HydrateBody st'"

text \<open>Stream events before the hydration completes only fill the buffer.\<close>

lemma run_buffering:
  assumes "cc_run thrown timeout we st (map SseEvent evs) st'" and "\<not> closed st" and "\<not> hydrationComplete st"
  shows "st' = st\<lparr>sseBuffer := sseBuffer st @ evs\<rparr>"
  using assms
proof (induction evs arbitrary: st)
  case Nil
  then show ?case by (auto dest: cc_run_NilD)
next
  case (Cons e evs)
  from Cons.prems(1) obtain st1 where st1: "cc_step thrown timeout we st (SseEvent e) st1"
      and rest: "cc_run thrown timeout we st1 (map SseEvent evs) st'"
    by (auto dest: cc_run_ConsD)
  from st1 have "st1 = st\<lparr>sseBuffer := sseBuffer st @ [e]\<rparr>"
    using Cons.prems(2,3) by (auto simp: onFlagChange_def elim: sse_step)
  with Cons.IH [OF rest] Cons.prems(2,3) show ?case by simp
qed

lemma run_live:
  assumes "cc_run no_throw timeout we st (map SseEvent evs) st'" and "\<not> closed st" and "hydrationComplete st"
  shows "map_get (cache st') k = map_option (overlay evs k) (map_get (cache st) k) \<and> ready st' = ready st
    \<and> \<not> closed st' \<and> hydrationComplete st'"
  using assms
proof (induction evs arbitrary: st)
  case Nil
  then show ?case by (cases "map_get (cache st) k") (auto dest!: cc_run_NilD)
next
  case (Cons e evs)
  from Cons.prems(1) obtain st1 where st1: "cc_step no_throw timeout we st (SseEvent e) st1"
      and rest: "cc_run no_throw timeout we st1 (map SseEvent evs) st'"
    by (auto dest: cc_run_ConsD)
  have "st1 = fst (applyCacheEvent no_throw e st)"
    using st1 Cons.prems(2,3) by (auto simp: onFlagChange_def elim!: sse_step)
  then obtain x where ap: "applyCacheEvent no_throw e st = (st1, x)" by (metis prod.collapse)
  have fr: "\<not> closed st1" "hydrationComplete st1" "ready st1 = ready st"
    using applyCacheEvent_frame [OF ap] Cons.prems(2,3) by auto
  have "map_get (cache st1) k = map_option (overlay [e] k) (map_get (cache st) k)"
    using applyCacheEvent_get [of no_throw e st k] ap by simp
  with Cons.IH [OF rest fr(1,2)] fr overlay_append [of "[e]" evs]
  show ?case by (simp add: option.map_comp o_def)
qed

text \<open>
  C3: no update is lost between the stream and the hydration. Events may arrive before the
  hydration response, between the response and its body, and afterwards; once the body (the
  flags \<open>fs\<close> as the endpoint lists them) was processed, \<open>ready\<close> has resolved and a lookup
  gives the hydrated result of the key with the state of the last event for that key among
  \<^emph>\<open>all\<close> the events received since construction, and no result for a key the
  hydration did not list. This is the abstract view of the cache: one map, updated in event
  order, with the buffering invisible.
\<close>

theorem hydration_loses_no_update:
  assumes "cc_run no_throw timeout we cc_init
      (map SseEvent before @ [HydrateResponse (Responded res)] @ map SseEvent between @ [HydrateBody] @ map SseEvent after) st"
    and "res_ok res" and "body res = Some (json_stringify (bulk_json fs t))"
  shows "ready st = Resolved \<and>
    map_get (cache st) k = map_option (\<lambda>f. overlay (before @ between @ after) k (to_result t f))
      (find (\<lambda>f. w_key f = k) (rev fs))"
proof -
  from assms(1) obtain s1 s2 s3 s4 where
      r1: "cc_run no_throw timeout we cc_init (map SseEvent before) s1"
      and r2: "cc_step no_throw timeout we s1 (HydrateResponse (Responded res)) s2"
      and r3: "cc_run no_throw timeout we s2 (map SseEvent between) s3"
      and r4: "cc_step no_throw timeout we s3 HydrateBody s4"
      and r5: "cc_run no_throw timeout we s4 (map SseEvent after) st"
    by (auto dest!: cc_run_appendD cc_run_ConsD dest: cc_run_NilD)
  have s1: "s1 = cc_init\<lparr>sseBuffer := before\<rparr>"
    using run_buffering [OF r1] by (simp add: cc_init_def)
  have st: "status res \<noteq> 401" "status res \<noteq> 403" using assms(2) by (auto simp: res_ok_def)
  have s2: "s2 = s1\<lparr>hyd := AwaitBody res\<rparr>"
    using r2 st assms(2) s1 by (auto simp: hydrate_response_def cc_init_def elim: response_step)
  have s3: "s3 = s2\<lparr>sseBuffer := before @ between\<rparr>"
    using run_buffering [OF r3] s1 s2 by (simp add: cc_init_def)
  have s4: "s4 = hydrate_body no_throw timeout res s3"
    using r4 s3 s2 by (auto elim: body_step)
  have json: "res_json res = Some (bulk_json fs t)"
    using assms(3) by (simp add: res_json_def json_parse_stringify [OF plain_bulk_json])
  have "cast_bulk (bulk_json fs t) = Typed (fs, t)" by (simp add: cast_bulk_def decode_bulk_json)
  from hydrate_body_ok [OF _ _ json this, of s3 timeout]
  have h: "ready s4 = Resolved" "hydrationComplete s4" "\<not> closed s4"
      "map_get (cache s4) k = map_option (\<lambda>f. overlay (before @ between) k (to_result t f)) (find (\<lambda>f. w_key f = k) (rev fs))"
    using s1 s2 s3 s4 by (simp_all add: cc_init_def Let_def)
  from run_live [OF r5 h(3,2), of k] h(1,4) show ?thesis
    using overlay_append [of "before @ between" after k] by (simp add: option.map_comp o_def)
qed

end
