(* ===== verification/Cached_Spec.thy ===== *)
theory Cached_Spec
  imports Cached_Client
begin

text \<open>
  What the cached client promises its consumers, over all interleavings of
  \<^verbatim>\<open>Cached_Client\<close>: it is a flag client like the HTTP one (an interpretation of
  \<open>flag_client\<close>), its hydration settles, a live event has exactly its documented effect, the
  store gives back what was saved, and a closed client is inert. Three theorems record
  behaviour that its documentation does not: a fallback to the store loses the buffered events, a
  malformed re-hydration empties the cache, and the typed lookups ignore live updates.
\<close>

section \<open>The flag client\<close>

lemma cc_evaluate_key: "cc_inv st \<Longrightarrow> r_key (cc_evaluate k c st) = k"
  by (auto simp: cc_evaluate_def cc_inv_def dest: cache_wf_get split: option.splits)

interpretation cached: flag_client
  "\<lambda>k c st. (Inr (cc_evaluate k c st), st)"
  "\<lambda>k c st. (Inr (cc_bool k c st), st)"
  "\<lambda>k c st. (Inr (cc_string k c st), st)"
  "\<lambda>k c st. (Inr (cc_evaluateFlag k c st), st)"
  cc_inv
  by unfold_locales
     (auto simp: cc_evaluate_key cc_bool_def cc_string_def,
      auto simp: cc_evaluateFlag_def cc_evaluate_def flag_result_def split: option.splits)

lemma map_values_get: "map_wf m \<Longrightarrow> r \<in> set (map_values m) \<longleftrightarrow> (\<exists>k. map_get m k = Some r)"
  by (force simp: map_values_def jm.mem_entries [symmetric])

text \<open>
  The lookups of the cached client agree in every reachable state: \<open>evaluateAll\<close> lists each
  flag once; \<open>evaluate\<close> gives the listed result of a key, and for a key that is not listed a
  disabled result with reason \<open>not_found\<close>; \<open>bool\<close>, \<open>string\<close> and \<open>evaluateFlag\<close> are
  views of that result.
\<close>

theorem cached_lookups_agree:
  assumes "reachable thrown timeout we st"
  shows "distinct (map r_key (cc_evaluateAll ctx st))
    \<and> (\<forall>r \<in> set (cc_evaluateAll ctx st). cc_evaluate (r_key r) ctx st = r)
    \<and> (k \<notin> r_key ` set (cc_evaluateAll ctx st) \<longrightarrow>
         \<not> r_enabled (cc_evaluate k ctx st) \<and> r_reason (cc_evaluate k ctx st) = ''not_found'')
    \<and> cc_string k ctx st = r_variant (cc_evaluate k ctx st) \<and> cc_bool k ctx st = (cc_string k ctx st = ''true'')
    \<and> cc_evaluateFlag k ctx st = flag_result (cc_evaluate k ctx st)"
proof -
  have inv: "cc_inv st" using assms by (rule cc_inv_reachable)
  then have wf: "map_wf (cache st)" and own: "\<And>k r. map_get (cache st) k = Some r \<Longrightarrow> r_key r = k"
    by (auto simp: cc_inv_def cache_wf_iff)
  have "map r_key (map_values (cache st)) = map_keys (cache st)"
    unfolding map_values_def map_keys_def using own jm.mem_entries [OF wf] by auto
  then have dist: "distinct (map r_key (cc_evaluateAll ctx st))"
    using wf by (simp add: cc_evaluateAll_def map_wf_def map_keys_def)
  have listed: "r \<in> set (cc_evaluateAll ctx st) \<longleftrightarrow> map_get (cache st) (r_key r) = Some r" for r
    using map_values_get [OF wf] own by (auto simp: cc_evaluateAll_def)
  have unlisted: "map_get (cache st) k = None" if "k \<notin> r_key ` set (cc_evaluateAll ctx st)"
    using that listed own by (metis imageI option.exhaust)
  have "cc_evaluateFlag k ctx st = flag_result (cc_evaluate k ctx st)"
    using cached.ef_ev [of k ctx st] by simp
  with dist listed unlisted show ?thesis
    using cached.bo_st [of k ctx st] by (auto simp: cc_evaluate_def cc_string_def)
qed

theorem cached_lookups_agree_witness:
  "\<not> r_enabled (cc_evaluate ''dark'' demo_context cc_init) \<and> cc_string ''dark'' demo_context cc_init = []"
proof -
  have "reachable no_throw 5000 True cc_init" by (auto simp: reachable_def intro: run_nil)
  from cached_lookups_agree [OF this, of demo_context "''dark''"] show ?thesis
    by (simp add: cc_evaluateAll_def cc_init_def map_values_def cc_evaluate_def map_get_def)
qed

section \<open>Hydration settles\<close>

fun is_hydration :: "cc_event \<Rightarrow> bool" where
  "is_hydration (HydrateResponse _) = True"
| "is_hydration HydrateBody = True"
| "is_hydration (StoreLoaded _) = True"
| "is_hydration _ = False"

fun hyd_measure :: "hydration \<Rightarrow> nat" where
  "hyd_measure AwaitFetch = 3"
| "hyd_measure (AwaitBody _) = 2"
| "hyd_measure (AwaitStore _) = 1"
| "hyd_measure HydDone = 0"

lemma hydrate_body_measure:
  assumes "hyd st = AwaitBody res"
  shows "hyd_measure (hyd (hydrate_body thrown timeout res st)) \<le> 1"
proof -
  have "hyd_measure (hyd (hydration_catch timeout e s)) \<le> 1" for e s
    by (simp add: hydration_defs)
  then show ?thesis
    by (auto simp: hydrate_body_def hydration_defs Let_def split: option.splits cast.splits prod.splits)
qed

lemma quiet_steps_hyd [simp]:
  "hyd (onSSEError we e st) = hyd st" "hyd (onConnected r st) = hyd st" "hyd (cc_close st) = hyd st"
  "hyd (cc_subscribe k cb st) = hyd st" "hyd (cc_unsubscribe k cb st) = hyd st"
  "hyd (fst (onFlagChange thrown ev st)) = hyd st"
  "ready (onSSEError we e st) = ready st" "ready (onConnected r st) = ready st" "ready (cc_close st) = ready st"
  "ready (cc_subscribe k cb st) = ready st" "ready (cc_unsubscribe k cb st) = ready st"
  "ready (fst (onFlagChange thrown ev st)) = ready st"
  using applyCacheEvent_frame [of thrown ev st "fst (applyCacheEvent thrown ev st)" "snd (applyCacheEvent thrown ev st)"]
  by (simp_all add: onSSEError_def onConnected_def cc_close_def cc_subscribe_def cc_unsubscribe_def Let_def onFlagChange_def
      split: option.split)

lemma rehydrate_hyd [simp]:
  "hyd (rehydrate_response we out st) = hyd st" "ready (rehydrate_response we out st) = ready st"
  "hyd (rehydrate_body res st) = hyd st" "ready (rehydrate_body res st) = ready st"
  by (simp_all add: rehydrate_response_def rehydrate_body_def populateCache_def Let_def
      split: fetch_outcome.split option.split cast.split)

lemma hyd_step_measure:
  assumes "cc_step thrown timeout we st ev st'"
  shows "hyd_measure (hyd st') + (if is_hydration ev then 1 else 0) \<le> hyd_measure (hyd st)"
  using assms
proof (cases rule: cc_step.cases)
  case (hydrate_response out)
  then show ?thesis by (simp add: hydration_defs split: fetch_outcome.split)
next
  case (hydrate_body res)
  then show ?thesis using hydrate_body_measure [of st res thrown timeout] by simp
next
  case (store_loaded err es)
  then show ?thesis by (simp add: store_loaded_def failHydration_def split: option.split)
qed simp_all

lemma hyd_run_measure:
  "cc_run thrown timeout we st evs st' \<Longrightarrow>
    hyd_measure (hyd st') + length (filter is_hydration evs) \<le> hyd_measure (hyd st)"
proof (induction rule: cc_run.induct)
  case (run_snoc st evs st' ev st'')
  then show ?case using hyd_step_measure [of thrown timeout we st' ev st''] by auto
qed simp

lemma run_settled:
  "cc_run thrown timeout we st evs st' \<Longrightarrow> hyd st = HydDone \<Longrightarrow> hyd st' = HydDone \<and> ready st' = ready st"
proof (induction rule: cc_run.induct)
  case (run_snoc st evs st' ev st'')
  from run_snoc.hyps(2) run_snoc.IH [OF run_snoc.prems] show ?case
    by (cases rule: cc_step.cases) simp_all
qed simp

text \<open>
  C6: the hydration terminates. Whatever else happens, a run contains at most three of its
  steps (response, body, store); while \<open>ready\<close> is pending one of them is the next and can
  happen; and once it settled it never changes again.
\<close>

theorem hydration_terminates:
  assumes "cc_run thrown timeout we cc_init evs st"
  shows "length (filter is_hydration evs) \<le> 3
    \<and> (ready st = Pending \<longrightarrow> (\<forall>res. hyd st = AwaitBody res \<longrightarrow> in_model res) \<longrightarrow>
        (\<exists>ev st'. is_hydration ev \<and> cc_step thrown timeout we st ev st'))
    \<and> (ready st \<noteq> Pending \<longrightarrow> cc_run thrown timeout we st evs' st' \<longrightarrow>
        filter is_hydration evs' = [] \<and> ready st' = ready st)"
proof -
  have reach: "reachable thrown timeout we st" using assms by (auto simp: reachable_def)
  then have pending: "ready st = Pending \<longleftrightarrow> hyd st \<noteq> HydDone"
    using cc_inv_reachable by (auto simp: cc_inv_def)
  have len: "length (filter is_hydration evs) \<le> 3"
    using hyd_run_measure [OF assms] by (simp add: cc_init_def)
  have next_step: "\<exists>ev st'. is_hydration ev \<and> cc_step thrown timeout we st ev st'"
    if "hyd st \<noteq> HydDone" "\<forall>res. hyd st = AwaitBody res \<longrightarrow> in_model res"
  proof (cases "hyd st")
    case AwaitFetch
    then show ?thesis using cc_step.hydrate_response is_hydration.simps(1) by blast
  next
    case (AwaitBody res)
    with that show ?thesis using cc_step.hydrate_body is_hydration.simps(2) by blast
  next
    case (AwaitStore err)
    then show ?thesis using cc_step.store_loaded is_hydration.simps(3) by blast
  qed (use that in simp)
  have settled: "filter is_hydration evs' = [] \<and> ready st' = ready st"
    if "ready st \<noteq> Pending" and run: "cc_run thrown timeout we st evs' st'"
  proof -
    have over: "hyd st = HydDone" using that pending by blast
    then show ?thesis using hyd_run_measure [OF run] run_settled [OF run over] by simp
  qed
  from len next_step settled pending show ?thesis by blast
qed

theorem hydration_terminates_witness:
  "ready cc_init = Pending \<and> (\<exists>ev st'. is_hydration ev \<and> cc_step no_throw 5000 True cc_init ev st')"
  using hydration_terminates [OF run_nil [of no_throw 5000 True cc_init]] by (simp add: cc_init_def)

section \<open>Failures\<close>

text \<open>
  C15: how a hydration fails. On 401 or 403 \<open>ready\<close> rejects with that code, the client and
  its stream close, and the store is not asked. Any other failure (a rejected or timed out
  request, another status) asks the store; if it has entries \<open>ready\<close> resolves with
  exactly those results, otherwise it rejects with the original error and everything closes.
\<close>

theorem hydration_failures:
  assumes "\<not> closed st" and "ready st = Pending" and "hyd st = AwaitFetch"
    and "\<And>res. out = Responded res \<Longrightarrow> \<not> res_ok res"
  shows "let st1 = hydrate_response timeout out st;
             auth = (case out of Responded res \<Rightarrow> status res = 401 \<or> status res = 403 | Rejected _ \<Rightarrow> False)
         in \<exists>code msg.
           code = (case out of
               Responded res \<Rightarrow> if status res = 401 then ''unauthorized'' else if status res = 403 then ''forbidden''
                 else ''network_error''
             | Rejected err \<Rightarrow> if is_DOMException err \<and> exc_name err = ''AbortError'' then ''timeout'' else ''network_error'')
           \<and> (auth \<longrightarrow> ready st1 = RejectedWith (CuttlegateError code msg) \<and> closed st1 \<and> sseClosed st1 \<and> hyd st1 = HydDone)
           \<and> (\<not> auth \<longrightarrow> hyd st1 = AwaitStore (CuttlegateError code msg) \<and> ready st1 = Pending
               \<and> (\<forall>loaded. loaded = None \<or> loaded = Some [] \<longrightarrow>
                    (let st2 = store_loaded (CuttlegateError code msg) loaded st1 in
                     ready st2 = RejectedWith (CuttlegateError code msg) \<and> closed st2 \<and> sseClosed st2))
               \<and> (\<forall>entries. entries \<noteq> [] \<longrightarrow>
                    (let st2 = store_loaded (CuttlegateError code msg) (Some entries) st1 in
                     ready st2 = Resolved \<and> \<not> closed st2
                     \<and> (\<forall>k. map_get (cache st2) k = map_option of_entry (find (\<lambda>e. e_key e = k) (rev entries))))))"
proof -
  have get: "map_get (fold (\<lambda>e. map_set (e_key e) (of_entry e)) es []) k
      = map_option of_entry (find (\<lambda>e. e_key e = k) (rev es))" for k es
  proof -
    have "map_of (map (\<lambda>e. (e_key e, of_entry e)) xs) k = map_option of_entry (find (\<lambda>e. e_key e = k) xs)" for xs
      by (induction xs) auto
    then show ?thesis unfolding jm.get_fold_put by (simp add: rev_map js_map_rules split: option.split)
  qed
  show ?thesis
  proof (cases out)
    case (Rejected err)
    then show ?thesis using assms
      by (cases "is_DOMException err \<and> exc_name err = ''AbortError''")
         (auto simp: hydration_defs store_loaded_def get)
  next
    case (Responded res)
    consider "status res = 401" | "status res = 403" | "status res \<noteq> 401" "status res \<noteq> 403" by blast
    then show ?thesis using Responded assms by cases (auto simp: hydration_defs store_loaded_def get)
  qed
qed

theorem hydration_failures_witness:
  "let st1 = hydrate_response 5000 (Rejected abort_error) cc_init in
   \<exists>msg. hyd st1 = AwaitStore (CuttlegateError ''timeout'' msg) \<and> ready st1 = Pending"
  using hydration_failures [of cc_init "Rejected abort_error" 5000]
  by (auto simp: cc_init_def abort_error_def Let_def)

section \<open>Live updates\<close>

text \<open>
  C7: the exact effect of an event on a hydrated, open client whose subscribers do not
  throw. For a cached key: the result's \<open>enabled\<close> becomes the event's and its reason
  \<open>default\<close>, everything else of it and every other key stays; the new cache, in the same
  order, is saved once; and every subscriber of that key is called exactly once with the new
  state, in subscription order. An event for any other key does nothing.
\<close>

theorem live_event_effect:
  assumes "hydrationComplete st" and "\<not> closed st" and "cache_wf (cache st)"
  shows "(case map_get (cache st) (ev_flagKey e) of
      None \<Rightarrow> fst (onFlagChange no_throw e st) = st
    | Some r \<Rightarrow>
       (let st' = fst (onFlagChange no_throw e st) in
        map_get (cache st') = (map_get (cache st))(ev_flagKey e \<mapsto> r\<lparr>r_enabled := ev_enabled e, r_reason := ''default''\<rparr>)
        \<and> map_keys (cache st') = map_keys (cache st)
        \<and> saves st' = saves st @ [cacheToEntries st']
        \<and> notified st' = notified st @
            map (\<lambda>cb. (cb, ev_enabled e)) (case_option [] id (map_get (subscribers st) (ev_flagKey e)))))"
proof (cases "map_get (cache st) (ev_flagKey e)")
  case None
  then show ?thesis using assms by (simp add: onFlagChange_def applyCacheEvent_def)
next
  case (Some r)
  then have keys: "map_keys (map_set (ev_flagKey e) r' (cache st)) = map_keys (cache st)" for r'
    unfolding map_keys_def jm.keys_put by simp
  show ?thesis using assms Some keys
    by (auto simp: onFlagChange_def applyCacheEvent_def Let_def notify_quiet js_map_rules cacheToEntries_def
        split: option.split)
qed

definition demo_live :: cc where
  "demo_live = cc_init\<lparr>cache := [(''dark'', to_result ''now'' demo_flag)], subscribers := [(''dark'', [7, 9])],
     hydrationComplete := True, ready := Resolved, hyd := HydDone\<rparr>"

definition demo_off_event :: FlagStateChangedEvent where
  "demo_off_event = \<lparr>ev_type = ''flag.state_changed'', ev_project = ''p'', ev_environment = ''prod'',
     ev_flagKey = ''dark'', ev_enabled = False, ev_occurredAt = ''later''\<rparr>"

lemma demo_live_wf: "cache_wf (cache demo_live)"
  by (simp add: demo_live_def cc_init_def cache_wf_def map_wf_def to_result_def demo_flag_def)

theorem live_event_effect_witness:
  "notified (fst (onFlagChange no_throw demo_off_event demo_live)) = [(7, False), (9, False)]"
  using live_event_effect [of demo_live demo_off_event, OF _ _ demo_live_wf]
  by (simp add: demo_live_def demo_off_event_def cc_init_def map_get_def Let_def)

lemma applyCacheEvent_variant:
  "r_variant (cc_evaluate k c (fst (applyCacheEvent thrown e st))) = r_variant (cc_evaluate k c st)"
  using applyCacheEvent_get [of thrown e st k]
  by (cases "map_get (cache st) k") (auto simp: cc_evaluate_def overlay_single)

text \<open>
  The typed lookups do not follow the stream: whatever events arrive, \<open>bool\<close> and
  \<open>string\<close> of every key stay what the hydration made them, because an event keeps the
  cached variant, even where \<open>evaluate\<close> reports the flag as disabled.
\<close>

theorem typed_lookups_ignore_events:
  assumes "cc_run thrown timeout we st (map SseEvent evs) st'"
  shows "cc_bool k c st' = cc_bool k c st \<and> cc_string k c st' = cc_string k c st"
proof -
  have "r_variant (cc_evaluate k c st') = r_variant (cc_evaluate k c st)"
    using assms
  proof (induction evs arbitrary: st)
    case (Cons e evs)
    from Cons.prems obtain s where s: "cc_step thrown timeout we st (SseEvent e) s"
        and rest: "cc_run thrown timeout we s (map SseEvent evs) st'"
      by (auto dest: cc_run_ConsD)
    from s have "s = fst (onFlagChange thrown e st)" by (auto elim: sse_step)
    with applyCacheEvent_variant [of k c thrown e st] Cons.IH [OF rest] show ?case
      by (auto simp: onFlagChange_def cc_evaluate_def split: if_splits)
  qed (auto dest: cc_run_NilD)
  then show ?thesis by (simp add: cc_bool_def cc_string_def)
qed

theorem typed_lookups_ignore_events_witness:
  "let st' = fst (onFlagChange no_throw demo_off_event demo_live) in
   cc_bool ''dark'' demo_context st' \<and> \<not> r_enabled (cc_evaluate ''dark'' demo_context st')"
proof -
  let ?st' = "fst (onFlagChange no_throw demo_off_event demo_live)"
  have "cc_run no_throw 5000 True demo_live ([] @ [SseEvent demo_off_event]) ?st'"
    by (rule run_snoc [OF run_nil cc_step.sse_event])
  then have "cc_run no_throw 5000 True demo_live (map SseEvent [demo_off_event]) ?st'" by simp
  from typed_lookups_ignore_events [OF this, of "''dark''" demo_context]
  show ?thesis
    by (simp add: cc_bool_def cc_evaluate_def demo_live_def demo_off_event_def cc_init_def map_get_def map_set_def
        onFlagChange_def applyCacheEvent_def Let_def notify_quiet to_result_def demo_flag_def variant_of_def)
qed

section \<open>Closing\<close>

lemma closed_step:
  assumes "cc_step thrown timeout we st ev st'" and "closed st" and "hyd st = HydDone"
  shows "closed st' \<and> cache st' = cache st \<and> ready st' = ready st \<and> saves st' = saves st
    \<and> notified st' = notified st \<and> reported st' = reported st"
  using assms
  by (cases rule: cc_step.cases)
     (simp_all add: onFlagChange_def onSSEError_def onConnected_def rehydrate_response_def rehydrate_body_def cc_close_def
       cc_subscribe_def cc_unsubscribe_def Let_def split: fetch_outcome.split option.split)

text \<open>
  C16: a closed client is inert. Once it was closed and its hydration is over, no stream
  event, no late response and no consumer call changes the cached values, saves anything,
  calls a subscriber or reports an error; every lookup keeps answering from the retained
  cache.
\<close>

theorem closed_client_inert:
  assumes "cc_run thrown timeout we st evs st'" and "closed st" and "hyd st = HydDone"
  shows "closed st' \<and> saves st' = saves st \<and> notified st' = notified st \<and> reported st' = reported st
    \<and> ready st' = ready st \<and> cc_evaluateAll c st' = cc_evaluateAll c st \<and> cc_evaluate k c st' = cc_evaluate k c st"
proof -
  have "closed st' \<and> cache st' = cache st \<and> ready st' = ready st \<and> saves st' = saves st
      \<and> notified st' = notified st \<and> reported st' = reported st"
    using assms
  proof (induction rule: cc_run.induct)
    case (run_snoc st evs st' ev st'')
    then show ?case using closed_step [OF run_snoc.hyps(2)] run_settled [OF run_snoc.hyps(1)] by simp
  qed simp
  then show ?thesis by (simp add: cc_evaluateAll_def cc_evaluate_def)
qed

theorem closed_client_inert_witness:
  "notified (fst (onFlagChange no_throw demo_off_event (cc_close demo_live))) = []
   \<and> closed (fst (onFlagChange no_throw demo_off_event (cc_close demo_live)))"
proof -
  have "cc_run no_throw 5000 True (cc_close demo_live) ([] @ [SseEvent demo_off_event])
      (fst (onFlagChange no_throw demo_off_event (cc_close demo_live)))"
    by (rule run_snoc [OF run_nil cc_step.sse_event])
  from closed_client_inert [OF this] show ?thesis
    by (simp add: cc_close_def demo_live_def cc_init_def)
qed

section \<open>The store\<close>

lemma of_to_entry [simp]: "of_entry (to_entry r) = r"
  by (simp add: of_entry_def to_entry_def)

lemma to_entry_key [simp]: "e_key (to_entry r) = r_key r"
  by (simp add: to_entry_def)

lemma rebuild: "cache_wf (m @ m') \<Longrightarrow> fold (\<lambda>e. map_set (e_key e) (of_entry e)) (map to_entry (map_values m')) m = m @ m'"
proof (induction m' arbitrary: m)
  case (Cons kr m')
  obtain k r where kr: "kr = (k, r)" by fastforce
  have k: "r_key r = k" "k \<notin> fst ` set m" using Cons.prems kr by (auto simp: cache_wf_def map_wf_def)
  then have "map_set k r m = m @ [(k, r)]"
    by (induction m) (auto simp: map_set_def)
  with Cons.IH [of "m @ [(k, r)]"] Cons.prems kr k show ?case
    by (simp add: map_values_def)
qed (simp add: map_values_def)


lemma demo_hydration:
  "let res = \<lparr>status = 200, body = Some (json_stringify (bulk_json [demo_flag] ''now''))\<rparr>;
       s1 = hydrate_response 5000 (Responded res) cc_init
   in cc_run no_throw 5000 True cc_init [HydrateResponse (Responded res), HydrateBody] (hydrate_body no_throw 5000 res s1)
     \<and> cache (hydrate_body no_throw 5000 res s1) = [(''dark'', to_result ''now'' demo_flag)]"
proof -
  let ?res = "\<lparr>status = 200, body = Some (json_stringify (bulk_json [demo_flag] ''now''))\<rparr> :: response"
  let ?s1 = "hydrate_response 5000 (Responded ?res) cc_init"
  have json: "res_json ?res = Some (bulk_json [demo_flag] ''now'')"
    by (simp add: res_json_def json_parse_stringify [OF plain_bulk_json])
  have s1: "?s1 = cc_init\<lparr>hyd := AwaitBody ?res\<rparr>" by (simp add: hydrate_response_def cc_init_def res_ok_def)
  have "cc_run no_throw 5000 True cc_init ([] @ [HydrateResponse (Responded ?res)]) ?s1"
    by (rule run_snoc [OF run_nil cc_step.hydrate_response]) (simp add: cc_init_def)
  moreover have "cc_step no_throw 5000 True ?s1 HydrateBody (hydrate_body no_throw 5000 ?res ?s1)"
    by (rule cc_step.hydrate_body) (simp_all add: s1 in_model_def json cast_bulk_def decode_bulk_json)
  ultimately have "cc_run no_throw 5000 True cc_init [HydrateResponse (Responded ?res), HydrateBody] (hydrate_body no_throw 5000 ?res ?s1)"
    using run_snoc by fastforce
  moreover have "cache (hydrate_body no_throw 5000 ?res ?s1) = [(''dark'', to_result ''now'' demo_flag)]"
    unfolding s1
    by (simp add: hydrate_body_def json cast_bulk_def decode_bulk_json populateCache_def populate_def Let_def map_set_def)
       (simp add: cc_init_def demo_flag_def)
  ultimately show ?thesis by (simp add: Let_def)
qed


theorem hydration_loses_no_update_witness:
  "\<exists>st :: cc. ready st = Resolved \<and> map_get (cache st) ''dark'' = Some (to_result ''now'' demo_flag)"
proof -
  let ?res = "\<lparr>status = 200, body = Some (json_stringify (bulk_json [demo_flag] ''now''))\<rparr> :: response"
  obtain st where "cc_run no_throw 5000 True cc_init [HydrateResponse (Responded ?res), HydrateBody] st"
    using demo_hydration unfolding Let_def by blast
  then have run: "cc_run no_throw 5000 True cc_init
      (map SseEvent [] @ [HydrateResponse (Responded ?res)] @ map SseEvent [] @ [HydrateBody] @ map SseEvent []) st"
    by (simp only: list.map append.simps)
  have res: "res_ok ?res" "body ?res = Some (json_stringify (bulk_json [demo_flag] ''now''))"
    by (simp_all add: res_ok_def)
  have "w_key demo_flag = ''dark''" by (simp add: demo_flag_def)
  with hydration_loses_no_update [of 5000 True "[]" ?res "[]" "[]" st "[demo_flag]" "''now''" "''dark''", OF run res]
  have "ready st = Resolved \<and> map_get (cache st) ''dark'' = Some (to_result ''now'' demo_flag)"
    by simp
  then show ?thesis by (rule exI [of _ st])
qed

text \<open>
  A hydration that falls back to the store loses the events buffered so far: the
  restored cache does not depend on them, and they are not applied later, although the store
  may be older than the events.
\<close>

theorem store_fallback_drops_buffer:
  "cache (store_loaded err (Some entries) (st\<lparr>sseBuffer := evs\<rparr>)) = cache (store_loaded err (Some entries) st)
   \<and> (entries \<noteq> [] \<longrightarrow> \<not> closed st \<longrightarrow>
       (let st1 = store_loaded err (Some entries) (st\<lparr>sseBuffer := evs\<rparr>) in
        sseBuffer st1 = evs
        \<and> onFlagChange thrown e st1 = applyCacheEvent thrown e st1
        \<and> sseBuffer (fst (onFlagChange thrown e st1)) = evs))"
proof -
  let ?st1 = "store_loaded err (Some entries) (st\<lparr>sseBuffer := evs\<rparr>)"
  have "sseBuffer (fst (applyCacheEvent thrown e s)) = sseBuffer s" for s
    using applyCacheEvent_frame [of thrown e s] by (metis prod.collapse)
  then show ?thesis
    by (auto simp: store_loaded_def onFlagChange_def failHydration_def)
qed

theorem store_fallback_drops_buffer_witness:
  "let st1 = store_loaded NonError (Some [to_entry (to_result ''now'' demo_flag)]) (cc_init\<lparr>sseBuffer := [demo_off_event]\<rparr>)
   in r_enabled (cc_evaluate ''dark'' demo_context st1) \<and> sseBuffer st1 = [demo_off_event]"
  using store_fallback_drops_buffer [of NonError "[to_entry (to_result ''now'' demo_flag)]" "[demo_off_event]" cc_init]
  by (simp add: Let_def cc_evaluate_def cc_init_def store_loaded_def map_get_def map_set_def to_result_def demo_flag_def)

text \<open>
  A re-hydration whose response is JSON of another shape (no iterable \<open>flags\<close>)
  empties the cache of an open client: every flag then evaluates as \<open>not_found\<close>, and
  nothing is reported.
\<close>

theorem malformed_rehydration_empties_cache:
  assumes "\<not> closed st" and "res_json res = Some json" and "cast_bulk json = NotIterable"
  shows "let st' = rehydrate_body res st in
    cc_evaluateAll c st' = [] \<and> r_reason (cc_evaluate k c st') = ''not_found'' \<and> reported st' = reported st"
  using assms by (simp add: rehydrate_body_def Let_def cc_evaluateAll_def cc_evaluate_def map_values_def map_get_def)

theorem malformed_rehydration_empties_cache_witness:
  "cc_evaluateAll demo_context (rehydrate_body \<lparr>status = 200, body = Some ''null''\<rparr> demo_live) = []
   \<and> cc_evaluateAll demo_context demo_live \<noteq> []"
proof -
  have "res_json \<lparr>status = 200, body = Some ''null''\<rparr> = Some JNull" by code_simp
  moreover have "cast_bulk JNull = NotIterable" by code_simp
  moreover have "\<not> closed demo_live" by (simp add: demo_live_def cc_init_def)
  ultimately show ?thesis
    using malformed_rehydration_empties_cache [of demo_live _ JNull demo_context]
    by (simp add: Let_def cc_evaluateAll_def demo_live_def map_values_def)
qed

end
