(* ===== verification/Open_Feature.thy ===== *)
theory Open_Feature
  imports Complex_Main Mock_Client Cached_Spec
begin

text \<open>
  The OpenFeature provider (\<open>sdk/js/src/openfeature.ts\<close>) over any flag client. The
  provider is generic in the client's \<open>bool\<close> and \<open>string\<close>; its laws are proved once in
  the interface \<open>flag_client\<close> and used at the HTTP, the cached and the mock client.

  \<open>Number(s)\<close> is modelled by its grammar and its exact value; the rounding of that value
  to a double is the parameter \<open>to_double\<close>, and the wording of the engine's
  \<open>SyntaxError\<close> the parameter \<open>syntax_msg\<close>.
\<close>

section \<open>Number\<close>

datatype js_numeric = Finite rat | Infinite bool

text \<open>Digits in a radix.\<close>

fun radix_val :: "nat \<Rightarrow> nat \<Rightarrow> string \<Rightarrow> nat option" where
  "radix_val b acc [] = Some acc"
| "radix_val b acc (c # cs) = (case hex_val c of
     None \<Rightarrow> None
   | Some d \<Rightarrow> if d < b then radix_val b (b * acc + d) cs else None)"

definition radix_literal :: "nat \<Rightarrow> string \<Rightarrow> rat option" where
  "radix_literal b s = (if s = [] then None else map_option of_nat (radix_val b 0 s))"

definition pow10 :: "int \<Rightarrow> rat" where
  "pow10 e = (if 0 \<le> e then 10 ^ nat e else 1 / 10 ^ nat (- e))"

definition exponent_part :: "string \<Rightarrow> int option" where
  "exponent_part s = (case s of
     [] \<Rightarrow> Some 0
   | c # r \<Rightarrow> if c \<in> {CHR ''e'', CHR ''E''} then
        (case take_sign {CHR ''+'', CHR ''-''} r of (sg, ds) \<Rightarrow>
           if ds \<noteq> [] \<and> list_all is_digit ds
           then Some (if sg = ''-'' then - int (digits_val ds) else int (digits_val ds)) else None)
      else None)"

text \<open>\<open>StrUnsignedDecimalLiteral\<close>: digits, an optional fraction, an optional exponent.\<close>

definition unsigned_decimal :: "string \<Rightarrow> js_numeric option" where
  "unsigned_decimal s =
     (if s = ''Infinity'' then Some (Infinite False)
      else
       (let ip = takeWhile is_digit s; r = dropWhile is_digit s;
            fp = (case r of c # r' \<Rightarrow> if c = CHR ''.'' then takeWhile is_digit r' else [] | [] \<Rightarrow> []);
            r2 = (case r of c # r' \<Rightarrow> if c = CHR ''.'' then dropWhile is_digit r' else r | [] \<Rightarrow> [])
        in if ip = [] \<and> fp = [] then None
           else map_option (\<lambda>e. Finite (of_nat (digits_val (ip @ fp)) * pow10 (e - int (length fp)))) (exponent_part r2)))"

definition negate :: "js_numeric \<Rightarrow> js_numeric" where
  "negate n = (case n of Finite q \<Rightarrow> Finite (- q) | Infinite b \<Rightarrow> Infinite (\<not> b))"

definition js_Number :: "string \<Rightarrow> js_numeric option" where
  "js_Number str =
     (let s = js_trim str in
      if s = [] then Some (Finite 0)
      else if starts_with ''0x'' s \<or> starts_with ''0X'' s then map_option Finite (radix_literal 16 (drop 2 s))
      else if starts_with ''0o'' s \<or> starts_with ''0O'' s then map_option Finite (radix_literal 8 (drop 2 s))
      else if starts_with ''0b'' s \<or> starts_with ''0B'' s then map_option Finite (radix_literal 2 (drop 2 s))
      else (case take_sign {CHR ''+'', CHR ''-''} s of (sg, r) \<Rightarrow>
              if sg = ''-'' then map_option negate (unsigned_decimal r) else unsigned_decimal r))"

section \<open>The provider\<close>

text \<open>
  Values of an OpenFeature evaluation context; only strings matter to the provider. A
  context is the list of its own enumerable entries in enumeration order.
\<close>

datatype ctx_value = CtxString string | CtxOther

type_synonym EvaluationContext = "(string \<times> ctx_value) list"

record 'v ResolutionDetails =
  rd_value :: 'v
  rd_variant :: "string option"
  rd_reason :: string
  rd_errorCode :: "string option"
  rd_errorMessage :: "string option"

text \<open>
  \<open>ctx.targetingKey\<close> is a string or absent by its type. Assigning a string to
  \<open>attributes['__proto__']\<close> has no effect.
\<close>

definition toEvalContext :: "EvaluationContext \<Rightarrow> EvalContext" where
  "toEvalContext ctx =
     \<lparr>user_id = (case map_of ctx ''targetingKey'' of Some (CtxString s) \<Rightarrow> s | _ \<Rightarrow> []),
      attributes = fold (\<lambda>(k, v) attrs. case v of
          CtxString s \<Rightarrow> if k \<noteq> ''targetingKey'' \<and> k \<noteq> ''__proto__'' then map_set k s attrs else attrs
        | CtxOther \<Rightarrow> attrs) ctx []\<rparr>"

definition resolve_error :: "'v \<Rightarrow> js_error \<Rightarrow> 'v ResolutionDetails" where
  "resolve_error defaultValue err = \<lparr>rd_value = defaultValue, rd_variant = None, rd_reason = ''ERROR'',
     rd_errorCode = Some ''GENERAL'', rd_errorMessage = Some (message_or ''Unknown error'' err)\<rparr>"

definition resolved :: "'v \<Rightarrow> string \<Rightarrow> 'v ResolutionDetails" where
  "resolved v variant = \<lparr>rd_value = v, rd_variant = Some variant, rd_reason = ''TARGETING_MATCH'',
     rd_errorCode = None, rd_errorMessage = None\<rparr>"

definition resolveBooleanEvaluation ::
    "(string \<Rightarrow> EvalContext \<Rightarrow> 's \<Rightarrow> (js_error, bool) result \<times> 's) \<Rightarrow> string \<Rightarrow> bool \<Rightarrow> EvaluationContext \<Rightarrow> 's
      \<Rightarrow> bool ResolutionDetails \<times> 's" where
  "resolveBooleanEvaluation bo flagKey defaultValue ctx s =
     (case bo flagKey (toEvalContext ctx) s of
        (Inr r, s') \<Rightarrow> (resolved r (if r then ''true'' else ''false''), s')
      | (Inl err, s') \<Rightarrow> (resolve_error defaultValue err, s'))"

definition resolveStringEvaluation ::
    "(string \<Rightarrow> EvalContext \<Rightarrow> 's \<Rightarrow> (js_error, string) result \<times> 's) \<Rightarrow> string \<Rightarrow> string \<Rightarrow> EvaluationContext \<Rightarrow> 's
      \<Rightarrow> string ResolutionDetails \<times> 's" where
  "resolveStringEvaluation st flagKey defaultValue ctx s =
     (case st flagKey (toEvalContext ctx) s of
        (Inr r, s') \<Rightarrow> (resolved r r, s')
      | (Inl err, s') \<Rightarrow> (resolve_error defaultValue err, s'))"

definition resolveNumberEvaluation ::
    "(js_numeric \<Rightarrow> 'n) \<Rightarrow> (string \<Rightarrow> EvalContext \<Rightarrow> 's \<Rightarrow> (js_error, string) result \<times> 's) \<Rightarrow> string \<Rightarrow> 'n
      \<Rightarrow> EvaluationContext \<Rightarrow> 's \<Rightarrow> 'n ResolutionDetails \<times> 's" where
  "resolveNumberEvaluation to_double st flagKey defaultValue ctx s =
     (case st flagKey (toEvalContext ctx) s of
        (Inr r, s') \<Rightarrow> (case js_Number r of
            None \<Rightarrow> (\<lparr>rd_value = defaultValue, rd_variant = None, rd_reason = ''ERROR'', rd_errorCode = Some ''PARSE_ERROR'',
                      rd_errorMessage = Some (''Cannot parse \"'' @ r @ ''\" as number'')\<rparr>, s')
          | Some num \<Rightarrow> (resolved (to_double num) r, s'))
      | (Inl err, s') \<Rightarrow> (resolve_error defaultValue err, s'))"

definition resolveObjectEvaluation ::
    "(string \<Rightarrow> string) \<Rightarrow> (string \<Rightarrow> EvalContext \<Rightarrow> 's \<Rightarrow> (js_error, string) result \<times> 's) \<Rightarrow> string \<Rightarrow> json
      \<Rightarrow> EvaluationContext \<Rightarrow> 's \<Rightarrow> json ResolutionDetails \<times> 's" where
  "resolveObjectEvaluation syntax_msg st flagKey defaultValue ctx s =
     (case st flagKey (toEvalContext ctx) s of
        (Inr r, s') \<Rightarrow> (case json_parse r of
            None \<Rightarrow> (resolve_error defaultValue (ErrorObj (syntax_msg r)), s')
          | Some parsed \<Rightarrow> (resolved parsed r, s'))
      | (Inl err, s') \<Rightarrow> (resolve_error defaultValue err, s'))"

section \<open>Laws over any flag client\<close>

lemmas resolve_defs = resolveBooleanEvaluation_def resolveStringEvaluation_def resolveNumberEvaluation_def
  resolveObjectEvaluation_def resolved_def resolve_error_def

context flag_client
begin

text \<open>A resolution answers with the default exactly if the client's evaluation throws.\<close>

lemma boolean_resolution:
  "fst (resolveBooleanEvaluation bo k d ctx s) = (case fst (ev k (toEvalContext ctx) s) of
     Inl err \<Rightarrow> resolve_error d err
   | Inr r \<Rightarrow> resolved (r_variant r = ''true'') (if r_variant r = ''true'' then ''true'' else ''false''))"
  by (cases "ev k (toEvalContext ctx) s"; cases "fst (ev k (toEvalContext ctx) s)")
     (auto simp: resolveBooleanEvaluation_def bo_ev)

lemma string_resolution:
  "fst (resolveStringEvaluation st k d ctx s) = (case fst (ev k (toEvalContext ctx) s) of
     Inl err \<Rightarrow> resolve_error d err | Inr r \<Rightarrow> resolved (r_variant r) (r_variant r))"
  by (cases "ev k (toEvalContext ctx) s"; cases "fst (ev k (toEvalContext ctx) s)")
     (auto simp: resolveStringEvaluation_def st_ev)

lemma number_resolution:
  "fst (resolveNumberEvaluation dbl st k d ctx s) = (case fst (ev k (toEvalContext ctx) s) of
     Inl err \<Rightarrow> resolve_error d err
   | Inr r \<Rightarrow> (case js_Number (r_variant r) of
       Some n \<Rightarrow> resolved (dbl n) (r_variant r)
     | None \<Rightarrow> \<lparr>rd_value = d, rd_variant = None, rd_reason = ''ERROR'', rd_errorCode = Some ''PARSE_ERROR'',
               rd_errorMessage = Some (''Cannot parse \"'' @ r_variant r @ ''\" as number'')\<rparr>))"
  by (cases "ev k (toEvalContext ctx) s"; cases "fst (ev k (toEvalContext ctx) s)")
     (auto simp: resolveNumberEvaluation_def st_ev split: option.split)

lemma object_resolution:
  "fst (resolveObjectEvaluation smsg st k d ctx s) = (case fst (ev k (toEvalContext ctx) s) of
     Inl err \<Rightarrow> resolve_error d err
   | Inr r \<Rightarrow> (case json_parse (r_variant r) of
       Some j \<Rightarrow> resolved j (r_variant r) | None \<Rightarrow> resolve_error d (ErrorObj (smsg (r_variant r)))))"
  by (cases "ev k (toEvalContext ctx) s"; cases "fst (ev k (toEvalContext ctx) s)")
     (auto simp: resolveObjectEvaluation_def st_ev split: option.split)

end

section \<open>Properties\<close>

text \<open>
  C19: the provider over the HTTP client. Every resolution answers (nothing is thrown): with the
  default, reason \<open>ERROR\<close> and the error's message exactly if the client's
  \<open>evaluate\<close> throws, and otherwise with the evaluated variant read at the requested type;
  a variant that is not a number or not JSON gives the default too, as \<open>PARSE_ERROR\<close> for
  numbers.
\<close>

theorem openfeature_over_http:
  "(case evaluate safeParse cl net k (toEvalContext ctx) of
      Inl err \<Rightarrow>
        fst (resolveBooleanEvaluation (\<lambda>k c n. (bool_flag safeParse cl n k c, n)) k db ctx net) = resolve_error db err
      \<and> fst (resolveStringEvaluation (\<lambda>k c n. (string_flag safeParse cl n k c, n)) k ds ctx net) = resolve_error ds err
      \<and> fst (resolveNumberEvaluation dbl (\<lambda>k c n. (string_flag safeParse cl n k c, n)) k dn ctx net) = resolve_error dn err
      \<and> fst (resolveObjectEvaluation smsg (\<lambda>k c n. (string_flag safeParse cl n k c, n)) k dj ctx net) = resolve_error dj err
    | Inr r \<Rightarrow>
        rd_value (fst (resolveBooleanEvaluation (\<lambda>k c n. (bool_flag safeParse cl n k c, n)) k db ctx net)) = (r_variant r = ''true'')
      \<and> fst (resolveStringEvaluation (\<lambda>k c n. (string_flag safeParse cl n k c, n)) k ds ctx net) = resolved (r_variant r) (r_variant r)
      \<and> rd_value (fst (resolveNumberEvaluation dbl (\<lambda>k c n. (string_flag safeParse cl n k c, n)) k dn ctx net))
          = (case js_Number (r_variant r) of Some n \<Rightarrow> dbl n | None \<Rightarrow> dn)
      \<and> (js_Number (r_variant r) = None \<longleftrightarrow>
          rd_errorCode (fst (resolveNumberEvaluation dbl (\<lambda>k c n. (string_flag safeParse cl n k c, n)) k dn ctx net)) = Some ''PARSE_ERROR'')
      \<and> rd_value (fst (resolveObjectEvaluation smsg (\<lambda>k c n. (string_flag safeParse cl n k c, n)) k dj ctx net))
          = (case json_parse (r_variant r) of Some j \<Rightarrow> j | None \<Rightarrow> dj))"
  using http.boolean_resolution [of safeParse cl k db ctx net] http.string_resolution [of safeParse cl k ds ctx net]
    http.number_resolution [of dbl safeParse cl k dn ctx net] http.object_resolution [of smsg safeParse cl k dj ctx net]
  by (auto simp: resolved_def resolve_error_def split: sum.split option.split)

text \<open>
  Over a cached client the defaults are never used for a missing flag: an unknown key
  resolves as a match to \<open>false\<close>, to the empty string and to the number 0 (of the empty
  variant), whatever default the caller gave; only an object resolution returns its default.
\<close>

theorem openfeature_over_cache_unknown:
  assumes "map_get (cache st) k = None"
  shows "fst (resolveBooleanEvaluation (\<lambda>k c st. (Inr (cc_bool k c st), st)) k db ctx st) = resolved False ''false''
    \<and> fst (resolveStringEvaluation (\<lambda>k c st. (Inr (cc_string k c st), st)) k ds ctx st) = resolved [] []
    \<and> fst (resolveNumberEvaluation dbl (\<lambda>k c st. (Inr (cc_string k c st), st)) k dn ctx st) = resolved (dbl (Finite 0)) []
    \<and> fst (resolveObjectEvaluation smsg (\<lambda>k c st. (Inr (cc_string k c st), st)) k dj ctx st)
        = resolve_error dj (ErrorObj (smsg []))"
proof -
  have "js_Number [] = Some (Finite 0)" by (simp add: js_Number_def js_trim_def)
  moreover have "json_parse [] = None" by code_simp
  ultimately show ?thesis
    using cached.boolean_resolution [of k db ctx st] cached.string_resolution [of k ds ctx st]
      cached.number_resolution [of dbl k dn ctx st] cached.object_resolution [of smsg k dj ctx st] assms
    by (simp add: cc_evaluate_def)
qed

theorem openfeature_over_cache_unknown_witness:
  "fst (resolveNumberEvaluation id (\<lambda>k c st. (Inr (cc_string k c st), st)) ''limit'' (Finite 10) [] cc_init)
    = resolved (Finite 0) []"
  using openfeature_over_cache_unknown [of cc_init "''limit''", where dbl = id and dn = "Finite 10"]
  by (simp add: cc_init_def map_get_def)

lemma attributes_fold:
  assumes "distinct (map fst ctx)" and "\<And>k v. (k, v) \<in> set ctx \<Longrightarrow> map_get m k = None"
  shows "map_get (fold (\<lambda>(k, v) attrs. case v of
          CtxString s \<Rightarrow> if k \<noteq> ''targetingKey'' \<and> k \<noteq> ''__proto__'' then map_set k s attrs else attrs
        | CtxOther \<Rightarrow> attrs) ctx m) k =
    (if k = ''targetingKey'' \<or> k = ''__proto__'' then map_get m k
     else case map_of ctx k of Some (CtxString s) \<Rightarrow> Some s | _ \<Rightarrow> map_get m k)"
  using assms
proof (induction ctx arbitrary: m)
  case (Cons kv ctx)
  obtain k' v where kv: "kv = (k', v)" by fastforce
  let ?m = "case v of CtxString s \<Rightarrow> if k' \<noteq> ''targetingKey'' \<and> k' \<noteq> ''__proto__'' then map_set k' s m else m | CtxOther \<Rightarrow> m"
  have fresh: "map_get ?m k2 = None" if "(k2, v2) \<in> set ctx" for k2 v2
  proof -
    have "k2 \<noteq> k'" using Cons.prems(1) that kv by force
    then show ?thesis using Cons.prems(2) [of k2 v2] that by (auto simp: js_map_rules split: ctx_value.split)
  qed
  have none: "map_of ctx k' = None" using Cons.prems(1) kv by (simp add: map_of_eq_None_iff)
  show ?case using Cons.IH [of ?m] fresh Cons.prems(1) kv none
    by (auto simp: js_map_rules split: ctx_value.split option.split)
qed simp

text \<open>
  The evaluation context the provider sends carries the targeting key as the user and
  exactly the string-valued entries of the caller's context as attributes; other values, the
  targeting key itself and \<open>__proto__\<close> are left out.
\<close>

theorem toEvalContext_spec:
  assumes "distinct (map fst ctx)"
  shows "user_id (toEvalContext ctx) = (case map_of ctx ''targetingKey'' of Some (CtxString s) \<Rightarrow> s | _ \<Rightarrow> [])
    \<and> map_get (attributes (toEvalContext ctx)) k =
      (if k = ''targetingKey'' \<or> k = ''__proto__'' then None
       else case map_of ctx k of Some (CtxString s) \<Rightarrow> Some s | _ \<Rightarrow> None)"
  using attributes_fold [OF assms, of "[]" k] by (simp add: toEvalContext_def jm.get_emp split: option.split ctx_value.split)

theorem toEvalContext_spec_witness:
  "map_get (attributes (toEvalContext [(''targetingKey'', CtxString ''u1''), (''age'', CtxOther), (''plan'', CtxString ''pro'')])) ''plan''
    = Some ''pro''"
  using toEvalContext_spec [of "[(''targetingKey'', CtxString ''u1''), (''age'', CtxOther), (''plan'', CtxString ''pro'')]" "''plan''"]
  by simp

end
