(* ===== verification/React_Sdk.thy ===== *)
theory React_Sdk
  imports Cached_Spec
begin

text \<open>
  The React bindings of the SDK (\<open>sdk/js/src/react.ts\<close>). A component's state is the value
  its last \<open>setState\<close> produced; its effect is the set of continuations that may run after the
  mount: results of \<open>evaluateAll\<close>, stream callbacks, and the cleanup at unmount. A step
  is one of them.
\<close>

section \<open>CuttlegateProvider\<close>

record FlagState =
  fs_flags :: "(string, EvalResult) js_map"
  fs_loading :: bool

text \<open>
  \<open>closed\<close> is the effect's variable; the counters are the requests in flight: the initial
  one, and those a reconnect started.
\<close>

record provider =
  p_state :: FlagState
  p_closed :: bool
  p_connClosed :: bool
  p_initial :: bool
  p_refetches :: nat

definition provider_render :: FlagState where
  "provider_render = \<lparr>fs_flags = [], fs_loading = True\<rparr>"

text \<open>The mount effect: the client is created (which may throw), the request sent, the stream opened.\<close>

definition provider_mount :: "CuttlegateConfig \<Rightarrow> (js_error, provider) result" where
  "provider_mount cfg = await (createClient cfg) (\<lambda>client.
     Inr \<lparr>p_state = provider_render, p_closed = False, p_connClosed = False, p_initial = True, p_refetches = 0\<rparr>)"

definition flags_map :: "EvalResult list \<Rightarrow> (string, EvalResult) js_map" where
  "flags_map results = fold (\<lambda>r. map_set (r_key r) r) results []"

definition initial_settled :: "(js_error, EvalResult list) result \<Rightarrow> provider \<Rightarrow> provider" where
  "initial_settled out p =
     (let p = p\<lparr>p_initial := False\<rparr> in
      if p_closed p then p
      else case out of
        Inr results \<Rightarrow> p\<lparr>p_state := \<lparr>fs_flags = flags_map results, fs_loading = False\<rparr>\<rparr>
      | Inl _ \<Rightarrow> p\<lparr>p_state := (p_state p)\<lparr>fs_loading := False\<rparr>\<rparr>)"

definition provider_onFlagChange :: "FlagStateChangedEvent \<Rightarrow> provider \<Rightarrow> provider" where
  "provider_onFlagChange event p =
     (if p_closed p then p
      else
        (let prev = p_state p;
             existing = map_get (fs_flags prev) (ev_flagKey event);
             entry = \<lparr>r_key = ev_flagKey event, r_enabled = ev_enabled event,
                      r_value = (case existing of Some e \<Rightarrow> r_value e | None \<Rightarrow> None),
                      r_variant = (case existing of Some e \<Rightarrow> r_variant e | None \<Rightarrow> []),
                      r_reason = (case existing of Some e \<Rightarrow> r_reason e | None \<Rightarrow> ''default''),
                      r_evaluatedAt = ev_occurredAt event\<rparr>
         in p\<lparr>p_state := \<lparr>fs_flags = map_set (ev_flagKey event) entry (fs_flags prev), fs_loading = fs_loading prev\<rparr>\<rparr>))"

definition provider_onConnected :: "bool \<Rightarrow> provider \<Rightarrow> provider" where
  "provider_onConnected reconnect p =
     (if p_closed p \<or> \<not> reconnect then p else p\<lparr>p_refetches := p_refetches p + 1\<rparr>)"

definition refetch_settled :: "(js_error, EvalResult list) result \<Rightarrow> provider \<Rightarrow> provider" where
  "refetch_settled out p =
     (let p = p\<lparr>p_refetches := p_refetches p - 1\<rparr> in
      case out of
        Inl _ \<Rightarrow> p
      | Inr results \<Rightarrow> if p_closed p then p
          else p\<lparr>p_state := \<lparr>fs_flags = flags_map results, fs_loading = fs_loading (p_state p)\<rparr>\<rparr>)"

definition provider_unmount :: "provider \<Rightarrow> provider" where
  "provider_unmount p = p\<lparr>p_closed := True, p_connClosed := True\<rparr>"

datatype provider_event =
    InitialSettled "(js_error, EvalResult list) result"
  | ProviderFlag FlagStateChangedEvent
  | ProviderConnected bool
  | RefetchSettled "(js_error, EvalResult list) result"
  | ProviderUnmount

inductive provider_step :: "provider \<Rightarrow> provider_event \<Rightarrow> provider \<Rightarrow> bool" where
  p_initial_step: "p_initial p \<Longrightarrow> provider_step p (InitialSettled out) (initial_settled out p)"
| p_flag_step: "provider_step p (ProviderFlag ev) (provider_onFlagChange ev p)"
| p_connected_step: "provider_step p (ProviderConnected b) (provider_onConnected b p)"
| p_refetch_step: "0 < p_refetches p \<Longrightarrow> provider_step p (RefetchSettled out) (refetch_settled out p)"
| p_unmount_step: "provider_step p ProviderUnmount (provider_unmount p)"

inductive provider_run :: "provider \<Rightarrow> provider_event list \<Rightarrow> provider \<Rightarrow> bool" where
  pr_nil: "provider_run p [] p"
| pr_cons: "provider_step p ev p' \<Longrightarrow> provider_run p' evs p'' \<Longrightarrow> provider_run p (ev # evs) p''"

inductive_cases provider_run_ConsE: "provider_run p (ev # evs) p''"
inductive_cases provider_run_NilE: "provider_run p [] p''"
inductive_cases flag_stepE: "provider_step p (ProviderFlag ev) p'"
inductive_cases initial_stepE: "provider_step p (InitialSettled out) p'"

section \<open>Hooks\<close>

definition useFlagState :: "FlagState option \<Rightarrow> (js_error, FlagState) result" where
  "useFlagState ctx = (case ctx of
     None \<Rightarrow> Inl (ErrorObj ''useFlag/useFlagVariant must be used within a CuttlegateProvider'')
   | Some s \<Rightarrow> Inr s)"

definition useFlag :: "FlagState option \<Rightarrow> string \<Rightarrow> (js_error, bool \<times> bool) result" where
  "useFlag ctx key = await (useFlagState ctx) (\<lambda>s.
     if fs_loading s then Inr (False, True)
     else Inr (case map_get (fs_flags s) key of Some flag \<Rightarrow> r_enabled flag | None \<Rightarrow> False, False))"

definition useFlagVariant :: "FlagState option \<Rightarrow> string \<Rightarrow> (js_error, string option \<times> bool) result" where
  "useFlagVariant ctx key = await (useFlagState ctx) (\<lambda>s.
     if fs_loading s then Inr (None, True)
     else Inr (map_option r_variant (map_get (fs_flags s) key), False))"

section \<open>useCachedFlag\<close>

text \<open>
  The hook's state, its effect's \<open>cancelled\<close>, and where the initial read is: awaiting
  \<open>ready\<close>, holding the result that \<open>evaluate\<close> read from the cache until its continuation
  runs, or over. The pair in \<open>h_shown\<close> is \<open>{ enabled, loading }\<close>.
\<close>

datatype initial_read = AwaitReady | AwaitRead bool | InitialReadDone

record cached_hook =
  h_shown :: "bool \<times> bool"
  h_cancelled :: bool
  h_read :: initial_read

definition hook_mount :: cached_hook where
  "hook_mount = \<lparr>h_shown = (False, True), h_cancelled = False, h_read = AwaitReady\<rparr>"

definition hook_ready :: "string \<Rightarrow> cc \<Rightarrow> cached_hook \<Rightarrow> cached_hook" where
  "hook_ready key st h =
     (case ready st of
        Resolved \<Rightarrow> if h_cancelled h then h\<lparr>h_read := InitialReadDone\<rparr>
          else h\<lparr>h_read := AwaitRead (r_enabled (cc_evaluate key \<lparr>user_id = [], attributes = []\<rparr> st))\<rparr>
      | RejectedWith _ \<Rightarrow> if h_cancelled h then h\<lparr>h_read := InitialReadDone\<rparr>
          else h\<lparr>h_shown := (False, False), h_read := InitialReadDone\<rparr>
      | Pending \<Rightarrow> h)"

definition hook_read :: "cached_hook \<Rightarrow> cached_hook" where
  "hook_read h = (case h_read h of
     AwaitRead enabled \<Rightarrow> if h_cancelled h then h\<lparr>h_read := InitialReadDone\<rparr>
       else h\<lparr>h_shown := (enabled, False), h_read := InitialReadDone\<rparr>
   | _ \<Rightarrow> h)"

definition hook_callback :: "bool \<Rightarrow> cached_hook \<Rightarrow> cached_hook" where
  "hook_callback enabled h = (if h_cancelled h then h else h\<lparr>h_shown := (enabled, False)\<rparr>)"

definition hook_unmount :: "string \<Rightarrow> nat \<Rightarrow> cc \<times> cached_hook \<Rightarrow> cc \<times> cached_hook" where
  "hook_unmount key cb = (\<lambda>(st, h). (cc_unsubscribe key cb st, h\<lparr>h_cancelled := True\<rparr>))"

text \<open>
  The client and one mounted hook together: a stream event runs the client's handler and then,
  if the hook's callback was notified, the callback; the continuations of \<open>ready\<close> and of
  \<open>evaluate\<close> are their own steps.
\<close>

definition hook_event :: "nat \<Rightarrow> FlagStateChangedEvent \<Rightarrow> cc \<times> cached_hook \<Rightarrow> cc \<times> cached_hook" where
  "hook_event cb ev = (\<lambda>(st, h).
     let st' = fst (onFlagChange no_throw ev st);
         calls = filter (\<lambda>n. fst n = cb) (drop (length (notified st)) (notified st'))
     in (st', fold (\<lambda>n. hook_callback (snd n)) calls h))"

inductive hook_step :: "string \<Rightarrow> nat \<Rightarrow> cc \<times> cached_hook \<Rightarrow> cc \<times> cached_hook \<Rightarrow> bool" for key cb where
  on_event: "hook_step key cb sh (hook_event cb ev sh)"
| on_ready: "h_read h = AwaitReady \<Longrightarrow> ready st \<noteq> Pending \<Longrightarrow> hook_step key cb (st, h) (st, hook_ready key st h)"
| on_read: "h_read h = AwaitRead b \<Longrightarrow> hook_step key cb (st, h) (st, hook_read h)"
| on_unmount: "hook_step key cb sh (hook_unmount key cb sh)"

section \<open>Properties of the provider\<close>

lemma flags_map_get: "map_get (flags_map rs) k = find (\<lambda>r. r_key r = k) (rev rs)"
proof -
  have "map_of (map (\<lambda>r. (r_key r, r)) xs) k = find (\<lambda>r. r_key r = k) xs" for xs
    by (induction xs) auto
  from this [of "rev rs"] show ?thesis
    unfolding flags_map_def jm.get_fold_put by (simp add: rev_map jm.get_emp split: option.split)
qed

definition shown_enabled :: "FlagState \<Rightarrow> string \<Rightarrow> bool" where
  "shown_enabled s k = (case map_get (fs_flags s) k of Some r \<Rightarrow> r_enabled r | None \<Rightarrow> False)"

lemma provider_flag_frame:
  "p_closed (provider_onFlagChange e p) = p_closed p" "p_initial (provider_onFlagChange e p) = p_initial p"
  "fs_loading (p_state (provider_onFlagChange e p)) = fs_loading (p_state p)"
  by (simp_all add: provider_onFlagChange_def Let_def)

lemma provider_flag_shown:
  "\<not> p_closed p \<Longrightarrow> shown_enabled (p_state (provider_onFlagChange e p)) k =
    (if ev_flagKey e = k then ev_enabled e else shown_enabled (p_state p) k)"
  by (simp add: provider_onFlagChange_def Let_def shown_enabled_def js_map_rules)

lemma provider_flag_run:
  assumes "provider_run p (map ProviderFlag evs @ rest) p''"
  shows "\<exists>p'. provider_run p' rest p'' \<and> p_closed p' = p_closed p \<and> p_initial p' = p_initial p
    \<and> fs_loading (p_state p') = fs_loading (p_state p)
    \<and> (\<not> p_closed p \<longrightarrow> shown_enabled (p_state p') k =
        (case last_event evs k of Some e \<Rightarrow> ev_enabled e | None \<Rightarrow> shown_enabled (p_state p) k))"
  using assms
proof (induction evs arbitrary: p)
  case Nil
  then show ?case by (auto simp: last_event_def)
next
  case (Cons e evs)
  from Cons.prems have "provider_run (provider_onFlagChange e p) (map ProviderFlag evs @ rest) p''"
    by (auto elim!: provider_run_ConsE flag_stepE)
  from Cons.IH [OF this] show ?case
    by (auto simp: provider_flag_frame provider_flag_shown last_event_def find_append split: option.splits)
qed

lemma useFlag_loaded: "\<not> fs_loading s \<Longrightarrow> useFlag (Some s) k = Inr (shown_enabled s k, False)"
  by (simp add: useFlag_def useFlagState_def shown_enabled_def)


definition demo_config :: CuttlegateConfig where
  "demo_config = \<lparr>c_baseUrl = ''http://h'', c_token = ''t'', c_project = ''p'', c_environment = ''prod'',
     c_timeout = None, c_defaults = None\<rparr>"


text \<open>
  After the unmount nothing the provider started touches its state again, and its stream
  connection stays closed.
\<close>

theorem provider_unmounted_inert:
  assumes "provider_run (provider_unmount p) evs p'"
  shows "p_state p' = p_state p \<and> p_closed p' \<and> p_connClosed p'"
proof -
  have "p_state p' = p_state q \<and> p_closed p' \<and> p_connClosed p'"
    if "provider_run q evs p'" "p_closed q" "p_connClosed q" for q
    using that
  proof (induction rule: provider_run.induct)
    case (pr_cons p ev p' evs p'')
    from pr_cons.hyps(1) pr_cons.prems have "p_state p' = p_state p \<and> p_closed p' \<and> p_connClosed p'"
      by (cases rule: provider_step.cases)
         (auto simp: initial_settled_def provider_onFlagChange_def provider_onConnected_def refetch_settled_def
           provider_unmount_def Let_def split: sum.split)
    with pr_cons show ?case by simp
  qed simp
  from this [OF assms] show ?thesis by (simp add: provider_unmount_def)
qed

theorem provider_unmounted_inert_witness:
  "\<exists>p p'. provider_run (provider_unmount p) [ProviderFlag demo_off_event] p' \<and> p_state p' = p_state p"
proof -
  let ?p = "\<lparr>p_state = provider_render, p_closed = False, p_connClosed = False, p_initial = True, p_refetches = 0\<rparr>"
  have run: "provider_run (provider_unmount ?p) [ProviderFlag demo_off_event] (provider_onFlagChange demo_off_event (provider_unmount ?p))"
    by (rule pr_cons [OF p_flag_step pr_nil])
  from provider_unmounted_inert [OF this] run show ?thesis by blast
qed

section \<open>Properties of useCachedFlag\<close>

definition subscribed_only :: "string \<Rightarrow> nat \<Rightarrow> cc \<Rightarrow> bool" where
  "subscribed_only key cb st \<longleftrightarrow> (\<forall>k cbs. map_get (subscribers st) k = Some cbs \<longrightarrow> (cb \<in> set cbs) = (k = key))
     \<and> map_get (subscribers st) key \<noteq> None"

definition in_sync :: "string \<Rightarrow> nat \<Rightarrow> cc \<times> cached_hook \<Rightarrow> bool" where
  "in_sync key cb = (\<lambda>(st, h). \<not> h_cancelled h \<and> subscribed_only key cb st \<and> hydrationComplete st \<and> \<not> closed st
     \<and> h_shown h = (r_enabled (cc_evaluate key \<lparr>user_id = [], attributes = []\<rparr> st), False))"

lemma fold_hook_callback:
  assumes "\<not> h_cancelled h" and "\<And>n. n \<in> set calls \<Longrightarrow> snd n = b"
  shows "fold (\<lambda>n. hook_callback (snd n)) calls h = (if calls = [] then h else h\<lparr>h_shown := (b, False)\<rparr>)"
  using assms by (induction calls arbitrary: h) (auto simp: hook_callback_def)

lemma hook_event_sync:
  assumes "in_sync key cb (st, h)"
  shows "in_sync key cb (hook_event cb ev (st, h))"
proof -
  let ?c = "\<lparr>user_id = [], attributes = []\<rparr>"
  let ?calls = "case_option [] id (map_get (subscribers st) (ev_flagKey ev))"
  have live: "\<not> h_cancelled h" "subscribed_only key cb st" "hydrationComplete st" "\<not> closed st"
    "h_shown h = (r_enabled (cc_evaluate key ?c st), False)"
    using assms by (auto simp: in_sync_def)
  obtain st' x where ap: "applyCacheEvent no_throw ev st = (st', x)" by fastforce
  have st': "fst (onFlagChange no_throw ev st) = st'" using ap live by (simp add: onFlagChange_def)
  note frame = applyCacheEvent_frame [OF ap]
  have get: "map_get (cache st') key = map_option (overlay [ev] key) (map_get (cache st) key)"
    using applyCacheEvent_get [of no_throw ev st key] ap by simp
  have calls: "notified st' = notified st @
      (if map_get (cache st) (ev_flagKey ev) = None then [] else map (\<lambda>c. (c, ev_enabled ev)) ?calls)"
    using ap by (auto simp: applyCacheEvent_def Let_def notify_quiet split: option.splits)
  let ?mine = "filter (\<lambda>n. fst n = cb) (drop (length (notified st)) (notified st'))"
  have mine: "?mine = [] \<longleftrightarrow> \<not> (ev_flagKey ev = key \<and> map_get (cache st) key \<noteq> None)"
    using calls live(2) by (auto simp: subscribed_only_def filter_empty_conv split: option.splits)
  have "fold (\<lambda>n. hook_callback (snd n)) ?mine h = (if ?mine = [] then h else h\<lparr>h_shown := (ev_enabled ev, False)\<rparr>)"
    using calls by (intro fold_hook_callback) (use live in \<open>auto split: if_splits\<close>)
  then show ?thesis
    using live frame get mine st'
    by (auto simp: hook_event_def Let_def in_sync_def subscribed_only_def cc_evaluate_def overlay_single split: option.splits)
qed


definition demo_hook :: cached_hook where
  "demo_hook = \<lparr>h_shown = (True, False), h_cancelled = False, h_read = InitialReadDone\<rparr>"


text \<open>
  A stream event that is processed between the cache read of the hook and that read's
  continuation leaves the hook showing the old state: \<open>evaluate\<close> captured the entry the event
  replaced, and its continuation overwrites what the callback showed.
\<close>

theorem cached_hook_stale_read:
  "let h1 = hook_ready ''dark'' demo_live hook_mount;
       (st2, h2) = hook_event 7 demo_off_event (demo_live, h1);
       h3 = hook_read h2
   in hook_step ''dark'' 7 (demo_live, hook_mount) (demo_live, h1)
    \<and> hook_step ''dark'' 7 (demo_live, h1) (st2, h2) \<and> hook_step ''dark'' 7 (st2, h2) (st2, h3)
    \<and> h_shown h2 = (False, False) \<and> \<not> r_enabled (cc_evaluate ''dark'' \<lparr>user_id = [], attributes = []\<rparr> st2)
    \<and> h_shown h3 = (True, False) \<and> h_read h3 = InitialReadDone"
proof -
  let ?h1 = "hook_ready ''dark'' demo_live hook_mount"
  obtain st2 h2 where e: "hook_event 7 demo_off_event (demo_live, ?h1) = (st2, h2)" by fastforce
  have h1: "?h1 = \<lparr>h_shown = (False, True), h_cancelled = False, h_read = AwaitRead True\<rparr>"
    by (simp add: hook_ready_def hook_mount_def demo_live_def cc_init_def cc_evaluate_def map_get_def to_result_def demo_flag_def)
  have st2: "h2 = \<lparr>h_shown = (False, False), h_cancelled = False, h_read = AwaitRead True\<rparr>"
    "\<not> r_enabled (cc_evaluate ''dark'' \<lparr>user_id = [], attributes = []\<rparr> st2)"
    using e h1 by (auto simp: hook_event_def Let_def onFlagChange_def applyCacheEvent_def demo_live_def cc_init_def map_get_def
        demo_off_event_def notify_quiet map_set_def cc_evaluate_def hook_callback_def)
  have "hook_step ''dark'' 7 (demo_live, hook_mount) (demo_live, ?h1)"
    by (rule on_ready) (simp_all add: hook_mount_def demo_live_def)
  moreover have "hook_step ''dark'' 7 (demo_live, ?h1) (st2, h2)"
    using on_event [of "''dark''" 7 "(demo_live, ?h1)" demo_off_event] e by simp
  moreover have "hook_step ''dark'' 7 (st2, h2) (st2, hook_read h2)"
    by (rule on_read [where b = True]) (simp add: st2)
  ultimately show ?thesis using e st2 by (simp add: Let_def hook_read_def)
qed

end
