(* ===== verification/Web_Ui.thy ===== *)
theory Web_Ui
  imports Json
begin

text \<open>
  What the pages of the web application (\<open>web/src\<close>) are made of.

  A page is modelled by its local state (the \<open>useState\<close> variables), the messages its event
  handlers send, an update function from a message to the new state and the effects the
  handler starts, and a view: the element tree it renders for a state and the query results
  at hand. Class names, inline styles, refs and React keys carry no behaviour and are left
  out; a translated text is its key (with the namespace) and its arguments; links, inputs,
  handlers, \<open>disabled\<close> and the accessibility attributes are kept.

  Query and mutation objects of the query library are inputs of a view: what it reads of
  them is the record \<open>query\<close> resp. \<open>mutation\<close>.
\<close>

section \<open>Element trees\<close>

datatype utext = Lit string | T string "(string \<times> string) list"

datatype 'm attr =
    At string utext
  | Flag string bool
  | On string 'm
  | OnText string "string \<Rightarrow> 'm"
  | OnBool string "bool \<Rightarrow> 'm"

datatype 'm html = Txt utext | El string "'m attr list" "'m html list"

definition show_if :: "bool \<Rightarrow> 'm html \<Rightarrow> 'm html list" where
  "show_if b h = (if b then [h] else [])"

abbreviation lit :: "string \<Rightarrow> 'm html" where "lit s \<equiv> Txt (Lit s)"
abbreviation tr :: "string \<Rightarrow> 'm html" where "tr k \<equiv> Txt (T k [])"

text \<open>All texts of a tree, and the messages its enabled controls can send.\<close>

fun texts :: "'m html \<Rightarrow> utext list" where
  "texts (Txt t) = [t]"
| "texts (El tag ats hs) = concat (map texts hs)"

fun attr_click :: "'m attr \<Rightarrow> 'm list" where
  "attr_click (On e m) = [m]"
| "attr_click _ = []"

definition disabled :: "'m attr list \<Rightarrow> bool" where
  "disabled ats \<longleftrightarrow> (\<exists>a \<in> set ats. case a of Flag n b \<Rightarrow> n = ''disabled'' \<and> b | _ \<Rightarrow> False)"

fun clicks :: "'m html \<Rightarrow> 'm list" where
  "clicks (Txt t) = []"
| "clicks (El tag ats hs) = (if disabled ats then [] else concat (map attr_click ats)) @ concat (map clicks hs)"

lemma texts_show_if [simp]: "concat (map texts (show_if b h)) = (if b then texts h else [])"
  by (simp add: show_if_def)

lemma clicks_show_if [simp]: "concat (map clicks (show_if b h)) = (if b then clicks h else [])"
  by (simp add: show_if_def)

lemma disabled_simps [simp]:
  "disabled [] = False"
  "disabled (At n t # ats) = disabled ats"
  "disabled (On n m # ats) = disabled ats"
  "disabled (OnText n f # ats) = disabled ats"
  "disabled (OnBool n g # ats) = disabled ats"
  "disabled (Flag n b # ats) = ((n = ''disabled'' \<and> b) \<or> disabled ats)"
  "disabled (ats @ ats') = (disabled ats \<or> disabled ats')"
  by (auto simp: disabled_def)

lemma disabled_map_attr [simp]: "disabled (map (map_attr f) ats) = disabled ats"
  by (induction ats) (auto simp: disabled_def split: attr.splits)

lemma attr_click_map [simp]: "attr_click (map_attr f a) = map f (attr_click a)"
  by (cases a) simp_all

lemma clicks_map [simp]: "clicks (map_html f h) = map f (clicks h)"
  by (induction h) (auto simp: map_concat o_def cong: map_cong)

lemma texts_map [simp]: "texts (map_html f h) = texts h"
  by (induction h) (auto simp: o_def cong: map_cong)

section \<open>Queries, mutations, effects\<close>

text \<open>The errors a request can reject with: the \<open>APIError\<close> of \<open>api.ts\<close>, or another one.\<close>

datatype web_error = APIError (api_status: nat) (api_message: string) (api_code: string) | OtherError string

record 'a query =
  isLoading :: bool
  q_error :: "web_error option"
  q_data :: "'a option"

definition isError :: "'a query \<Rightarrow> bool" where
  "isError q \<longleftrightarrow> q_error q \<noteq> None"

definition is404 :: "'a query \<Rightarrow> bool" where
  "is404 q \<longleftrightarrow> (case q_error q of Some (APIError s m c) \<Rightarrow> s = 404 | _ \<Rightarrow> False)"

record 'v mutation =
  isPending :: bool
  m_variables :: "'v option"

definition pending_for :: "('v \<Rightarrow> bool) \<Rightarrow> 'v mutation \<Rightarrow> bool" where
  "pending_for P m \<longleftrightarrow> isPending m \<and> (case m_variables m of Some v \<Rightarrow> P v | None \<Rightarrow> False)"

text \<open>What a handler starts besides changing state.\<close>

datatype effect =
    Send string string "json option"
  | Invalidate "string list"
  | Refetch "string list"
  | Navigate string
  | Announce string
  | CopyToClipboard string
  | SetTimer nat
  | FocusTrigger
  | SigninSilent
  | SigninRedirect string
  | Reload

definition api_or :: "utext \<Rightarrow> web_error \<Rightarrow> utext" where
  "api_or fallback err = (case err of APIError s m c \<Rightarrow> Lit m | OtherError m \<Rightarrow> fallback)"

definition jnum :: "int \<Rightarrow> json" where
  "jnum n = JNum (show_int n)"

section \<open>UI primitives\<close>

text \<open>\<open>components/ui\<close>. Attributes a caller passes on are the list \<open>ats\<close>.\<close>

definition spinner :: "'m html" where
  "spinner = El ''svg'' [Flag ''aria-hidden'' True] [El ''circle'' [] [], El ''path'' [] []]"

definition ui_Button :: "bool \<Rightarrow> bool \<Rightarrow> 'm attr list \<Rightarrow> 'm html list \<Rightarrow> 'm html" where
  "ui_Button loading dis ats children =
     El ''button'' ([Flag ''disabled'' (dis \<or> loading)] @ (if loading then [Flag ''aria-busy'' True] else []) @ ats)
       (show_if loading spinner @ children)"

record form_field =
  fieldId :: string
  errorId :: "string option"

text \<open>\<open>Input\<close> and \<open>Textarea\<close>: the caller's id and description win over the enclosing field's.\<close>

definition field_attrs :: "form_field option \<Rightarrow> bool \<Rightarrow> string option \<Rightarrow> string option \<Rightarrow> 'm attr list" where
  "field_attrs fieldCtx invalid idProp descProp =
     (case idProp of Some i \<Rightarrow> [At ''id'' (Lit i)] | None \<Rightarrow>
        (case fieldCtx of Some f \<Rightarrow> [At ''id'' (Lit (fieldId f))] | None \<Rightarrow> [])) @
     (if invalid then [Flag ''aria-invalid'' True] else []) @
     (case descProp of Some d \<Rightarrow> [At ''aria-describedby'' (Lit d)] | None \<Rightarrow>
        (case fieldCtx of Some f \<Rightarrow>
            (case errorId f of Some e \<Rightarrow> if e \<noteq> [] then [At ''aria-describedby'' (Lit e)] else [] | None \<Rightarrow> [])
          | None \<Rightarrow> []))"

definition ui_Input :: "form_field option \<Rightarrow> bool \<Rightarrow> string option \<Rightarrow> string option \<Rightarrow> 'm attr list \<Rightarrow> 'm html" where
  "ui_Input fieldCtx invalid idProp descProp ats = El ''input'' (field_attrs fieldCtx invalid idProp descProp @ ats) []"

definition ui_Textarea :: "form_field option \<Rightarrow> bool \<Rightarrow> string option \<Rightarrow> string option \<Rightarrow> 'm attr list \<Rightarrow> 'm html" where
  "ui_Textarea fieldCtx invalid idProp descProp ats = El ''textarea'' (field_attrs fieldCtx invalid idProp descProp @ ats) []"

definition ui_Label :: "string \<Rightarrow> 'm html list \<Rightarrow> 'm html" where
  "ui_Label htmlFor children = El ''label'' [At ''for'' (Lit htmlFor)] children"

text \<open>\<open>FormField\<close>; \<open>generatedId\<close> is what \<open>useId\<close> returned, the children get the context.\<close>

definition ui_FormField ::
    "string \<Rightarrow> utext \<Rightarrow> string option \<Rightarrow> string option \<Rightarrow> (form_field \<Rightarrow> 'm html list) \<Rightarrow> 'm html" where
  "ui_FormField generatedId label htmlFor err children =
     (let has_error = (case err of Some e \<Rightarrow> e \<noteq> [] | None \<Rightarrow> False);
          eid = (if has_error then Some (generatedId @ ''-error'') else None);
          fid = (case htmlFor of Some i \<Rightarrow> i | None \<Rightarrow> generatedId)
      in El ''div'' []
           ([ui_Label fid [Txt label], El ''div'' [] (children \<lparr>fieldId = fid, errorId = eid\<rparr>)] @
            (case err of
               Some e \<Rightarrow> show_if (e \<noteq> [])
                 (El ''p'' [At ''id'' (Lit (generatedId @ ''-error'')), At ''role'' (Lit ''alert'')] [lit e])
             | None \<Rightarrow> [])))"

definition ui_SelectItem :: "string \<Rightarrow> 'm html list \<Rightarrow> 'm html" where
  "ui_SelectItem v children = El ''option'' [At ''value'' (Lit v)] children"

definition ui_Select :: "string \<Rightarrow> (string \<Rightarrow> 'm) \<Rightarrow> bool \<Rightarrow> 'm attr list \<Rightarrow> 'm html list \<Rightarrow> 'm html" where
  "ui_Select v onValueChange dis ats items =
     El ''select'' ([At ''value'' (Lit v), OnText ''change'' onValueChange, Flag ''disabled'' dis] @ ats) items"

text \<open>A Radix dialog renders its content exactly while it is open; \<open>onOpenChange(false)\<close> is Escape or a click outside.\<close>

definition ui_Dialog :: "bool \<Rightarrow> (bool \<Rightarrow> 'm) \<Rightarrow> 'm html list \<Rightarrow> 'm html" where
  "ui_Dialog is_open onOpenChange children =
     El ''dialog'' [Flag ''open'' is_open, OnBool ''openchange'' onOpenChange] (if is_open then children else [])"

definition ui_DialogContent :: "'m html list \<Rightarrow> 'm html" where
  "ui_DialogContent children = El ''portal'' [] [El ''overlay'' [] [], El ''content'' [] children]"

definition ui_DialogHeader :: "'m html list \<Rightarrow> 'm html" where
  "ui_DialogHeader children = El ''div'' [] children"

definition ui_DialogTitle :: "'m html list \<Rightarrow> 'm html" where
  "ui_DialogTitle children = El ''title'' [] children"

definition ui_DialogDescription :: "'m html list \<Rightarrow> 'm html" where
  "ui_DialogDescription children = El ''description'' [] children"

definition ui_DialogFooter :: "'m html list \<Rightarrow> 'm html" where
  "ui_DialogFooter children = El ''div'' [] children"

definition ui_DialogCloseButton :: "'m \<Rightarrow> 'm html" where
  "ui_DialogCloseButton onClose = El ''button'' [At ''aria-label'' (T ''common:actions.close'' []), On ''click'' onClose]
     [El ''svg'' [Flag ''aria-hidden'' True] [El ''path'' [] []]]"

datatype BadgeStatus = BadgeEnabled | BadgeDisabled | BadgeWarning | BadgeUnknown

fun badge_label :: "BadgeStatus \<Rightarrow> string" where
  "badge_label BadgeEnabled = ''Enabled''"
| "badge_label BadgeDisabled = ''Disabled''"
| "badge_label BadgeWarning = ''Warning''"
| "badge_label BadgeUnknown = ''Unknown''"

definition ui_StatusBadge :: "BadgeStatus \<Rightarrow> utext option \<Rightarrow> 'm html" where
  "ui_StatusBadge st label =
     El ''span'' [] [El ''span'' [Flag ''aria-hidden'' True] [], Txt (case label of Some l \<Rightarrow> l | None \<Rightarrow> Lit (badge_label st))]"

text \<open>\<open>PageHeading\<close>.\<close>

record Ancestor =
  an_label :: string
  an_to :: string

definition link :: "string \<Rightarrow> 'm html list \<Rightarrow> 'm html" where
  "link to children = El ''a'' [At ''href'' (Lit to)] children"

definition PageHeading :: "Ancestor list \<Rightarrow> utext \<Rightarrow> 'm html" where
  "PageHeading ancestors current =
     El ''nav'' [At ''aria-label'' (T ''common:nav.page_context_aria'' [])]
       (map (\<lambda>a. El ''span'' []
               [link (an_to a) [lit (an_label a)],
                El ''span'' [Flag ''aria-hidden'' True] [tr ''common:nav.heading_separator'']]) ancestors @
        [El ''span'' [] [Txt current]])"

definition SettingsTabBar :: "string \<Rightarrow> string \<Rightarrow> 'm html" where
  "SettingsTabBar slug pathname =
     (let generalPath = ''/projects/'' @ slug @ ''/settings'';
          environmentsPath = ''/projects/'' @ slug @ ''/settings/environments'';
          tabs = [(T ''projects:settings.tab_general'' [], generalPath, pathname = generalPath),
                  (T ''projects:settings.tab_environments'' [], environmentsPath, starts_with environmentsPath pathname)]
      in El ''nav'' [At ''aria-label'' (T ''projects:settings.title'' [])]
           [El ''div'' [] (map (\<lambda>(label, to, active). link to ([Txt label] @ show_if active (El ''span'' [] []))) tabs)])"

lemma clicks_Button [simp]:
  "clicks (ui_Button loading dis ats children) =
     (if dis \<or> loading \<or> disabled ats then [] else concat (map attr_click ats)) @ concat (map clicks children)"
  by (simp add: ui_Button_def spinner_def)

lemma texts_Button [simp]: "texts (ui_Button loading dis ats children) = concat (map texts children)"
  by (simp add: ui_Button_def spinner_def)

section \<open>Regular components\<close>

text \<open>\<open>CopyableCode\<close>: the state is \<open>copied\<close>; the timer started by a copy resets it.\<close>

datatype copy_msg = CopyClick | CopyWritten bool | CopyTimer

definition CopyableCode_update :: "string \<Rightarrow> bool \<Rightarrow> copy_msg \<Rightarrow> bool \<Rightarrow> bool \<times> effect list" where
  "CopyableCode_update v has_clipboard msg copied = (case msg of
     CopyClick \<Rightarrow> (copied, if has_clipboard then [CopyToClipboard v] else [])
   | CopyWritten ok \<Rightarrow> if ok then (True, [SetTimer 1000]) else (copied, [])
   | CopyTimer \<Rightarrow> (False, []))"

definition CopyableCode_view :: "string \<Rightarrow> utext option \<Rightarrow> bool \<Rightarrow> copy_msg html" where
  "CopyableCode_view v ariaLabel copied =
     El ''button'' [At ''type'' (Lit ''button''), On ''click'' CopyClick,
         At ''aria-label'' (case ariaLabel of Some l \<Rightarrow> l | None \<Rightarrow> Lit (''Copy '' @ v))]
       [El ''span'' [] [lit v], El (if copied then ''CheckIcon'' else ''ClipboardIcon'') [Flag ''aria-hidden'' True] []]"

datatype ToolCapabilityTier = TierRead | TierWrite | TierDestructive

fun tier_label :: "ToolCapabilityTier \<Rightarrow> string" where
  "tier_label TierRead = ''projects:api_keys.tier_read_label''"
| "tier_label TierWrite = ''projects:api_keys.tier_write_label''"
| "tier_label TierDestructive = ''projects:api_keys.tier_destructive_label''"

fun tier_description :: "ToolCapabilityTier \<Rightarrow> string" where
  "tier_description TierRead = ''projects:api_keys.tier_read_description''"
| "tier_description TierWrite = ''projects:api_keys.tier_write_description''"
| "tier_description TierDestructive = []"

definition ui_TierBadge :: "ToolCapabilityTier option \<Rightarrow> 'm html" where
  "ui_TierBadge tier = El ''span'' [] [tr (tier_label (case tier of Some t \<Rightarrow> t | None \<Rightarrow> TierRead))]"

definition TIERS :: "ToolCapabilityTier list" where
  "TIERS = [TierRead, TierWrite, TierDestructive]"

definition ui_TierSelector :: "ToolCapabilityTier \<Rightarrow> (ToolCapabilityTier \<Rightarrow> 'm) \<Rightarrow> 'm html" where
  "ui_TierSelector v onChange =
     El ''div'' []
       ([El ''div'' [At ''role'' (Lit ''group''), At ''aria-label'' (T ''projects:api_keys.capability_tier_label'' [])]
          (map (\<lambda>tier. El ''button'' [At ''type'' (Lit ''button''), On ''click'' (onChange tier), Flag ''aria-pressed'' (v = tier)]
                 [tr (tier_label tier)]) TIERS)] @
        show_if (v = TierDestructive) (El ''p'' [] [tr ''projects:api_keys.tier_destructive_warning'']) @
        show_if (tier_description v \<noteq> []) (El ''p'' [] [tr (tier_description v)]))"

section \<open>Theme\<close>

datatype ThemePreference = SystemTheme | LightTheme | DarkTheme

fun theme_value :: "ThemePreference \<Rightarrow> string" where
  "theme_value SystemTheme = ''system''"
| "theme_value LightTheme = ''light''"
| "theme_value DarkTheme = ''dark''"

text \<open>
  The root element's classes and local storage; storage operations throw when it is
  unavailable (\<open>None\<close>).
\<close>

record theme_env =
  root_classes :: "string list"
  local_storage :: "(string, string) js_map option"

definition THEME_KEY :: string where
  "THEME_KEY = ''cg:theme.preference''"

definition readPreference :: "theme_env \<Rightarrow> ThemePreference" where
  "readPreference env = (case local_storage env of
     None \<Rightarrow> SystemTheme
   | Some store \<Rightarrow> (case map_get store THEME_KEY of
       None \<Rightarrow> SystemTheme
     | Some raw \<Rightarrow> if raw = ''light'' then LightTheme else if raw = ''dark'' then DarkTheme else SystemTheme))"

definition applyPreference :: "ThemePreference \<Rightarrow> theme_env \<Rightarrow> theme_env" where
  "applyPreference pref env =
     (let base = filter (\<lambda>c. c \<noteq> ''theme-light'' \<and> c \<noteq> ''theme-dark'') (root_classes env);
          classes = (case pref of
              LightTheme \<Rightarrow> set_add ''theme-light'' base | DarkTheme \<Rightarrow> set_add ''theme-dark'' base | SystemTheme \<Rightarrow> base)
      in \<lparr>root_classes = classes,
          local_storage = map_option (\<lambda>store.
              if pref = SystemTheme then map_del THEME_KEY store else map_set THEME_KEY (theme_value pref) store)
            (local_storage env)\<rparr>)"

definition ThemeToggle_view :: "ThemePreference \<Rightarrow> ThemePreference html" where
  "ThemeToggle_view current =
     El ''div'' [At ''role'' (Lit ''radiogroup''), At ''aria-label'' (T ''common:theme.label'' [])]
       (map (\<lambda>v. El ''button'' [At ''type'' (Lit ''button''), At ''role'' (Lit ''radio''), Flag ''aria-checked'' (current = v),
                 At ''aria-label'' (T (''common:theme.'' @ theme_value v) []), At ''title'' (T (''common:theme.'' @ theme_value v) []),
                 On ''click'' v] [El ''svg'' [Flag ''aria-hidden'' True] []])
         [SystemTheme, LightTheme, DarkTheme])"

text \<open>
  A theme choice is persistent: reading the preference after applying it gives it back
  (whenever local storage works), and the root element carries the class of the chosen theme and no
  other theme class.
\<close>

theorem theme_round_trip:
  "let env' = applyPreference pref env in
   (local_storage env \<noteq> None \<longrightarrow> readPreference env' = pref)
   \<and> (''theme-light'' \<in> set (root_classes env')) = (pref = LightTheme)
   \<and> (''theme-dark'' \<in> set (root_classes env')) = (pref = DarkTheme)"
  by (cases pref) (auto simp: applyPreference_def readPreference_def Let_def js_map_rules set_add_def split: option.split)

theorem theme_round_trip_witness:
  "readPreference (applyPreference DarkTheme \<lparr>root_classes = [''theme-light''], local_storage = Some []\<rparr>) = DarkTheme"
  using theme_round_trip [of DarkTheme "\<lparr>root_classes = [''theme-light''], local_storage = Some []\<rparr>"]
  by (simp add: Let_def)

end
