(* ===== verification/Web_Api.thy ===== *)
theory Web_Api
  imports Web_Ui Streaming
begin

text \<open>
  The web application's access to the service: \<open>web/src/api.ts\<close>, the token storage of
  \<open>auth.ts\<close>, the 401 handling of \<open>queryClient.ts\<close>, and the hooks under
  \<open>web/src/hooks\<close>. The OIDC \<open>UserManager\<close> and the browser's \<open>fetch\<close> are parameters.
\<close>

section \<open>api.ts\<close>

record web_response =
  wr_status :: nat
  wr_statusText :: string
  wr_text :: "string option"

definition wr_ok :: "web_response \<Rightarrow> bool" where
  "wr_ok r \<longleftrightarrow> 200 \<le> wr_status r \<and> wr_status r \<le> 299"

text \<open>
  \<open>user\<close> is what \<open>getUserManager().getUser()\<close> gave: an error, nobody, or somebody with an
  access token (possibly empty). \<open>init\<close> is the method and the body.
\<close>

definition authed_request :: "string option option \<Rightarrow> string \<Rightarrow> string \<Rightarrow> string option \<Rightarrow> request" where
  "authed_request user path verb content =
     \<lparr>url = path, http_method = verb,
      headers = (''Content-Type'', ''application/json'') #
        (case user of Some (Some tok) \<Rightarrow> if tok \<noteq> [] then [(''Authorization'', ''Bearer '' @ tok)] else [] | _ \<Rightarrow> []),
      req_body = content\<rparr>"

type_synonym web_net = "request \<Rightarrow> (web_error, web_response) result"

definition authedFetch ::
    "(web_error, string option option) result \<Rightarrow> web_net \<Rightarrow> string \<Rightarrow> string \<Rightarrow> string option \<Rightarrow> (web_error, web_response) result" where
  "authedFetch user net path verb content = await user (\<lambda>u. net (authed_request u path verb content))"

definition throwIfNotOk :: "web_response \<Rightarrow> (web_error, unit) result" where
  "throwIfNotOk res =
     (if wr_ok res then Inr ()
      else
        (let fallback = show_nat (wr_status res) @ '' '' @ wr_statusText res in
         case Option.bind (wr_text res) json_parse of
           None \<Rightarrow> Inl (APIError (wr_status res) fallback [])
         | Some b \<Rightarrow> Inl (APIError (wr_status res)
             (case jfield ''message'' b of Some (JStr m) \<Rightarrow> m | _ \<Rightarrow> fallback)
             (case jfield ''error'' b of Some (JStr c) \<Rightarrow> c | _ \<Rightarrow> []))))"

definition wr_json :: "web_response \<Rightarrow> (web_error, json) result" where
  "wr_json res = (case Option.bind (wr_text res) json_parse of
     Some j \<Rightarrow> Inr j | None \<Rightarrow> Inl (OtherError ''invalid JSON''))"

definition fetchJSON :: "(web_error, string option option) result \<Rightarrow> web_net \<Rightarrow> string \<Rightarrow> (web_error, json) result" where
  "fetchJSON user net path =
     await (authedFetch user net path ''GET'' None) (\<lambda>res. await (throwIfNotOk res) (\<lambda>_. wr_json res))"

definition sendJSON ::
    "(web_error, string option option) result \<Rightarrow> web_net \<Rightarrow> string \<Rightarrow> string \<Rightarrow> json \<Rightarrow> (web_error, json) result" where
  "sendJSON user net verb path b =
     await (authedFetch user net path verb (Some (json_stringify b))) (\<lambda>res. await (throwIfNotOk res) (\<lambda>_. wr_json res))"

definition patchJSON :: "(web_error, string option option) result \<Rightarrow> web_net \<Rightarrow> string \<Rightarrow> json \<Rightarrow> (web_error, json) result" where
  "patchJSON user net = sendJSON user net ''PATCH''"

definition postJSON :: "(web_error, string option option) result \<Rightarrow> web_net \<Rightarrow> string \<Rightarrow> json \<Rightarrow> (web_error, json) result" where
  "postJSON user net = sendJSON user net ''POST''"

definition putJSON :: "(web_error, string option option) result \<Rightarrow> web_net \<Rightarrow> string \<Rightarrow> json \<Rightarrow> (web_error, json) result" where
  "putJSON user net = sendJSON user net ''PUT''"

definition patchEmpty :: "(web_error, string option option) result \<Rightarrow> web_net \<Rightarrow> string \<Rightarrow> json \<Rightarrow> (web_error, unit) result" where
  "patchEmpty user net path b =
     await (authedFetch user net path ''PATCH'' (Some (json_stringify b))) throwIfNotOk"

definition deleteRequest :: "(web_error, string option option) result \<Rightarrow> web_net \<Rightarrow> string \<Rightarrow> (web_error, unit) result" where
  "deleteRequest user net path = await (authedFetch user net path ''DELETE'' None) throwIfNotOk"

section \<open>auth.ts\<close>

type_synonym InMemoryStorage = "(string, string) js_map"

definition st_length :: "InMemoryStorage \<Rightarrow> nat" where "st_length d = length d"
definition st_clear :: "InMemoryStorage \<Rightarrow> InMemoryStorage" where "st_clear d = []"
definition st_getItem :: "string \<Rightarrow> InMemoryStorage \<Rightarrow> string option" where "st_getItem k d = map_get d k"
definition st_key :: "nat \<Rightarrow> InMemoryStorage \<Rightarrow> string option" where
  "st_key i d = (if i < length d then Some (map_keys d ! i) else None)"
definition st_removeItem :: "string \<Rightarrow> InMemoryStorage \<Rightarrow> InMemoryStorage" where "st_removeItem k d = map_del k d"
definition st_setItem :: "string \<Rightarrow> string \<Rightarrow> InMemoryStorage \<Rightarrow> InMemoryStorage" where "st_setItem k v d = map_set k v d"

record OIDCConfig =
  authority :: string
  client_id :: string
  redirect_uri :: string

text \<open>The settings of the user manager that \<open>initUserManager\<close> creates; its token store starts empty.\<close>

record user_manager =
  um_config :: OIDCConfig
  um_response_type :: string
  um_scope :: string
  um_automaticSilentRenew :: bool
  um_userStore :: InMemoryStorage

definition initUserManager :: "OIDCConfig \<Rightarrow> user_manager" where
  "initUserManager config = \<lparr>um_config = config, um_response_type = ''code'',
     um_scope = ''openid profile email offline_access'', um_automaticSilentRenew = True, um_userStore = []\<rparr>"

definition getUserManager :: "user_manager option \<Rightarrow> (web_error, user_manager) result" where
  "getUserManager um = (case um of
     None \<Rightarrow> Inl (OtherError ''UserManager not initialized'')
   | Some m \<Rightarrow> Inr m)"

section \<open>queryClient.ts\<close>

text \<open>
  A failed query, and then the outcome of the silent renewal it started; \<open>location\<close> is the
  current path and query string.
\<close>

definition onQueryError :: "web_error \<Rightarrow> effect list" where
  "onQueryError err = (case err of
     APIError s m c \<Rightarrow> if s \<noteq> 401 then [] else [SigninSilent]
   | OtherError m \<Rightarrow> [])"

definition onSilentSettled :: "bool \<Rightarrow> string list \<Rightarrow> string \<Rightarrow> effect list" where
  "onSilentSettled renewed queryKey location = (if renewed then [Invalidate queryKey] else [SigninRedirect location])"

section \<open>Hooks\<close>

text \<open>
  \<open>useLiveAnnouncer\<close>: the region's text and the toggle. The two invisible characters are
  U+200B and U+200C.
\<close>

record announcer =
  region :: string
  toggle :: bool

definition announce :: "string \<Rightarrow> announcer \<Rightarrow> announcer" where
  "announce msg a =
     (let t = (\<not> toggle a) in
      \<lparr>region = msg @ (if t then [CHR 0xE2, CHR 0x80, CHR 0x8B] else [CHR 0xE2, CHR 0x80, CHR 0x8C]), toggle = t\<rparr>)"

definition LiveAnnouncer_view :: "announcer \<Rightarrow> 'm html list \<Rightarrow> 'm html list" where
  "LiveAnnouncer_view a children = children @
     [El ''div'' [At ''role'' (Lit ''status''), At ''aria-live'' (Lit ''polite''), At ''aria-atomic'' (Lit ''true'')] [lit (region a)]]"

text \<open>\<open>useDocumentTitle\<close>; the separator is an em dash between spaces.\<close>

definition title_separator :: string where
  "title_separator = [CHR '' '', CHR 0xE2, CHR 0x80, CHR 0x94, CHR '' '']"

definition document_title :: "string \<Rightarrow> string option list \<Rightarrow> string" where
  "document_title app_name segments =
     (let defd = map the (filter (\<lambda>s. s \<noteq> None) segments) in
      if 0 < length defd then js_join title_separator defd @ '' | '' @ app_name else app_name)"

text \<open>\<open>useProjectRole\<close>: the subject of the signed-in user, and the members the service lists.\<close>

record Member =
  mb_user_id :: string
  mb_role :: string

definition projectRole :: "Member list \<Rightarrow> string option \<Rightarrow> string option" where
  "projectRole members sub = (case sub of
     None \<Rightarrow> None
   | Some s \<Rightarrow> if s = [] then None else map_option mb_role (find (\<lambda>m. mb_user_id m = s) members))"

section \<open>useFlagSSE\<close>

text \<open>
  A \<open>data\<close> line is a change (its key and state), or is ignored. An event of the right type
  whose \<open>flag_key\<close> is no string or whose \<open>enabled\<close> is no boolean is not something the
  service sends; it is left out of the model (\<open>Unmodelled\<close>).
\<close>

datatype web_line = Ignored | Change string bool | Unmodelled

definition web_sse_line :: "string \<Rightarrow> web_line" where
  "web_sse_line line =
     (if \<not> starts_with ''data:'' line then Ignored
      else
        (let str = js_trim (drop 5 line) in
         if str = [] then Ignored
         else (case json_parse str of
             None \<Rightarrow> Ignored
           | Some j \<Rightarrow>
               (if jfield ''type'' j \<noteq> Some (JStr ''flag.state_changed'') then Ignored
                else (case (jfield ''flag_key'' j, jfield ''enabled'' j) of
                    (Some (JStr k), Some (JBool b)) \<Rightarrow> Change k b
                  | _ \<Rightarrow> Unmodelled)))))"

definition web_change_effects :: "string \<Rightarrow> string \<Rightarrow> string \<Rightarrow> bool \<Rightarrow> effect list" where
  "web_change_effects projectSlug envSlug key enabled =
     [Invalidate [''flag'', projectSlug, envSlug, key],
      Invalidate [''flag-env-state'', projectSlug],
      Invalidate [''flags'', projectSlug, envSlug],
      Announce (''Flag '' @ key @ '' '' @ (if enabled then ''enabled'' else ''disabled'') @ '' in '' @ envSlug)]"

definition web_block_effects :: "string \<Rightarrow> string \<Rightarrow> string \<Rightarrow> effect list" where
  "web_block_effects projectSlug envSlug block =
     concat (map (\<lambda>line. case web_sse_line line of
         Change k b \<Rightarrow> web_change_effects projectSlug envSlug k b | _ \<Rightarrow> []) (js_split nl block))"

text \<open>
  The read loop: each entry is whether the effect was cleaned up when the loop condition was
  tested, and what the read then gave. Nothing is retried when the stream ends.
\<close>

fun web_read_loop :: "string \<Rightarrow> string \<Rightarrow> string \<Rightarrow> (bool \<times> read_result) list \<Rightarrow> effect list" where
  "web_read_loop projectSlug envSlug buffer [] = []"
| "web_read_loop projectSlug envSlug buffer ((aborted, r) # reads) =
     (if aborted then []
      else (case r of
          Chunk v \<Rightarrow> (case sse_blocks (buffer @ v) of (blocks, rest) \<Rightarrow>
             concat (map (web_block_effects projectSlug envSlug) blocks) @ web_read_loop projectSlug envSlug rest reads)
        | _ \<Rightarrow> []))"

definition web_stream_url :: "string \<Rightarrow> string \<Rightarrow> string" where
  "web_stream_url projectSlug envSlug =
     ''/api/v1/projects/'' @ encodeURIComponent projectSlug @ ''/environments/'' @ encodeURIComponent envSlug @ ''/flags/stream''"

text \<open>
  One mount of the hook: the token (or its failure), whether it was unmounted meanwhile, the
  response's status and whether it has a body (\<open>None\<close> if the request rejects), the reads.
\<close>

definition useFlagSSE ::
    "string \<Rightarrow> string \<Rightarrow> string option option \<Rightarrow> bool \<Rightarrow> (nat \<times> bool) option \<Rightarrow> (bool \<times> read_result) list
      \<Rightarrow> request option \<times> effect list" where
  "useFlagSSE projectSlug envSlug token unmounted res reads =
     (case token of
        Some (Some tok) \<Rightarrow>
          (if tok = [] \<or> unmounted then (None, [])
           else
             (Some \<lparr>url = web_stream_url projectSlug envSlug, http_method = ''GET'',
                    headers = [(''Authorization'', ''Bearer '' @ tok), (''Accept'', ''text/event-stream'')], req_body = None\<rparr>,
              case res of
                Some (st, True) \<Rightarrow> if status_ok st then web_read_loop projectSlug envSlug [] reads else []
              | _ \<Rightarrow> []))
      | _ \<Rightarrow> (None, []))"

section \<open>Properties\<close>

text \<open>The error body the service sends.\<close>

definition error_body :: "string \<Rightarrow> string \<Rightarrow> json" where
  "error_body code msg = JObj [(''error'', JStr code), (''message'', JStr msg)]"

lemma error_body_fields:
  "json_parse (json_stringify (error_body c m)) = Some (error_body c m)"
  "jfield ''message'' (error_body c m) = Some (JStr m)" "jfield ''error'' (error_body c m) = Some (JStr c)"
proof -
  show "json_parse (json_stringify (error_body c m)) = Some (error_body c m)"
    by (rule json_parse_stringify) (simp add: error_body_def)
qed (simp_all add: error_body_def jfield_def map_get_def)



lemma web_read_chunks:
  "web_read_loop p e buffer (map (\<lambda>c. (False, Chunk c)) cs) =
     concat (map (web_block_effects p e) (fst (sse_blocks (snd (sse_blocks buffer) @ concat cs))))"
  if "fst (sse_blocks buffer) = []" for buffer
  using that
proof (induction cs arbitrary: buffer)
  case Nil
  then show ?case by (simp add: sse_blocks_rest)
next
  case (Cons c cs)
  have b: "snd (sse_blocks buffer) = buffer"
    using Cons.prems by (cases "js_index_of [nl, nl] buffer") (simp_all add: sse_blocks_None sse_blocks_Some)
  obtain bs r where sp: "sse_blocks (buffer @ c) = (bs, r)" by fastforce
  have r: "sse_blocks r = ([], r)" using sse_blocks_rest [of "buffer @ c"] sp by simp
  have "sse_blocks (buffer @ c @ concat cs) = (bs @ fst (sse_blocks (r @ concat cs)), snd (sse_blocks (r @ concat cs)))"
    using sse_blocks_append [of "buffer @ c" "concat cs"] sp by simp
  with sp r b Cons.IH [of r] show ?case by simp
qed

lemma web_sse_line_event:
  assumes "ev_type ev = ''flag.state_changed''"
  shows "web_sse_line (item_line (Event ev)) = Change (ev_flagKey ev) (ev_enabled ev)"
proof -
  have ne: "json_stringify (event_json ev) \<noteq> []" using json_stringify_obj_ends [of ev] by auto
  have "jfield ''type'' (event_json ev) = Some (JStr ''flag.state_changed'')"
    "jfield ''flag_key'' (event_json ev) = Some (JStr (ev_flagKey ev))"
    "jfield ''enabled'' (event_json ev) = Some (JBool (ev_enabled ev))"
    using assms by (simp_all add: event_json_def decode_defs)
  with ne show ?thesis
    by (simp add: web_sse_line_def Let_def js_trim_space trim_event json_parse_stringify plain_event_json)
qed

text \<open>
  Live updates of the pages. Whatever way the network cuts the stream into chunks, a
  stream of events invalidates, for each event in order, that flag's query, the flag states
  and the flag list of the environment, and announces the change; nothing else happens. After
  the stream's end there is no reconnect.
\<close>

theorem web_stream_invalidates:
  assumes "concat cs = concat (map (\<lambda>ev. frame (Event ev)) evs)"
    and "\<forall>ev \<in> set evs. ev_type ev = ''flag.state_changed''"
  shows "web_read_loop p e [] (map (\<lambda>c. (False, Chunk c)) cs @ [(False, ReadDone)] @ later) =
    concat (map (\<lambda>ev. web_change_effects p e (ev_flagKey ev) (ev_enabled ev)) evs)"
proof -
  have stop: "web_read_loop p e b (map (\<lambda>c. (False, Chunk c)) xs @ [(False, ReadDone)] @ later)
      = web_read_loop p e b (map (\<lambda>c. (False, Chunk c)) xs)" for b xs
    by (induction xs arbitrary: b) (auto split: prod.split)
  have ok: "list_all item_ok (map Event evs)" using assms(2) by (simp add: list_all_iff)
  have "web_block_effects p e (item_line (Event ev)) = web_change_effects p e (ev_flagKey ev) (ev_enabled ev)"
    if "ev \<in> set evs" for ev
    using that assms(2) item_line_no_nl [of "Event ev"] web_sse_line_event [of ev]
    by (simp add: web_block_effects_def js_split_no_sep)
  then have "concat (map (web_block_effects p e) (map item_line (map Event evs))) =
      concat (map (\<lambda>ev. web_change_effects p e (ev_flagKey ev) (ev_enabled ev)) evs)"
    by (simp cong: map_cong)
  moreover have "sse_blocks (concat cs) = (map item_line (map Event evs), [])"
    using sse_blocks_frames [OF ok] assms(1) by (simp add: comp_def)
  ultimately show ?thesis
    unfolding stop by (simp add: web_read_chunks sse_blocks_None)
qed

theorem web_stream_invalidates_witness:
  "web_read_loop ''p'' ''prod'' [] [(False, Chunk (frame (Event demo_event))), (False, ReadDone)] =
    web_change_effects ''p'' ''prod'' (ev_flagKey demo_event) (ev_enabled demo_event)"
  using web_stream_invalidates [of "[frame (Event demo_event)]" "[demo_event]" "''p''" "''prod''" "[]"]
  by (simp add: demo_event_def)

text \<open>
  Two announcements in a row never leave the same text in the live region, even for the
  same message, so a screen reader reads each of them.
\<close>

theorem announcements_differ: "region (announce m (announce m' a)) \<noteq> region (announce m' a)"
  by (simp add: announce_def Let_def)

end
