(* ===== verification/Rules_Page.thy ===== *)
theory Rules_Page
  imports Web_Api
begin

text \<open>
  The targeting-rule page of a flag
  (\<open>web/src/routes/projects/$slug.environments.$envSlug.flags.$key.rules.tsx\<close>): the rule and
  rollout editors, the rows with their inline editing and confirmed deletion, and the
  drag-and-drop reordering that renumbers priorities optimistically. Numbers are
  integers.
\<close>

section \<open>Data\<close>

record Condition =
  cn_attribute :: string
  cn_operator :: string
  cn_values :: "string list"

record RolloutEntry =
  ro_variantKey :: string
  ro_weight :: int

text \<open>\<open>Omit<Rule, 'id' | 'createdAt'>\<close>, and \<open>Rule\<close>, which extends it.\<close>

record Draft =
  dr_name :: string
  dr_priority :: int
  dr_conditions :: "Condition list"
  dr_variantKey :: string
  dr_rollout :: "RolloutEntry list option"
  dr_enabled :: bool

record Rule = Draft +
  ru_id :: string
  ru_createdAt :: string

record RuleSegment =
  rs_id :: string
  rs_slug :: string
  rs_name :: string

record RuleVariant =
  va_key :: string
  va_name :: string

definition draft_of :: "Rule \<Rightarrow> Draft" where
  "draft_of r = \<lparr>dr_name = dr_name r, dr_priority = dr_priority r, dr_conditions = dr_conditions r,
     dr_variantKey = dr_variantKey r, dr_rollout = dr_rollout r, dr_enabled = dr_enabled r\<rparr>"

definition condition_json :: "Condition \<Rightarrow> json" where
  "condition_json c = JObj [(''attribute'', JStr (cn_attribute c)), (''operator'', JStr (cn_operator c)),
     (''values'', JArr (map JStr (cn_values c)))]"

definition rollout_json :: "RolloutEntry \<Rightarrow> json" where
  "rollout_json e = JObj [(''variantKey'', JStr (ro_variantKey e)), (''weight'', jnum (ro_weight e))]"

definition draft_json :: "Draft \<Rightarrow> json" where
  "draft_json d = JObj ([(''name'', JStr (dr_name d)), (''priority'', jnum (dr_priority d)),
       (''conditions'', JArr (map condition_json (dr_conditions d))), (''variantKey'', JStr (dr_variantKey d))] @
     (case dr_rollout d of None \<Rightarrow> [] | Some es \<Rightarrow> [(''rollout'', JArr (map rollout_json es))]) @
     [(''enabled'', JBool (dr_enabled d))])"

section \<open>Operators\<close>

definition OPERATOR_KEYS :: "(string \<times> string) list" where
  "OPERATOR_KEYS = map (\<lambda>op. (op, ''operators.'' @ op))
     [''eq'', ''neq'', ''lt'', ''lte'', ''gt'', ''gte'', ''in'', ''not_in'', ''contains'', ''not_contains'',
      ''in_segment'', ''not_in_segment'']"

definition isSegmentOperator :: "string \<Rightarrow> bool" where
  "isSegmentOperator op \<longleftrightarrow> op \<in> {''in_segment'', ''not_in_segment''}"

definition operator_text :: "string \<Rightarrow> utext" where
  "operator_text op = (case map_of OPERATOR_KEYS op of Some k \<Rightarrow> T (''rules:'' @ k) [] | None \<Rightarrow> Lit op)"

section \<open>Rollout editor\<close>

definition totalWeight :: "RolloutEntry list \<Rightarrow> int" where
  "totalWeight entries = foldl (\<lambda>sum e. sum + ro_weight e) 0 entries"

definition rolloutValid :: "RolloutEntry list \<Rightarrow> bool" where
  "rolloutValid entries \<longleftrightarrow> totalWeight entries = 100"

definition updateEntry :: "RolloutEntry list \<Rightarrow> nat \<Rightarrow> (RolloutEntry \<Rightarrow> RolloutEntry) \<Rightarrow> RolloutEntry list" where
  "updateEntry entries i patch = map (\<lambda>(idx, e). if idx = i then patch e else e) (zip [0..<length entries] entries)"

definition removeEntry :: "RolloutEntry list \<Rightarrow> nat \<Rightarrow> RolloutEntry list" where
  "removeEntry entries i = map snd (filter (\<lambda>(idx, e). idx \<noteq> i) (zip [0..<length entries] entries))"

definition first_key :: "RuleVariant list \<Rightarrow> string" where
  "first_key variants = (case variants of v # _ \<Rightarrow> va_key v | [] \<Rightarrow> [])"

definition addEntry :: "RuleVariant list \<Rightarrow> RolloutEntry list \<Rightarrow> RolloutEntry list" where
  "addEntry variants entries =
     (let usedKeys = map ro_variantKey entries;
          nextVariant = (case find (\<lambda>v. va_key v \<notin> set usedKeys) variants of
              Some v \<Rightarrow> va_key v | None \<Rightarrow> first_key variants)
      in entries @ [\<lparr>ro_variantKey = nextVariant, ro_weight = 0\<rparr>])"

text \<open>\<open>parseInt(text, 10) || 0\<close>.\<close>

definition parse_or_zero :: "string \<Rightarrow> int" where
  "parse_or_zero s = (case parse_int s of Some n \<Rightarrow> n | None \<Rightarrow> 0)"

definition cross :: string where "cross = [CHR 0xE2, CHR 0x9C, CHR 0x95]"
definition arrow :: string where "arrow = [CHR 0xE2, CHR 0x86, CHR 0x92]"
definition ellipsis :: string where "ellipsis = [CHR 0xE2, CHR 0x80, CHR 0xA6]"
definition em_dash :: string where "em_dash = [CHR 0xE2, CHR 0x80, CHR 0x94]"

definition nth_aria :: "string \<Rightarrow> nat \<Rightarrow> 'm attr" where
  "nth_aria k i = At ''aria-label'' (T k [(''n'', show_nat (i + 1))])"

definition variant_items :: "RuleVariant list \<Rightarrow> 'm html list" where
  "variant_items variants = map (\<lambda>v. ui_SelectItem (va_key v) [lit (va_key v)]) variants"

definition RolloutEditor_view :: "RuleVariant list \<Rightarrow> RolloutEntry list \<Rightarrow> RolloutEntry list html" where
  "RolloutEditor_view variants entries =
     El ''div'' []
       (map (\<lambda>(i, entry). El ''div'' []
           ([ui_Select (ro_variantKey entry) (\<lambda>val. updateEntry entries i (\<lambda>e. e\<lparr>ro_variantKey := val\<rparr>)) False
               [At ''aria-label'' (T ''rules:rollout_variant'' [])] (variant_items variants),
             El ''div'' []
               [ui_Input None False None None
                  [At ''type'' (Lit ''number''), At ''min'' (Lit ''0''), At ''max'' (Lit ''100''),
                   At ''value'' (Lit (show_int (ro_weight entry))),
                   OnText ''change'' (\<lambda>s. updateEntry entries i (\<lambda>e. e\<lparr>ro_weight := parse_or_zero s\<rparr>)),
                   At ''aria-label'' (T ''rules:rollout_weight'' [])]],
             El ''span'' [] [lit ''%'']] @
            show_if (1 < length entries)
              (El ''button'' [On ''click'' (removeEntry entries i), nth_aria ''rules:condition_remove_aria'' i] [lit cross])))
         (zip [0..<length entries] entries) @
        [El ''div'' []
           (show_if (length entries < length variants)
              (El ''button'' [On ''click'' (addEntry variants entries)] [tr ''rules:rollout_add_split'']) @
            [El ''span'' []
              [Txt (if rolloutValid entries then T ''rules:rollout_weight_valid'' []
                    else T ''rules:rollout_weight_error'' [(''total'', show_int (totalWeight entries))])]])])"

section \<open>Rule editor\<close>

text \<open>\<open>Partial<Condition>\<close> as the editor uses it: one field at a time.\<close>

datatype condition_patch = PatchAttribute string | PatchOperator string | PatchValues "string list"

fun apply_patch :: "condition_patch \<Rightarrow> Condition \<Rightarrow> Condition" where
  "apply_patch (PatchAttribute a) c = c\<lparr>cn_attribute := a\<rparr>"
| "apply_patch (PatchOperator op) c =
     (if op \<noteq> cn_operator c then c\<lparr>cn_operator := op, cn_values := []\<rparr> else c\<lparr>cn_operator := op\<rparr>)"
| "apply_patch (PatchValues vs) c = c\<lparr>cn_values := vs\<rparr>"

definition updateCondition :: "Draft \<Rightarrow> nat \<Rightarrow> condition_patch \<Rightarrow> Draft" where
  "updateCondition draft i patch =
     draft\<lparr>dr_conditions := map (\<lambda>(idx, c). if idx \<noteq> i then c else apply_patch patch c)
       (zip [0..<length (dr_conditions draft)] (dr_conditions draft))\<rparr>"

definition addCondition :: "Draft \<Rightarrow> Draft" where
  "addCondition draft = draft\<lparr>dr_conditions := dr_conditions draft @
     [\<lparr>cn_attribute = [], cn_operator = ''eq'', cn_values = [[]]\<rparr>]\<rparr>"

definition removeCondition :: "Draft \<Rightarrow> nat \<Rightarrow> Draft" where
  "removeCondition draft i = draft\<lparr>dr_conditions := map snd (filter (\<lambda>(idx, c). idx \<noteq> i)
     (zip [0..<length (dr_conditions draft)] (dr_conditions draft)))\<rparr>"

definition parse_values :: "string \<Rightarrow> string list" where
  "parse_values s = filter (\<lambda>v. v \<noteq> []) (map js_trim (js_split (CHR '','') s))"

definition show_values :: "string list \<Rightarrow> string" where
  "show_values vs = js_join '', '' vs"

definition has_rollout :: "('a Draft_scheme) \<Rightarrow> bool" where
  "has_rollout d \<longleftrightarrow> (case dr_rollout d of Some es \<Rightarrow> es \<noteq> [] | None \<Rightarrow> False)"

definition toggleRollout :: "RuleVariant list \<Rightarrow> Draft \<Rightarrow> bool \<Rightarrow> Draft" where
  "toggleRollout variants draft checked =
     (if checked then
        draft\<lparr>dr_variantKey := [],
              dr_rollout := Some (case variants of
                  v0 # v1 # _ \<Rightarrow> [\<lparr>ro_variantKey = va_key v0, ro_weight = 50\<rparr>, \<lparr>ro_variantKey = va_key v1, ro_weight = 50\<rparr>]
                | _ \<Rightarrow> [\<lparr>ro_variantKey = first_key variants, ro_weight = 100\<rparr>])\<rparr>
      else draft\<lparr>dr_rollout := None, dr_variantKey := first_key variants\<rparr>)"

definition condition_view :: "RuleSegment list \<Rightarrow> Draft \<Rightarrow> nat \<times> Condition \<Rightarrow> Draft html" where
  "condition_view segments draft = (\<lambda>(i, c). El ''div'' []
     [ui_Input None False None None
        [At ''type'' (Lit ''text''), At ''value'' (Lit (cn_attribute c)),
         OnText ''change'' (\<lambda>s. updateCondition draft i (PatchAttribute s)),
         At ''placeholder'' (T ''rules:attribute_placeholder'' []), nth_aria ''rules:condition_attribute_aria'' i],
      ui_Select (cn_operator c) (\<lambda>val. updateCondition draft i (PatchOperator val)) False
        [nth_aria ''rules:condition_operator_aria'' i]
        (map (\<lambda>(val, k). ui_SelectItem val [tr (''rules:'' @ k)]) OPERATOR_KEYS),
      (if isSegmentOperator (cn_operator c) then
         ui_Select (case cn_values c of v # _ \<Rightarrow> v | [] \<Rightarrow> []) (\<lambda>val. updateCondition draft i (PatchValues [val])) False
           [nth_aria ''rules:condition_segment_aria'' i, At ''placeholder'' (T ''rules:select_segment'' [])]
           (map (\<lambda>s. ui_SelectItem (rs_slug s) [lit (rs_name s)]) segments)
       else
         ui_Input None False None None
           [At ''type'' (Lit ''text''), At ''value'' (Lit (show_values (cn_values c))),
            OnText ''change'' (\<lambda>s. updateCondition draft i (PatchValues (parse_values s))),
            At ''placeholder'' (T ''rules:value_placeholder'' []), nth_aria ''rules:condition_value_aria'' i]),
      El ''button'' [On ''click'' (removeCondition draft i), nth_aria ''rules:condition_remove_aria'' i] [lit cross]])"

definition RuleEditor_view :: "RuleSegment list \<Rightarrow> RuleVariant list \<Rightarrow> Draft \<Rightarrow> Draft html" where
  "RuleEditor_view segments variants draft =
     El ''div'' []
       [El ''div'' []
          [El ''label'' [] [tr ''rules:name_label''],
           ui_Input None False None None
             [At ''type'' (Lit ''text''), At ''value'' (Lit (dr_name draft)), OnText ''change'' (\<lambda>s. draft\<lparr>dr_name := s\<rparr>),
              At ''placeholder'' (T ''rules:name_placeholder'' []), At ''aria-label'' (T ''rules:name_label'' [])]],
        El ''div'' []
          ([El ''p'' [] [tr ''rules:conditions_label'']] @
           show_if (dr_conditions draft = []) (El ''p'' [] [tr ''rules:no_conditions_editor'']) @
           [El ''div'' [] (map (condition_view segments draft) (zip [0..<length (dr_conditions draft)] (dr_conditions draft))),
            El ''button'' [On ''click'' (addCondition draft)] [tr ''rules:add_condition'']]),
        El ''div'' []
          [El ''div'' []
             [El ''label'' [] [tr ''rules:serve_variant_label''],
              El ''label'' []
                [El ''input'' [At ''type'' (Lit ''checkbox''), Flag ''checked'' (has_rollout draft),
                    OnBool ''change'' (toggleRollout variants draft)] [],
                 tr ''rules:rollout_toggle'']],
           (case dr_rollout draft of
              Some (e # es) \<Rightarrow> map_html (\<lambda>rollout. draft\<lparr>dr_rollout := Some rollout\<rparr>) (RolloutEditor_view variants (e # es))
            | _ \<Rightarrow> ui_Select (dr_variantKey draft) (\<lambda>val. draft\<lparr>dr_variantKey := val\<rparr>) False
                   [At ''aria-label'' (T ''rules:serve_variant_aria'' [])] (variant_items variants))],
        El ''div'' []
          [El ''label'' [] [tr ''rules:priority_label'', lit '' '', El ''span'' [] [tr ''rules:priority_hint'']],
           ui_Input None False None None
             [At ''type'' (Lit ''number''), At ''min'' (Lit ''0''), At ''value'' (Lit (show_int (dr_priority draft))),
              OnText ''change'' (\<lambda>s. draft\<lparr>dr_priority := parse_or_zero s\<rparr>)]]]"

section \<open>Rows\<close>

text \<open>The route parameters, and the paths and query key built from them.\<close>

record rules_ctx =
  rc_slug :: string
  rc_envSlug :: string
  rc_key :: string

definition rules_path :: "rules_ctx \<Rightarrow> string" where
  "rules_path c = ''/api/v1/projects/'' @ rc_slug c @ ''/flags/'' @ rc_key c @ ''/environments/'' @ rc_envSlug c @ ''/rules''"

definition rule_path :: "rules_ctx \<Rightarrow> string \<Rightarrow> string" where
  "rule_path c i = rules_path c @ ''/'' @ i"

definition rulesKey :: "rules_ctx \<Rightarrow> string list" where
  "rulesKey c = [''rules'', rc_slug c, rc_envSlug c, rc_key c]"

record rule_row =
  rr_editing :: bool
  rr_pendingDelete :: bool
  rr_draft :: Draft
  rr_saveError :: "utext option"

definition rule_row_init :: "Rule \<Rightarrow> rule_row" where
  "rule_row_init rule = \<lparr>rr_editing = False, rr_pendingDelete = False, rr_draft = draft_of rule, rr_saveError = None\<rparr>"

datatype row_msg =
    StartEdit
  | CancelEdit
  | SaveRule
  | SaveSettled "web_error option"
  | AskDelete
  | ConfirmDelete
  | KeepRule
  | EditDraft Draft

text \<open>
  The row's handlers. \<open>save\<close> goes through the page's \<open>handleUpdate\<close> to the update
  mutation, \<open>confirmDelete\<close> through \<open>handleDelete\<close> to the delete mutation;
  \<open>SaveSettled\<close> is the outcome of the former.
\<close>

definition RuleRow_update :: "rules_ctx \<Rightarrow> Rule \<Rightarrow> row_msg \<Rightarrow> rule_row \<Rightarrow> rule_row \<times> effect list" where
  "RuleRow_update ctx rule msg row = (case msg of
     StartEdit \<Rightarrow> (row\<lparr>rr_draft := draft_of rule, rr_saveError := None, rr_editing := True\<rparr>, [])
   | CancelEdit \<Rightarrow> (row\<lparr>rr_saveError := None, rr_editing := False\<rparr>, [])
   | SaveRule \<Rightarrow> (row\<lparr>rr_saveError := None\<rparr>,
       [Send ''PATCH'' (rule_path ctx (ru_id rule)) (Some (draft_json (rr_draft row)))])
   | SaveSettled None \<Rightarrow> (row\<lparr>rr_editing := False\<rparr>, [Invalidate (rulesKey ctx)])
   | SaveSettled (Some err) \<Rightarrow> (row\<lparr>rr_saveError := Some (api_or (T ''rules:save_failed'' []) err)\<rparr>, [])
   | AskDelete \<Rightarrow> (row\<lparr>rr_pendingDelete := True\<rparr>, [])
   | ConfirmDelete \<Rightarrow> (row\<lparr>rr_pendingDelete := False\<rparr>, [Send ''DELETE'' (rule_path ctx (ru_id rule)) None])
   | KeepRule \<Rightarrow> (row\<lparr>rr_pendingDelete := False\<rparr>, [])
   | EditDraft d \<Rightarrow> (row\<lparr>rr_draft := d\<rparr>, []))"

definition condition_line :: "Condition \<Rightarrow> 'm html" where
  "condition_line c = El ''li'' []
     [El ''span'' [] [lit (cn_attribute c)], lit '' '', El ''span'' [] [Txt (operator_text (cn_operator c))], lit '' '',
      (if isSegmentOperator (cn_operator c)
       then El ''span'' [] (case cn_values c of v # _ \<Rightarrow> [lit v] | [] \<Rightarrow> [])
       else El ''span'' [] [lit (show_values (cn_values c))])]"

definition outcome_line :: "Rule \<Rightarrow> 'm html" where
  "outcome_line rule = El ''p'' [] (lit (arrow @ '' '') #
     (case dr_rollout rule of
        Some (e # es) \<Rightarrow> map (\<lambda>(i, r). El ''span'' []
            (show_if (0 < i) (lit '', '') @ [El ''span'' [] [lit (ro_variantKey r)],
             El ''span'' [] [lit '' '', lit (show_int (ro_weight r)), lit ''%'']]))
          (zip [0..<length (e # es)] (e # es))
      | _ \<Rightarrow> [El ''span'' [] [lit (dr_variantKey rule)]]))"

definition save_label :: "bool \<Rightarrow> utext" where
  "save_label isSaving = (if isSaving then T ''common:states.saving'' [] else T ''common:actions.save'' [])"

definition error_line :: "utext option \<Rightarrow> 'm html list" where
  "error_line err = (case err of Some e \<Rightarrow> show_if (e \<noteq> Lit []) (El ''p'' [] [Txt e]) | None \<Rightarrow> [])"

definition RuleRow_view :: "RuleSegment list \<Rightarrow> RuleVariant list \<Rightarrow> Rule \<Rightarrow> bool \<Rightarrow> bool \<Rightarrow> rule_row \<Rightarrow> row_msg html" where
  "RuleRow_view segments variants rule isSaving isDeleting row =
     El ''div'' []
       ([El ''div'' []
           [El ''button'' [At ''title'' (Lit (''Priority '' @ show_int (dr_priority rule) @ '' '' @ em_dash @ '' drag to reorder'')),
               At ''aria-label'' (Lit (''Drag to reorder rule '' @
                 (if dr_name rule \<noteq> [] then dr_name rule else show_int (dr_priority rule))))]
              [El ''svg'' [Flag ''aria-hidden'' True] []],
            El ''div'' []
              [El ''p'' [] [Txt (if dr_name rule \<noteq> [] then Lit (dr_name rule)
                   else T ''rules:fallback_name'' [(''priority'', show_int (dr_priority rule))])],
               (if dr_conditions rule = [] then El ''p'' [] [tr ''rules:no_conditions_display'']
                else El ''ul'' [] (map condition_line (dr_conditions rule))),
               outcome_line rule],
            El ''div'' []
              ((if \<not> rr_editing row \<and> \<not> rr_pendingDelete row then
                  [ui_Button False False [On ''click'' StartEdit, At ''aria-label'' (T ''common:actions.edit'' [])]
                     [tr ''common:actions.edit''],
                   ui_Button False isDeleting [On ''click'' AskDelete, At ''aria-label'' (T ''common:actions.delete'' [])]
                     [lit (if isDeleting then ellipsis else cross)]]
                else []) @
               show_if (rr_pendingDelete row)
                 (El ''span'' []
                   [El ''span'' [] [tr ''rules:delete_confirm''],
                    ui_Button False False [On ''click'' ConfirmDelete] [tr ''rules:delete_yes''],
                    ui_Button False False [On ''click'' KeepRule] [tr ''rules:delete_no'']]))]] @
        show_if (rr_editing row)
          (El ''div'' []
            [map_html EditDraft (RuleEditor_view segments variants (rr_draft row)),
             El ''div'' []
               ([ui_Button False isSaving [On ''click'' SaveRule] [Txt (save_label isSaving)],
                 ui_Button False isSaving [On ''click'' CancelEdit] [tr ''common:actions.cancel'']] @
                error_line (rr_saveError row))]))"

text \<open>The row of a rule being added; its parent decides when it is shown.\<close>

record new_rule_row =
  nr_draft :: Draft
  nr_saveError :: "utext option"

datatype new_msg = NewSave | NewSettled "web_error option" | NewCancel | NewEdit Draft

definition new_rule_init :: "RuleVariant list \<Rightarrow> int \<Rightarrow> new_rule_row" where
  "new_rule_init variants nextPriority =
     \<lparr>nr_draft = \<lparr>dr_name = [], dr_priority = nextPriority, dr_conditions = [], dr_variantKey = first_key variants,
                  dr_rollout = None, dr_enabled = True\<rparr>, nr_saveError = None\<rparr>"

definition NewRuleRow_view :: "RuleSegment list \<Rightarrow> RuleVariant list \<Rightarrow> bool \<Rightarrow> new_rule_row \<Rightarrow> new_msg html" where
  "NewRuleRow_view segments variants isSaving row =
     El ''div'' []
       [El ''p'' [] [tr ''rules:new_rule''],
        map_html NewEdit (RuleEditor_view segments variants (nr_draft row)),
        El ''div'' []
          ([ui_Button False isSaving [On ''click'' NewSave] [Txt (save_label isSaving)],
            ui_Button False isSaving [On ''click'' NewCancel] [tr ''common:actions.cancel'']] @
           error_line (nr_saveError row))]"

section \<open>The page\<close>

text \<open>
  The page's own state, with the state of the new row while there is one. What the queries
  last returned is passed in.
\<close>

record rules_page =
  pg_adding :: "new_rule_row option"
  pg_optimisticOrder :: "Rule list option"

definition displayed :: "Rule list \<Rightarrow> rules_page \<Rightarrow> Rule list" where
  "displayed serverRules pg = (case pg_optimisticOrder pg of Some rs \<Rightarrow> rs | None \<Rightarrow> serverRules)"

definition nextPriority :: "Rule list \<Rightarrow> int" where
  "nextPriority rules = (if 0 < length rules then foldr max (map dr_priority (tl rules)) (dr_priority (hd rules)) + 1 else 1)"

fun findIndex :: "('a \<Rightarrow> bool) \<Rightarrow> 'a list \<Rightarrow> nat option" where
  "findIndex P [] = None"
| "findIndex P (x # xs) = (if P x then Some 0 else map_option Suc (findIndex P xs))"

text \<open>\<open>splice(i, 1)\<close> and \<open>splice(j, 0, moved)\<close>.\<close>

definition reorder :: "nat \<Rightarrow> nat \<Rightarrow> 'a list \<Rightarrow> 'a list" where
  "reorder oldIndex newIndex xs =
     (let moved = xs ! oldIndex; rest = take oldIndex xs @ drop (Suc oldIndex) xs
      in take newIndex rest @ moved # drop newIndex rest)"

definition renumber :: "Rule list \<Rightarrow> Rule list" where
  "renumber rules = map (\<lambda>(i, r). r\<lparr>dr_priority := int i + 1\<rparr>) (zip [0..<length rules] rules)"

definition changed_rules :: "Rule list \<Rightarrow> Rule list \<Rightarrow> Rule list" where
  "changed_rules serverRules updated = filter (\<lambda>r.
     case find (\<lambda>s. ru_id s = ru_id r) serverRules of Some orig \<Rightarrow> dr_priority orig \<noteq> dr_priority r | None \<Rightarrow> False) updated"

definition handleDragEnd ::
    "rules_ctx \<Rightarrow> Rule list \<Rightarrow> string \<Rightarrow> string option \<Rightarrow> rules_page \<Rightarrow> rules_page \<times> effect list" where
  "handleDragEnd ctx serverRules active over pg =
     (let rules = displayed serverRules pg in
      case over of
        None \<Rightarrow> (pg, [])
      | Some ov \<Rightarrow>
          (if active = ov then (pg, [])
           else (case (findIndex (\<lambda>r. ru_id r = active) rules, findIndex (\<lambda>r. ru_id r = ov) rules) of
               (Some oldIndex, Some newIndex) \<Rightarrow>
                 (let updated = renumber (reorder oldIndex newIndex rules) in
                  (pg\<lparr>pg_optimisticOrder := Some updated\<rparr>,
                   map (\<lambda>r. Send ''PATCH'' (rule_path ctx (ru_id r)) (Some (JObj [(''priority'', jnum (dr_priority r))])))
                     (changed_rules serverRules updated)))
             | _ \<Rightarrow> (pg, []))))"

datatype page_msg =
    ShowAdd
  | DragEnd string "string option"
  | ReorderSettled bool
  | NewRow new_msg
  | RowMsg string row_msg
  | RetryRules

definition RulesPage_update ::
    "rules_ctx \<Rightarrow> Rule list \<Rightarrow> RuleVariant list \<Rightarrow> page_msg \<Rightarrow> rules_page \<Rightarrow> rules_page \<times> effect list" where
  "RulesPage_update ctx serverRules variants msg pg = (case msg of
     ShowAdd \<Rightarrow> (pg\<lparr>pg_adding := Some (new_rule_init variants (nextPriority (displayed serverRules pg)))\<rparr>, [])
   | DragEnd active over \<Rightarrow> handleDragEnd ctx serverRules active over pg
   | ReorderSettled ok \<Rightarrow> (pg\<lparr>pg_optimisticOrder := None\<rparr>, if ok then [Invalidate (rulesKey ctx)] else [])
   | NewRow m \<Rightarrow> (case pg_adding pg of
        None \<Rightarrow> (pg, case m of NewSettled None \<Rightarrow> [Invalidate (rulesKey ctx)] | _ \<Rightarrow> [])
      | Some row \<Rightarrow> (case m of
            NewSave \<Rightarrow> (pg\<lparr>pg_adding := Some (row\<lparr>nr_saveError := None\<rparr>)\<rparr>,
               [Send ''POST'' (rules_path ctx) (Some (draft_json (nr_draft row)))])
          | NewSettled None \<Rightarrow> (pg\<lparr>pg_adding := None\<rparr>, [Invalidate (rulesKey ctx)])
          | NewSettled (Some err) \<Rightarrow>
              (pg\<lparr>pg_adding := Some (row\<lparr>nr_saveError := Some (api_or (T ''rules:save_failed'' []) err)\<rparr>)\<rparr>, [])
          | NewCancel \<Rightarrow> (pg\<lparr>pg_adding := None\<rparr>, [])
          | NewEdit d \<Rightarrow> (pg\<lparr>pg_adding := Some (row\<lparr>nr_draft := d\<rparr>)\<rparr>, [])))
   | RowMsg i m \<Rightarrow> (pg, [])
   | RetryRules \<Rightarrow> (pg, [Refetch (rulesKey ctx)]))"

definition RulesEmptyState_view :: "'m \<Rightarrow> 'm html" where
  "RulesEmptyState_view onAdd = El ''div'' []
     [El ''h2'' [] [tr ''rules:empty_title''], El ''p'' [] [tr ''rules:empty_state''],
      ui_Button False False [On ''click'' onAdd] [tr ''rules:add_rule'']]"

definition RulesSkeleton_view :: "'m html" where
  "RulesSkeleton_view = El ''div'' []
     (El ''div'' [] [El ''div'' [] [], El ''div'' [] []] #
      map (\<lambda>i. El ''div'' [] [El ''div'' [] [El ''div'' [] [], El ''div'' [] [El ''div'' [] [], El ''div'' [] []]]]) [1 :: nat, 2, 3])"

definition RulesPage_view ::
    "rules_ctx \<Rightarrow> Rule list query \<Rightarrow> RuleSegment list \<Rightarrow> RuleVariant list \<Rightarrow> string mutation \<Rightarrow> string mutation \<Rightarrow> bool
      \<Rightarrow> (string \<Rightarrow> rule_row) \<Rightarrow> rules_page \<Rightarrow> page_msg html" where
  "RulesPage_view ctx rulesQuery segments variants updateMutation deleteMutation creating rows pg =
     (if isLoading rulesQuery then RulesSkeleton_view
      else if isError rulesQuery then
        El ''div'' []
          [El ''p'' [] [tr (if is404 rulesQuery then ''rules:not_found'' else ''rules:error'')],
           El ''button'' [On ''click'' RetryRules] [tr ''common:actions.retry'']]
      else
        (let serverRules = (case q_data rulesQuery of Some rs \<Rightarrow> rs | None \<Rightarrow> []);
             rules = displayed serverRules pg;
             envPath = ''/projects/'' @ rc_slug ctx @ ''/environments/'' @ rc_envSlug ctx @ ''/flags''
         in El ''div'' []
           [PageHeading [\<lparr>an_label = rc_envSlug ctx, an_to = envPath\<rparr>,
                         \<lparr>an_label = rc_key ctx, an_to = envPath @ ''/'' @ rc_key ctx\<rparr>] (T ''flags:heading.rules'' []),
            El ''div'' []
              (El ''h2'' [] [tr ''rules:title''] #
               show_if (pg_adding pg = None) (ui_Button False False [On ''click'' ShowAdd] [tr ''rules:add_rule''])),
            (if rules = [] \<and> pg_adding pg = None then RulesEmptyState_view ShowAdd
             else El ''div'' []
               (map (\<lambda>rule. map_html (RowMsg (ru_id rule)) (RuleRow_view segments variants rule
                       (pending_for (\<lambda>v. v = ru_id rule) updateMutation)
                       (pending_for (\<lambda>v. v = ru_id rule) deleteMutation) (rows (ru_id rule)))) rules @
                (case pg_adding pg of
                   Some row \<Rightarrow> [map_html NewRow (NewRuleRow_view segments variants creating row)]
                 | None \<Rightarrow> [])))]))"

end
