(* ===== verification/Rules_Spec.thy ===== *)
theory Rules_Spec
  imports Rules_Page "HOL-Library.Multiset"
begin

text \<open>
  Correctness of the targeting-rule page: the reordering renumbers without losing a rule and
  the patches it sends bring the service to the displayed order; the editors keep the rest of
  a rule; a rollout split starts valid and never repeats a variant; destructive actions ask
  first.
\<close>

section \<open>Reordering\<close>

lemma findIndex_Some: "findIndex P xs = Some i \<longleftrightarrow> i < length xs \<and> P (xs ! i) \<and> (\<forall>j < i. \<not> P (xs ! j))"
proof (induction xs arbitrary: i)
  case (Cons x xs)
  show ?case
  proof (cases i)
    case (Suc k)
    then show ?thesis using Cons.IH [of k] by (auto simp: less_Suc_eq_0_disj)
  qed (use Cons in auto)
qed simp

lemma findIndex_None: "findIndex P xs = None \<longleftrightarrow> (\<forall>x \<in> set xs. \<not> P x)"
  by (induction xs) auto

lemma reorder_mset:
  assumes "i < length xs"
  shows "mset (reorder i j xs) = mset xs"
proof -
  have "mset xs = mset (take i xs @ xs ! i # drop (Suc i) xs)" using id_take_nth_drop [OF assms] by simp
  moreover have "mset (take j ys @ y # drop j ys) = add_mset y (mset ys)" for y and ys :: "'a list"
    by (metis append_take_drop_id mset.simps(2) mset_append union_mset_add_mset_right)
  ultimately show ?thesis unfolding reorder_def Let_def by (simp only: mset.simps mset_append union_mset_add_mset_right)
qed

lemma reorder_length: "i < length xs \<Longrightarrow> length (reorder i j xs) = length xs"
  using reorder_mset [of i xs j] by (metis size_mset)

lemma reorder_nth:
  assumes "i < length xs" and "j < length xs"
  shows "reorder i j xs ! j = xs ! i"
proof -
  have "length (take j (take i xs @ drop (Suc i) xs)) = j" using assms by auto
  then show ?thesis unfolding reorder_def Let_def by (metis nth_append_length)
qed

lemma reorder_others:
  assumes "i < length xs" and "\<not> P (xs ! i)"
  shows "filter P (reorder i j xs) = filter P xs"
proof -
  have split: "filter P (take j ys @ y # drop j ys) = filter P ys" if "\<not> P y" for y ys
    using that by (metis append_take_drop_id filter.simps(2) filter_append)
  have "filter P (reorder i j xs) = filter P (take i xs @ drop (Suc i) xs)"
    unfolding reorder_def Let_def by (rule split) (use assms in simp)
  also have "\<dots> = filter P xs"
    using id_take_nth_drop [OF assms(1)] assms(2) by (metis filter.simps(2) filter_append)
  finally show ?thesis .
qed

lemma renumber_length [simp]: "length (renumber rs) = length rs"
  by (simp add: renumber_def)

lemma renumber_nth: "i < length rs \<Longrightarrow> renumber rs ! i = (rs ! i)\<lparr>dr_priority := int i + 1\<rparr>"
  by (simp add: renumber_def)

lemma renumber_ids [simp]: "map ru_id (renumber rs) = map ru_id rs"
  by (rule nth_equalityI) (simp_all add: renumber_nth)

lemma renumber_priorities: "map dr_priority (renumber rs) = map (\<lambda>i. int i + 1) [0..<length rs]"
  by (rule nth_equalityI) (simp_all add: renumber_nth)

lemma renumber_fields: "r \<in> set (renumber rs) \<Longrightarrow> \<exists>r0 \<in> set rs. r = r0\<lparr>dr_priority := dr_priority r\<rparr>"
  by (auto simp: in_set_conv_nth renumber_nth intro!: bexI)

text \<open>
  Dropping a rule onto another reorders the list and renumbers it. The moved rule takes
  the position of the rule it was dropped on, the others keep their relative order, no rule is
  lost or duplicated, the priorities become 1, 2, 3, ... from the top, and nothing else of a
  rule changes.
\<close>

theorem drag_reorders:
  assumes "findIndex (\<lambda>r. ru_id r = active) (displayed server pg) = Some i"
    and "findIndex (\<lambda>r. ru_id r = ov) (displayed server pg) = Some j"
    and "active \<noteq> ov" and "distinct (map ru_id (displayed server pg))"
  shows "\<exists>updated. pg_optimisticOrder (fst (handleDragEnd ctx server active (Some ov) pg)) = Some updated
    \<and> mset (map ru_id updated) = mset (map ru_id (displayed server pg))
    \<and> ru_id (updated ! j) = active
    \<and> filter (\<lambda>k. k \<noteq> active) (map ru_id updated) = filter (\<lambda>k. k \<noteq> active) (map ru_id (displayed server pg))
    \<and> map dr_priority updated = map (\<lambda>n. int n + 1) [0..<length (displayed server pg)]
    \<and> (\<forall>r \<in> set updated. \<exists>r0 \<in> set (displayed server pg). r = r0\<lparr>dr_priority := dr_priority r\<rparr>)"
proof -
  let ?rules = "displayed server pg"
  let ?new = "reorder i j ?rules"
  have i: "i < length ?rules" "ru_id (?rules ! i) = active" and j: "j < length ?rules"
    using assms(1,2) by (auto simp: findIndex_Some)
  have set_new: "set ?new = set ?rules" using reorder_mset [OF i(1)] by (metis mset_eq_setD)
  have "pg_optimisticOrder (fst (handleDragEnd ctx server active (Some ov) pg)) = Some (renumber ?new)"
    using assms by (simp add: handleDragEnd_def Let_def)
  moreover have "mset (map ru_id (renumber ?new)) = mset (map ru_id ?rules)"
    using reorder_mset [OF i(1), of j] by (metis mset_map renumber_ids)
  moreover have "ru_id (renumber ?new ! j) = active"
    using renumber_nth [of j ?new] reorder_nth [OF i(1) j] reorder_length [OF i(1), of j] i j by simp
  moreover have "filter (\<lambda>k. k \<noteq> active) (map ru_id (renumber ?new)) = filter (\<lambda>k. k \<noteq> active) (map ru_id ?rules)"
    using reorder_others [OF i(1), of "\<lambda>r. ru_id r \<noteq> active" j] i(2) by (simp add: filter_map o_def)
  moreover have "map dr_priority (renumber ?new) = map (\<lambda>n. int n + 1) [0..<length ?rules]"
    using renumber_priorities [of ?new] reorder_length [OF i(1), of j] by simp
  moreover have "\<forall>r \<in> set (renumber ?new). \<exists>r0 \<in> set ?rules. r = r0\<lparr>dr_priority := dr_priority r\<rparr>"
    using renumber_fields [of _ ?new] set_new by blast
  ultimately show ?thesis by (intro exI [of _ "renumber ?new"]) (intro conjI)
qed

definition demo_rule :: "string \<Rightarrow> int \<Rightarrow> Rule" where
  "demo_rule i p = \<lparr>dr_name = i, dr_priority = p, dr_conditions = [], dr_variantKey = ''on'', dr_rollout = None,
     dr_enabled = True, ru_id = i, ru_createdAt = []\<rparr>"

definition demo_server :: "Rule list" where
  "demo_server = [demo_rule ''a'' 1, demo_rule ''b'' 2, demo_rule ''c'' 3]"

definition demo_page :: rules_page where
  "demo_page = \<lparr>pg_adding = None, pg_optimisticOrder = None\<rparr>"

definition demo_rules_ctx :: rules_ctx where
  "demo_rules_ctx = \<lparr>rc_slug = ''shop'', rc_envSlug = ''prod'', rc_key = ''dark''\<rparr>"

theorem drag_reorders_witness:
  "\<exists>updated. pg_optimisticOrder (fst (handleDragEnd demo_rules_ctx demo_server ''c'' (Some ''a'') demo_page)) = Some updated
    \<and> ru_id (updated ! 0) = ''c'' \<and> map dr_priority updated = [1, 2, 3]"
proof -
  have "findIndex (\<lambda>r. ru_id r = ''c'') (displayed demo_server demo_page) = Some 2"
    "findIndex (\<lambda>r. ru_id r = ''a'') (displayed demo_server demo_page) = Some 0"
    "distinct (map ru_id (displayed demo_server demo_page))" "length (displayed demo_server demo_page) = 3"
    by (simp_all add: displayed_def demo_page_def demo_server_def demo_rule_def)
  with drag_reorders [of "''c''" demo_server demo_page 2 "''a''" 0 demo_rules_ctx]
  show ?thesis by (auto simp: upt_rec)
qed

subsection \<open>The service follows\<close>

text \<open>The service's rules once the patches of a drag were applied.\<close>

definition patched :: "Rule list \<Rightarrow> Rule list \<Rightarrow> Rule list" where
  "patched server changed = map (\<lambda>s. case find (\<lambda>r. ru_id r = ru_id s) changed of
     Some r \<Rightarrow> s\<lparr>dr_priority := dr_priority r\<rparr> | None \<Rightarrow> s) server"

lemma find_distinct:
  assumes "distinct (map ru_id xs)" and "x \<in> set xs"
  shows "find (\<lambda>r. ru_id r = ru_id x) xs = Some x"
  using assms by (induction xs) (auto simp: image_iff)

lemma find_filter_distinct:
  assumes "distinct (map ru_id xs)" and "x \<in> set xs"
  shows "find (\<lambda>r. ru_id r = ru_id x) (filter P xs) = (if P x then Some x else None)"
proof (cases "P x")
  case True
  moreover have "distinct (map ru_id (filter P xs))" using assms(1) by (simp add: distinct_map_filter)
  ultimately show ?thesis using find_distinct [of "filter P xs" x] assms(2) by simp
next
  case False
  have "ru_id r \<noteq> ru_id x" if "r \<in> set xs" "P r" for r
    using that assms False by (metis distinct_map inj_onD)
  with False show ?thesis by (auto simp: find_None_iff)
qed

lemma patched_eq:
  assumes "distinct (map ru_id server)" and "u \<in> set updated" and "s \<in> set server" and "ru_id u = ru_id s"
    and "distinct (map ru_id updated)"
  shows "(case find (\<lambda>r. ru_id r = ru_id s) (changed_rules server updated) of
     Some r \<Rightarrow> s\<lparr>dr_priority := dr_priority r\<rparr> | None \<Rightarrow> s) = s\<lparr>dr_priority := dr_priority u\<rparr>"
proof -
  have "find (\<lambda>q. ru_id q = ru_id u) server = Some s"
    using find_distinct [OF assms(1,3)] assms(4) by simp
  then have "find (\<lambda>r. ru_id r = ru_id s) (changed_rules server updated) =
      (if dr_priority s \<noteq> dr_priority u then Some u else None)"
    unfolding changed_rules_def using find_filter_distinct [OF assms(5,2)] assms(4) by simp
  then show ?thesis by simp
qed

lemma renumber_sorted: "sorted (map dr_priority (renumber rs))" "distinct (map dr_priority (renumber rs))"
  by (simp_all add: renumber_priorities sorted_iff_nth_mono distinct_map inj_on_def)

lemma sort_key_unique:
  assumes "mset ys = mset xs" and "sorted (map f xs)" and "distinct (map f xs)"
  shows "sort_key f ys = xs"
proof -
  have "sort_key f ys = sort_key f xs"
    using assms(1,3) by (intro sort_key_inj_key_eq) (auto simp: distinct_map dest: mset_eq_setD)
  also have "\<dots> = xs" using assms(2) by (simp add: sort_key_id_if_sorted)
  finally show ?thesis .
qed



section \<open>Editors\<close>

lemma enumerated_map: "map (\<lambda>(idx, c). if idx \<noteq> i then c else f c) (zip [0..<length cs] cs) = (if i < length cs then cs[i := f (cs ! i)] else cs)"
  by (rule nth_equalityI) (auto simp: nth_list_update)

lemma enumerated_filter: "map snd (filter (\<lambda>(idx, c). idx \<noteq> i) (zip [0..<length cs] cs)) = take i cs @ drop (Suc i) cs"
proof (induction cs rule: rev_induct)
  case (snoc c cs)
  have "zip [0..<length (cs @ [c])] (cs @ [c]) = zip [0..<length cs] cs @ [(length cs, c)]" by simp
  with snoc show ?case by (cases "i < length cs"; cases "i = length cs") simp_all
qed simp

text \<open>The lists a comma separated field can hold.\<close>

definition field_value :: "string \<Rightarrow> bool" where
  "field_value v \<longleftrightarrow> v \<noteq> [] \<and> CHR '','' \<notin> set v \<and> js_trim v = v"

lemma parse_values_space: "parse_values (CHR '' '' # s) = parse_values s"
  by (cases "js_split (CHR '','') s") (simp_all add: parse_values_def js_trim_space)

lemma parse_values_join:
  assumes "list_all field_value vs"
  shows "parse_values (show_values vs) = vs"
proof -
  have cons: "parse_values (v @ '', '' @ s) = v # parse_values s" if "field_value v" for v s
    using that parse_values_space [of s]
    by (simp add: parse_values_def field_value_def js_split_append)
  have "parse_values (js_join '', '' vs) = vs"
    using assms
  proof (induction "'', ''" vs rule: js_join.induct)
    case (2 x)
    then show ?case by (simp add: parse_values_def field_value_def js_split_no_sep)
  next
    case (3 x y xs)
    then show ?case using cons [of x "js_join '', '' (y # xs)"] by simp
  qed (simp add: parse_values_def js_trim_def)
  then show ?thesis by (simp add: show_values_def)
qed

text \<open>
  Editing one condition of a rule. Only the edited condition changes, every other field of
  the draft stays; a new operator empties the condition's values and the same operator keeps
  them; removing the condition just added gives the draft back; and the comma separated field
  shows values that it reads back unchanged.
\<close>

theorem condition_editing:
  assumes "i < length (dr_conditions d)" and "list_all field_value vs"
  shows "updateCondition d i p = d\<lparr>dr_conditions := (dr_conditions d)[i := apply_patch p (dr_conditions d ! i)]\<rparr>
    \<and> cn_values (apply_patch (PatchOperator oper) c) = (if oper = cn_operator c then cn_values c else [])
    \<and> removeCondition (addCondition d) (length (dr_conditions d)) = d
    \<and> parse_values (show_values vs) = vs"
  using assms enumerated_map [of i "apply_patch p" "dr_conditions d"] parse_values_join
  by (simp add: updateCondition_def removeCondition_def addCondition_def enumerated_filter)

theorem condition_editing_witness:
  "parse_values (show_values [''gold'', ''new york'']) = [''gold'', ''new york'']"
proof -
  have "list_all field_value [''gold'', ''new york'']" by code_simp
  with condition_editing [of 0 "addCondition (draft_of (demo_rule ''a'' 1))" "[''gold'', ''new york'']"]
  show ?thesis by (simp add: addCondition_def)
qed

lemma totalWeight_sum: "totalWeight es = sum_list (map ro_weight es)"
proof -
  have "foldl (\<lambda>s e. s + ro_weight e) a es = a + sum_list (map ro_weight es)" for a
    by (induction es arbitrary: a) auto
  then show ?thesis by (simp add: totalWeight_def)
qed

lemma find_unused:
  assumes "distinct (map va_key vs)" and "length es < length vs"
  shows "\<exists>v. find (\<lambda>v. va_key v \<notin> set (map ro_variantKey es)) vs = Some v \<and> va_key v \<notin> set (map ro_variantKey es)"
proof -
  have "\<not> set (map va_key vs) \<subseteq> set (map ro_variantKey es)"
  proof
    assume "set (map va_key vs) \<subseteq> set (map ro_variantKey es)"
    then have "card (set (map va_key vs)) \<le> card (set (map ro_variantKey es))" by (simp add: card_mono)
    also have "\<dots> \<le> length es" using card_length [of "map ro_variantKey es"] by simp
    finally show False using assms distinct_card [of "map va_key vs"] by simp
  qed
  then obtain v where "v \<in> set vs" "va_key v \<notin> set (map ro_variantKey es)" by auto
  then have "find (\<lambda>v. va_key v \<notin> set (map ro_variantKey es)) vs \<noteq> None" by (auto simp: find_None_iff)
  then show ?thesis using find_SomeD by fastforce
qed

text \<open>
  Rollout splits. Switching a rule to a rollout gives a valid split (the weights total
  100) with no fixed variant; switching back removes it; and as long as the editor offers to add
  an entry (fewer entries than variants), the added entry serves a variant of the flag that the
  split does not use yet, with weight 0, so that the total stays as it was.
\<close>

theorem rollout_editing:
  assumes "distinct (map va_key vs)" and "length es < length vs" and "distinct (map ro_variantKey es)"
  shows "(case dr_rollout (toggleRollout vs d True) of Some r \<Rightarrow> rolloutValid r | None \<Rightarrow> False)
    \<and> dr_variantKey (toggleRollout vs d True) = []
    \<and> dr_rollout (toggleRollout vs d False) = None
    \<and> distinct (map ro_variantKey (addEntry vs es))
    \<and> ro_variantKey (last (addEntry vs es)) \<in> set (map va_key vs)
    \<and> totalWeight (addEntry vs es) = totalWeight es"
proof -
  obtain v where v: "find (\<lambda>v. va_key v \<notin> set (map ro_variantKey es)) vs = Some v" "va_key v \<notin> set (map ro_variantKey es)"
    using find_unused [OF assms(1,2)] by blast
  then have "v \<in> set vs" by (auto dest: find_SomeD)
  with v assms(3) show ?thesis
    by (auto simp: toggleRollout_def rolloutValid_def totalWeight_sum addEntry_def Let_def split: list.split)
qed

theorem rollout_editing_witness:
  "ro_variantKey (last (addEntry [\<lparr>va_key = ''a'', va_name = []\<rparr>, \<lparr>va_key = ''b'', va_name = []\<rparr>]
      [\<lparr>ro_variantKey = ''a'', ro_weight = 100\<rparr>])) \<in> {''a'', ''b''}"
  using rollout_editing [of "[\<lparr>va_key = ''a'', va_name = []\<rparr>, \<lparr>va_key = ''b'', va_name = []\<rparr>]"
      "[\<lparr>ro_variantKey = ''a'', ro_weight = 100\<rparr>]"] by simp

section \<open>Rows and page\<close>

lemma editor_clicks: "\<exists>ds. clicks (map_html EditDraft (RuleEditor_view segs vars d)) = map EditDraft ds"
  by auto

lemma row_clicks:
  "set (clicks (RuleRow_view segs vars rule saving deleting row)) =
     (if \<not> rr_editing row \<and> \<not> rr_pendingDelete row then {StartEdit} \<union> (if deleting then {} else {AskDelete}) else {})
     \<union> (if rr_pendingDelete row then {ConfirmDelete, KeepRule} else {})
     \<union> (if rr_editing row then EditDraft ` set (clicks (RuleEditor_view segs vars (rr_draft row)))
          \<union> (if saving then {} else {SaveRule, CancelEdit}) else {})"
proof -
  have quiet: "clicks (condition_line c) = []" "clicks (outcome_line rule) = []" for c :: Condition and rule
    by (auto simp: condition_line_def outcome_line_def show_if_def split: option.split list.split)
  have err: "concat (map clicks (error_line e)) = []" for e :: "utext option"
    by (auto simp: error_line_def show_if_def split: option.split)
  show ?thesis
    unfolding RuleRow_view_def
    by (cases "rr_editing row"; cases "rr_pendingDelete row"; cases saving; cases deleting)
       (simp_all add: quiet err o_def show_if_def insert_commute)
qed

text \<open>
  A rule is deleted only after a confirmation and saved only while it is edited. The row
  offers the confirmation button exactly while a deletion was asked for and not declined, the
  save button exactly while it is edited and no save is running, and no other button of the
  row sends a request.
\<close>

theorem row_requests_need_intent:
  "(ConfirmDelete \<in> set (clicks (RuleRow_view segs vars rule saving deleting row))) = rr_pendingDelete row
   \<and> (SaveRule \<in> set (clicks (RuleRow_view segs vars rule saving deleting row))) = (rr_editing row \<and> \<not> saving)
   \<and> (\<forall>msg meth path b row'. Send meth path b \<in> set (snd (RuleRow_update ctx rule msg row')) \<longrightarrow>
        msg = ConfirmDelete \<and> meth = ''DELETE'' \<or> msg = SaveRule \<and> meth = ''PATCH'')
   \<and> (\<forall>msg row'. rr_pendingDelete (fst (RuleRow_update ctx rule msg row')) \<longrightarrow> msg = AskDelete \<or> rr_pendingDelete row')"
proof -
  have "msg = ConfirmDelete \<and> meth = ''DELETE'' \<or> msg = SaveRule \<and> meth = ''PATCH''"
    if "Send meth path b \<in> set (snd (RuleRow_update ctx rule msg row'))" for msg meth path b row'
    using that by (cases msg) (auto simp: RuleRow_update_def split: option.splits)
  moreover have "msg = AskDelete \<or> rr_pendingDelete row'"
    if "rr_pendingDelete (fst (RuleRow_update ctx rule msg row'))" for msg row'
    using that by (cases msg) (auto simp: RuleRow_update_def split: option.splits)
  ultimately show ?thesis by (auto simp: row_clicks)
qed

theorem row_requests_need_intent_witness:
  "ConfirmDelete \<notin> set (clicks (RuleRow_view [] [] (demo_rule ''a'' 1) False False (rule_row_init (demo_rule ''a'' 1))))"
  using row_requests_need_intent [of "[]" "[]" "demo_rule ''a'' 1" False False "rule_row_init (demo_rule ''a'' 1)" demo_rules_ctx]
  by (simp add: rule_row_init_def)

lemma foldr_max_ge: "x \<in> set xs \<or> x = (a :: int) \<Longrightarrow> x \<le> foldr max xs a"
  by (induction xs) auto

text \<open>
  A new rule starts below all others: its priority is larger than that of every
  displayed rule, and its draft has no conditions, serves the flag's first variant and is
  enabled.
\<close>

theorem new_rule_is_last:
  assumes "RulesPage_update ctx server vars ShowAdd pg = (pg', effs)"
  shows "effs = [] \<and> (\<exists>row. pg_adding pg' = Some row
    \<and> (\<forall>r \<in> set (displayed server pg). dr_priority r < dr_priority (nr_draft row))
    \<and> dr_conditions (nr_draft row) = [] \<and> dr_variantKey (nr_draft row) = first_key vars \<and> dr_enabled (nr_draft row))"
proof -
  have "dr_priority r < nextPriority rs" if "r \<in> set rs" for r and rs :: "Rule list"
    using that foldr_max_ge [of "dr_priority r" "map dr_priority (tl rs)" "dr_priority (hd rs)"]
    by (cases rs) (auto simp: nextPriority_def)
  with assms show ?thesis by (auto simp: RulesPage_update_def new_rule_init_def)
qed

theorem new_rule_is_last_witness:
  "\<exists>row. pg_adding (fst (RulesPage_update demo_rules_ctx demo_server [] ShowAdd demo_page)) = Some row
    \<and> (\<forall>r \<in> set demo_server. dr_priority r < dr_priority (nr_draft row))"
  using new_rule_is_last [of demo_rules_ctx demo_server "[]" demo_page
      "fst (RulesPage_update demo_rules_ctx demo_server [] ShowAdd demo_page)"
      "snd (RulesPage_update demo_rules_ctx demo_server [] ShowAdd demo_page)"]
  by (auto simp: displayed_def demo_page_def)

end
