(* ===== verification/Dialogs.thy ===== *)
theory Dialogs
  imports Web_Api
begin

text \<open>
  The dialogs of the web application: creating a project, an environment and a flag, and
  confirming a deletion (\<open>web/src/components/Create*Dialog.tsx\<close>, \<open>DeleteConfirmModal.tsx\<close>,
  \<open>routes/projects/flag-create-modal.tsx\<close>), with the slugs and keys they derive and
  validate. A mutation is an effect; its outcome is a message.
\<close>

section \<open>Slugs and keys\<close>

definition slug_char :: "char \<Rightarrow> bool" where
  "slug_char c \<longleftrightarrow> (0x61 \<le> (of_char c :: nat) \<and> (of_char c :: nat) \<le> 0x7A) \<or> is_digit c"

abbreviation dash :: char where "dash \<equiv> CHR ''-''"

definition ascii_lower :: "char \<Rightarrow> char" where
  "ascii_lower c = (if 0x41 \<le> (of_char c :: nat) \<and> (of_char c :: nat) \<le> 0x5A then char_of ((of_char c :: nat) + 32) else c)"

text \<open>
  \<open>toLowerCase\<close> as far as its ASCII result goes: besides the ASCII capitals only the Kelvin
  sign and the dotted capital I have ASCII letters in their lower case. Other non-ASCII letters
  stay non-ASCII, which is all that the slug functions observe of them.
\<close>

fun js_lower :: "string \<Rightarrow> string" where
  "js_lower [] = []"
| "js_lower (c # s) =
     (if starts_with [CHR 0xE2, CHR 0x84, CHR 0xAA] (c # s) then CHR ''k'' # js_lower (drop 2 s)
      else if starts_with [CHR 0xC4, CHR 0xB0] (c # s) then CHR ''i'' # CHR 0xCC # CHR 0x87 # js_lower (drop 1 s)
      else ascii_lower c # js_lower s)"

text \<open>\<open>replace(/[^a-z0-9]+/g, '-')\<close> and \<open>replace(/^-+|-+$/g, '')\<close>.\<close>

function dash_runs :: "string \<Rightarrow> string" where
  "dash_runs [] = []"
| "dash_runs (c # s) = (if slug_char c then c # dash_runs s else dash # dash_runs (dropWhile (\<lambda>d. \<not> slug_char d) s))"
  by pat_completeness auto
termination
  by (relation "measure length") (auto simp: le_imp_less_Suc length_dropWhile_le)

definition strip_dashes :: "string \<Rightarrow> string" where
  "strip_dashes s = rev (dropWhile (\<lambda>c. c = dash) (rev (dropWhile (\<lambda>c. c = dash) s)))"

definition toSlug :: "string \<Rightarrow> string" where
  "toSlug name = strip_dashes (dash_runs (js_lower name))"

text \<open>\<open>/^[a-z0-9]+(-[a-z0-9]+)*$/\<close>\<close>

definition SLUG_PATTERN :: "string \<Rightarrow> bool" where
  "SLUG_PATTERN s \<longleftrightarrow> list_all (\<lambda>p. p \<noteq> [] \<and> list_all slug_char p) (js_split dash s)"

text \<open>\<open>replace(/\s+/g, '-')\<close>\<close>

lemma strip_start_length: "length (strip_start ws s) \<le> length s"
proof (induction ws s rule: strip_start.induct)
  case (1 ws s)
  then show ?case by (subst strip_start.simps) (auto split: option.split intro: le_trans)
qed

lemma strip_start_shorter: "strip_start ws s \<noteq> s \<Longrightarrow> length (strip_start ws s) < length s"
proof -
  assume ne: "strip_start ws s \<noteq> s"
  then obtain w where w: "find (\<lambda>w. w \<noteq> [] \<and> starts_with w s) ws = Some w"
    by (subst (asm) strip_start.simps) (auto split: option.splits)
  then have "strip_start ws s = strip_start ws (drop (length w) s)" "w \<noteq> []" "starts_with w s"
    using find_SomeD [OF w] by (simp_all add: strip_start.simps [of ws s])
  moreover from this obtain t where "s = w @ t" by (auto simp: starts_with_iff)
  ultimately show ?thesis using strip_start_length [of ws t] by (cases w) auto
qed

function ws_runs :: "string \<Rightarrow> string" where
  "ws_runs [] = []"
| "ws_runs (c # s) =
     (let r = strip_start js_ws (c # s) in if r = c # s then c # ws_runs s else dash # ws_runs r)"
  by pat_completeness auto
termination
  by (relation "measure length") (auto dest: strip_start_shorter)

definition slugify :: "string \<Rightarrow> string" where
  "slugify name = strip_dashes (filter (\<lambda>c. slug_char c \<or> c = dash) (ws_runs (js_lower name)))"

text \<open>\<open>/^[a-z0-9][a-z0-9-]*$/\<close>, for environment slugs and flag keys.\<close>

definition KEY_RE :: "string \<Rightarrow> bool" where
  "KEY_RE s \<longleftrightarrow> s \<noteq> [] \<and> slug_char (hd s) \<and> list_all (\<lambda>c. slug_char c \<or> c = dash) s"

text \<open>\<open>length\<close> counts UTF-16 units: one per character, two per character outside the basic plane.\<close>

definition utf16_units :: "char \<Rightarrow> nat" where
  "utf16_units c = (let b = (of_char c :: nat) in if b < 0x80 then 1 else if b < 0xC0 then 0 else if b < 0xF0 then 1 else 2)"

definition js_length :: "string \<Rightarrow> nat" where
  "js_length s = sum_list (map utf16_units s)"

definition MAX_SLUG_LENGTH :: nat where "MAX_SLUG_LENGTH = 128"

text \<open>\<open>validateSlug\<close> and \<open>validateKeyLocally\<close> differ in their messages only.\<close>

definition validate_key :: "string \<Rightarrow> string \<Rightarrow> string \<Rightarrow> utext option" where
  "validate_key too_long invalid s =
     (if s = [] then None
      else if MAX_SLUG_LENGTH < js_length s then Some (T too_long [(''max'', show_nat MAX_SLUG_LENGTH)])
      else if \<not> KEY_RE s then Some (T invalid [])
      else None)"

definition validateSlug :: "string \<Rightarrow> utext option" where
  "validateSlug = validate_key ''projects:environments.slug_too_long'' ''projects:environments.slug_invalid''"

definition validateKeyLocally :: "string \<Rightarrow> utext option" where
  "validateKeyLocally = validate_key ''flags:create.key_too_long'' ''flags:create.key_invalid''"

section \<open>Slug lemmas\<close>

lemma slug_char_not_dash [simp]: "slug_char c \<Longrightarrow> c \<noteq> dash"
  by (auto simp: slug_char_def is_digit_def)

fun no_double_dash :: "string \<Rightarrow> bool" where
  "no_double_dash (a # b # s) = (\<not> (a = dash \<and> b = dash) \<and> no_double_dash (b # s))"
| "no_double_dash _ = True"

lemma no_double_Cons: "no_double_dash (c # s) \<longleftrightarrow> (c = dash \<longrightarrow> s = [] \<or> hd s \<noteq> dash) \<and> no_double_dash s"
  by (cases s) auto

lemma dash_runs_head: "slug_char c \<Longrightarrow> dash_runs (c # s) = c # dash_runs s"
  by simp

lemma dash_runs_no_double: "no_double_dash (dash_runs s)"
proof (induction s rule: dash_runs.induct)
  case (2 c s)
  show ?case
  proof (cases "slug_char c")
    case False
    let ?r = "dropWhile (\<lambda>d. \<not> slug_char d) s"
    have "dash_runs ?r = [] \<or> hd (dash_runs ?r) \<noteq> dash"
    proof (cases ?r)
      case Nil
      then show ?thesis unfolding Nil by simp
    next
      case (Cons d r)
      then have "slug_char d" using hd_dropWhile [of "\<lambda>d. \<not> slug_char d" s] by simp
      then show ?thesis unfolding Cons by simp
    qed
    with 2 False show ?thesis by (simp add: no_double_Cons)
  qed (use 2 in \<open>auto simp: no_double_Cons\<close>)
qed simp

lemma dash_runs_chars: "c \<in> set (dash_runs s) \<Longrightarrow> slug_char c \<or> c = dash"
  by (induction s rule: dash_runs.induct) (auto split: if_splits)

lemma no_double_append: "no_double_dash (u @ v) \<Longrightarrow> no_double_dash u \<and> no_double_dash v"
proof (induction u)
  case (Cons c u)
  then show ?case by (cases u) (auto simp: no_double_Cons)
qed simp

lemma strip_dashes_infix: "\<exists>u v. s = u @ strip_dashes s @ v"
proof -
  let ?P = "\<lambda>c. c = dash"
  let ?t = "dropWhile ?P s"
  have "s = takeWhile ?P s @ ?t" by simp
  moreover have "?t = strip_dashes s @ rev (takeWhile ?P (rev ?t))"
    unfolding strip_dashes_def by (metis rev_append rev_rev_ident takeWhile_dropWhile_id)
  ultimately show ?thesis by metis
qed

lemma strip_dashes_ends:
  assumes "strip_dashes s \<noteq> []"
  shows "hd (strip_dashes s) \<noteq> dash \<and> last (strip_dashes s) \<noteq> dash"
proof -
  let ?P = "\<lambda>c. c = dash"
  let ?t = "dropWhile ?P s"
  have ne: "dropWhile ?P (rev ?t) \<noteq> []" using assms by (simp add: strip_dashes_def)
  have last: "last (strip_dashes s) \<noteq> dash"
    using hd_dropWhile [OF ne] by (simp add: strip_dashes_def last_rev)
  have "?t = strip_dashes s @ rev (takeWhile ?P (rev ?t))"
    unfolding strip_dashes_def by (metis rev_append rev_rev_ident takeWhile_dropWhile_id)
  then have "hd ?t = hd (strip_dashes s)" "?t \<noteq> []" using assms by (metis hd_append2, metis append_is_Nil_conv)
  then have "hd (strip_dashes s) \<noteq> dash" using hd_dropWhile [of ?P s] by metis
  with last show ?thesis by simp
qed

lemma split_parts_nonempty:
  assumes "no_double_dash s" and "s = [] \<or> last s \<noteq> dash"
  shows "\<forall>p \<in> set (tl (js_split dash s)). p \<noteq> []"
    and "s \<noteq> [] \<Longrightarrow> hd s \<noteq> dash \<Longrightarrow> hd (js_split dash s) \<noteq> []"
proof -
  have hd_part: "hd (js_split dash t) \<noteq> []" if "t \<noteq> []" "hd t \<noteq> dash" for t
    using that by (cases t; cases "js_split dash (tl t)") auto
  then show "s \<noteq> [] \<Longrightarrow> hd s \<noteq> dash \<Longrightarrow> hd (js_split dash s) \<noteq> []" by blast
  show "\<forall>p \<in> set (tl (js_split dash s)). p \<noteq> []"
    using assms
  proof (induction s)
    case (Cons c s)
    obtain l ls where sp: "js_split dash s = l # ls" by (cases "js_split dash s") auto
    have "no_double_dash s" "s = [] \<or> last s \<noteq> dash" using Cons.prems by (auto simp: no_double_Cons)
    then have ih: "\<forall>p \<in> set ls. p \<noteq> []" using Cons.IH sp by simp
    show ?case
    proof (cases "c = dash")
      case True
      then have "s \<noteq> []" "hd s \<noteq> dash" using Cons.prems by (auto simp: no_double_Cons)
      then have "l \<noteq> []" using hd_part [of s] sp by simp
      with True ih sp show ?thesis by simp
    qed (use ih sp in simp)
  qed simp
qed

lemma slug_pattern_intro:
  assumes "s \<noteq> []" and "hd s \<noteq> dash" and "last s \<noteq> dash" and "no_double_dash s"
    and "\<And>c. c \<in> set s \<Longrightarrow> slug_char c \<or> c = dash"
  shows "SLUG_PATTERN s"
proof -
  have parts: "p \<noteq> []" if "p \<in> set (js_split dash s)" for p
    using that split_parts_nonempty [OF assms(4)] assms(1-3) by (cases "js_split dash s") auto
  have chars: "slug_char c" if "p \<in> set (js_split dash s)" "c \<in> set p" for p c
  proof -
    have "set p \<subseteq> set s" using that(1)
    proof (induction s arbitrary: p)
      case (Cons x s)
      obtain l ls where "js_split dash s = l # ls" by (cases "js_split dash s") auto
      with Cons.IH [of l] Cons.IH [of p] Cons.prems show ?case by (auto split: if_splits)
    qed simp
    with that assms(5) js_split_parts [OF that(1)] show ?thesis by blast
  qed
  show ?thesis using parts chars by (auto simp: SLUG_PATTERN_def list_all_iff)
qed

lemma toSlug_valid: "toSlug s = [] \<or> SLUG_PATTERN (toSlug s)"
proof (cases "toSlug s = []")
  case False
  let ?r = "dash_runs (js_lower s)"
  obtain u v where uv: "?r = u @ toSlug s @ v" using strip_dashes_infix [of ?r] by (auto simp: toSlug_def)
  have "no_double_dash (toSlug s)" using dash_runs_no_double [of "js_lower s"] uv by (metis no_double_append)
  moreover have "\<And>c. c \<in> set (toSlug s) \<Longrightarrow> slug_char c \<or> c = dash"
    using dash_runs_chars [of _ "js_lower s"] uv by auto
  moreover have "hd (toSlug s) \<noteq> dash \<and> last (toSlug s) \<noteq> dash"
    using strip_dashes_ends [of ?r] False by (simp add: toSlug_def)
  ultimately show ?thesis using slug_pattern_intro False by blast
qed simp

lemma slugify_valid: "slugify s = [] \<or> KEY_RE (slugify s)"
proof (cases "slugify s = []")
  case False
  let ?r = "filter (\<lambda>c. slug_char c \<or> c = dash) (ws_runs (js_lower s))"
  obtain u v where "?r = u @ slugify s @ v" using strip_dashes_infix [of ?r] unfolding slugify_def by blast
  then have "set (slugify s) \<subseteq> set ?r" by auto
  then have chars: "c \<in> set (slugify s) \<Longrightarrow> slug_char c \<or> c = dash" for c by auto
  have "hd (slugify s) \<noteq> dash" using strip_dashes_ends [of ?r] False by (simp add: slugify_def)
  with chars [of "hd (slugify s)"] chars False show ?thesis by (auto simp: KEY_RE_def list_all_iff)
qed simp

section \<open>Creating a project\<close>

record project_dialog =
  pd_name :: string
  pd_slug :: string
  pd_slugTouched :: bool
  pd_apiError :: utext

definition pd_reset :: project_dialog where
  "pd_reset = \<lparr>pd_name = [], pd_slug = [], pd_slugTouched = False, pd_apiError = Lit []\<rparr>"

text \<open>\<open>CloseParent\<close> is the \<open>onClose\<close> the dialog was given; a created project comes with its name and slug.\<close>

datatype project_msg =
    ProjectName string
  | ProjectSlug string
  | ProjectSubmit
  | ProjectCreated string string
  | ProjectFailed web_error
  | ProjectClose
  | ProjectOpenChange bool

datatype ('e) out = Eff 'e | CloseParent

definition CreateProjectDialog_update :: "project_msg \<Rightarrow> project_dialog \<Rightarrow> project_dialog \<times> effect out list" where
  "CreateProjectDialog_update msg d = (case msg of
     ProjectName v \<Rightarrow> (if pd_slugTouched d then d\<lparr>pd_name := v\<rparr> else d\<lparr>pd_name := v, pd_slug := toSlug v\<rparr>, [])
   | ProjectSlug v \<Rightarrow> (d\<lparr>pd_slugTouched := True, pd_slug := v\<rparr>, [])
   | ProjectSubmit \<Rightarrow> (d\<lparr>pd_apiError := Lit []\<rparr>,
       [Eff (Send ''POST'' ''/api/v1/projects'' (Some (JObj [(''name'', JStr (js_trim (pd_name d))), (''slug'', JStr (pd_slug d))])))])
   | ProjectCreated nm sl \<Rightarrow> (pd_reset,
       [Eff (Invalidate [''projects'']), Eff (Announce (''Project '' @ nm @ '' created'')), CloseParent,
        Eff (Navigate (''/projects/'' @ sl))])
   | ProjectFailed err \<Rightarrow> (d\<lparr>pd_apiError := api_or (T ''projects:create.error_unexpected'' []) err\<rparr>, [])
   | ProjectClose \<Rightarrow> (pd_reset, [CloseParent])
   | ProjectOpenChange is_open \<Rightarrow> if is_open then (d, []) else (pd_reset, [CloseParent]))"

definition slugValid :: "project_dialog \<Rightarrow> bool" where
  "slugValid d \<longleftrightarrow> pd_slug d = [] \<or> SLUG_PATTERN (pd_slug d)"

definition pd_canSubmit :: "bool \<Rightarrow> project_dialog \<Rightarrow> bool" where
  "pd_canSubmit pending d \<longleftrightarrow> js_trim (pd_name d) \<noteq> [] \<and> pd_slug d \<noteq> [] \<and> slugValid d \<and> \<not> pending"

definition CreateProjectDialog_view :: "bool \<Rightarrow> bool \<Rightarrow> project_dialog \<Rightarrow> project_msg html" where
  "CreateProjectDialog_view is_open pending d =
     ui_Dialog is_open ProjectOpenChange [ui_DialogContent
       [ui_DialogTitle [tr ''projects:create.title''],
        ui_DialogDescription [tr ''projects:create.subtitle''],
        El ''form'' [On ''submit'' ProjectSubmit]
          ([El ''div'' []
             [El ''div'' []
                [ui_Label ''project-name'' [tr ''projects:create.name_label''],
                 ui_Input None False (Some ''project-name'') None
                   [At ''type'' (Lit ''text''), At ''value'' (Lit (pd_name d)), OnText ''change'' ProjectName,
                    At ''placeholder'' (T ''projects:create.name_placeholder'' [])]],
              El ''div'' []
                ([ui_Label ''project-slug'' [tr ''projects:create.slug_label''],
                  ui_Input None (\<not> slugValid d) (Some ''project-slug'') None
                   [At ''type'' (Lit ''text''), At ''value'' (Lit (pd_slug d)), OnText ''change'' ProjectSlug,
                    At ''placeholder'' (T ''projects:create.slug_placeholder'' [])]] @
                 show_if (\<not> slugValid d) (El ''p'' [] [tr ''projects:create.slug_invalid'']))]] @
           show_if (pd_apiError d \<noteq> Lit []) (El ''p'' [At ''role'' (Lit ''alert'')] [Txt (pd_apiError d)]) @
           [El ''div'' []
             [ui_Button False False [At ''type'' (Lit ''button''), On ''click'' ProjectClose] [tr ''common:actions.cancel''],
              ui_Button False (\<not> pd_canSubmit pending d) [At ''type'' (Lit ''submit'')]
                [tr (if pending then ''projects:create.creating'' else ''projects:create.create_button'')]]])]]"

text \<open>The provider around it: open or not, and the element to give the focus back to.\<close>

record project_provider =
  pp_open :: bool
  pp_trigger :: bool

definition pp_handleOpen :: "bool \<Rightarrow> project_provider \<Rightarrow> project_provider" where
  "pp_handleOpen has_active p = \<lparr>pp_open = True, pp_trigger = has_active\<rparr>"

definition pp_handleClose :: "project_provider \<Rightarrow> project_provider \<times> effect list" where
  "pp_handleClose p = (\<lparr>pp_open = False, pp_trigger = False\<rparr>, if pp_trigger p then [FocusTrigger] else [])"

section \<open>Creating an environment\<close>

record env_dialog =
  ed_name :: string
  ed_envSlug :: string
  ed_slugTouched :: bool
  ed_slugError :: "utext option"
  ed_serverError :: "utext option"

definition ed_reset :: env_dialog where
  "ed_reset = \<lparr>ed_name = [], ed_envSlug = [], ed_slugTouched = False, ed_slugError = None, ed_serverError = None\<rparr>"

text \<open>\<open>onCreated\<close> and \<open>onCancel\<close> of the parent are the two outputs below.\<close>

datatype env_out = EnvEff effect | EnvCreatedOut | EnvCancelOut

datatype env_msg =
    EnvName string
  | EnvSlug string
  | EnvSlugBlur
  | EnvSubmit
  | EnvSettled "web_error option"
  | EnvCancel
  | EnvOpenChange bool

text \<open>A text state counts as absent when it is the empty string.\<close>

definition no_error :: "utext option \<Rightarrow> bool" where
  "no_error e \<longleftrightarrow> e = None \<or> e = Some (Lit [])"

definition env_error :: "web_error \<Rightarrow> env_dialog \<Rightarrow> env_dialog" where
  "env_error err d = (case err of
     APIError st m c \<Rightarrow>
       (if st = 409 \<or> c = ''conflict'' then d\<lparr>ed_slugError := Some (T ''projects:environments.slug_conflict'' [])\<rparr>
        else if st = 400 \<and> c = ''validation_error'' then d\<lparr>ed_slugError := Some (Lit m)\<rparr>
        else d\<lparr>ed_serverError := Some (Lit m)\<rparr>)
   | OtherError m \<Rightarrow> d\<lparr>ed_serverError := Some (T ''projects:environments.server_error'' [])\<rparr>)"

definition env_submit :: "string \<Rightarrow> env_dialog \<Rightarrow> env_dialog \<times> env_out list" where
  "env_submit projectSlug d =
     (if js_trim (ed_name d) = [] then (d, [])
      else (case validateSlug (ed_envSlug d) of
          Some err \<Rightarrow> (d\<lparr>ed_slugError := Some err\<rparr>, [])
        | None \<Rightarrow>
            (if ed_envSlug d = [] then (d\<lparr>ed_slugError := Some (T ''projects:environments.slug_required'' [])\<rparr>, [])
             else (d\<lparr>ed_serverError := None\<rparr>,
               [EnvEff (Send ''POST'' (''/api/v1/projects/'' @ projectSlug @ ''/environments'')
                  (Some (JObj [(''name'', JStr (ed_name d)), (''slug'', JStr (ed_envSlug d))])))]))))"

definition CreateEnvironmentDialog_update :: "string \<Rightarrow> env_msg \<Rightarrow> env_dialog \<Rightarrow> env_dialog \<times> env_out list" where
  "CreateEnvironmentDialog_update projectSlug msg d = (case msg of
     EnvName v \<Rightarrow> (if ed_slugTouched d then d\<lparr>ed_name := v\<rparr>
                   else d\<lparr>ed_name := v, ed_envSlug := slugify v, ed_slugError := validateSlug (slugify v)\<rparr>, [])
   | EnvSlug v \<Rightarrow> (d\<lparr>ed_envSlug := v, ed_slugTouched := True, ed_slugError := None, ed_serverError := None\<rparr>, [])
   | EnvSlugBlur \<Rightarrow> (d\<lparr>ed_slugError := validateSlug (ed_envSlug d)\<rparr>, [])
   | EnvSubmit \<Rightarrow> env_submit projectSlug d
   | EnvSettled None \<Rightarrow> (ed_reset, [EnvEff (Invalidate [''environments'', projectSlug]), EnvCreatedOut])
   | EnvSettled (Some err) \<Rightarrow> (env_error err d, [])
   | EnvCancel \<Rightarrow> (ed_reset, [EnvCancelOut])
   | EnvOpenChange is_open \<Rightarrow> if is_open then (d, []) else (ed_reset, [EnvCancelOut]))"

definition ed_canSubmit :: "bool \<Rightarrow> env_dialog \<Rightarrow> bool" where
  "ed_canSubmit pending d \<longleftrightarrow> js_trim (ed_name d) \<noteq> [] \<and> ed_envSlug d \<noteq> [] \<and> no_error (ed_slugError d) \<and> \<not> pending"

definition CreateEnvironmentDialog_view :: "bool \<Rightarrow> bool \<Rightarrow> env_dialog \<Rightarrow> env_msg html" where
  "CreateEnvironmentDialog_view is_open pending d =
     (let bad = (\<not> no_error (ed_slugError d)) in
      ui_Dialog is_open EnvOpenChange [ui_DialogContent
       [ui_DialogHeader [ui_DialogTitle [tr ''projects:environments.create_title'']],
        El ''form'' [On ''submit'' EnvSubmit]
          ([El ''div'' []
              [ui_Label ''create-env-name'' [tr ''projects:environments.name_label''],
               ui_Input None False (Some ''create-env-name'') None
                 [At ''type'' (Lit ''text''), Flag ''autofocus'' True, At ''value'' (Lit (ed_name d)), OnText ''change'' EnvName,
                  At ''placeholder'' (T ''projects:environments.name_placeholder'' [])]],
            El ''div'' []
              ([ui_Label ''create-env-slug'' [tr ''projects:environments.slug_label''],
                ui_Input None bad (Some ''create-env-slug'') (if bad then Some ''create-env-slug-error'' else None)
                  [At ''type'' (Lit ''text''), At ''value'' (Lit (ed_envSlug d)), OnText ''change'' EnvSlug, On ''blur'' EnvSlugBlur,
                   At ''placeholder'' (T ''projects:environments.slug_placeholder'' [])]] @
               (case ed_slugError d of Some e \<Rightarrow> show_if bad
                   (El ''p'' [At ''id'' (Lit ''create-env-slug-error''), At ''role'' (Lit ''alert'')] [Txt e]) | None \<Rightarrow> []))] @
           (case ed_serverError d of Some e \<Rightarrow> show_if (e \<noteq> Lit []) (El ''p'' [At ''role'' (Lit ''alert'')] [Txt e]) | None \<Rightarrow> []) @
           [ui_DialogFooter
             [ui_Button False pending [At ''type'' (Lit ''button''), On ''click'' EnvCancel] [tr ''common:actions.cancel''],
              ui_Button pending (\<not> ed_canSubmit pending d) [At ''type'' (Lit ''submit'')]
                [tr ''projects:environments.create_button'']]])]])"

section \<open>Confirming a deletion\<close>

datatype delete_msg = ConfirmText string | DeleteConfirm | DeleteCancel | DeleteOpenChange bool

definition DeleteConfirmModal_view :: "string \<Rightarrow> bool \<Rightarrow> bool \<Rightarrow> string \<Rightarrow> delete_msg html" where
  "DeleteConfirmModal_view flagKey isDeleting deleteFailed confirmValue =
     (let isMatch = (confirmValue = flagKey) in
      ui_Dialog True DeleteOpenChange [ui_DialogContent
       ([ui_DialogHeader [ui_DialogTitle [tr ''flags:delete.title'']],
         El ''p'' [] [Txt (T ''flags:delete.body'' [(''key'', flagKey)])],
         El ''p'' [] [Txt (T ''flags:delete.confirm_instruction'' [(''key'', flagKey)])],
         ui_Input None False None None
           [At ''value'' (Lit confirmValue), OnText ''change'' ConfirmText,
            At ''placeholder'' (T ''flags:delete.confirm_placeholder'' []), At ''aria-label'' (T ''flags:delete.confirm_aria'' []),
            At ''autocomplete'' (Lit ''off''), Flag ''spellcheck'' False, Flag ''disabled'' isDeleting]] @
        show_if deleteFailed (El ''p'' [] [tr ''flags:delete.failed'']) @
        [ui_DialogFooter
          [ui_Button False isDeleting [On ''click'' DeleteCancel] [tr ''common:actions.cancel''],
           ui_Button isDeleting (\<not> isMatch \<or> isDeleting) [On ''click'' DeleteConfirm]
             [tr (if isDeleting then ''common:states.deleting'' else ''common:actions.delete'')]]])])"

section \<open>Creating a flag\<close>

datatype SdkTab = TabGo | TabJs | TabPython

fun tab_value :: "SdkTab \<Rightarrow> string" where
  "tab_value TabGo = ''go''"
| "tab_value TabJs = ''js''"
| "tab_value TabPython = ''python''"

text \<open>Local storage, or \<open>None\<close> when using it throws.\<close>

type_synonym storage = "(string, string) js_map option"

definition safeGetTab :: "storage \<Rightarrow> SdkTab" where
  "safeGetTab store = (case store of
     Some m \<Rightarrow> (case map_get m ''cg:sdk_tab'' of
         Some s \<Rightarrow> if s = ''js'' then TabJs else if s = ''python'' then TabPython else TabGo
       | None \<Rightarrow> TabGo)
   | None \<Rightarrow> TabGo)"

definition safeSetTab :: "SdkTab \<Rightarrow> storage \<Rightarrow> storage" where
  "safeSetTab tab store = map_option (map_set ''cg:sdk_tab'' (tab_value tab)) store"

definition safeGetDismissed :: "storage \<Rightarrow> bool" where
  "safeGetDismissed store = (case store of Some m \<Rightarrow> map_get m ''cg:sdk_prompt_dismissed'' = Some ''true'' | None \<Rightarrow> False)"

definition safeSetDismissed :: "storage \<Rightarrow> storage" where
  "safeSetDismissed store = map_option (map_set ''cg:sdk_prompt_dismissed'' ''true'') store"

definition buildSnippet :: "SdkTab \<Rightarrow> string \<Rightarrow> string" where
  "buildSnippet tab flagKey = (case tab of
     TabGo \<Rightarrow> ''result, err := client.Bool(ctx, '' @ [CHR 0x22] @ flagKey @ [CHR 0x22] @ '', evalCtx)'' @ [nl] @
       ''if err != nil {'' @ [nl] @ ''    // handle error'' @ [nl] @ ''}''
   | TabJs \<Rightarrow> ''const result = await client.evaluateFlag('' @ [CHR 0x27] @ flagKey @ [CHR 0x27] @ '', context);'' @ [nl]
   | TabPython \<Rightarrow> ''result = client.bool('' @ [CHR 0x22] @ flagKey @ [CHR 0x22] @ '', ctx)'' @ [nl])"

record sdk_prompt =
  sp_activeTab :: SdkTab
  sp_dismissed :: bool

datatype prompt_msg = TabClick SdkTab | PromptDismiss

definition SdkPrompt_init :: "storage \<Rightarrow> sdk_prompt" where
  "SdkPrompt_init store = \<lparr>sp_activeTab = safeGetTab store, sp_dismissed = safeGetDismissed store\<rparr>"

definition SdkPrompt_update :: "prompt_msg \<Rightarrow> sdk_prompt \<times> storage \<Rightarrow> sdk_prompt \<times> storage" where
  "SdkPrompt_update msg = (\<lambda>(sp, store). case msg of
     TabClick tab \<Rightarrow> (sp\<lparr>sp_activeTab := tab\<rparr>, safeSetTab tab store)
   | PromptDismiss \<Rightarrow> (sp\<lparr>sp_dismissed := True\<rparr>, safeSetDismissed store))"

definition SdkPrompt_view :: "string \<Rightarrow> sdk_prompt \<Rightarrow> prompt_msg html list" where
  "SdkPrompt_view flagKey sp =
     (if sp_dismissed sp then []
      else [El ''section'' [At ''role'' (Lit ''region''), At ''aria-label'' (T ''flags:create.sdk_prompt.region_aria'' [])]
        [El ''div'' []
          [El ''p'' [] [tr ''flags:create.sdk_prompt.heading''],
           El ''div'' [At ''role'' (Lit ''tablist'')]
             (map (\<lambda>tab. El ''button'' [At ''role'' (Lit ''tab''), Flag ''aria-selected'' (sp_activeTab sp = tab), On ''click'' (TabClick tab)]
                [tr (''flags:create.sdk_prompt.tab_'' @ tab_value tab)]) [TabGo, TabJs, TabPython])],
         El ''pre'' [] [lit (buildSnippet (sp_activeTab sp) flagKey)],
         El ''div'' []
           [El ''button'' [On ''click'' PromptDismiss, At ''aria-label'' (T ''flags:create.sdk_prompt.dismiss_aria'' [])]
              [tr ''flags:create.sdk_prompt.dismiss'']]]])"

record flag_dialog =
  fd_key :: string
  fd_name :: string
  fd_nameTouched :: bool
  fd_type :: string
  fd_keyError :: "utext option"
  fd_serverError :: "utext option"
  fd_keyTouched :: bool
  fd_createdKey :: "string option"

definition fd_init :: flag_dialog where
  "fd_init = \<lparr>fd_key = [], fd_name = [], fd_nameTouched = False, fd_type = ''bool'', fd_keyError = None, fd_serverError = None,
     fd_keyTouched = False, fd_createdKey = None\<rparr>"

datatype flag_msg =
    FlagKey string
  | FlagKeyBlur
  | FlagName string
  | FlagTypeChosen string
  | FlagSubmit
  | FlagSettled "web_error option"
  | FlagDone
  | FlagCancel
  | FlagOpenChange bool

datatype flag_out = FlagEff effect | FlagCreatedOut | FlagCancelOut

definition flag_variants :: "string \<Rightarrow> (string \<times> string) list" where
  "flag_variants ty = (if ty = ''bool'' then [(''true'', ''On''), (''false'', ''Off'')] else [(''default'', ''Default'')])"

definition default_variant_key :: "string \<Rightarrow> string" where
  "default_variant_key ty = (if ty = ''bool'' then ''false'' else ''default'')"

definition create_flag_body :: "flag_dialog \<Rightarrow> json" where
  "create_flag_body d = JObj [(''key'', JStr (fd_key d)), (''name'', JStr (fd_name d)), (''type'', JStr (fd_type d)),
     (''variants'', JArr (map (\<lambda>(k, n). JObj [(''key'', JStr k), (''name'', JStr n)]) (flag_variants (fd_type d)))),
     (''default_variant_key'', JStr (default_variant_key (fd_type d)))]"

definition flag_error :: "web_error \<Rightarrow> flag_dialog \<Rightarrow> flag_dialog" where
  "flag_error err d = (case err of
     APIError st m c \<Rightarrow>
       (if st = 409 \<or> c = ''conflict'' then d\<lparr>fd_keyError := Some (T ''flags:create.key_conflict'' [])\<rparr>
        else if st = 400 \<and> c = ''validation_error'' then d\<lparr>fd_keyError := Some (Lit m)\<rparr>
        else d\<lparr>fd_serverError := Some (Lit m)\<rparr>)
   | OtherError m \<Rightarrow> d\<lparr>fd_serverError := Some (T ''flags:create.server_error'' [])\<rparr>)"

definition created :: "flag_dialog \<Rightarrow> bool" where
  "created d \<longleftrightarrow> (case fd_createdKey d of Some k \<Rightarrow> k \<noteq> [] | None \<Rightarrow> False)"

text \<open>
  The success handler is the one of the latest render (the query library hands the current
  options to a running mutation), so it reads the key as it is when the response arrives.
\<close>

definition CreateFlagModal_update :: "string \<Rightarrow> flag_msg \<Rightarrow> flag_dialog \<Rightarrow> flag_dialog \<times> flag_out list" where
  "CreateFlagModal_update slug msg d = (case msg of
     FlagKey v \<Rightarrow>
       (let d1 = d\<lparr>fd_key := v, fd_keyError := None, fd_serverError := None\<rparr>;
            d2 = (if \<not> fd_nameTouched d then d1\<lparr>fd_name := v\<rparr> else d1)
        in (if fd_keyTouched d then d2\<lparr>fd_keyError := validateKeyLocally v\<rparr> else d2, []))
   | FlagKeyBlur \<Rightarrow> (d\<lparr>fd_keyTouched := True, fd_keyError := validateKeyLocally (fd_key d)\<rparr>, [])
   | FlagName v \<Rightarrow> (d\<lparr>fd_nameTouched := True, fd_name := v\<rparr>, [])
   | FlagTypeChosen ty \<Rightarrow> (d\<lparr>fd_type := ty\<rparr>, [])
   | FlagSubmit \<Rightarrow> (case validateKeyLocally (fd_key d) of
         Some err \<Rightarrow> (d\<lparr>fd_keyError := Some err\<rparr>, [])
       | None \<Rightarrow> (if fd_key d = [] then (d\<lparr>fd_keyError := Some (T ''flags:create.key_required'' [])\<rparr>, [])
                  else (d\<lparr>fd_serverError := None\<rparr>,
                    [FlagEff (Send ''POST'' (''/api/v1/projects/'' @ slug @ ''/flags'') (Some (create_flag_body d)))])))
   | FlagSettled None \<Rightarrow> (d\<lparr>fd_createdKey := Some (fd_key d)\<rparr>, [])
   | FlagSettled (Some err) \<Rightarrow> (flag_error err d, [])
   | FlagDone \<Rightarrow> (d, [FlagCreatedOut])
   | FlagCancel \<Rightarrow> (d, [FlagCancelOut])
   | FlagOpenChange is_open \<Rightarrow> (d, if is_open then [] else if created d then [FlagCreatedOut] else [FlagCancelOut]))"

definition CreateFlagModal_view :: "bool \<Rightarrow> flag_msg html list \<Rightarrow> flag_dialog \<Rightarrow> flag_msg html" where
  "CreateFlagModal_view pending prompt d =
     ui_Dialog True FlagOpenChange [ui_DialogContent (ui_DialogCloseButton (FlagOpenChange False) #
       (if created d then
          (let k = the (fd_createdKey d) in
           [ui_DialogHeader [ui_DialogTitle [tr ''flags:create.success_title'']],
            El ''p'' [] [tr ''flags:create.success_body''],
            El ''CopyableCode'' [At ''value'' (Lit k), At ''aria-label'' (T ''flags:create.success_copy_aria'' [(''key'', k)])] []] @
           prompt @
           [ui_DialogFooter [ui_Button False False [On ''click'' FlagDone] [tr ''flags:create.success_done'']]])
        else
          (let bad = (\<not> no_error (fd_keyError d)) in
           [ui_DialogHeader [ui_DialogTitle [tr ''flags:create.title'']],
            El ''form'' [On ''submit'' FlagSubmit]
              ([El ''div'' []
                  ([ui_Label ''flag-key'' [tr ''flags:create.key_label''],
                    ui_Input None bad (Some ''flag-key'') (if bad then Some ''flag-key-error'' else None)
                      [At ''type'' (Lit ''text''), Flag ''autofocus'' True, At ''value'' (Lit (fd_key d)), OnText ''change'' FlagKey,
                       On ''blur'' FlagKeyBlur, At ''placeholder'' (T ''flags:create.key_placeholder'' [])]] @
                   (case fd_keyError d of Some e \<Rightarrow> show_if bad (El ''p'' [At ''id'' (Lit ''flag-key-error'')] [Txt e]) | None \<Rightarrow> [])),
                El ''div'' []
                  [ui_Label ''flag-name'' [tr ''flags:create.name_label''],
                   ui_Input None False (Some ''flag-name'') None
                      [At ''type'' (Lit ''text''), At ''value'' (Lit (fd_name d)), OnText ''change'' FlagName,
                       At ''placeholder'' (T ''flags:create.name_placeholder'' [])]],
                El ''div'' []
                  [ui_Label ''flag-type'' [tr ''flags:create.type_label''],
                   ui_Select (fd_type d) FlagTypeChosen False [At ''aria-label'' (T ''flags:create.type_aria'' [])]
                     (map (\<lambda>ty. ui_SelectItem ty [tr (''flags:create.type_'' @ ty)]) [''bool'', ''string'', ''number'', ''json''])]] @
               (case fd_serverError d of Some e \<Rightarrow> show_if (e \<noteq> Lit []) (El ''p'' [] [Txt e]) | None \<Rightarrow> []) @
               [El ''div'' []
                 [ui_Button False pending [At ''type'' (Lit ''button''), On ''click'' FlagCancel] [tr ''common:actions.cancel''],
                  ui_Button pending bad [At ''type'' (Lit ''submit'')]
                    [tr (if pending then ''common:states.creating'' else ''common:actions.create'')]]])])))]"

end
