(* ===== verification/Page_Runs.thy ===== *)
theory Page_Runs
  imports Web_Ui
begin

text \<open>
  Runs of a page. A user can do what the rendered tree offers: press an enabled control, type
  into a field, choose an option of a select, submit a form whose submit button is
  enabled; besides that, responses arrive. A run alternates such messages with the page's
  update, while the environment (props and query results) may be another one at each
  message. The locales lift an invariant of one step to all runs.
\<close>

section \<open>What a tree offers\<close>

fun option_value :: "'m html \<Rightarrow> string list" where
  "option_value (El tag ats hs) = (if tag = ''option'' then concat (map (\<lambda>a. case a of At n (Lit v) \<Rightarrow> if n = ''value'' then [v] else [] | _ \<Rightarrow> []) ats) else [])"
| "option_value (Txt t) = []"

definition option_values :: "'m html list \<Rightarrow> string list" where
  "option_values hs = concat (map option_value hs)"

definition is_submit :: "'m attr list \<Rightarrow> bool" where
  "is_submit ats \<longleftrightarrow> (\<exists>a \<in> set ats. case a of At n t \<Rightarrow> n = ''type'' \<and> t = Lit ''submit'' | _ \<Rightarrow> False)"

text \<open>The submit buttons below an element, each with its being enabled.\<close>

fun submits :: "'m html \<Rightarrow> bool list" where
  "submits (Txt t) = []"
| "submits (El tag ats hs) = (if tag = ''button'' \<and> is_submit ats then [\<not> disabled ats] else []) @ concat (map submits hs)"

text \<open>A form cannot be submitted while its first submit button is disabled.\<close>

definition can_submit :: "'m html list \<Rightarrow> bool" where
  "can_submit hs \<longleftrightarrow> (case concat (map submits hs) of [] \<Rightarrow> True | b # _ \<Rightarrow> b)"

fun attr_offers :: "string \<Rightarrow> 'm html list \<Rightarrow> 'm attr \<Rightarrow> 'm \<Rightarrow> bool" where
  "attr_offers tag hs (On e m') m = (m = m' \<and> (e = ''submit'' \<longrightarrow> can_submit hs))"
| "attr_offers tag hs (OnText e f) m = (\<exists>s. m = f s \<and> (tag = ''select'' \<longrightarrow> s \<in> set (option_values hs)))"
| "attr_offers tag hs (OnBool e f) m = (\<exists>b. m = f b)"
| "attr_offers tag hs _ m = False"

fun offered :: "'m html \<Rightarrow> 'm \<Rightarrow> bool" where
  "offered (Txt t) m = False"
| "offered (El tag ats hs) m =
     ((\<not> disabled ats \<and> (\<exists>a \<in> set ats. attr_offers tag hs a m)) \<or> (\<exists>h \<in> set hs. offered h m))"

lemma offered_show_if [simp]: "(\<exists>h \<in> set (show_if b x). offered h m) \<longleftrightarrow> b \<and> offered x m"
  by (cases b) (simp_all add: show_if_def)

lemma submits_show_if [simp]: "concat (map submits (show_if b x)) = (if b then submits x else [])"
  by (simp add: show_if_def)

lemma is_submit_simps [simp]:
  "is_submit [] = False"
  "is_submit (At n t # ats) = ((n = ''type'' \<and> t = Lit ''submit'') \<or> is_submit ats)"
  "is_submit (On e m # ats) = is_submit ats"
  "is_submit (OnText e f # ats) = is_submit ats"
  "is_submit (OnBool e g # ats) = is_submit ats"
  "is_submit (Flag n b # ats) = is_submit ats"
  "is_submit (ats @ ats') = (is_submit ats \<or> is_submit ats')"
  by (auto simp: is_submit_def)

lemma is_submit_map_attr [simp]: "is_submit (map (map_attr f) ats) = is_submit ats"
  by (induction ats) (auto simp: is_submit_def split: attr.splits)

lemma submits_map [simp]: "submits (map_html f h) = submits h"
  by (induction h) (auto simp: o_def cong: map_cong)

lemma option_value_map [simp]: "option_value (map_html f h) = option_value h"
proof (cases h)
  case (El tag ats hs)
  have "(case map_attr f a of At n (Lit v) \<Rightarrow> if n = ''value'' then [v] else [] | _ \<Rightarrow> []) =
      (case a of At n (Lit v) \<Rightarrow> if n = ''value'' then [v] else [] | _ \<Rightarrow> [])" for a
    by (cases a) simp_all
  with El show ?thesis by (simp add: o_def)
qed simp

text \<open>A component inside another one: its messages are wrapped, and nothing else changes.\<close>

lemma attr_offers_map:
  "attr_offers tag (map (map_html f) hs) (map_attr f a) m \<longleftrightarrow> (\<exists>m'. m = f m' \<and> attr_offers tag hs a m')"
proof (cases a)
  case (OnText e g)
  then show ?thesis by (simp add: option_values_def o_def) blast
qed (auto simp: can_submit_def o_def)

lemma offered_map [simp]: "offered (map_html f h) m \<longleftrightarrow> (\<exists>m'. m = f m' \<and> offered h m')"
proof (induction h)
  case (El tag ats hs)
  have "(\<exists>h \<in> set (map (map_html f) hs). offered h m) \<longleftrightarrow> (\<exists>m'. m = f m' \<and> (\<exists>h \<in> set hs. offered h m'))"
    using El.IH by auto
  moreover have "(\<exists>a \<in> set (map (map_attr f) ats). attr_offers tag (map (map_html f) hs) a m)
      \<longleftrightarrow> (\<exists>m'. m = f m' \<and> (\<exists>a \<in> set ats. attr_offers tag hs a m'))"
    by (auto simp: attr_offers_map)
  ultimately show ?case by (simp only: html.map offered.simps disabled_map_attr) blast
qed simp

lemma offered_Button [simp]:
  "offered (ui_Button loading dis ats children) m \<longleftrightarrow>
     (\<not> dis \<and> \<not> loading \<and> \<not> disabled ats \<and> (\<exists>a \<in> set ats. attr_offers ''button'' (show_if loading spinner @ children) a m))
     \<or> (\<exists>h \<in> set children. offered h m)"
  by (auto simp: ui_Button_def spinner_def show_if_def)

lemma submits_Button [simp]:
  "submits (ui_Button loading dis ats children) =
     (if is_submit ats then [\<not> (dis \<or> loading \<or> disabled ats)] else []) @ concat (map submits children)"
  by (simp add: ui_Button_def spinner_def)

lemma disabled_field_attrs [simp]: "disabled (field_attrs c i d e) = False"
  by (auto simp: field_attrs_def split: option.split)

lemma offers_field_attrs [simp]: "(\<exists>a \<in> set (field_attrs c i d e). attr_offers tag hs a m) = False"
  by (auto simp: field_attrs_def split: option.splits if_splits)

lemma offered_Input [simp]:
  "offered (ui_Input c i d e ats) m \<longleftrightarrow> \<not> disabled ats \<and> (\<exists>a \<in> set ats. attr_offers ''input'' [] a m)"
  using offers_field_attrs [of c i d e "''input''" "[]" m] unfolding ui_Input_def by (simp add: bex_Un del: offers_field_attrs)

lemma offered_Textarea [simp]:
  "offered (ui_Textarea c i d e ats) m \<longleftrightarrow> \<not> disabled ats \<and> (\<exists>a \<in> set ats. attr_offers ''textarea'' [] a m)"
  using offers_field_attrs [of c i d e "''textarea''" "[]" m] unfolding ui_Textarea_def by (simp add: bex_Un del: offers_field_attrs)

lemma offered_Select [simp]:
  "offered (ui_Select v f dis ats items) m \<longleftrightarrow>
     (\<not> dis \<and> \<not> disabled ats \<and> ((\<exists>s \<in> set (option_values items). m = f s) \<or> (\<exists>a \<in> set ats. attr_offers ''select'' items a m)))
     \<or> (\<exists>h \<in> set items. offered h m)"
  by (auto simp: ui_Select_def)

lemma submits_fields [simp]:
  "submits (ui_Input c i d e ats) = []" "submits (ui_Textarea c i d e ats) = []"
  "submits (ui_Select v f dis ats items) = concat (map submits items)" "submits (ui_SelectItem v hs) = concat (map submits hs)"
  "submits (ui_Label l hs) = concat (map submits hs)"
  by (simp_all add: ui_Input_def ui_Textarea_def ui_Select_def ui_SelectItem_def ui_Label_def)

lemma offered_parts [simp]:
  "offered (ui_Label l hs) m \<longleftrightarrow> (\<exists>h \<in> set hs. offered h m)"
  "offered (ui_SelectItem v hs) m \<longleftrightarrow> (\<exists>h \<in> set hs. offered h m)"
  "offered (ui_DialogContent hs) m \<longleftrightarrow> (\<exists>h \<in> set hs. offered h m)"
  "offered (ui_DialogHeader hs) m \<longleftrightarrow> (\<exists>h \<in> set hs. offered h m)"
  "offered (ui_DialogTitle hs) m \<longleftrightarrow> (\<exists>h \<in> set hs. offered h m)"
  "offered (ui_DialogDescription hs) m \<longleftrightarrow> (\<exists>h \<in> set hs. offered h m)"
  "offered (ui_DialogFooter hs) m \<longleftrightarrow> (\<exists>h \<in> set hs. offered h m)"
  "offered (ui_Dialog is_open f hs) m \<longleftrightarrow> (\<exists>b. m = f b) \<or> is_open \<and> (\<exists>h \<in> set hs. offered h m)"
  "offered (ui_DialogCloseButton x) m \<longleftrightarrow> m = x"
  "offered (link to hs) m \<longleftrightarrow> (\<exists>h \<in> set hs. offered h m)"
  by (auto simp: ui_Label_def ui_SelectItem_def ui_DialogContent_def ui_DialogHeader_def ui_DialogTitle_def
      ui_DialogDescription_def ui_DialogFooter_def ui_Dialog_def ui_DialogCloseButton_def link_def)

lemma option_values_items [simp]:
  "option_values [] = []"
  "option_values (ui_SelectItem v hs # items) = v # option_values items"
  "option_values (map (\<lambda>x. ui_SelectItem (g x) (k x)) xs @ items) = map g xs @ option_values items"
  "option_values (map (\<lambda>x. ui_SelectItem (g x) (k x)) xs) = map g xs"
  by (induction xs) (simp_all add: option_values_def ui_SelectItem_def)

section \<open>Shared parts of pages\<close>

text \<open>A plain text field, an error line, and rendering a list of rows, any of which may throw.\<close>

definition text_input :: "bool \<Rightarrow> string \<Rightarrow> (string \<Rightarrow> 'm) \<Rightarrow> 'm attr list \<Rightarrow> 'm html" where
  "text_input bad v f ats = ui_Input None bad None None ([At ''type'' (Lit ''text''), At ''value'' (Lit v), OnText ''change'' f] @ ats)"

definition error_text :: "utext option \<Rightarrow> 'm html list" where
  "error_text err = (case err of Some e \<Rightarrow> show_if (e \<noteq> Lit []) (El ''p'' [] [Txt e]) | None \<Rightarrow> [])"

fun render_all :: "(string, 'm html) result list \<Rightarrow> (string, 'm html list) result" where
  "render_all [] = Inr []"
| "render_all (r # rs) = await r (\<lambda>h. await (render_all rs) (\<lambda>hs. Inr (h # hs)))"

text \<open>Invalidating a key prefix marks every query whose key extends it.\<close>

definition covers :: "effect \<Rightarrow> string list \<Rightarrow> bool" where
  "covers eff key = (case eff of Invalidate k \<Rightarrow> take (length k) key = k | _ \<Rightarrow> False)"

lemma offered_text_input [simp]: "offered (text_input bad v f ats) m \<longleftrightarrow>
    \<not> disabled ats \<and> ((\<exists>s. m = f s) \<or> (\<exists>a \<in> set ats. attr_offers ''input'' [] a m))"
  by (auto simp: text_input_def)

lemma offered_error_text [simp]: "(\<exists>h \<in> set (error_text e). offered h m) = False"
  by (auto simp: error_text_def show_if_def split: option.splits)

section \<open>Runs\<close>

text \<open>
  \<open>can e s m\<close>: in state \<open>s\<close> under the environment \<open>e\<close> the message \<open>m\<close> can come.
  The environment of each step is part of the trace.
\<close>

inductive page_run ::
    "('e \<Rightarrow> 'm \<Rightarrow> 's \<Rightarrow> 's \<times> 'o list) \<Rightarrow> ('e \<Rightarrow> 's \<Rightarrow> 'm \<Rightarrow> bool) \<Rightarrow> 's \<Rightarrow> ('e \<times> 'm) list \<Rightarrow> 's \<Rightarrow> 'o list \<Rightarrow> bool"
  for upd can s where
  run_Nil: "page_run upd can s [] s []"
| run_snoc: "page_run upd can s ems s1 outs \<Longrightarrow> can e s1 m \<Longrightarrow> upd e m s1 = (s2, os) \<Longrightarrow>
    page_run upd can s (ems @ [(e, m)]) s2 (outs @ os)"

text \<open>A run in which every environment has a property is one in which it is required.\<close>

lemma run_restrict:
  "page_run upd can s ems s' outs \<Longrightarrow> \<forall>(e, m) \<in> set ems. P e \<Longrightarrow> page_run upd (\<lambda>e s m. can e s m \<and> P e) s ems s' outs"
  by (induction rule: page_run.induct) (auto intro: page_run.intros)

locale page =
  fixes upd :: "'e \<Rightarrow> 'm \<Rightarrow> 's \<Rightarrow> 's \<times> 'o list"
    and can :: "'e \<Rightarrow> 's \<Rightarrow> 'm \<Rightarrow> bool"
    and inv :: "'s \<Rightarrow> bool"
    and out_ok :: "'o \<Rightarrow> bool"
  assumes inv_step: "inv s \<Longrightarrow> can e s m \<Longrightarrow> inv (fst (upd e m s))"
    and out_step: "inv s \<Longrightarrow> can e s m \<Longrightarrow> x \<in> set (snd (upd e m s)) \<Longrightarrow> out_ok x"
begin

lemma run_page: "page_run upd can s ems s' outs \<Longrightarrow> inv s \<Longrightarrow> inv s' \<and> (\<forall>x \<in> set outs. out_ok x)"
proof (induction rule: page_run.induct)
  case (run_snoc ems s1 outs e m s2 os)
  then have s1: "inv s1" "\<forall>x \<in> set outs. out_ok x" by simp_all
  have "inv s2" "\<forall>x \<in> set os. out_ok x"
    using inv_step [OF s1(1) run_snoc.hyps(2)] out_step [OF s1(1) run_snoc.hyps(2)] run_snoc.hyps(3) by simp_all
  with s1 show ?case by auto
qed simp

end

text \<open>Dialogs whose messages may come in any order, whatever is rendered.\<close>

locale dialog =
  fixes upd :: "'m \<Rightarrow> 's \<Rightarrow> 's \<times> 'o list"
    and init :: 's
    and inv :: "'s \<Rightarrow> bool"
    and out_ok :: "'o \<Rightarrow> bool"
  assumes inv_init: "inv init"
    and inv_step: "inv s \<Longrightarrow> inv (fst (upd m s))"
    and out_step: "inv s \<Longrightarrow> x \<in> set (snd (upd m s)) \<Longrightarrow> out_ok x"
begin

definition run :: "'m list \<Rightarrow> 's \<times> 'o list" where
  "run ms = fold (\<lambda>m (s, os). case upd m s of (s', os') \<Rightarrow> (s', os @ os')) ms (init, [])"

lemma run_snoc_dialog: "run (ms @ [m]) = (fst (upd m (fst (run ms))), snd (run ms) @ snd (upd m (fst (run ms))))"
  by (simp add: run_def split: prod.split)

lemma run_inv: "inv (fst (run ms))"
  by (induction ms rule: rev_induct) (simp_all add: run_snoc_dialog inv_step, simp add: run_def inv_init)

lemma run_outputs: "x \<in> set (snd (run ms)) \<Longrightarrow> out_ok x"
proof (induction ms rule: rev_induct)
  case (snoc m ms)
  then show ?case using out_step [OF run_inv] by (auto simp: run_snoc_dialog)
qed (simp add: run_def)

end

text \<open>The same run, outside the interface.\<close>

definition dialog_run :: "('m \<Rightarrow> 's \<Rightarrow> 's \<times> 'o list) \<Rightarrow> 's \<Rightarrow> 'm list \<Rightarrow> 's \<times> 'o list" where
  "dialog_run upd s ms = fold (\<lambda>m (s, os). case upd m s of (s', os') \<Rightarrow> (s', os @ os')) ms (s, [])"

end
