(* ===== verification/Dialogs_Spec.thy ===== *)
theory Dialogs_Spec
  imports Dialogs Page_Runs
begin

text \<open>
  What the dialogs guarantee over any sequence of user actions and responses: derived slugs
  are valid, only valid requests are sent, errors land at the field they concern, and a
  deletion needs the key typed out.
\<close>

section \<open>Projects\<close>

definition project_inv :: "project_dialog \<Rightarrow> bool" where
  "project_inv d \<longleftrightarrow> (pd_slugTouched d \<or> pd_slug d = toSlug (pd_name d))"

lemma toSlug_Nil [simp]: "toSlug [] = []"
  by (simp add: toSlug_def strip_dashes_def)

interpretation project: dialog CreateProjectDialog_update pd_reset project_inv "\<lambda>_. True"
  by unfold_locales (auto simp: project_inv_def pd_reset_def CreateProjectDialog_update_def split: project_msg.split)

text \<open>
  Slugs of projects. Whatever the user does in the dialog, as long as the slug field was
  not edited it holds the slug derived from the name, and a derived slug is always accepted
  (lower-case letters and digits in groups joined by single dashes, or empty); the submit
  button is enabled only for a non-blank name and a slug of that form.
\<close>

theorem project_slug_valid:
  "let d = fst (dialog_run CreateProjectDialog_update pd_reset msgs) in
   (\<not> pd_slugTouched d \<longrightarrow> pd_slug d = toSlug (pd_name d) \<and> slugValid d)
   \<and> (pd_canSubmit pending d \<longrightarrow> SLUG_PATTERN (pd_slug d) \<and> js_trim (pd_name d) \<noteq> [])"
proof -
  have "project_inv (fst (dialog_run CreateProjectDialog_update pd_reset msgs))"
    using project.run_inv [of msgs] by (simp add: dialog_run_def project.run_def)
  then show ?thesis using toSlug_valid [of "pd_name (fst (dialog_run CreateProjectDialog_update pd_reset msgs))"]
    by (auto simp: Let_def project_inv_def slugValid_def pd_canSubmit_def)
qed

theorem project_slug_valid_witness:
  "slugValid (fst (dialog_run CreateProjectDialog_update pd_reset [ProjectName ''My Shop!'']))"
  using project_slug_valid [of "[ProjectName ''My Shop!'']" False]
  by (simp add: Let_def dialog_run_def CreateProjectDialog_update_def pd_reset_def)

section \<open>Environments\<close>

definition env_inv :: "env_dialog \<Rightarrow> bool" where
  "env_inv d \<longleftrightarrow> (ed_slugTouched d \<or> ed_envSlug d = slugify (ed_name d))"

definition env_request_ok :: "string \<Rightarrow> env_out \<Rightarrow> bool" where
  "env_request_ok projectSlug x = (case x of
     EnvEff (Send meth path b) \<Rightarrow> meth = ''POST'' \<and> path = ''/api/v1/projects/'' @ projectSlug @ ''/environments'' \<and>
       (\<exists>nm sl. b = Some (JObj [(''name'', JStr nm), (''slug'', JStr sl)]) \<and> js_trim nm \<noteq> [] \<and> KEY_RE sl \<and> js_length sl \<le> 128)
   | _ \<Rightarrow> True)"

lemma validate_key_None: "validate_key a b s = None \<longleftrightarrow> s = [] \<or> (KEY_RE s \<and> js_length s \<le> 128)"
  by (auto simp: validate_key_def MAX_SLUG_LENGTH_def)

lemma env_submit_ok: "x \<in> set (snd (env_submit p d)) \<Longrightarrow> env_request_ok p x"
  by (auto simp: env_submit_def env_request_ok_def validateSlug_def validate_key_None split: if_splits option.splits)

lemma slugify_Nil [simp]: "slugify [] = []"
  by (simp add: slugify_def strip_dashes_def)

lemma env_submit_frame [simp]:
  "ed_name (fst (env_submit p d)) = ed_name d" "ed_envSlug (fst (env_submit p d)) = ed_envSlug d"
  "ed_slugTouched (fst (env_submit p d)) = ed_slugTouched d"
  by (simp_all add: env_submit_def split: option.split)

interpretation env: dialog "CreateEnvironmentDialog_update p" ed_reset env_inv "env_request_ok p" for p
proof unfold_locales
  show "env_inv ed_reset" by (simp add: env_inv_def ed_reset_def)
next
  fix s m
  assume "env_inv s"
  then show "env_inv (fst (CreateEnvironmentDialog_update p m s))"
    by (cases m) (simp_all add: env_inv_def CreateEnvironmentDialog_update_def ed_reset_def env_error_def
        split: option.split web_error.split)
next
  fix s m x
  assume "x \<in> set (snd (CreateEnvironmentDialog_update p m s))"
  then show "env_request_ok p x"
    by (cases m) (auto simp: CreateEnvironmentDialog_update_def env_submit_ok, auto simp: env_request_ok_def split: option.splits if_splits)
qed

text \<open>
  Requests of the environment dialog. Over any sequence of user actions and responses the
  dialog requests only environments with a non-blank name and a slug that the service's pattern
  accepts, of at most 128 characters; until the slug field is edited it holds the slug
  derived from the name, which is empty or of that pattern.
\<close>

theorem env_requests_valid:
  "let (d, outs) = dialog_run (CreateEnvironmentDialog_update p) ed_reset msgs in
   (\<forall>meth path b. EnvEff (Send meth path b) \<in> set outs \<longrightarrow>
      meth = ''POST'' \<and> path = ''/api/v1/projects/'' @ p @ ''/environments'' \<and>
      (\<exists>nm sl. b = Some (JObj [(''name'', JStr nm), (''slug'', JStr sl)]) \<and> js_trim nm \<noteq> [] \<and> KEY_RE sl \<and> js_length sl \<le> 128))
   \<and> (\<not> ed_slugTouched d \<longrightarrow> ed_envSlug d = slugify (ed_name d) \<and> (ed_envSlug d = [] \<or> KEY_RE (ed_envSlug d)))"
proof -
  have eq: "dialog_run (CreateEnvironmentDialog_update p) ed_reset msgs = env.run p msgs"
    by (simp add: dialog_run_def env.run_def)
  have inv: "env_inv (fst (env.run p msgs))" by (rule env.run_inv)
  have out: "env_request_ok p x" if "x \<in> set (snd (env.run p msgs))" for x using that by (rule env.run_outputs)
  show ?thesis
    unfolding eq using inv slugify_valid [of "ed_name (fst (env.run p msgs))"] out
    by (auto simp: Let_def env_inv_def split: prod.split dest!: out) (fastforce simp: env_request_ok_def)+
qed

theorem env_requests_valid_witness:
  "let d = fst (dialog_run (CreateEnvironmentDialog_update ''shop'') ed_reset [EnvName ''Staging'']) in
   ed_envSlug d = [] \<or> KEY_RE (ed_envSlug d)"
  using env_requests_valid [of "''shop''" "[EnvName ''Staging'']"]
  by (simp add: Let_def dialog_run_def CreateEnvironmentDialog_update_def ed_reset_def)

section \<open>Deletions\<close>

text \<open>
  The deletion button of the confirmation dialog works exactly while the typed text is the
  flag's key and no deletion is running.
\<close>

theorem delete_needs_key:
  "DeleteConfirm \<in> set (clicks (DeleteConfirmModal_view k isDeleting failed typed)) \<longleftrightarrow> typed = k \<and> \<not> isDeleting"
  by (auto simp: DeleteConfirmModal_view_def Let_def ui_Dialog_def ui_DialogContent_def ui_DialogHeader_def ui_DialogTitle_def
      ui_Input_def field_attrs_def ui_DialogFooter_def show_if_def)

section \<open>Flags\<close>

definition flag_inv :: "flag_dialog \<Rightarrow> bool" where
  "flag_inv d \<longleftrightarrow> (fd_nameTouched d \<or> fd_name d = fd_key d)"

definition flag_request_ok :: "string \<Rightarrow> flag_out \<Rightarrow> bool" where
  "flag_request_ok slug x = (case x of
     FlagEff (Send meth path b) \<Rightarrow> meth = ''POST'' \<and> path = ''/api/v1/projects/'' @ slug @ ''/flags'' \<and>
       (\<exists>d. b = Some (create_flag_body d) \<and> KEY_RE (fd_key d) \<and> js_length (fd_key d) \<le> 128
          \<and> default_variant_key (fd_type d) \<in> fst ` set (flag_variants (fd_type d)))
   | _ \<Rightarrow> True)"

lemma default_variant_listed: "default_variant_key ty \<in> fst ` set (flag_variants ty)"
  by (simp add: default_variant_key_def flag_variants_def)

interpretation flag: dialog "CreateFlagModal_update p" fd_init flag_inv "flag_request_ok p" for p
proof unfold_locales
  show "flag_inv fd_init" by (simp add: flag_inv_def fd_init_def)
next
  fix s m
  assume "flag_inv s"
  then show "flag_inv (fst (CreateFlagModal_update p m s))"
    by (auto simp: flag_inv_def CreateFlagModal_update_def Let_def flag_error_def split: flag_msg.split option.split web_error.split)
next
  fix s m x
  assume "x \<in> set (snd (CreateFlagModal_update p m s))"
  then show "flag_request_ok p x"
    by (cases m) (auto simp: CreateFlagModal_update_def flag_request_ok_def Let_def validateKeyLocally_def validate_key_None
        default_variant_listed split: option.splits if_splits)
qed

text \<open>
  Requests of the flag dialog. Over any sequence of user actions and responses only
  flags with a valid key of at most 128 characters are requested, with a default variant that is among
  the requested variants; the name follows the key until it is edited; and a conflict or
  validation error of the service is shown at the key, any other error below the form.
\<close>

theorem flag_requests_valid:
  "let (d, outs) = dialog_run (CreateFlagModal_update p) fd_init msgs in
   (\<forall>meth path b. FlagEff (Send meth path b) \<in> set outs \<longrightarrow>
      meth = ''POST'' \<and> path = ''/api/v1/projects/'' @ p @ ''/flags'' \<and>
      (\<exists>f. b = Some (create_flag_body f) \<and> KEY_RE (fd_key f) \<and> js_length (fd_key f) \<le> 128
         \<and> default_variant_key (fd_type f) \<in> fst ` set (flag_variants (fd_type f))))
   \<and> (\<not> fd_nameTouched d \<longrightarrow> fd_name d = fd_key d)
   \<and> (\<forall>st m c. let d' = fst (CreateFlagModal_update p (FlagSettled (Some (APIError st m c))) d) in
        if st = 409 \<or> c = ''conflict'' \<or> st = 400 \<and> c = ''validation_error''
        then fd_keyError d' \<noteq> None \<and> fd_serverError d' = fd_serverError d
        else fd_keyError d' = fd_keyError d \<and> fd_serverError d' = Some (Lit m))"
proof -
  have eq: "dialog_run (CreateFlagModal_update p) fd_init msgs = flag.run p msgs"
    by (simp add: dialog_run_def flag.run_def)
  obtain d outs where r: "flag.run p msgs = (d, outs)" by fastforce
  have inv: "flag_inv d" using flag.run_inv [of p msgs] r by simp
  have out: "flag_request_ok p x" if "x \<in> set outs" for x using that flag.run_outputs [of x p msgs] r by simp
  have "meth = ''POST'' \<and> path = ''/api/v1/projects/'' @ p @ ''/flags'' \<and>
      (\<exists>f. b = Some (create_flag_body f) \<and> KEY_RE (fd_key f) \<and> js_length (fd_key f) \<le> 128
         \<and> default_variant_key (fd_type f) \<in> fst ` set (flag_variants (fd_type f)))"
    if "FlagEff (Send meth path b) \<in> set outs" for meth path b
    using out [OF that] by (simp add: flag_request_ok_def)
  moreover have "\<not> fd_nameTouched d \<longrightarrow> fd_name d = fd_key d" using inv by (auto simp: flag_inv_def)
  ultimately show ?thesis unfolding eq r by (simp add: CreateFlagModal_update_def flag_error_def Let_def)
qed

theorem flag_requests_valid_witness:
  "fd_name (fst (dialog_run (CreateFlagModal_update ''shop'') fd_init [FlagKey ''dark-mode''])) = ''dark-mode''"
  using flag_requests_valid [of "''shop''" "[FlagKey ''dark-mode'']"]
  by (simp add: Let_def dialog_run_def CreateFlagModal_update_def fd_init_def)

text \<open>
  The success panel names the key the field holds when the response arrives. The field
  stays editable while the request runs, so the panel, its copy button and the code snippet can
  name another key than the one that was created.
\<close>

theorem created_key_can_differ:
  "let (d, outs) = dialog_run (CreateFlagModal_update p) fd_init [FlagKey ''a'', FlagSubmit, FlagKey ''b'', FlagSettled None] in
   fd_createdKey d = Some ''b''
   \<and> outs = [FlagEff (Send ''POST'' (''/api/v1/projects/'' @ p @ ''/flags'')
        (Some (create_flag_body (fd_init\<lparr>fd_key := ''a'', fd_name := ''a''\<rparr>))))]"
proof -
  have "KEY_RE ''a''" "js_length ''a'' = 1" by code_simp+
  then show ?thesis
    by (simp add: dialog_run_def CreateFlagModal_update_def fd_init_def Let_def validateKeyLocally_def validate_key_def
        MAX_SLUG_LENGTH_def create_flag_body_def)
qed

end
