(* ===== verification/Js_Date.thy ===== *)
theory Js_Date
  imports Js_String "HOL-Library.Monad_Syntax"
begin

text \<open>
  Time values (milliseconds since 1970 in UTC) with the calendar functions of the language, the
  ISO format with its parser, and \<open>web/src/utils/date.ts\<close> on top of them. Time values
  outside the years 0 to 9999 print as the language specifies but are never parsed back;
  \<open>None\<close> of the parser is an invalid date. Strings outside the ISO format are left to
  the engine by the language and are not modelled; the service writes ISO timestamps in UTC.
\<close>

section \<open>The calendar\<close>

text \<open>\<open>DayFromYear\<close> and \<open>YearFromTime\<close> of the language; the year is found from an estimate.\<close>

definition day_from_year :: "int \<Rightarrow> int" where
  "day_from_year y = 365 * (y - 1970) + (y - 1969) div 4 - (y - 1901) div 100 + (y - 1601) div 400"

definition leap :: "int \<Rightarrow> bool" where
  "leap y \<longleftrightarrow> y mod 4 = 0 \<and> (y mod 100 \<noteq> 0 \<or> y mod 400 = 0)"

definition year_from_day :: "int \<Rightarrow> int" where
  "year_from_day d =
     (let y = 1970 + d * 400 div 146097 in
      if d < day_from_year y then y - 1 else if day_from_year (y + 1) \<le> d then y + 1 else y)"

definition month_starts :: "bool \<Rightarrow> int list" where
  "month_starts lp = (let l = (if lp then 1 else 0) in
     [0, 31, 59 + l, 90 + l, 120 + l, 151 + l, 181 + l, 212 + l, 243 + l, 273 + l, 304 + l, 334 + l, 365 + l])"

definition month_from_day :: "bool \<Rightarrow> int \<Rightarrow> nat" where
  "month_from_day lp n = length (filter (\<lambda>s. s \<le> n) (take 12 (month_starts lp)))"

definition days_in_month :: "int \<Rightarrow> nat \<Rightarrow> int" where
  "days_in_month y m = month_starts (leap y) ! m - month_starts (leap y) ! (m - 1)"

record civil =
  c_year :: int
  c_month :: nat
  c_day :: int

definition civil_of_day :: "int \<Rightarrow> civil" where
  "civil_of_day d =
     (let y = year_from_day d; n = d - day_from_year y; m = month_from_day (leap y) n
      in \<lparr>c_year = y, c_month = m, c_day = n - month_starts (leap y) ! (m - 1) + 1\<rparr>)"

definition day_of_civil :: "civil \<Rightarrow> int" where
  "day_of_civil c = day_from_year (c_year c) + month_starts (leap (c_year c)) ! (c_month c - 1) + c_day c - 1"

definition civil_ok :: "civil \<Rightarrow> bool" where
  "civil_ok c \<longleftrightarrow> 1 \<le> c_month c \<and> c_month c \<le> 12 \<and> 1 \<le> c_day c \<and> c_day c \<le> days_in_month (c_year c) (c_month c)"

lemma div_step:
  fixes x k :: int
  assumes "0 < k"
  shows "(x + 1) div k = x div k + (if (x + 1) mod k = 0 then 1 else 0)"
proof -
  define q r where "q = x div k" and "r = x mod k"
  have x: "x = k * q + r" and r: "0 \<le> r" "r < k" using assms by (simp_all add: q_def r_def)
  show ?thesis
  proof (cases "r + 1 = k")
    case True
    then have "x + 1 = k * (q + 1) + 0" using x by (simp add: algebra_simps)
    then show ?thesis using assms by (simp add: int_div_pos_eq [of "x + 1" k "q + 1" 0] q_def [symmetric])
  next
    case False
    then have e: "x + 1 = k * q + (r + 1)" "0 \<le> r + 1" "r + 1 < k" using x r by simp_all
    then have "(x + 1) mod k = r + 1" "(x + 1) div k = q" by (metis int_mod_pos_eq, metis int_div_pos_eq)
    then show ?thesis using r unfolding q_def [symmetric] by simp
  qed
qed

lemma mod_shift: "(y - j * k) mod k = y mod k" for y j k :: int
  using mod_mult_self1 [of y "- j" k] by simp

lemma day_from_year_Suc: "day_from_year (y + 1) = day_from_year y + (if leap y then 366 else 365)"
proof -
  define a b c where "a = (y - 1969) div 4" and "b = (y - 1901) div 100" and "c = (y - 1601) div 400"
  have a: "(y + 1 - 1969) div 4 = a + (if y mod 4 = 0 then 1 else 0)"
    using div_step [of 4 "y - 1969"] mod_shift [of y 492 4] by (simp add: a_def)
  have b: "(y + 1 - 1901) div 100 = b + (if y mod 100 = 0 then 1 else 0)"
    using div_step [of 100 "y - 1901"] mod_shift [of y 19 100] by (simp add: b_def)
  have c: "(y + 1 - 1601) div 400 = c + (if y mod 400 = 0 then 1 else 0)"
    using div_step [of 400 "y - 1601"] mod_shift [of y 4 400] by (simp add: c_def)
  have d1: "y mod 400 = 0 \<Longrightarrow> y mod 100 = 0" using dvd_trans [of 100 400 y] by (simp add: mod_eq_0_iff_dvd)
  have d2: "y mod 100 = 0 \<Longrightarrow> y mod 4 = 0" using dvd_trans [of 4 100 y] by (simp add: mod_eq_0_iff_dvd)
  have step: "day_from_year (y + 1) = 365 * (y - 1970) + 365 + (a + (if y mod 4 = 0 then 1 else 0))
      - (b + (if y mod 100 = 0 then 1 else 0)) + (c + (if y mod 400 = 0 then 1 else 0))"
    unfolding day_from_year_def a b c by simp
  have base: "day_from_year y = 365 * (y - 1970) + a - b + c"
    unfolding day_from_year_def a_def b_def c_def by simp
  show ?thesis
  proof (cases "y mod 4 = 0")
    case True
    then show ?thesis unfolding step base leap_def using d1 by (cases "y mod 100 = 0"; cases "y mod 400 = 0") simp_all
  next
    case False
    then have "y mod 100 \<noteq> 0" "y mod 400 \<noteq> 0" using d1 d2 by metis+
    with False show ?thesis unfolding step base leap_def by simp
  qed
qed

lemma div_between:
  fixes x k :: int
  assumes "0 < k"
  shows "k * (x div k) \<le> x" "x \<le> k * (x div k) + (k - 1)"
  using assms pos_mod_bound [of k x] pos_mod_sign [of k x] mult_div_mod_eq [of k x] by linarith+

lemma day_from_year_bounds:
  "146097 * y - 287811690 \<le> 400 * day_from_year y" "400 * day_from_year y \<le> 146097 * y - 287810390"
proof -
  define a b c where "a = (y - 1969) div 4" and "b = (y - 1901) div 100" and "c = (y - 1601) div 400"
  have *: "4 * a \<le> y - 1969" "y - 1969 \<le> 4 * a + 3" "100 * b \<le> y - 1901" "y - 1901 \<le> 100 * b + 99"
    "400 * c \<le> y - 1601" "y - 1601 \<le> 400 * c + 399"
    unfolding a_def b_def c_def using div_between [of 4 "y - 1969"] div_between [of 100 "y - 1901"] div_between [of 400 "y - 1601"]
    by simp_all
  have e: "400 * day_from_year y = 146000 * y - 287620000 + 400 * a - 400 * b + 400 * c"
    by (simp add: day_from_year_def a_def b_def c_def)
  have "400 * a \<le> 100 * y - 196900" "100 * y - 197200 \<le> 400 * a" "400 * b \<le> 4 * y - 7604" "4 * y - 8000 \<le> 400 * b"
    "400 * c \<le> y - 1601" "y - 2000 \<le> 400 * c"
    using * by linarith+
  then show "146097 * y - 287811690 \<le> 400 * day_from_year y" "400 * day_from_year y \<le> 146097 * y - 287810390"
    unfolding e by linarith+
qed

lemma year_from_day_props: "day_from_year (year_from_day d) \<le> d \<and> d < day_from_year (year_from_day d + 1)"
proof -
  define y where "y = 1970 + d * 400 div 146097"
  have q: "146097 * (y - 1970) \<le> d * 400" "d * 400 \<le> 146097 * (y - 1970) + 146096"
    unfolding y_def using div_between [of 146097 "d * 400"] by simp_all
  have "day_from_year (y - 1) \<le> d" using q(1) day_from_year_bounds(2) [of "y - 1"] by simp
  moreover have "d < day_from_year (y + 1 + 1)" using q(2) day_from_year_bounds(1) [of "y + 1 + 1"] by simp
  ultimately show ?thesis unfolding year_from_day_def y_def [symmetric] Let_def by simp
qed

lemma day_from_year_mono: "y \<le> z \<Longrightarrow> day_from_year y \<le> day_from_year z"
proof (induction z rule: int_ge_induct)
  case (step z)
  then show ?case by (simp add: day_from_year_Suc)
qed simp

lemma year_from_day_unique:
  assumes "day_from_year y \<le> d" and "d < day_from_year (y + 1)"
  shows "year_from_day d = y"
proof (rule ccontr)
  assume "year_from_day d \<noteq> y"
  then consider "year_from_day d + 1 \<le> y" | "y + 1 \<le> year_from_day d" by linarith
  then show False
    using day_from_year_mono [of "year_from_day d + 1" y] day_from_year_mono [of "y + 1" "year_from_day d"]
      year_from_day_props [of d] assms by cases linarith+
qed

lemma month_from_day_props:
  assumes "0 \<le> n" and "n < 365 + (if lp then 1 else 0)"
  shows "1 \<le> month_from_day lp n" "month_from_day lp n \<le> 12"
    "month_starts lp ! (month_from_day lp n - 1) \<le> n" "n < month_starts lp ! month_from_day lp n"
  using assms by (auto simp: month_from_day_def month_starts_def Let_def)

lemma month_starts_mono:
  assumes "i \<le> j" and "j \<le> 12"
  shows "month_starts lp ! i \<le> month_starts lp ! j"
proof -
  have "sorted (month_starts lp)" by (simp add: month_starts_def Let_def)
  moreover have "j < length (month_starts lp)" using assms by (simp add: month_starts_def Let_def)
  ultimately show ?thesis using assms(1) sorted_nth_mono by blast
qed

lemma month_starts_ends [simp]: "month_starts lp ! 0 = 0" "month_starts lp ! 12 = 365 + (if lp then 1 else 0)"
  by (simp_all add: month_starts_def Let_def)

lemma month_start_range:
  assumes "1 \<le> m" and "m \<le> 12"
  shows "0 \<le> month_starts lp ! (m - 1)" "month_starts lp ! m \<le> 365 + (if lp then 1 else 0)"
proof -
  show "0 \<le> month_starts lp ! (m - 1)" using month_starts_mono [of 0 "m - 1" lp] assms by simp
  show "month_starts lp ! m \<le> 365 + (if lp then 1 else 0)" using month_starts_mono [of m 12 lp] assms by simp
qed

lemma month_from_day_unique:
  assumes "1 \<le> m" and "m \<le> 12" and "month_starts lp ! (m - 1) \<le> n" and "n < month_starts lp ! m"
  shows "month_from_day lp n = m"
proof -
  have "0 \<le> n" "n < 365 + (if lp then 1 else 0)"
    using assms(3,4) month_start_range [OF assms(1,2), of lp] by linarith+
  note p = month_from_day_props [OF this]
  show ?thesis
  proof (rule ccontr)
    assume "month_from_day lp n \<noteq> m"
    then consider "month_from_day lp n \<le> m - 1" | "m \<le> month_from_day lp n - 1" by linarith
    then show False
    proof cases
      case 1
      then have "month_starts lp ! month_from_day lp n \<le> month_starts lp ! (m - 1)" using assms(2) by (intro month_starts_mono) simp_all
      with p(4) assms(3) show False by linarith
    next
      case 2
      then have "month_starts lp ! m \<le> month_starts lp ! (month_from_day lp n - 1)" using p(2) by (intro month_starts_mono) simp_all
      with p(3) assms(4) show False by linarith
    qed
  qed
qed

lemma day_in_year:
  assumes "day_from_year y \<le> d" and "d < day_from_year (y + 1)"
  shows "0 \<le> d - day_from_year y" "d - day_from_year y < 365 + (if leap y then 1 else 0)"
  using assms by (auto simp: day_from_year_Suc)

lemma civil_of_day_ok: "civil_ok (civil_of_day d)"
proof -
  let ?y = "year_from_day d"
  have y: "day_from_year ?y \<le> d" "d < day_from_year (?y + 1)" using year_from_day_props by simp_all
  note p = month_from_day_props [OF day_in_year [OF y]]
  show ?thesis using p by (simp add: civil_ok_def civil_of_day_def Let_def days_in_month_def)
qed

lemma day_of_civil_of_day: "day_of_civil (civil_of_day d) = d"
  by (simp add: day_of_civil_def civil_of_day_def Let_def)

lemma civil_of_day_of_civil:
  assumes "civil_ok c"
  shows "civil_of_day (day_of_civil c) = c"
proof -
  let ?n = "month_starts (leap (c_year c)) ! (c_month c - 1) + c_day c - 1"
  have m: "1 \<le> c_month c" "c_month c \<le> 12" "1 \<le> c_day c"
    "c_day c \<le> month_starts (leap (c_year c)) ! c_month c - month_starts (leap (c_year c)) ! (c_month c - 1)"
    using assms by (simp_all add: civil_ok_def days_in_month_def)
  then have n: "month_starts (leap (c_year c)) ! (c_month c - 1) \<le> ?n" "?n < month_starts (leap (c_year c)) ! c_month c"
    by linarith+
  have "0 \<le> ?n" "?n < 365 + (if leap (c_year c) then 1 else 0)"
    using n month_start_range [OF m(1,2), of "leap (c_year c)"] by linarith+
  then have "year_from_day (day_of_civil c) = c_year c"
    by (intro year_from_day_unique) (auto simp: day_of_civil_def day_from_year_Suc)
  moreover have "month_from_day (leap (c_year c)) ?n = c_month c" using m n by (intro month_from_day_unique)
  moreover have "day_of_civil c - day_from_year (c_year c) = ?n" by (simp add: day_of_civil_def)
  ultimately show ?thesis by (simp add: civil_of_day_def Let_def)
qed


section \<open>The ISO format\<close>

definition ms_per_day :: int where "ms_per_day = 86400000"

definition civil_of :: "int \<Rightarrow> civil" where
  "civil_of t = civil_of_day (t div ms_per_day)"

definition utc_hours :: "int \<Rightarrow> int" where "utc_hours t = t mod ms_per_day div 3600000"
definition utc_minutes :: "int \<Rightarrow> int" where "utc_minutes t = t mod 3600000 div 60000"
definition utc_seconds :: "int \<Rightarrow> int" where "utc_seconds t = t mod 60000 div 1000"
definition utc_millis :: "int \<Rightarrow> int" where "utc_millis t = t mod 1000"

text \<open>\<open>String(n).padStart(w, '0')\<close>\<close>

definition pad :: "nat \<Rightarrow> nat \<Rightarrow> string" where
  "pad w n = replicate (w - length (show_nat n)) (CHR ''0'') @ show_nat n"

definition iso_year :: "int \<Rightarrow> string" where
  "iso_year y = (if 0 \<le> y \<and> y \<le> 9999 then pad 4 (nat y)
     else (if y < 0 then CHR ''-'' else CHR ''+'') # pad 6 (nat \<bar>y\<bar>))"

definition iso_date :: "civil \<Rightarrow> string" where
  "iso_date c = iso_year (c_year c) @ CHR ''-'' # pad 2 (c_month c) @ CHR ''-'' # pad 2 (nat (c_day c))"

definition toISOString :: "int \<Rightarrow> string" where
  "toISOString t = iso_date (civil_of t) @ CHR ''T'' # pad 2 (nat (utc_hours t)) @ CHR '':'' # pad 2 (nat (utc_minutes t))
     @ CHR '':'' # pad 2 (nat (utc_seconds t)) @ CHR ''.'' # pad 3 (nat (utc_millis t)) @ ''Z''"

text \<open>\<open>new Date(s)\<close>: a date, or a date and a time with fraction and zone.\<close>

definition digits :: "nat \<Rightarrow> string \<Rightarrow> (nat \<times> string) option" where
  "digits n s = (if length (take n s) = n \<and> list_all is_digit (take n s) then Some (digits_val (take n s), drop n s) else None)"

fun expect :: "char \<Rightarrow> string \<Rightarrow> string option" where
  "expect c (d # s) = (if c = d then Some s else None)"
| "expect c [] = None"

definition parse_civil :: "string \<Rightarrow> (civil \<times> string) option" where
  "parse_civil s = do {
     (y, s) \<leftarrow> digits 4 s;
     s \<leftarrow> expect (CHR ''-'') s;
     (m, s) \<leftarrow> digits 2 s;
     s \<leftarrow> expect (CHR ''-'') s;
     (d, s) \<leftarrow> digits 2 s;
     let c = \<lparr>c_year = int y, c_month = m, c_day = int d\<rparr>;
     if civil_ok c then Some (c, s) else None
   }"

definition parse_fraction :: "string \<Rightarrow> (nat \<times> string) option" where
  "parse_fraction s = (case s of
     c # r \<Rightarrow> if c = CHR ''.'' then
         (let ds = takeWhile is_digit r in
          if ds = [] then None else Some (digits_val (take 3 (ds @ ''00'')), drop (length ds) r))
       else Some (0, s)
   | [] \<Rightarrow> Some (0, s))"

definition parse_clock :: "string \<Rightarrow> (nat \<times> string) option" where
  "parse_clock s = do {
     (h, s) \<leftarrow> digits 2 s;
     s \<leftarrow> expect (CHR '':'') s;
     (mi, s) \<leftarrow> digits 2 s;
     (sec, s) \<leftarrow> (case expect (CHR '':'') s of Some r \<Rightarrow> digits 2 r | None \<Rightarrow> Some (0, s));
     (ms, s) \<leftarrow> parse_fraction s;
     if mi \<le> 59 \<and> sec \<le> 59 \<and> (h \<le> 23 \<or> h = 24 \<and> mi = 0 \<and> sec = 0 \<and> ms = 0)
     then Some (3600000 * h + 60000 * mi + 1000 * sec + ms, s) else None
   }"

definition parse_zone :: "string \<Rightarrow> int option" where
  "parse_zone s = (if s = ''Z'' then Some 0 else case s of
     c # r \<Rightarrow> do {
       (h, r) \<leftarrow> digits 2 r;
       r \<leftarrow> expect (CHR '':'') r;
       (mi, r) \<leftarrow> digits 2 r;
       if r = [] \<and> h \<le> 23 \<and> mi \<le> 59 then
         (if c = CHR ''+'' then Some (int (60000 * (60 * h + mi)))
          else if c = CHR ''-'' then Some (- int (60000 * (60 * h + mi))) else None)
       else None }
   | [] \<Rightarrow> None)"

definition date_parse :: "string \<Rightarrow> int option" where
  "date_parse s = do {
     (c, s) \<leftarrow> parse_civil s;
     if s = [] then Some (ms_per_day * day_of_civil c)
     else do {
       s \<leftarrow> expect (CHR ''T'') s;
       (clock, s) \<leftarrow> parse_clock s;
       zone \<leftarrow> parse_zone s;
       Some (ms_per_day * day_of_civil c + int clock - zone)
     }
   }"

section \<open>date.ts\<close>

definition formatAbsoluteDate :: "string \<Rightarrow> string" where
  "formatAbsoluteDate ts = (case date_parse ts of
     None \<Rightarrow> ''NaN-NaN-NaN NaN:NaN''
   | Some t \<Rightarrow> show_int (c_year (civil_of t)) @ CHR ''-'' # pad 2 (c_month (civil_of t)) @ CHR ''-'' # pad 2 (nat (c_day (civil_of t)))
       @ CHR '' '' # pad 2 (nat (utc_hours t)) @ CHR '':'' # pad 2 (nat (utc_minutes t)))"

text \<open>
  \<open>Intl\<close> renders in the language of the browser; what it is asked to render is a value. The
  date formatter throws a \<open>RangeError\<close> for an invalid date.
\<close>

datatype relative_date = RelDays int | RelWeeks int | MediumDate int

definition formatRelativeDate :: "int \<Rightarrow> string \<Rightarrow> (string, relative_date) result" where
  "formatRelativeDate now ts = (case date_parse ts of
     None \<Rightarrow> Inl ''RangeError''
   | Some t \<Rightarrow>
       (let diffDays = (now - t) div ms_per_day in
        if diffDays < 7 then Inr (RelDays (- diffDays))
        else if diffDays < 30 then Inr (RelWeeks (- (diffDays div 7)))
        else Inr (MediumDate t)))"

section \<open>Round trip\<close>

lemma is_digit_zero [simp]: "is_digit (CHR ''0'')"
  by (simp add: is_digit_def)

lemma digits_val_zeros: "digits_val (replicate k (CHR ''0'') @ s) = digits_val s"
  by (induction k) (simp_all add: digits_val_def digit_val_def)

lemma length_show_nat: "n < 10 ^ w \<Longrightarrow> 0 < w \<Longrightarrow> length (show_nat n) \<le> w"
proof (induction w arbitrary: n)
  case (Suc w)
  show ?case
  proof (cases "n < 10")
    case False
    then have "n div 10 < 10 ^ w" "0 < w" using Suc.prems by (auto simp: less_mult_imp_div_less mult.commute intro: gr0I)
    then show ?thesis using Suc.IH [of "n div 10"] False by (subst show_nat.simps) simp
  qed (subst show_nat.simps, simp)
qed simp

lemma pad_props:
  assumes "n < 10 ^ w" and "0 < w"
  shows "length (pad w n) = w" "list_all is_digit (pad w n)" "digits_val (pad w n) = n"
  using length_show_nat [OF assms] show_nat_digits
  by (auto simp: pad_def list_all_iff digits_val_zeros digits_val_show_nat)

lemma digits_pad:
  assumes "n < 10 ^ w" and "0 < w"
  shows "digits w (pad w n @ s) = Some (n, s)"
  using pad_props [OF assms] by (simp add: digits_def)

lemma days_in_month_le: "1 \<le> m \<Longrightarrow> m \<le> 12 \<Longrightarrow> days_in_month y m \<le> 31"
  by (auto simp: days_in_month_def month_starts_def Let_def numeral_eq_Suc le_Suc_eq)

lemma civil_ok_bounds: "civil_ok c \<Longrightarrow> 1 \<le> c_month c \<and> c_month c \<le> 12 \<and> 1 \<le> c_day c \<and> c_day c \<le> 31"
  using days_in_month_le [of "c_month c" "c_year c"] by (auto simp: civil_ok_def)

lemma parse_civil_iso:
  assumes "civil_ok c" and "0 \<le> c_year c" and "c_year c \<le> 9999"
  shows "parse_civil (iso_date c @ s) = Some (c, s)"
proof -
  note b = civil_ok_bounds [OF assms(1)]
  then have "nat (c_year c) < 10 ^ 4" "c_month c < 10 ^ 2" "nat (c_day c) < 10 ^ 2" using assms b by auto
  then have d: "digits 4 (pad 4 (nat (c_year c)) @ u) = Some (nat (c_year c), u)"
    "digits 2 (pad 2 (c_month c) @ u) = Some (c_month c, u)"
    "digits 2 (pad 2 (nat (c_day c)) @ u) = Some (nat (c_day c), u)" for u
    by (simp_all add: digits_pad del: power_numeral)
  have "\<lparr>c_year = int (nat (c_year c)), c_month = c_month c, c_day = int (nat (c_day c))\<rparr> = c" using assms b by simp
  then show ?thesis
    using assms by (simp add: parse_civil_def iso_date_def iso_year_def d Let_def)
qed

lemma div_lt: "0 < k \<Longrightarrow> x < k * j \<Longrightarrow> x div k < j" for x k j :: int
  using div_between(1) [of k x] by (meson le_less_trans mult_less_cancel_left_pos)

lemma clock_bounds:
  "0 \<le> utc_hours t" "utc_hours t < 24" "0 \<le> utc_minutes t" "utc_minutes t < 60"
  "0 \<le> utc_seconds t" "utc_seconds t < 60" "0 \<le> utc_millis t" "utc_millis t < 1000"
  by (simp_all add: utc_hours_def utc_minutes_def utc_seconds_def utc_millis_def ms_per_day_def pos_imp_zdiv_nonneg_iff div_lt)

lemma div_mod_split: "0 < j \<Longrightarrow> 0 < k \<Longrightarrow> k * (x mod (j * k) div k) + x mod k = x mod (j * k)" for x j k :: int
  by (metis dvd_triv_right mod_mod_cancel mult_div_mod_eq)

lemma clock_sum: "3600000 * utc_hours t + 60000 * utc_minutes t + 1000 * utc_seconds t + utc_millis t = t mod ms_per_day"
proof -
  have "3600000 * utc_hours t + t mod 3600000 = t mod ms_per_day"
    using div_mod_split [of 24 3600000 t] by (simp add: utc_hours_def ms_per_day_def)
  moreover have "60000 * utc_minutes t + t mod 60000 = t mod 3600000"
    using div_mod_split [of 60 60000 t] by (simp add: utc_minutes_def)
  moreover have "1000 * utc_seconds t + t mod 1000 = t mod 60000"
    using div_mod_split [of 60 1000 t] by (simp add: utc_seconds_def)
  ultimately show ?thesis by (simp add: utc_millis_def)
qed

lemma takeWhile_pad: "n < 10 ^ w \<Longrightarrow> 0 < w \<Longrightarrow> \<not> is_digit c \<Longrightarrow> takeWhile is_digit (pad w n @ c # s) = pad w n"
  using pad_props(2) [of n w] by (simp add: takeWhile_append2 list_all_iff)

lemma parse_clock_iso:
  assumes "h < 24" and "mi < 60" and "sec < 60" and "ms < 1000"
  shows "parse_clock (pad 2 h @ CHR '':'' # pad 2 mi @ CHR '':'' # pad 2 sec @ CHR ''.'' # pad 3 ms @ ''Z'')
    = Some (3600000 * h + 60000 * mi + 1000 * sec + ms, ''Z'')"
proof -
  have "h < 10 ^ 2" "mi < 10 ^ 2" "sec < 10 ^ 2" "ms < 10 ^ 3" using assms by simp_all
  then have d: "digits 2 (pad 2 h @ u) = Some (h, u)" "digits 2 (pad 2 mi @ u) = Some (mi, u)"
    "digits 2 (pad 2 sec @ u) = Some (sec, u)" "takeWhile is_digit (pad 3 ms @ CHR ''Z'' # u) = pad 3 ms"
    "digits_val (pad 3 ms) = ms" "length (pad 3 ms) = 3" for u
    by (simp_all add: digits_pad takeWhile_pad pad_props is_digit_def del: power_numeral)
  then have "pad 3 ms \<noteq> []" by auto
  with d assms show ?thesis by (simp add: parse_clock_def parse_fraction_def)
qed

lemma date_parse_iso:
  assumes "0 \<le> c_year (civil_of t)" and "c_year (civil_of t) \<le> 9999"
  shows "date_parse (toISOString t) = Some t"
proof -
  define h mi sec ms where "h = nat (utc_hours t)" and "mi = nat (utc_minutes t)" and "sec = nat (utc_seconds t)" and "ms = nat (utc_millis t)"
  have b: "h < 24" "mi < 60" "sec < 60" "ms < 1000"
    using clock_bounds [of t] by (simp_all add: h_def mi_def sec_def ms_def nat_less_iff)
  have "civil_ok (civil_of t)" by (simp add: civil_of_def civil_of_day_ok)
  then have c: "parse_civil (toISOString t) = Some (civil_of t, CHR ''T'' # pad 2 h @ CHR '':'' # pad 2 mi @ CHR '':'' # pad 2 sec
      @ CHR ''.'' # pad 3 ms @ ''Z'')"
    using assms by (simp add: toISOString_def parse_civil_iso h_def mi_def sec_def ms_def)
  have "int (3600000 * h + 60000 * mi + 1000 * sec + ms) = t mod ms_per_day"
    using clock_sum [of t] clock_bounds [of t] by (simp add: h_def mi_def sec_def ms_def)
  then have "ms_per_day * day_of_civil (civil_of t) + int (3600000 * h + 60000 * mi + 1000 * sec + ms) - 0 = t"
    by (simp only: civil_of_def day_of_civil_of_day) simp
  with c show ?thesis by (simp add: date_parse_def parse_clock_iso [OF b] parse_zone_def)
qed

section \<open>Properties of date.ts\<close>

lemma utc_fields:
  assumes "t = ms_per_day * d + int (3600000 * h + 60000 * mi + 1000 * sec)" and "h < 24" and "mi < 60" and "sec < 60"
  shows "t div ms_per_day = d" "utc_hours t = int h" "utc_minutes t = int mi"
proof -
  let ?c = "int (3600000 * h + 60000 * mi + 1000 * sec)" and ?r = "int (60000 * mi + 1000 * sec)"
  have c: "0 \<le> ?c" "?c < ms_per_day" and r: "0 \<le> ?r" "?r < 3600000" using assms(2-4) by (simp_all add: ms_per_day_def)
  show "t div ms_per_day = d" using int_div_pos_eq [OF assms(1) c] .
  have "t mod ms_per_day = ?c" using int_mod_pos_eq [OF assms(1) c] .
  moreover have "?c = 3600000 * int h + ?r" by simp
  ultimately show "utc_hours t = int h" using int_div_pos_eq [OF _ r, of ?c "int h"] by (simp add: utc_hours_def)
  have "t = 3600000 * (24 * d + int h) + ?r" using assms(1) by (simp add: ms_per_day_def)
  then have "t mod 3600000 = ?r" using int_mod_pos_eq [OF _ r] by blast
  moreover have "?r div 60000 = int mi" using int_div_pos_eq [of ?r 60000 "int mi" "int (1000 * sec)"] assms(4) by simp
  ultimately show "utc_minutes t = int mi" by (simp add: utc_minutes_def)
qed

definition utc_stamp :: "civil \<Rightarrow> nat \<Rightarrow> nat \<Rightarrow> nat \<Rightarrow> string" where
  "utc_stamp c h mi sec = iso_date c @ CHR ''T'' # pad 2 h @ CHR '':'' # pad 2 mi @ CHR '':'' # pad 2 sec @ ''Z''"

lemma date_parse_stamp:
  assumes "civil_ok c" and "0 \<le> c_year c" and "c_year c \<le> 9999" and "h < 24" and "mi < 60" and "sec < 60"
  shows "date_parse (utc_stamp c h mi sec) = Some (ms_per_day * day_of_civil c + int (3600000 * h + 60000 * mi + 1000 * sec))"
proof -
  have "h < 10 ^ 2" "mi < 10 ^ 2" "sec < 10 ^ 2" using assms by simp_all
  then have d: "digits 2 (pad 2 h @ u) = Some (h, u)" "digits 2 (pad 2 mi @ u) = Some (mi, u)"
    "digits 2 (pad 2 sec @ u) = Some (sec, u)" for u
    by (simp_all add: digits_pad del: power_numeral)
  then show ?thesis
    using assms by (simp add: date_parse_def utc_stamp_def parse_civil_iso [OF assms(1-3)] parse_clock_def parse_fraction_def parse_zone_def)
qed

lemma show_four_digits: "1000 \<le> n \<Longrightarrow> n \<le> 9999 \<Longrightarrow> pad 4 n = show_nat n"
proof -
  assume "1000 \<le> n" "n \<le> 9999"
  then have "100 \<le> n div 10" "10 \<le> n div 100" "n div 1000 < 10"
    using div_le_mono [of 1000 n 10] div_le_mono [of 1000 n 100] by (simp_all add: less_mult_imp_div_less)
  then have "length (show_nat n) = 4"
    using \<open>1000 \<le> n\<close> by (subst show_nat.simps, subst show_nat.simps, subst show_nat.simps, subst show_nat.simps) (simp add: div_mult2_eq [symmetric])
  then show ?thesis by (simp add: pad_def)
qed

text \<open>
  Timestamps are shown as the service recorded them. An UTC timestamp of the years 1000 to
  9999 is shown with its own date, hour and minute; its relative form counts whole days up to
  six, whole weeks up to four, and falls back to the date from the thirtieth day on; a
  timestamp in the future counts days forward.
\<close>

theorem timestamps_shown:
  assumes "civil_ok c" and "1000 \<le> c_year c" and "c_year c \<le> 9999" and "h < 24" and "mi < 60" and "sec < 60"
  shows "formatAbsoluteDate (utc_stamp c h mi sec) = iso_date c @ CHR '' '' # pad 2 h @ CHR '':'' # pad 2 mi
    \<and> (let t = ms_per_day * day_of_civil c + int (3600000 * h + 60000 * mi + 1000 * sec); days = (now - t) div ms_per_day in
       formatRelativeDate now (utc_stamp c h mi sec) = Inr (
         if days \<le> 6 then RelDays (- days) else if days \<le> 29 then RelWeeks (- (days div 7)) else MediumDate t)
       \<and> (7 \<le> days \<and> days \<le> 29 \<longrightarrow> 1 \<le> days div 7 \<and> days div 7 \<le> 4))"
proof -
  let ?t = "ms_per_day * day_of_civil c + int (3600000 * h + 60000 * mi + 1000 * sec)"
  have p: "date_parse (utc_stamp c h mi sec) = Some ?t" using assms by (intro date_parse_stamp) simp_all
  note f = utc_fields [OF refl assms(4-6), of "day_of_civil c"]
  have civ: "civil_of ?t = c" by (simp only: civil_of_def f(1) civil_of_day_of_civil [OF assms(1)])
  have y: "iso_year (c_year c) = show_int (c_year c)"
    using assms show_four_digits [of "nat (c_year c)"] by (simp add: iso_year_def show_int_def)
  have "formatAbsoluteDate (utc_stamp c h mi sec) = iso_date c @ CHR '' '' # pad 2 h @ CHR '':'' # pad 2 mi"
    unfolding formatAbsoluteDate_def p option.case civ f(2,3) by (simp add: iso_date_def y)
  moreover have "1 \<le> k div 7 \<and> k div 7 \<le> 4" if "7 \<le> k" "k \<le> 29" for k :: int
    using that zdiv_mono1 [of 7 k 7] zdiv_mono1 [of k 29 7] by simp
  ultimately show ?thesis unfolding formatRelativeDate_def p option.case Let_def by simp
qed

theorem timestamps_shown_witness:
  "formatAbsoluteDate (utc_stamp \<lparr>c_year = 2024, c_month = 2, c_day = 29\<rparr> 9 5 30) = ''2024-02-29 09:05''"
proof -
  have ok: "civil_ok \<lparr>c_year = 2024, c_month = 2, c_day = 29\<rparr>" by code_simp
  have "iso_date \<lparr>c_year = 2024, c_month = 2, c_day = 29\<rparr> @ CHR '' '' # pad 2 9 @ CHR '':'' # pad 2 5 = ''2024-02-29 09:05''"
    by code_simp
  with timestamps_shown [OF ok, of 9 5 30] show ?thesis by simp
qed

end
