(* ===== verification/Analytics.thy ===== *)
theory Analytics
  imports Web_Ui Js_Date Complex_Main
begin

text \<open>
  The analytics panel of a flag (\<open>web/src/components/FlagAnalyticsPanel.tsx\<close>): filling the
  days without evaluations, the stacked bar chart and its legend. Counts are integers,
  lengths of the chart are exact rationals; printing a number into an attribute is the
  parameter \<open>num\<close>. \<open>now\<close> is the current time.
\<close>

section \<open>Buckets\<close>

record Bucket =
  bk_ts :: string
  bk_total :: int
  bk_variants :: "(string, int) js_map"

text \<open>\<open>setUTCDate\<close>: the day of the month may lie outside the month.\<close>

definition setUTCDate :: "int \<Rightarrow> int \<Rightarrow> int" where
  "setUTCDate t dt = ms_per_day * day_of_civil ((civil_of t)\<lparr>c_day := dt\<rparr>) + t mod ms_per_day"

definition date_key :: "int \<Rightarrow> nat \<Rightarrow> string" where
  "date_key now i = take 10 (toISOString (setUTCDate now (c_day (civil_of now) - int i)))"

definition normalizeBuckets :: "int \<Rightarrow> Bucket list \<Rightarrow> nat \<Rightarrow> Bucket list" where
  "normalizeBuckets now buckets windowDays =
     (let byDate = fold (\<lambda>b. map_set (take 10 (bk_ts b)) b) buckets [] in
      map (\<lambda>i. case map_get byDate (date_key now i) of
            Some b \<Rightarrow> b
          | None \<Rightarrow> \<lparr>bk_ts = date_key now i @ ''T00:00:00Z'', bk_total = 0, bk_variants = []\<rparr>)
        (rev [0..<windowDays]))"

definition collectVariantKeys :: "Bucket list \<Rightarrow> string list" where
  "collectVariantKeys buckets = fold (\<lambda>b seen. fold set_add (map_keys (bk_variants b)) seen) buckets []"

section \<open>Chart\<close>

definition BOOL_TRUE_COLOR :: string where "BOOL_TRUE_COLOR = ''#22c55e''"
definition BOOL_FALSE_COLOR :: string where "BOOL_FALSE_COLOR = ''#f87171''"

definition MV_PALETTE :: "string list" where
  "MV_PALETTE = [''#6366f1'', ''#f59e0b'', ''#06b6d4'', ''#ec4899'', ''#84cc16'']"

definition mv_color :: "nat \<Rightarrow> string" where
  "mv_color i = MV_PALETTE ! (i mod length MV_PALETTE)"

definition CHART_CONTENT_WIDTH :: rat where "CHART_CONTENT_WIDTH = 440"
definition CHART_CONTENT_HEIGHT :: rat where "CHART_CONTENT_HEIGHT = 120"
definition MARGIN_LEFT :: rat where "MARGIN_LEFT = 40"
definition MARGIN_BOTTOM :: rat where "MARGIN_BOTTOM = 20"
definition CHART_WIDTH :: rat where "CHART_WIDTH = CHART_CONTENT_WIDTH + MARGIN_LEFT"
definition CHART_HEIGHT :: rat where "CHART_HEIGHT = CHART_CONTENT_HEIGHT + MARGIN_BOTTOM"
definition BAR_GAP :: rat where "BAR_GAP = 2"

definition MONTHS :: "string list" where
  "MONTHS = [''Jan'', ''Feb'', ''Mar'', ''Apr'', ''May'', ''Jun'', ''Jul'', ''Aug'', ''Sep'', ''Oct'', ''Nov'', ''Dec'']"

definition formatShortDate :: "string \<Rightarrow> string" where
  "formatShortDate ts = (case date_parse ts of
     None \<Rightarrow> ''Invalid Date''
   | Some t \<Rightarrow> MONTHS ! (c_month (civil_of t) - 1) @ '' '' @ show_nat (nat (c_day (civil_of t))))"

record segment =
  sg_color :: string
  sg_value :: int
  sg_label :: string

definition count_of :: "Bucket \<Rightarrow> string \<Rightarrow> int" where
  "count_of b k = (case map_get (bk_variants b) k of Some n \<Rightarrow> n | None \<Rightarrow> 0)"

definition getSegments :: "bool \<Rightarrow> string list \<Rightarrow> Bucket \<Rightarrow> segment list" where
  "getSegments isBool variantKeys b =
     (if isBool then
        [\<lparr>sg_color = BOOL_FALSE_COLOR, sg_value = count_of b ''false'', sg_label = ''false''\<rparr>,
         \<lparr>sg_color = BOOL_TRUE_COLOR, sg_value = count_of b ''true'', sg_label = ''true''\<rparr>]
      else map (\<lambda>(i, k). \<lparr>sg_color = mv_color i, sg_value = count_of b k, sg_label = k\<rparr>)
        (zip [0..<length variantKeys] variantKeys))"

record rect =
  rx :: rat
  ry :: rat
  rwidth :: rat
  rheight :: rat
  rfill :: string

fun stack :: "rat \<Rightarrow> rat \<Rightarrow> rat \<Rightarrow> rat \<Rightarrow> segment list \<Rightarrow> rect list" where
  "stack maxTotal x w accum [] = []"
| "stack maxTotal x w accum (sg # sgs) =
     (if sg_value sg \<le> 0 then stack maxTotal x w accum sgs
      else
        (let segH = of_int (sg_value sg) / maxTotal * CHART_CONTENT_HEIGHT in
         \<lparr>rx = x, ry = CHART_CONTENT_HEIGHT - accum - segH, rwidth = w, rheight = segH, rfill = sg_color sg\<rparr>
         # stack maxTotal x w (accum + segH) sgs))"

definition max_total :: "Bucket list \<Rightarrow> int" where
  "max_total buckets = foldr max (map bk_total buckets) 1"

definition bar_width :: "nat \<Rightarrow> rat" where
  "bar_width n = (CHART_CONTENT_WIDTH - BAR_GAP * of_nat (n - 1)) / of_nat n"

definition bar_x :: "nat \<Rightarrow> nat \<Rightarrow> rat" where
  "bar_x n i = MARGIN_LEFT + of_nat i * (bar_width n + BAR_GAP)"

definition bar_shapes :: "bool \<Rightarrow> string list \<Rightarrow> Bucket list \<Rightarrow> nat \<Rightarrow> Bucket \<Rightarrow> rect list" where
  "bar_shapes isBool variantKeys buckets i b =
     (let n = length buckets; x = bar_x n i in
      stack (of_int (max_total buckets)) x (bar_width n) 0 (getSegments isBool variantKeys b) @
      (if bk_total b = 0
       then [\<lparr>rx = x, ry = CHART_CONTENT_HEIGHT - 2, rwidth = bar_width n, rheight = 2, rfill = ''#1c1f35''\<rparr>] else []))"

definition rect_view :: "(rat \<Rightarrow> string) \<Rightarrow> rect \<Rightarrow> 'm html" where
  "rect_view num r = El ''rect'' [At ''x'' (Lit (num (rx r))), At ''y'' (Lit (num (ry r))), At ''width'' (Lit (num (rwidth r))),
     At ''height'' (Lit (num (rheight r))), At ''fill'' (Lit (rfill r)), At ''role'' (Lit ''presentation'')] []"

definition BarChart :: "(rat \<Rightarrow> string) \<Rightarrow> Bucket list \<Rightarrow> string \<Rightarrow> string list \<Rightarrow> utext \<Rightarrow> 'm html list" where
  "BarChart num buckets flagType variantKeys ariaLabel =
     (if buckets = [] then []
      else
        (let isBool = (flagType = ''bool''); maxTotal = show_int (max_total buckets) in
         [El ''svg'' [At ''width'' (Lit (num CHART_WIDTH)), At ''height'' (Lit (num CHART_HEIGHT)),
             At ''viewBox'' (Lit (''0 0 '' @ num CHART_WIDTH @ '' '' @ num CHART_HEIGHT)),
             At ''aria-label'' ariaLabel, At ''role'' (Lit ''img'')]
           ([El ''text'' [At ''x'' (Lit (num (MARGIN_LEFT - 4))), At ''y'' (Lit (num 10)), At ''text-anchor'' (Lit ''end''),
               At ''aria-label'' (T ''flags:analytics.y_axis_label'' [(''count'', maxTotal)])] [lit maxTotal]] @
            map (\<lambda>(i, b). El ''g'' [] (map (rect_view num) (bar_shapes isBool variantKeys buckets i b)))
              (zip [0..<length buckets] buckets) @
            [El ''text'' [At ''x'' (Lit (num MARGIN_LEFT)), At ''y'' (Lit (num (CHART_CONTENT_HEIGHT + 14))),
               At ''text-anchor'' (Lit ''start'')] [lit (formatShortDate (bk_ts (hd buckets)))],
             El ''text'' [At ''x'' (Lit (num CHART_WIDTH)), At ''y'' (Lit (num (CHART_CONTENT_HEIGHT + 14))),
               At ''text-anchor'' (Lit ''end'')] [lit (formatShortDate (bk_ts (last buckets)))]])]))"

definition LegendItem :: "string \<Rightarrow> utext \<Rightarrow> 'm html" where
  "LegendItem color label = El ''span'' []
     [El ''span'' [At ''style'' (Lit (''background-color:'' @ color)), Flag ''aria-hidden'' True] [], Txt label]"

definition Legend :: "string \<Rightarrow> string list \<Rightarrow> 'm html" where
  "Legend flagType variantKeys =
     (if flagType = ''bool''
      then El ''div'' [] [LegendItem BOOL_TRUE_COLOR (T ''flags:analytics.true_label'' []),
                          LegendItem BOOL_FALSE_COLOR (T ''flags:analytics.false_label'' [])]
      else El ''div'' [] (map (\<lambda>(i, k). LegendItem (mv_color i) (T ''flags:analytics.variant_label'' [(''key'', k)]))
             (zip [0..<length variantKeys] variantKeys)))"

section \<open>Panel\<close>

datatype WindowOption = Window7d | Window30d

fun window_value :: "WindowOption \<Rightarrow> string" where
  "window_value Window7d = ''7d''"
| "window_value Window30d = ''30d''"

definition WindowSelector :: "WindowOption \<Rightarrow> WindowOption html" where
  "WindowSelector active = El ''div'' [At ''role'' (Lit ''group'')]
     (map (\<lambda>w. El ''button'' [On ''click'' w, Flag ''aria-pressed'' (active = w)]
        [tr (''flags:analytics.window_'' @ window_value w)]) [Window7d, Window30d])"

definition windowDays :: "WindowOption \<Rightarrow> nat" where
  "windowDays w = (if w = Window7d then 7 else 30)"

definition buckets_path :: "string \<Rightarrow> string \<Rightarrow> string \<Rightarrow> WindowOption \<Rightarrow> string" where
  "buckets_path slug envSlug flagKey w = ''/api/v1/projects/'' @ slug @ ''/environments/'' @ envSlug @ ''/flags/'' @ flagKey
     @ ''/stats/buckets?window='' @ window_value w @ ''&bucket=day''"

definition panel_buckets :: "int \<Rightarrow> WindowOption \<Rightarrow> Bucket list query \<Rightarrow> Bucket list" where
  "panel_buckets now w q = (case q_data q of None \<Rightarrow> [] | Some bs \<Rightarrow> normalizeBuckets now bs (windowDays w))"

definition FlagAnalyticsPanel_view ::
    "(rat \<Rightarrow> string) \<Rightarrow> int \<Rightarrow> string \<Rightarrow> Bucket list query \<Rightarrow> WindowOption \<Rightarrow> WindowOption html" where
  "FlagAnalyticsPanel_view num now flagType q w =
     (let bs = panel_buckets now w q; variantKeys = collectVariantKeys bs; totalCount = sum_list (map bk_total bs);
          isEmpty = (\<not> isLoading q \<and> \<not> isError q \<and> totalCount = 0)
      in El ''div'' []
           [El ''div'' [] [El ''h2'' [] [tr ''flags:analytics.panel_title''], WindowSelector w],
            El ''div'' []
              (if isError q then [El ''p'' [At ''role'' (Lit ''status'')] [tr ''flags:analytics.load_error'']]
               else if isLoading q then [El ''div'' [] [El ''div'' [] []]]
               else if isEmpty then [El ''p'' [] [tr ''flags:analytics.empty_state'']]
               else BarChart num bs flagType variantKeys (T ''flags:analytics.chart_aria_label'' []) @
                 [Legend flagType variantKeys,
                  El ''p'' [] [Txt (T ''flags:analytics.total_evaluations''
                    [(''count'', show_int totalCount), (''window'', window_value w)])]])])"

section \<open>The days of the window\<close>

lemma setUTCDate_back: "setUTCDate now (c_day (civil_of now) - i) = now - ms_per_day * i"
proof -
  have "day_of_civil ((civil_of now)\<lparr>c_day := c_day (civil_of now) - i\<rparr>) = now div ms_per_day - i"
    using day_of_civil_of_day [of "now div ms_per_day"] by (simp add: day_of_civil_def civil_of_def)
  then show ?thesis
    using mult_div_mod_eq [of ms_per_day now] by (simp add: setUTCDate_def right_diff_distrib)
qed

lemma take_toISOString: "length (iso_date (civil_of t)) = 10 \<Longrightarrow> take 10 (toISOString t) = iso_date (civil_of t)"
  by (simp add: toISOString_def)

lemma iso_date_length:
  assumes "civil_ok c" and "0 \<le> c_year c" and "c_year c \<le> 9999"
  shows "length (iso_date c) = 10"
proof -
  have "nat (c_year c) < 10 ^ 4" "c_month c < 10 ^ 2" "nat (c_day c) < 10 ^ 2"
    using civil_ok_bounds [OF assms(1)] assms by auto
  then have "length (pad 4 (nat (c_year c))) = 4" "length (pad 2 (c_month c)) = 2" "length (pad 2 (nat (c_day c))) = 2"
    by (simp_all add: pad_props del: power_numeral)
  then show ?thesis using assms by (simp add: iso_date_def iso_year_def)
qed

definition four_digit_day :: "int \<Rightarrow> bool" where
  "four_digit_day d \<longleftrightarrow> 0 \<le> c_year (civil_of_day d) \<and> c_year (civil_of_day d) \<le> 9999"

lemma date_key_day:
  assumes "four_digit_day (now div ms_per_day - int i)"
  shows "date_key now i = iso_date (civil_of_day (now div ms_per_day - int i))"
proof -
  have "(now - ms_per_day * int i) div ms_per_day = now div ms_per_day - int i"
    using div_mult_self2 [of ms_per_day now "- int i"] by (simp add: ms_per_day_def mult.commute)
  then have "civil_of (setUTCDate now (c_day (civil_of now) - int i)) = civil_of_day (now div ms_per_day - int i)"
    by (simp only: setUTCDate_back civil_of_def [of "now - ms_per_day * int i"])
  then show ?thesis
    using iso_date_length [OF civil_of_day_ok, of "now div ms_per_day - int i"] assms
      take_toISOString [of "setUTCDate now (c_day (civil_of now) - int i)"]
    by (simp add: date_key_def four_digit_day_def)
qed

lemma iso_date_inj:
  assumes "four_digit_day d" and "four_digit_day d'" and "iso_date (civil_of_day d) = iso_date (civil_of_day d')"
  shows "d = d'"
proof -
  have "parse_civil (iso_date (civil_of_day x) @ []) = Some (civil_of_day x, [])" if "four_digit_day x" for x
    using that by (intro parse_civil_iso civil_of_day_ok) (simp_all add: four_digit_day_def)
  with assms have "civil_of_day d = civil_of_day d'" by (metis option.inject prod.inject)
  then show ?thesis by (metis day_of_civil_of_day)
qed

lemma map_of_find: "map_of (map (\<lambda>x. (kf x, x)) xs) k = find (\<lambda>x. kf x = k) xs"
  by (induction xs) auto

lemma byDate_get:
  "map_get (fold (\<lambda>b. map_set (take 10 (bk_ts b)) b) buckets []) k = find (\<lambda>b. take 10 (bk_ts b) = k) (rev buckets)"
  by (simp add: jm.get_fold_put [where vf = "\<lambda>b. b"] rev_map map_of_find jm.get_emp split: option.split)

definition day_total :: "Bucket list \<Rightarrow> string \<Rightarrow> int" where
  "day_total buckets k = (case find (\<lambda>b. take 10 (bk_ts b) = k) (rev buckets) of Some b \<Rightarrow> bk_total b | None \<Rightarrow> 0)"

lemma day_total_filter:
  assumes "distinct (map (\<lambda>b. take 10 (bk_ts b)) buckets)"
  shows "day_total buckets k = sum_list (map bk_total (filter (\<lambda>b. take 10 (bk_ts b) = k) buckets))"
  using assms
proof (induction buckets)
  case (Cons b bs)
  show ?case
  proof (cases "take 10 (bk_ts b) = k")
    case True
    then have none: "\<forall>b' \<in> set bs. take 10 (bk_ts b') \<noteq> k" using Cons.prems by (auto simp: image_iff)
    then have "find (\<lambda>b. take 10 (bk_ts b) = k) (rev bs) = None" by (simp add: find_None_iff)
    with True none show ?thesis by (simp add: day_total_def find_append)
  next
    case False
    with Cons show ?thesis by (simp add: day_total_def find_append split: option.splits)
  qed
qed (simp add: day_total_def)

lemma sum_by_key:
  "finite K \<Longrightarrow> (\<Sum>k\<in>K. sum_list (map f (filter (\<lambda>b. g b = k) bs))) = sum_list (map f (filter (\<lambda>b. g b \<in> K) bs))"
  for f :: "'a \<Rightarrow> int"
proof (induction bs)
  case (Cons b bs)
  have "(\<Sum>k\<in>K. sum_list (map f (filter (\<lambda>b. g b = k) (b # bs)))) =
      (\<Sum>k\<in>K. (if g b = k then f b else 0)) + (\<Sum>k\<in>K. sum_list (map f (filter (\<lambda>b. g b = k) bs)))"
    unfolding sum.distrib [symmetric] by (intro sum.cong refl) simp
  then show ?case using Cons by simp
qed simp

lemma filled_total:
  "sum_list (map bk_total (normalizeBuckets now buckets n)) = (\<Sum>i<n. day_total buckets (date_key now i))"
proof -
  have "map bk_total (normalizeBuckets now buckets n) = map (\<lambda>i. day_total buckets (date_key now i)) (rev [0..<n])"
    by (simp add: normalizeBuckets_def Let_def byDate_get day_total_def split: option.split)
  moreover have "sum_list (map f (rev [0..<n])) = (\<Sum>i<n. f i)" for f :: "nat \<Rightarrow> int"
    by (induction n) simp_all
  ultimately show ?thesis by simp
qed

definition window_day :: "int \<Rightarrow> nat \<Rightarrow> string" where
  "window_day now i = iso_date (civil_of_day (now div ms_per_day - int i))"

text \<open>
  The chart shows every day of the window once. The panel draws exactly one bar per day, from
  the oldest day to today; the bar of a day is the bucket the service sent for that day (the last
  one, if it sent several) and an empty one where it sent none; and when the service sends at most
  one bucket per day, the total shown is the total of the buckets that fall into the
  window, none lost and none counted twice.
\<close>

theorem window_filled:
  assumes "\<And>i. i < n \<Longrightarrow> four_digit_day (now div ms_per_day - int i)"
  shows "length (normalizeBuckets now buckets n) = n
    \<and> (\<forall>j < n. normalizeBuckets now buckets n ! j =
        (case find (\<lambda>b. take 10 (bk_ts b) = window_day now (n - 1 - j)) (rev buckets) of
           Some b \<Rightarrow> b | None \<Rightarrow> \<lparr>bk_ts = window_day now (n - 1 - j) @ ''T00:00:00Z'', bk_total = 0, bk_variants = []\<rparr>))
    \<and> (distinct (map (\<lambda>b. take 10 (bk_ts b)) buckets) \<longrightarrow>
        sum_list (map bk_total (normalizeBuckets now buckets n)) =
          sum_list (map bk_total (filter (\<lambda>b. \<exists>i < n. take 10 (bk_ts b) = window_day now i) buckets)))"
proof -
  have key: "date_key now i = window_day now i" if "i < n" for i
    using date_key_day [OF assms [OF that]] by (simp add: window_day_def)
  have inj: "inj_on (date_key now) {..<n}"
    using key iso_date_inj assms by (fastforce simp: inj_on_def window_day_def)
  have len: "length (normalizeBuckets now buckets n) = n" by (simp add: normalizeBuckets_def Let_def)
  have nth: "normalizeBuckets now buckets n ! j = (case find (\<lambda>b. take 10 (bk_ts b) = window_day now (n - 1 - j)) (rev buckets) of
      Some b \<Rightarrow> b | None \<Rightarrow> \<lparr>bk_ts = window_day now (n - 1 - j) @ ''T00:00:00Z'', bk_total = 0, bk_variants = []\<rparr>)"
    if "j < n" for j
    using that key [of "n - Suc j"] by (simp add: normalizeBuckets_def Let_def byDate_get rev_nth split: option.split)
  have "sum_list (map bk_total (normalizeBuckets now buckets n)) =
      sum_list (map bk_total (filter (\<lambda>b. \<exists>i < n. take 10 (bk_ts b) = window_day now i) buckets))"
    if "distinct (map (\<lambda>b. take 10 (bk_ts b)) buckets)"
  proof -
    have "(\<Sum>i<n. day_total buckets (date_key now i)) = (\<Sum>k \<in> date_key now ` {..<n}. day_total buckets k)"
      by (simp add: sum.reindex [OF inj])
    also have "\<dots> = sum_list (map bk_total (filter (\<lambda>b. take 10 (bk_ts b) \<in> date_key now ` {..<n}) buckets))"
      by (simp add: day_total_filter [OF that] sum_by_key)
    also have "filter (\<lambda>b. take 10 (bk_ts b) \<in> date_key now ` {..<n}) buckets =
        filter (\<lambda>b. \<exists>i < n. take 10 (bk_ts b) = window_day now i) buckets"
      using key by (intro filter_cong) (auto simp: image_iff)
    finally show ?thesis by (simp add: filled_total)
  qed
  with len nth show ?thesis by blast
qed

definition demo_now :: int where "demo_now = 1709200800000"

definition demo_buckets :: "Bucket list" where
  "demo_buckets = [\<lparr>bk_ts = ''2024-02-27T00:00:00Z'', bk_total = 5, bk_variants = [(''true'', 5)]\<rparr>,
                   \<lparr>bk_ts = ''2024-02-29T00:00:00Z'', bk_total = 2, bk_variants = [(''true'', 1), (''false'', 1)]\<rparr>]"

theorem window_filled_witness:
  "length (normalizeBuckets demo_now demo_buckets 3) = 3
   \<and> sum_list (map bk_total (normalizeBuckets demo_now demo_buckets 3)) =
       sum_list (map bk_total (filter (\<lambda>b. \<exists>i < 3. take 10 (bk_ts b) = window_day demo_now i) demo_buckets))"
proof -
  have "four_digit_day (demo_now div ms_per_day - 0)" "four_digit_day (demo_now div ms_per_day - 1)"
    "four_digit_day (demo_now div ms_per_day - 2)" by code_simp+
  then have days: "\<And>i. i < 3 \<Longrightarrow> four_digit_day (demo_now div ms_per_day - int i)" by (auto simp: numeral_eq_Suc less_Suc_eq)
  have "distinct (map (\<lambda>b. take 10 (bk_ts b)) demo_buckets)" by code_simp
  with window_filled [OF days, where buckets = demo_buckets] show ?thesis by blast
qed

section \<open>The chart\<close>

definition shown_count :: "segment list \<Rightarrow> int" where
  "shown_count sgs = sum_list (map (\<lambda>sg. max 0 (sg_value sg)) sgs)"

lemma shown_count_nonneg: "0 \<le> shown_count sgs"
  unfolding shown_count_def by (intro sum_list_nonneg) auto

lemma stack_props:
  assumes "0 < M" and "r \<in> set (stack M x w acc sgs)"
  shows "rx r = x" "rwidth r = w" "0 < rheight r" "ry r + rheight r \<le> 120 - acc"
    "120 - acc - of_int (shown_count sgs) / M * 120 \<le> ry r"
proof -
  have "rx r = x \<and> rwidth r = w \<and> 0 < rheight r \<and> ry r + rheight r \<le> 120 - acc
      \<and> 120 - acc - of_int (shown_count sgs) / M * 120 \<le> ry r"
    using assms(2)
  proof (induction sgs arbitrary: acc)
    case (Cons sg sgs)
    show ?case
    proof (cases "sg_value sg \<le> 0")
      case True
      with Cons show ?thesis by (simp add: shown_count_def)
    next
      case False
      let ?h = "of_int (sg_value sg) / M * 120 :: rat"
      have h: "0 < ?h" using False assms(1) by simp
      have cnt: "of_int (shown_count (sg # sgs)) / M * 120 = ?h + of_int (shown_count sgs) / M * 120"
        using False by (simp add: shown_count_def add_divide_distrib distrib_right)
      have rest: "0 \<le> (of_int (shown_count sgs) / M * 120 :: rat)" using shown_count_nonneg assms(1) by simp
      from Cons.prems False consider "r = \<lparr>rx = x, ry = 120 - acc - ?h, rwidth = w, rheight = ?h, rfill = sg_color sg\<rparr>"
        | "r \<in> set (stack M x w (acc + ?h) sgs)"
        by (auto simp: Let_def CHART_CONTENT_HEIGHT_def)
      then show ?thesis
      proof cases
        case 1
        then show ?thesis unfolding cnt using h rest by simp
      next
        case 2
        then show ?thesis unfolding cnt using Cons.IH [of "acc + ?h"] h by auto
      qed
    qed
  qed simp
  then show "rx r = x" "rwidth r = w" "0 < rheight r" "ry r + rheight r \<le> 120 - acc"
    "120 - acc - of_int (shown_count sgs) / M * 120 \<le> ry r" by auto
qed

lemma stack_heights: "sum_list (map rheight (stack M x w acc sgs)) = of_int (shown_count sgs) / M * 120"
  by (induction sgs arbitrary: acc)
     (auto simp: shown_count_def Let_def CHART_CONTENT_HEIGHT_def add_divide_distrib distrib_right)

lemma max_total_props: "1 \<le> max_total buckets" "b \<in> set buckets \<Longrightarrow> bk_total b \<le> max_total buckets"
  unfolding max_total_def by (induction buckets) auto

lemma bar_x_end:
  assumes "i < n" and "n \<le> 220"
  shows "0 < bar_width n" "bar_x n i + bar_width n \<le> 480" "40 \<le> bar_x n i"
proof -
  have n: "(0 :: rat) < of_nat n" "of_nat (n - 1) = of_nat n - (1 :: rat)" using assms by (simp_all add: of_nat_diff)
  have w: "of_nat n * bar_width n = 440 - 2 * (of_nat n - 1)"
    unfolding bar_width_def CHART_CONTENT_WIDTH_def BAR_GAP_def n(2) using n(1) by simp
  have "(of_nat n :: rat) \<le> 220" using assms(2) by (metis of_nat_le_iff of_nat_numeral)
  then have "0 < of_nat n * bar_width n" unfolding w by simp
  then show pos: "0 < bar_width n" using n(1) by (simp add: zero_less_mult_iff)
  have "(of_nat i + 1 :: rat) \<le> of_nat n" using assms(1) by (metis Suc_leI of_nat_Suc of_nat_le_iff add.commute)
  then have "(of_nat i + 1) * (bar_width n + 2) \<le> of_nat n * (bar_width n + 2)" using pos by (intro mult_right_mono) simp_all
  then show "bar_x n i + bar_width n \<le> 480"
    using w by (simp add: bar_x_def MARGIN_LEFT_def BAR_GAP_def algebra_simps)
  show "40 \<le> bar_x n i" using pos by (simp add: bar_x_def MARGIN_LEFT_def BAR_GAP_def)
qed



end
