(* ===== verification/Flag_Detail.thy ===== *)
theory Flag_Detail
  imports Dialogs_Spec Analytics "HOL-Library.List_Lexorder" "HOL-Library.Char_ord"
begin

text \<open>
  The detail page of a flag
  (\<open>web/src/routes/projects/$slug.environments.$envSlug.flags.$key.tsx\<close>): the card with its
  inline editor, the toggles per environment, the evaluation panel, the change history
  and the confirmed deletion. The flag is a query result, so it may be another one at
  every message; \<open>useState(flag.name)\<close> reads it at the first render only. Objects used as
  tables are looked up by keys that are not members of \<open>Object.prototype\<close>.
\<close>

section \<open>Data\<close>

record Variant =
  vr_key :: string
  vr_name :: string

record FlagDetail =
  fl_id :: string
  fl_key :: string
  fl_name :: string
  fl_type :: string
  fl_variants :: "Variant list"
  fl_default :: string
  fl_enabled :: bool

record Environment =
  en_id :: string
  en_slug :: string
  en_name :: string

record detail_ctx =
  dc_slug :: string
  dc_envSlug :: string
  dc_key :: string

definition env_flag_path :: "string \<Rightarrow> string \<Rightarrow> string \<Rightarrow> string" where
  "env_flag_path slug envSlug key = ''/api/v1/projects/'' @ slug @ ''/environments/'' @ envSlug @ ''/flags/'' @ key"

definition flag_path :: "string \<Rightarrow> string \<Rightarrow> string" where
  "flag_path slug key = ''/api/v1/projects/'' @ slug @ ''/flags/'' @ key"

definition flags_page :: "string \<Rightarrow> string \<Rightarrow> string" where
  "flags_page slug envSlug = ''/projects/'' @ slug @ ''/environments/'' @ envSlug @ ''/flags''"

text \<open>The retry rule of the flag query: not after a 404, and at most twice.\<close>

definition flag_retry :: "nat \<Rightarrow> web_error \<Rightarrow> bool" where
  "flag_retry failureCount err = (case err of
     APIError st m c \<Rightarrow> st \<noteq> 404 \<and> failureCount < 2 | OtherError m \<Rightarrow> failureCount < 2)"

section \<open>Adding a variant\<close>

text \<open>\<open>/^[a-z0-9][a-z0-9_-]*$/\<close>\<close>

definition VARIANT_KEY_RE :: "string \<Rightarrow> bool" where
  "VARIANT_KEY_RE s \<longleftrightarrow> s \<noteq> [] \<and> slug_char (hd s) \<and> list_all (\<lambda>c. slug_char c \<or> c = CHR ''_'' \<or> c = dash) s"

record add_row =
  ad_key :: string
  ad_name :: string
  ad_error :: "utext option"

definition add_init :: add_row where
  "add_init = \<lparr>ad_key = [], ad_name = [], ad_error = None\<rparr>"

datatype add_msg = AddKey string | AddName string | AddClick

definition handleAdd :: "string list \<Rightarrow> add_row \<Rightarrow> add_row \<times> Variant option" where
  "handleAdd existingKeys row =
     (let trimmedKey = js_trim (ad_key row); trimmedName = js_trim (ad_name row) in
      if trimmedKey = [] then (row\<lparr>ad_error := Some (T ''flags:detail.variant_key_required'' [])\<rparr>, None)
      else if \<not> VARIANT_KEY_RE trimmedKey then (row\<lparr>ad_error := Some (T ''flags:detail.variant_key_invalid'' [])\<rparr>, None)
      else if trimmedKey \<in> set existingKeys then (row\<lparr>ad_error := Some (T ''flags:detail.variant_key_duplicate'' [])\<rparr>, None)
      else (add_init, Some \<lparr>vr_key = trimmedKey, vr_name = (if trimmedName \<noteq> [] then trimmedName else trimmedKey)\<rparr>))"

definition AddVariantRow_update :: "string list \<Rightarrow> add_msg \<Rightarrow> add_row \<Rightarrow> add_row \<times> Variant option" where
  "AddVariantRow_update existingKeys msg row = (case msg of
     AddKey s \<Rightarrow> (row\<lparr>ad_key := s, ad_error := None\<rparr>, None)
   | AddName s \<Rightarrow> (row\<lparr>ad_name := s\<rparr>, None)
   | AddClick \<Rightarrow> handleAdd existingKeys row)"

definition AddVariantRow_view :: "add_row \<Rightarrow> add_msg html" where
  "AddVariantRow_view row = El ''div'' []
     ([El ''div'' []
        [El ''div'' [] [text_input (\<not> no_error (ad_error row)) (ad_key row) AddKey
           [At ''placeholder'' (T ''flags:detail.variant_key_placeholder'' []), At ''aria-label'' (T ''flags:detail.variant_key_aria'' [])]],
         El ''div'' [] [text_input False (ad_name row) AddName
           [At ''placeholder'' (T ''flags:detail.variant_name_placeholder'' []), At ''aria-label'' (T ''flags:detail.variant_new_name_aria'' [])]],
         ui_Button False False [On ''click'' AddClick, At ''type'' (Lit ''button'')] [tr ''flags:detail.add_variant'']]] @
      error_text (ad_error row))"

section \<open>The card\<close>

record flag_card =
  ca_editing :: bool
  ca_name :: string
  ca_variants :: "Variant list"
  ca_default :: string
  ca_saveError :: "utext option"
  ca_add :: add_row

definition card_init :: "FlagDetail \<Rightarrow> flag_card" where
  "card_init flag = \<lparr>ca_editing = False, ca_name = fl_name flag, ca_variants = fl_variants flag, ca_default = fl_default flag,
     ca_saveError = None, ca_add = add_init\<rparr>"

text \<open>\<open>cancelEdit\<close> takes the values of the flag at hand; leaving the editor unmounts the row for new variants.\<close>

definition cancelEdit :: "FlagDetail \<Rightarrow> flag_card \<Rightarrow> flag_card" where
  "cancelEdit flag fc = fc\<lparr>ca_name := fl_name flag, ca_variants := fl_variants flag, ca_default := fl_default flag,
     ca_saveError := None, ca_editing := False, ca_add := add_init\<rparr>"

datatype card_msg =
    CardEdit
  | CardName string
  | CardVariantName nat string
  | CardRemoveVariant nat
  | CardAdd add_msg
  | CardDefault string
  | CardSave
  | CardSettled "web_error option"
  | CardCancel
  | CardDelete

datatype card_out = CardEff effect | DeleteIntent

definition variant_json :: "Variant \<Rightarrow> json" where
  "variant_json v = JObj [(''key'', JStr (vr_key v)), (''name'', JStr (vr_name v))]"

definition update_body :: "flag_card \<Rightarrow> json" where
  "update_body fc = JObj [(''name'', JStr (ca_name fc)), (''variants'', JArr (map variant_json (ca_variants fc))),
     (''default_variant_key'', JStr (ca_default fc))]"

definition FlagDetailCard_update ::
    "detail_ctx \<Rightarrow> FlagDetail \<Rightarrow> card_msg \<Rightarrow> flag_card \<Rightarrow> flag_card \<times> card_out list" where
  "FlagDetailCard_update ctx flag msg fc = (case msg of
     CardEdit \<Rightarrow> (fc\<lparr>ca_editing := True\<rparr>, [])
   | CardName s \<Rightarrow> (fc\<lparr>ca_name := s\<rparr>, [])
   | CardVariantName i s \<Rightarrow> (fc\<lparr>ca_variants :=
         map (\<lambda>(idx, ev). if idx = i then ev\<lparr>vr_name := s\<rparr> else ev) (zip [0..<length (ca_variants fc)] (ca_variants fc))\<rparr>, [])
   | CardRemoveVariant i \<Rightarrow> (fc\<lparr>ca_variants :=
         map snd (filter (\<lambda>(idx, _). idx \<noteq> i) (zip [0..<length (ca_variants fc)] (ca_variants fc)))\<rparr>, [])
   | CardAdd m \<Rightarrow> (case AddVariantRow_update (map vr_key (ca_variants fc)) m (ca_add fc) of
         (row, None) \<Rightarrow> (fc\<lparr>ca_add := row\<rparr>, [])
       | (row, Some v) \<Rightarrow> (fc\<lparr>ca_add := row, ca_variants := ca_variants fc @ [v]\<rparr>, []))
   | CardDefault k \<Rightarrow> (fc\<lparr>ca_default := k\<rparr>, [])
   | CardSave \<Rightarrow> (fc, [CardEff (Send ''PATCH'' (flag_path (dc_slug ctx) (fl_key flag)) (Some (update_body fc)))])
   | CardSettled None \<Rightarrow> (fc\<lparr>ca_editing := False, ca_saveError := None, ca_add := add_init\<rparr>,
       [CardEff (Invalidate [''flags'', dc_slug ctx, dc_envSlug ctx]),
        CardEff (Invalidate [''flag'', dc_slug ctx, dc_envSlug ctx, dc_key ctx])])
   | CardSettled (Some err) \<Rightarrow> (fc\<lparr>ca_saveError := Some (api_or (T ''flags:detail.save_failed'' []) err)\<rparr>, [])
   | CardCancel \<Rightarrow> (cancelEdit flag fc, [])
   | CardDelete \<Rightarrow> (fc, [DeleteIntent]))"

definition variant_line :: "FlagDetail \<Rightarrow> flag_card \<Rightarrow> nat \<times> Variant \<Rightarrow> card_msg html" where
  "variant_line flag fc = (\<lambda>(i, v). El ''li'' []
     ([El ''span'' [] [lit (vr_key v)]] @
      (if ca_editing fc then
         [text_input False (vr_name (ca_variants fc ! i)) (CardVariantName i)
            [At ''aria-label'' (T ''flags:detail.variant_name_aria'' [(''key'', vr_key v)])]] @
         show_if (fl_type flag \<noteq> ''bool'' \<and> 1 < length (ca_variants fc) \<and> vr_key v \<noteq> ca_default fc)
           (El ''button'' [At ''type'' (Lit ''button''), On ''click'' (CardRemoveVariant i),
               At ''aria-label'' (T ''flags:detail.remove_variant_aria'' [(''key'', vr_key v)])]
              [El ''svg'' [Flag ''aria-hidden'' True] [El ''path'' [] []]])
       else [El ''span'' [] [lit (vr_name v)]])))"

definition card_header :: "detail_ctx \<Rightarrow> FlagDetail \<Rightarrow> flag_card \<Rightarrow> card_msg html" where
  "card_header ctx flag fc = El ''div'' []
     [El ''div'' []
        [El ''span'' [] [tr ''flags:detail.key_label''],
         El ''CopyableCode'' [At ''value'' (Lit (fl_key flag)),
           At ''aria-label'' (T ''flags:detail.copy_key_aria'' [(''key'', fl_key flag)])] [],
         El ''span'' [] [lit (fl_type flag)]],
      El ''div'' []
        ((if \<not> ca_editing fc then
            [link (flags_page (dc_slug ctx) (dc_envSlug ctx) @ ''/'' @ fl_key flag @ ''/rules'') [tr ''flags:detail.targeting_rules''],
             ui_Button False False [On ''click'' CardEdit] [tr ''common:actions.edit'']]
          else []) @
         [ui_Button False False [At ''aria-label'' (T ''flags:detail.delete_aria'' []), On ''click'' CardDelete] [tr ''common:actions.delete'']])]"

definition card_name :: "FlagDetail \<Rightarrow> flag_card \<Rightarrow> card_msg html" where
  "card_name flag fc = El ''div'' [] [El ''label'' [] [tr ''flags:detail.name_label''],
     (if ca_editing fc then text_input False (ca_name fc) CardName []
      else El ''p'' [] [lit (if fl_name flag \<noteq> [] then fl_name flag else fl_key flag)])]"

definition card_variants :: "FlagDetail \<Rightarrow> flag_card \<Rightarrow> card_msg html" where
  "card_variants flag fc =
     (let vs = (if ca_editing fc then ca_variants fc else fl_variants flag) in
      El ''div'' []
        ([El ''label'' [] [tr ''flags:detail.variants_label''], El ''ul'' [] (map (variant_line flag fc) (zip [0..<length vs] vs))] @
         show_if (ca_editing fc \<and> fl_type flag \<noteq> ''bool'') (map_html CardAdd (AddVariantRow_view (ca_add fc)))))"

definition card_default :: "FlagDetail \<Rightarrow> flag_card \<Rightarrow> card_msg html" where
  "card_default flag fc = El ''div'' [] [El ''label'' [] [tr ''flags:detail.default_variant_label''],
     (if ca_editing fc then
        ui_Select (ca_default fc) CardDefault False [At ''aria-label'' (T ''flags:detail.default_variant_aria'' [])]
          (map (\<lambda>v. ui_SelectItem (vr_key v) [lit (vr_key v)]) (ca_variants fc))
      else El ''span'' [] [lit (fl_default flag)])]"

definition card_actions :: "bool \<Rightarrow> flag_card \<Rightarrow> card_msg html" where
  "card_actions pending fc = El ''div'' []
     ([ui_Button False pending [On ''click'' CardSave] [tr (if pending then ''common:states.saving'' else ''common:actions.save'')],
       ui_Button False pending [On ''click'' CardCancel] [tr ''common:actions.cancel'']] @
      error_text (ca_saveError fc))"

definition FlagDetailCard_view :: "detail_ctx \<Rightarrow> FlagDetail \<Rightarrow> bool \<Rightarrow> flag_card \<Rightarrow> card_msg html" where
  "FlagDetailCard_view ctx flag pending fc =
     El ''div'' []
       ([card_header ctx flag fc, El ''div'' [] [card_name flag fc, card_variants flag fc, card_default flag fc]] @
        show_if (ca_editing fc) (card_actions pending fc))"

section \<open>Toggles\<close>

datatype toggle_msg = ToggleRetry | ToggleTo bool | ToggleSettled "web_error option"

definition toggle_key :: "string \<Rightarrow> Environment \<Rightarrow> string \<Rightarrow> string list" where
  "toggle_key slug env flagKey = [''flag-env-state'', slug, en_slug env, flagKey]"

definition EnvironmentToggleRow_update :: "string \<Rightarrow> Environment \<Rightarrow> string \<Rightarrow> toggle_msg \<Rightarrow> effect list" where
  "EnvironmentToggleRow_update slug env flagKey msg = (case msg of
     ToggleRetry \<Rightarrow> [Refetch (toggle_key slug env flagKey)]
   | ToggleTo b \<Rightarrow> [Send ''PATCH'' (env_flag_path slug (en_slug env) flagKey) (Some (JObj [(''enabled'', JBool b)]))]
   | ToggleSettled None \<Rightarrow> [Invalidate (toggle_key slug env flagKey)]
   | ToggleSettled (Some err) \<Rightarrow> [])"

text \<open>The query gives data unless it is loading or failed (\<open>data!\<close>).\<close>

definition EnvironmentToggleRow_view :: "Environment \<Rightarrow> bool query \<Rightarrow> bool \<Rightarrow> toggle_msg html" where
  "EnvironmentToggleRow_view env q pending = El ''li'' []
     [El ''div'' [] ([El ''span'' [] [lit (en_name env)]] @ show_if (en_name env \<noteq> en_slug env) (El ''span'' [] [lit (en_slug env)])),
      (if isLoading q then El ''div'' [At ''aria-label'' (T ''flags:detail.loading_aria'' [])] []
       else if isError q then
         El ''div'' [] [El ''span'' [] [tr ''flags:detail.env_row_error''],
           El ''button'' [On ''click'' ToggleRetry] [tr ''common:actions.retry'']]
       else
         (let enabled = the (q_data q) in
          El ''button'' [On ''click'' (ToggleTo (\<not> enabled)), Flag ''disabled'' pending, Flag ''aria-pressed'' enabled,
              At ''aria-label'' (T (if enabled then ''flags:toggle.disable_in_env'' else ''flags:toggle.enable_in_env'') [(''env'', en_name env)])]
            [El ''span'' [Flag ''aria-hidden'' True] [], tr (if enabled then ''flags:toggle.enabled'' else ''flags:toggle.disabled'')]))]"

definition EnvToggleSkeleton_view :: "'m html" where
  "EnvToggleSkeleton_view = El ''ul'' [] (replicate 3
     (El ''li'' [] [El ''div'' [] [El ''div'' [] [], El ''div'' [] []], El ''div'' [] []]))"

definition EnvironmentTogglePanel_view ::
    "Environment list query \<Rightarrow> (Environment \<Rightarrow> bool query) \<Rightarrow> (Environment \<Rightarrow> bool) \<Rightarrow> (Environment \<times> toggle_msg) html" where
  "EnvironmentTogglePanel_view q states pending = El ''div'' []
     [El ''div'' [] [El ''h2'' [] [tr ''flags:detail.environments_section'']],
      (if isLoading q then EnvToggleSkeleton_view
       else if isError q then El ''div'' [] [El ''p'' [] [tr ''flags:detail.env_error'']]
       else El ''ul'' [] (map (\<lambda>env. map_html (Pair env) (EnvironmentToggleRow_view env (states env) (pending env))) (the (q_data q))))]"

section \<open>Evaluation panel\<close>

record eval_panel =
  ep_open :: bool
  ep_contextInput :: string
  ep_jsonError :: "utext option"

definition eval_init :: eval_panel where
  "eval_init = \<lparr>ep_open = False, ep_contextInput = ''{}'', ep_jsonError = None\<rparr>"

datatype eval_msg = EvalToggle | EvalInput string | EvalClick

definition json_error :: utext where "json_error = T ''flags:eval.invalid_json'' []"

definition EvaluationPanel_update :: "detail_ctx \<Rightarrow> eval_msg \<Rightarrow> eval_panel \<Rightarrow> eval_panel \<times> effect list" where
  "EvaluationPanel_update ctx msg p = (case msg of
     EvalToggle \<Rightarrow> (p\<lparr>ep_open := \<not> ep_open p\<rparr>, [])
   | EvalInput s \<Rightarrow> (p\<lparr>ep_contextInput := s, ep_jsonError := (if json_parse s = None then Some json_error else None)\<rparr>, [])
   | EvalClick \<Rightarrow> (case json_parse (ep_contextInput p) of
         None \<Rightarrow> (p\<lparr>ep_jsonError := Some json_error\<rparr>, [])
       | Some parsed \<Rightarrow> (p\<lparr>ep_jsonError := None\<rparr>,
           [Send ''POST'' (env_flag_path (dc_slug ctx) (dc_envSlug ctx) (dc_key ctx) @ ''/evaluate'')
              (Some (JObj [(''context'', parsed)]))])))"

record eval_response =
  er_key :: string
  er_enabled :: bool
  er_value :: "string option"
  er_reason :: string
  er_type :: string

definition REASON_KEY_MAP :: "(string \<times> string) list" where
  "REASON_KEY_MAP = [(''disabled'', ''eval.reason_disabled''), (''default'', ''eval.reason_default''),
     (''rule_match'', ''eval.reason_rule_match'')]"

definition reason_label :: "string \<Rightarrow> utext" where
  "reason_label r = (case map_of REASON_KEY_MAP r of Some k \<Rightarrow> T (''flags:'' @ k) [] | None \<Rightarrow> Lit r)"

definition EvalResultDisplay_view :: "eval_response \<Rightarrow> 'm html" where
  "EvalResultDisplay_view r = El ''div'' []
     [El ''div'' []
        [El ''span'' [] [tr ''flags:eval.result_label''],
         (case er_value r of
            Some v \<Rightarrow> El ''span'' [] [lit v]
          | None \<Rightarrow> El ''span'' [] [El ''span'' [Flag ''aria-hidden'' True] [],
              tr (if er_enabled r then ''flags:toggle.enabled'' else ''flags:toggle.disabled'')])],
      El ''div'' [] [El ''span'' [] [tr ''flags:eval.reason_label''], El ''span'' [] [Txt (reason_label (er_reason r))]]]"

text \<open>The mutation: pending, failed with an error, or succeeded with a response.\<close>

datatype eval_state = EvalIdle | EvalPending | EvalError web_error | EvalSuccess eval_response

definition up_down :: "bool \<Rightarrow> string" where
  "up_down is_open = (if is_open then [CHR 0xE2, CHR 0x96, CHR 0xB2] else [CHR 0xE2, CHR 0x96, CHR 0xBC])"

definition EvaluationPanel_view :: "eval_state \<Rightarrow> eval_panel \<Rightarrow> eval_msg html" where
  "EvaluationPanel_view mut p = El ''div'' []
     ([El ''button'' [On ''click'' EvalToggle, Flag ''aria-expanded'' (ep_open p)]
         [El ''span'' [] [tr ''flags:eval.title''], El ''span'' [Flag ''aria-hidden'' True] [lit (up_down (ep_open p))]]] @
      show_if (ep_open p) (El ''div'' []
        ([El ''div'' []
            ([ui_Label ''eval-context'' [tr ''flags:eval.context_label''],
              ui_Textarea None False (Some ''eval-context'') None
                [At ''value'' (Lit (ep_contextInput p)), OnText ''change'' EvalInput, At ''rows'' (Lit ''4''), Flag ''spellcheck'' False]] @
             (case ep_jsonError p of Some e \<Rightarrow> [El ''p'' [At ''role'' (Lit ''alert'')] [Txt e]] | None \<Rightarrow> [])),
          ui_Button False (mut = EvalPending \<or> ep_jsonError p \<noteq> None) [On ''click'' EvalClick]
            [tr (if mut = EvalPending then ''flags:eval.evaluating'' else ''flags:eval.evaluate'')]] @
         (case mut of
            EvalError err \<Rightarrow> [El ''p'' [At ''role'' (Lit ''alert'')] [Txt (api_or (T ''flags:eval.eval_failed'' []) err)]]
          | EvalSuccess r \<Rightarrow> [EvalResultDisplay_view r]
          | _ \<Rightarrow> []))))"

section \<open>Change history\<close>

record HistoryEntry =
  he_id :: string
  he_occurred_at :: string
  he_actor_email :: string
  he_action :: string
  he_environment :: string

definition ACTION_LABELS :: "(string \<times> string) list" where
  "ACTION_LABELS =
     [(''flag.created'', ''history.action_flag_created''), (''flag.updated'', ''history.action_flag_updated''),
      (''flag.variant_added'', ''history.action_flag_variant_added''), (''flag.variant_renamed'', ''history.action_flag_variant_renamed''),
      (''flag.variant_deleted'', ''history.action_flag_variant_deleted''), (''flag.state_changed'', ''history.action_flag_state_changed''),
      (''flag.deleted'', ''history.action_flag_deleted''), (''flag.promoted'', ''history.action_flag_promoted'')]"

definition ENV_FILTER_ALL :: string where "ENV_FILTER_ALL = ''__all__''"

record history_panel =
  hp_open :: bool
  hp_envFilter :: string

definition history_init :: history_panel where
  "history_init = \<lparr>hp_open = False, hp_envFilter = ENV_FILTER_ALL\<rparr>"

datatype history_msg = HistoryToggle | HistoryEnv string

definition FlagChangeHistoryPanel_update :: "history_msg \<Rightarrow> history_panel \<Rightarrow> history_panel" where
  "FlagChangeHistoryPanel_update msg p = (case msg of
     HistoryToggle \<Rightarrow> p\<lparr>hp_open := \<not> hp_open p\<rparr> | HistoryEnv v \<Rightarrow> p\<lparr>hp_envFilter := v\<rparr>)"

definition history_path :: "string \<Rightarrow> string \<Rightarrow> string" where
  "history_path slug flagKey = ''/api/v1/projects/'' @ slug @ ''/audit?flag_key='' @ encodeURIComponent flagKey @ ''&limit=20''"

definition allEntries :: "HistoryEntry list query \<Rightarrow> HistoryEntry list" where
  "allEntries q = (case q_data q of Some es \<Rightarrow> es | None \<Rightarrow> [])"

text \<open>\<open>Array.from(envs).sort()\<close>; slugs are ASCII, where code units and bytes agree.\<close>

definition distinctEnvs :: "HistoryEntry list \<Rightarrow> string list" where
  "distinctEnvs es = sort (fold (\<lambda>e envs. if he_environment e \<noteq> [] then set_add (he_environment e) envs else envs) es [])"

definition showEnvFilter :: "HistoryEntry list \<Rightarrow> bool" where
  "showEnvFilter es \<longleftrightarrow> 2 \<le> length (distinctEnvs es)"

definition visibleEntries :: "HistoryEntry list \<Rightarrow> string \<Rightarrow> HistoryEntry list" where
  "visibleEntries es envFilter =
     (if envFilter = ENV_FILTER_ALL then es else filter (\<lambda>e. he_environment e = envFilter) es)"

text \<open>\<open>intl\<close> renders a relative date; an invalid date makes the row throw (\<open>Inl\<close>).\<close>

definition HistoryEntryRow_view :: "(relative_date \<Rightarrow> string) \<Rightarrow> int \<Rightarrow> HistoryEntry \<Rightarrow> (string, 'm html) result" where
  "HistoryEntryRow_view intl now entry =
     await (formatRelativeDate now (he_occurred_at entry)) (\<lambda>rel. Inr (El ''tr'' []
       [El ''td'' [] [El ''time'' [At ''datetime'' (Lit (he_occurred_at entry)), At ''title'' (Lit (intl rel))]
          [lit (formatAbsoluteDate (he_occurred_at entry))]],
        El ''td'' [] [if he_environment entry \<noteq> [] then El ''span'' [] [lit (he_environment entry)]
                      else El ''span'' [] [tr ''flags:history.env_none'']],
        El ''td'' [] [El ''span'' [] [lit (he_actor_email entry)]],
        El ''td'' [] [El ''span'' [] [Txt (case map_of ACTION_LABELS (he_action entry) of
            Some k \<Rightarrow> T (''flags:'' @ k) [] | None \<Rightarrow> Lit (he_action entry))]]]))"

definition history_table :: "'m html list \<Rightarrow> 'm html" where
  "history_table rows = El ''div'' [] [El ''table'' [At ''aria-label'' (T ''flags:history.table_aria'' [])]
     [El ''thead'' [] [El ''tr'' [] (map (\<lambda>k. El ''th'' [At ''scope'' (Lit ''col'')] [tr (''flags:history.'' @ k)])
        [''col_timestamp'', ''col_environment'', ''col_actor'', ''col_action''])],
      El ''tbody'' [] rows]]"

definition history_filter :: "HistoryEntry list \<Rightarrow> history_panel \<Rightarrow> history_msg html list" where
  "history_filter es p = show_if (showEnvFilter es) (El ''div'' []
     [ui_Select (hp_envFilter p) HistoryEnv False [At ''aria-label'' (T ''flags:history.env_filter_aria'' [])]
        (ui_SelectItem ''__all__'' [tr ''flags:history.env_filter_all''] #
         map (\<lambda>env. ui_SelectItem env [lit env]) (distinctEnvs es))])"

definition FlagChangeHistoryPanel_view ::
    "(relative_date \<Rightarrow> string) \<Rightarrow> int \<Rightarrow> HistoryEntry list query \<Rightarrow> history_panel \<Rightarrow> (string, history_msg html) result" where
  "FlagChangeHistoryPanel_view intl now q p =
     (let es = allEntries q; vis = visibleEntries es (hp_envFilter p);
          toggle = El ''button'' [On ''click'' HistoryToggle, Flag ''aria-expanded'' (hp_open p)]
            [El ''span'' [] [tr ''flags:history.title''], El ''span'' [Flag ''aria-hidden'' True] [lit (up_down (hp_open p))]]
      in if \<not> hp_open p then Inr (El ''div'' [] [toggle])
         else if isError q then
           Inr (El ''div'' [] [toggle, El ''div'' [] [El ''div'' [At ''role'' (Lit ''status'')] [El ''p'' [] [tr ''flags:history.error'']]]])
         else if vis = [] then
           Inr (El ''div'' [] [toggle, El ''div'' [] (history_filter es p @
             [El ''div'' [At ''role'' (Lit ''status'')]
               [El ''p'' [] [tr (if hp_envFilter p = ''__all__'' then ''flags:history.empty'' else ''flags:history.empty_filtered'')]]])])
         else await (render_all (map (HistoryEntryRow_view intl now) vis)) (\<lambda>rows.
           Inr (El ''div'' [] [toggle, El ''div'' [] (history_filter es p @ [history_table rows])])))"

section \<open>The page\<close>

definition FlagDetailSkeleton_view :: "'m html" where
  "FlagDetailSkeleton_view = El ''div'' []
     [El ''div'' [] [],
      El ''div'' []
        [El ''div'' [] [El ''div'' [] [El ''div'' [] [], El ''div'' [] []], El ''div'' [] []],
         El ''div'' [] (replicate 4 (El ''div'' [] [El ''div'' [] [], El ''div'' [] []]))]]"

text \<open>\<open>pendingDelete\<close>, the text typed into the mounted confirmation, and the card.\<close>

record flag_page =
  fp_pendingDelete :: bool
  fp_confirm :: string
  fp_card :: flag_card

datatype detail_msg = PageCard card_msg | PageDelete delete_msg | PageDeleted "web_error option"

definition FlagDetailPage_update ::
    "detail_ctx \<Rightarrow> FlagDetail \<Rightarrow> detail_msg \<Rightarrow> flag_page \<Rightarrow> flag_page \<times> effect list" where
  "FlagDetailPage_update ctx flag msg p = (case msg of
     PageCard m \<Rightarrow> (case FlagDetailCard_update ctx flag m (fp_card p) of
         (fc, outs) \<Rightarrow>
           (if DeleteIntent \<in> set outs then p\<lparr>fp_card := fc, fp_pendingDelete := True\<rparr> else p\<lparr>fp_card := fc\<rparr>,
            concat (map (\<lambda>x. case x of CardEff e \<Rightarrow> [e] | DeleteIntent \<Rightarrow> []) outs)))
   | PageDelete (ConfirmText s) \<Rightarrow> (p\<lparr>fp_confirm := s\<rparr>, [])
   | PageDelete DeleteConfirm \<Rightarrow> (p, [Send ''DELETE'' (flag_path (dc_slug ctx) (dc_key ctx)) None])
   | PageDelete DeleteCancel \<Rightarrow> (p\<lparr>fp_pendingDelete := False, fp_confirm := []\<rparr>, [])
   | PageDelete (DeleteOpenChange is_open) \<Rightarrow> (if is_open then p else p\<lparr>fp_pendingDelete := False, fp_confirm := []\<rparr>, [])
   | PageDeleted None \<Rightarrow> (p, [Invalidate [''flags'', dc_slug ctx, dc_envSlug ctx], Navigate (flags_page (dc_slug ctx) (dc_envSlug ctx))])
   | PageDeleted (Some err) \<Rightarrow> (p, []))"

definition FlagDetailPage_view ::
    "detail_ctx \<Rightarrow> FlagDetail query \<Rightarrow> bool \<Rightarrow> bool \<Rightarrow> bool \<Rightarrow> detail_msg html list \<Rightarrow> flag_page \<Rightarrow> detail_msg html list" where
  "FlagDetailPage_view ctx q saving deleting deleteFailed panels p =
     (if isLoading q then [FlagDetailSkeleton_view]
      else if isError q then
        [El ''div'' [] [El ''p'' [] [tr (if is404 q then ''flags:list.not_found'' else ''flags:list.failed_to_load'')],
           link (flags_page (dc_slug ctx) (dc_envSlug ctx)) [tr ''flags:list.back_to_flags'']]]
      else case q_data q of
        None \<Rightarrow> []
      | Some flag \<Rightarrow>
          [El ''div'' []
            ([PageHeading [\<lparr>an_label = dc_envSlug ctx, an_to = flags_page (dc_slug ctx) (dc_envSlug ctx)\<rparr>] (Lit (dc_key ctx)),
              map_html PageCard (FlagDetailCard_view ctx flag saving (fp_card p))] @ panels @
             show_if (fp_pendingDelete p)
               (map_html PageDelete (DeleteConfirmModal_view (fl_key flag) deleting deleteFailed (fp_confirm p))))])"

end
