(* ===== verification/Flag_Detail_Spec.thy ===== *)
theory Flag_Detail_Spec
  imports Flag_Detail
begin

text \<open>
  What the flag page guarantees: whatever the user does with the rendered controls, only
  consistent flags are saved and only confirmed deletions are sent; what the panels send and
  show; and where the editor and the history filter get stuck on old data.
\<close>

section \<open>Saving\<close>

definition flag_ok :: "FlagDetail \<Rightarrow> bool" where
  "flag_ok f \<longleftrightarrow> distinct (map vr_key (fl_variants f)) \<and> fl_default f \<in> vr_key ` set (fl_variants f)
     \<and> (\<forall>v \<in> set (fl_variants f). VARIANT_KEY_RE (vr_key v))"

definition card_ok :: "flag_card \<Rightarrow> bool" where
  "card_ok c \<longleftrightarrow> distinct (map vr_key (ca_variants c)) \<and> ca_default c \<in> vr_key ` set (ca_variants c)
     \<and> (\<forall>v \<in> set (ca_variants c). VARIANT_KEY_RE (vr_key v))"

text \<open>The environment of the card: the flag at hand and whether a save is running.\<close>

definition card_can :: "detail_ctx \<Rightarrow> FlagDetail \<times> bool \<Rightarrow> flag_card \<Rightarrow> card_msg \<Rightarrow> bool" where
  "card_can ctx e c m \<longleftrightarrow> flag_ok (fst e) \<and> (offered (FlagDetailCard_view ctx (fst e) (snd e) c) m \<or> (\<exists>r. m = CardSettled r))"

definition card_upd :: "detail_ctx \<Rightarrow> FlagDetail \<times> bool \<Rightarrow> card_msg \<Rightarrow> flag_card \<Rightarrow> flag_card \<times> card_out list" where
  "card_upd ctx e = FlagDetailCard_update ctx (fst e)"

definition save_ok :: "detail_ctx \<Rightarrow> card_out \<Rightarrow> bool" where
  "save_ok ctx x = (case x of
     CardEff (Send meth path b) \<Rightarrow> meth = ''PATCH'' \<and> (\<exists>k c. path = flag_path (dc_slug ctx) k \<and> b = Some (update_body c) \<and> card_ok c)
   | _ \<Rightarrow> True)"

lemma card_removal_offered:
  assumes "offered (FlagDetailCard_view ctx f pending c) (CardRemoveVariant i)"
  shows "i < length (ca_variants c) \<and> vr_key (ca_variants c ! i) \<noteq> ca_default c"
  using assms offered_error_text [of "ca_saveError c" "CardRemoveVariant i"]
  by (auto simp: FlagDetailCard_view_def card_header_def card_name_def card_variants_def card_default_def card_actions_def
      variant_line_def Let_def set_zip split: if_splits prod.splits)

lemma card_default_offered:
  assumes "offered (FlagDetailCard_view ctx f pending c) (CardDefault k)"
  shows "k \<in> vr_key ` set (ca_variants c)"
  using assms offered_error_text [of "ca_saveError c" "CardDefault k"]
  by (auto simp: FlagDetailCard_view_def card_header_def card_name_def card_variants_def card_default_def card_actions_def
      variant_line_def Let_def split: if_splits prod.splits)

lemma rename_keys:
  "map vr_key (map (\<lambda>(idx, ev). if idx = i then ev\<lparr>vr_name := s\<rparr> else ev) (zip [0..<length vs] vs)) = map vr_key vs"
  by (rule nth_equalityI) simp_all

lemma filter_zip_index:
  "map snd (filter (\<lambda>(idx, _). idx \<noteq> i) (zip [0..<length xs] xs)) = take i xs @ drop (Suc i) xs"
proof (induction xs rule: rev_induct)
  case (snoc x xs)
  have "zip [0..<length (xs @ [x])] (xs @ [x]) = zip [0..<length xs] xs @ [(length xs, x)]" by simp
  then show ?case using snoc by (cases "i = length xs"; cases "i < length xs") (auto simp: le_Suc_eq not_less)
qed simp

lemma remove_keeps:
  assumes "i < length vs" and "f (vs ! i) \<noteq> d" and "distinct (map f vs)" and "d \<in> f ` set vs"
  shows "distinct (map f (take i vs @ drop (Suc i) vs)) \<and> d \<in> f ` set (take i vs @ drop (Suc i) vs)"
proof -
  have vs: "vs = take i vs @ vs ! i # drop (Suc i) vs" using assms(1) by (rule id_take_nth_drop)
  then have "distinct (map f (take i vs @ vs ! i # drop (Suc i) vs))" "d \<in> f ` set (take i vs @ vs ! i # drop (Suc i) vs)"
    using assms(3,4) by metis+
  then show ?thesis using assms(2) by auto
qed

lemma handleAdd_new:
  "handleAdd ks row = (row', Some v) \<Longrightarrow> vr_key v \<notin> set ks \<and> VARIANT_KEY_RE (vr_key v)"
  by (auto simp: handleAdd_def Let_def split: if_splits)

lemma add_update_new:
  "AddVariantRow_update ks m row = (row', Some v) \<Longrightarrow> vr_key v \<notin> set ks \<and> VARIANT_KEY_RE (vr_key v)"
  by (cases m) (auto simp: AddVariantRow_update_def dest: handleAdd_new)

lemma card_step_ok:
  assumes ok: "card_ok c" and can: "card_can ctx e c m"
  shows "card_ok (fst (card_upd ctx e m c))"
proof (cases m)
  case (CardVariantName i s)
  let ?vs = "map (\<lambda>(idx, ev). if idx = i then ev\<lparr>vr_name := s\<rparr> else ev) (zip [0..<length (ca_variants c)] (ca_variants c))"
  have keys: "vr_key ` set ?vs = vr_key ` set (ca_variants c)"
    using rename_keys [of i s "ca_variants c"] by (metis list.set_map)
  have "VARIANT_KEY_RE (vr_key v)" if "v \<in> set ?vs" for v
  proof -
    have "vr_key v \<in> vr_key ` set (ca_variants c)" using keys that by blast
    then show ?thesis using ok by (auto simp: card_ok_def)
  qed
  then show ?thesis
    using ok keys rename_keys [of i s "ca_variants c"] CardVariantName
    by (simp add: card_ok_def card_upd_def FlagDetailCard_update_def)
next
  case (CardRemoveVariant i)
  then have "offered (FlagDetailCard_view ctx (fst e) (snd e) c) (CardRemoveVariant i)" using can by (simp add: card_can_def)
  note off = card_removal_offered [OF this]
  have "set (take i (ca_variants c) @ drop (Suc i) (ca_variants c)) \<subseteq> set (ca_variants c)"
    by (auto dest: in_set_takeD in_set_dropD)
  then show ?thesis
    using ok CardRemoveVariant remove_keeps [of i "ca_variants c" vr_key "ca_default c"] off
    by (auto simp: card_ok_def card_upd_def FlagDetailCard_update_def filter_zip_index)
next
  case (CardAdd a)
  obtain row v where r: "AddVariantRow_update (map vr_key (ca_variants c)) a (ca_add c) = (row, v)" by fastforce
  show ?thesis
  proof (cases v)
    case None
    with r CardAdd ok show ?thesis by (simp add: card_ok_def card_upd_def FlagDetailCard_update_def)
  next
    case (Some w)
    with r have "vr_key w \<notin> vr_key ` set (ca_variants c)" "VARIANT_KEY_RE (vr_key w)" using add_update_new by fastforce+
    with r Some CardAdd ok show ?thesis by (simp add: card_ok_def card_upd_def FlagDetailCard_update_def)
  qed
next
  case (CardDefault k)
  then have "offered (FlagDetailCard_view ctx (fst e) (snd e) c) (CardDefault k)" using can by (simp add: card_can_def)
  with ok CardDefault card_default_offered show ?thesis by (auto simp: card_ok_def card_upd_def FlagDetailCard_update_def)
next
  case (CardSettled r)
  with ok show ?thesis by (cases r) (simp_all add: card_ok_def card_upd_def FlagDetailCard_update_def)
next
  case CardCancel
  with can show ?thesis by (simp add: card_ok_def card_upd_def FlagDetailCard_update_def cancelEdit_def card_can_def flag_ok_def)
qed (use ok in \<open>simp_all add: card_ok_def card_upd_def FlagDetailCard_update_def\<close>)

interpretation card: page "card_upd ctx" "card_can ctx" card_ok "save_ok ctx" for ctx
proof unfold_locales
  fix c e m x
  assume "card_ok c" "card_can ctx e c m"
  then show "card_ok (fst (card_upd ctx e m c))" by (rule card_step_ok)
  assume "x \<in> set (snd (card_upd ctx e m c))"
  then show "save_ok ctx x"
    using \<open>card_ok c\<close>
    by (cases m) (auto simp: card_upd_def FlagDetailCard_update_def save_ok_def split: option.splits prod.splits)
qed


definition demo_detail :: FlagDetail where
  "demo_detail = \<lparr>fl_id = ''1'', fl_key = ''theme'', fl_name = ''Theme'', fl_type = ''string'',
     fl_variants = [\<lparr>vr_key = ''light'', vr_name = ''Light''\<rparr>, \<lparr>vr_key = ''dark'', vr_name = ''Dark''\<rparr>],
     fl_default = ''light'', fl_enabled = True\<rparr>"

definition demo_ctx :: detail_ctx where
  "demo_ctx = \<lparr>dc_slug = ''shop'', dc_envSlug = ''prod'', dc_key = ''theme''\<rparr>"

lemma demo_detail_ok: "flag_ok demo_detail"
  by code_simp


text \<open>
  The editor starts from old values. The form is filled from the flag of the first
  render, and the edit button does not refill it: when the flag has changed since (another user
  saved it, a refetch brought it), opening the editor and saving writes the old name,
  variants and default variant back.
\<close>

theorem editor_overwrites_newer_flag:
  "let (c, outs) = FlagDetailCard_update ctx newer CardEdit (card_init older);
       (c', outs') = FlagDetailCard_update ctx newer CardSave c
   in outs' = [CardEff (Send ''PATCH'' (flag_path (dc_slug ctx) (fl_key newer)) (Some (JObj
        [(''name'', JStr (fl_name older)), (''variants'', JArr (map variant_json (fl_variants older))),
         (''default_variant_key'', JStr (fl_default older))])))]
    \<and> offered (FlagDetailCard_view ctx newer False (card_init older)) CardEdit
    \<and> offered (FlagDetailCard_view ctx newer False c) CardSave"
  by (simp add: FlagDetailCard_update_def card_init_def update_body_def FlagDetailCard_view_def card_header_def card_actions_def
      show_if_def)

section \<open>Deleting\<close>

text \<open>
  Deleting a flag needs its key typed out. The page sends a DELETE for no message but
  the confirmation, and the rendered page offers the confirmation exactly while a deletion
  was asked for, the typed text is the key of the flag, and no deletion is running.
\<close>

theorem flag_deletion_confirmed:
  assumes "q_data q = Some flag" and "\<not> isLoading q" and "\<not> isError q"
  shows "((\<exists>h \<in> set (FlagDetailPage_view ctx q saving deleting failed [] p). offered h (PageDelete DeleteConfirm))
      \<longleftrightarrow> fp_pendingDelete p \<and> fp_confirm p = fl_key flag \<and> \<not> deleting)
    \<and> (\<forall>msg path b. Send ''DELETE'' path b \<in> set (snd (FlagDetailPage_update ctx flag msg p)) \<longrightarrow>
      msg = PageDelete DeleteConfirm \<and> path = flag_path (dc_slug ctx) (dc_key ctx) \<and> b = None)"
proof -
  have modal: "offered (DeleteConfirmModal_view k deleting failed typed) DeleteConfirm \<longleftrightarrow> typed = k \<and> \<not> deleting" for k typed
    by (auto simp: DeleteConfirmModal_view_def Let_def show_if_def)
  have nav: "\<not> offered (PageHeading as l) m" for as l and m :: detail_msg
    by (auto simp: PageHeading_def)
  have "Send ''DELETE'' path b \<notin> set (concat (map (\<lambda>x. case x of CardEff e \<Rightarrow> [e] | DeleteIntent \<Rightarrow> []) (snd (FlagDetailCard_update ctx flag m c))))"
    for m c path b
    by (cases m) (auto simp: FlagDetailCard_update_def split: option.split prod.split)
  then have card: "Send ''DELETE'' path b \<notin> set (snd (FlagDetailPage_update ctx flag (PageCard m) p))" for m path b
    by (simp add: FlagDetailPage_update_def split: prod.split) (metis snd_conv)
  have "msg = PageDelete DeleteConfirm \<and> path = flag_path (dc_slug ctx) (dc_key ctx) \<and> b = None"
    if "Send ''DELETE'' path b \<in> set (snd (FlagDetailPage_update ctx flag msg p))" for msg path b
  proof (cases msg)
    case (PageCard m)
    then show ?thesis using that card by blast
  next
    case (PageDelete m)
    then show ?thesis using that by (cases m) (auto simp: FlagDetailPage_update_def)
  next
    case (PageDeleted r)
    then show ?thesis using that by (cases r) (auto simp: FlagDetailPage_update_def)
  qed
  moreover have "(\<exists>h \<in> set (FlagDetailPage_view ctx q saving deleting failed [] p). offered h (PageDelete DeleteConfirm))
      \<longleftrightarrow> fp_pendingDelete p \<and> fp_confirm p = fl_key flag \<and> \<not> deleting"
    using assms modal nav by (auto simp: FlagDetailPage_view_def show_if_def)
  ultimately show ?thesis by blast
qed

theorem flag_deletion_confirmed_witness:
  "\<exists>h \<in> set (FlagDetailPage_view demo_ctx \<lparr>isLoading = False, q_error = None, q_data = Some demo_detail\<rparr> False False False []
      \<lparr>fp_pendingDelete = True, fp_confirm = ''theme'', fp_card = card_init demo_detail\<rparr>). offered h (PageDelete DeleteConfirm)"
  using flag_deletion_confirmed [of "\<lparr>isLoading = False, q_error = None, q_data = Some demo_detail\<rparr>" demo_detail demo_ctx False False
      False "\<lparr>fp_pendingDelete = True, fp_confirm = ''theme'', fp_card = card_init demo_detail\<rparr>"]
  by (simp add: isError_def demo_detail_def)

section \<open>Toggling and evaluating\<close>

text \<open>
  The toggle of an environment. While its state is known and no toggle is running, the
  button asks the service for the opposite of the state it shows, and nothing else can be
  asked; when the service confirms, and also when the stream reports a change of any flag of the
  project in any environment, the shown state is fetched again.
\<close>

theorem toggle_flips_shown_state:
  assumes "q_data q = Some b" and "\<not> isLoading q" and "\<not> isError q"
  shows "(\<forall>m. offered (EnvironmentToggleRow_view env q pending) m \<longleftrightarrow> \<not> pending \<and> m = ToggleTo (\<not> b))
    \<and> EnvironmentToggleRow_update slug env k (ToggleTo (\<not> b)) =
        [Send ''PATCH'' (env_flag_path slug (en_slug env) k) (Some (JObj [(''enabled'', JBool (\<not> b))]))]
    \<and> (\<exists>eff \<in> set (EnvironmentToggleRow_update slug env k (ToggleSettled None)). covers eff (toggle_key slug env k))
    \<and> (\<exists>eff \<in> set (web_change_effects slug e' k' b'). covers eff (toggle_key slug env k))"
  using assms
  by (auto simp: EnvironmentToggleRow_view_def Let_def show_if_def EnvironmentToggleRow_update_def covers_def toggle_key_def
      web_change_effects_def)

theorem toggle_flips_shown_state_witness:
  "offered (EnvironmentToggleRow_view \<lparr>en_id = ''1'', en_slug = ''prod'', en_name = ''Prod''\<rparr>
      \<lparr>isLoading = False, q_error = None, q_data = Some True\<rparr> False) (ToggleTo False)"
  using toggle_flips_shown_state [of "\<lparr>isLoading = False, q_error = None, q_data = Some True\<rparr>" True
      "\<lparr>en_id = ''1'', en_slug = ''prod'', en_name = ''Prod''\<rparr>" False "''shop''" "''theme''" "''prod''" "''theme''" True]
  by (simp add: isError_def)

definition eval_inv :: "eval_panel \<Rightarrow> bool" where
  "eval_inv p \<longleftrightarrow> (ep_jsonError p = None \<longleftrightarrow> json_parse (ep_contextInput p) \<noteq> None)"

definition eval_ok :: "detail_ctx \<Rightarrow> effect \<Rightarrow> bool" where
  "eval_ok ctx x \<longleftrightarrow> (\<exists>s j. json_parse s = Some j \<and>
     x = Send ''POST'' (env_flag_path (dc_slug ctx) (dc_envSlug ctx) (dc_key ctx) @ ''/evaluate'') (Some (JObj [(''context'', j)])))"

interpretation evalp: dialog "EvaluationPanel_update ctx" eval_init eval_inv "eval_ok ctx" for ctx
proof unfold_locales
  show "eval_inv eval_init" unfolding eval_inv_def eval_init_def by code_simp
qed (auto simp: eval_inv_def eval_ok_def EvaluationPanel_update_def split: eval_msg.splits option.splits)

text \<open>
  The evaluation panel sends what was typed. After any sequence of user actions the
  error is shown exactly while the text is not JSON, so the button works exactly for JSON
  (and while no evaluation runs), and every request posts the parsed text as the context of this
  flag.
\<close>

theorem evaluation_sends_context:
  "let (p, outs) = dialog_run (EvaluationPanel_update ctx) eval_init msgs in
   (ep_jsonError p = None \<longleftrightarrow> json_parse (ep_contextInput p) \<noteq> None)
   \<and> (offered (EvaluationPanel_view mut p) EvalClick \<longleftrightarrow>
        ep_open p \<and> mut \<noteq> EvalPending \<and> json_parse (ep_contextInput p) \<noteq> None)
   \<and> (\<forall>x \<in> set outs. \<exists>s j. json_parse s = Some j \<and>
        x = Send ''POST'' (env_flag_path (dc_slug ctx) (dc_envSlug ctx) (dc_key ctx) @ ''/evaluate'') (Some (JObj [(''context'', j)])))"
proof -
  obtain p outs where r: "dialog_run (EvaluationPanel_update ctx) eval_init msgs = (p, outs)" by fastforce
  then have run: "evalp.run ctx msgs = (p, outs)" by (simp add: dialog_run_def evalp.run_def)
  have inv: "ep_jsonError p = None \<longleftrightarrow> json_parse (ep_contextInput p) \<noteq> None"
    using evalp.run_inv [of ctx msgs] run by (simp add: eval_inv_def)
  have "offered (EvaluationPanel_view mut p) EvalClick \<longleftrightarrow> ep_open p \<and> mut \<noteq> EvalPending \<and> ep_jsonError p = None"
    by (auto simp: EvaluationPanel_view_def EvalResultDisplay_view_def show_if_def split: eval_state.splits option.splits)
  moreover have "eval_ok ctx x" if "x \<in> set outs" for x using evalp.run_outputs [of x ctx msgs] run that by simp
  ultimately show ?thesis unfolding r using inv by (auto simp: eval_ok_def)
qed

theorem evaluation_sends_context_witness:
  "ep_jsonError (fst (dialog_run (EvaluationPanel_update demo_ctx) eval_init [EvalInput ''{''])) \<noteq> None"
proof -
  have "json_parse ''{'' = None" by code_simp
  with evaluation_sends_context [of demo_ctx "[EvalInput ''{'']" EvalIdle] show ?thesis
    by (simp add: dialog_run_def EvaluationPanel_update_def)
qed

section \<open>History\<close>

lemma distinctEnvs_props:
  "sorted (distinctEnvs es) \<and> distinct (distinctEnvs es) \<and> set (distinctEnvs es) = {he_environment e | e. e \<in> set es \<and> he_environment e \<noteq> []}"
proof -
  let ?f = "\<lambda>e envs. if he_environment e \<noteq> [] then set_add (he_environment e) envs else envs"
  have "distinct acc \<Longrightarrow> distinct (fold ?f es acc)" for acc
    by (induction es arbitrary: acc) (auto simp: set_add_def)
  moreover have "set (fold ?f es acc) = set acc \<union> {he_environment e | e. e \<in> set es \<and> he_environment e \<noteq> []}" for acc
    by (induction es arbitrary: acc) (auto simp: set_add_def)
  ultimately show ?thesis by (simp add: distinctEnvs_def)
qed

text \<open>
  The history filter can get stuck. The filter offers every environment of the listed
  entries once, in alphabetical order, and only while there are two or more of them; when a
  refetch leaves fewer while one is selected, the panel goes on hiding every other entry
  and offers no way to change the filter.
\<close>

theorem history_filter_stuck:
  assumes "q_data q = Some es" and "\<not> isError q" and "hp_open p" and "\<not> showEnvFilter es"
    and "FlagChangeHistoryPanel_view intl now q p = Inr h"
  shows "(\<forall>m. offered h m \<longleftrightarrow> m = HistoryToggle)
    \<and> hp_envFilter (FlagChangeHistoryPanel_update HistoryToggle p) = hp_envFilter p
    \<and> (hp_envFilter p \<noteq> ENV_FILTER_ALL \<longrightarrow> (\<forall>e \<in> set (visibleEntries es (hp_envFilter p)). he_environment e = hp_envFilter p))"
proof -
  have row: "\<not> offered r m" if "HistoryEntryRow_view intl now e = Inr r" for e r and m :: history_msg
    using that by (auto simp: HistoryEntryRow_view_def await_eq_Inr split: if_splits)
  have rows: "\<not> offered r m" if "render_all (map (HistoryEntryRow_view intl now) xs) = Inr hs" "r \<in> set hs" for xs hs r and m :: history_msg
    using that row by (induction xs arbitrary: hs) (auto simp: await_eq_Inr)
  have "offered h m \<longleftrightarrow> m = HistoryToggle" for m
    using assms rows
    by (auto simp: FlagChangeHistoryPanel_view_def Let_def allEntries_def history_filter_def show_if_def history_table_def
        await_eq_Inr split: if_splits)
  then show ?thesis by (auto simp: FlagChangeHistoryPanel_update_def visibleEntries_def)
qed

definition demo_entry :: HistoryEntry where
  "demo_entry = \<lparr>he_id = ''1'', he_occurred_at = ''2024-02-29T09:05:30Z'', he_actor_email = ''a@b'', he_action = ''flag.created'',
     he_environment = ''prod''\<rparr>"

theorem history_filter_stuck_witness:
  "\<exists>h. FlagChangeHistoryPanel_view (\<lambda>_. ''now'') demo_now \<lparr>isLoading = False, q_error = None, q_data = Some [demo_entry]\<rparr>
      \<lparr>hp_open = True, hp_envFilter = ''staging''\<rparr> = Inr h \<and> (\<forall>m. offered h m \<longleftrightarrow> m = HistoryToggle)"
proof -
  let ?q = "\<lparr>isLoading = False, q_error = None, q_data = Some [demo_entry]\<rparr>" and ?p = "\<lparr>hp_open = True, hp_envFilter = ''staging''\<rparr>"
  obtain h where h: "FlagChangeHistoryPanel_view (\<lambda>_. ''now'') demo_now ?q ?p = Inr h"
    by (simp add: FlagChangeHistoryPanel_view_def Let_def allEntries_def visibleEntries_def ENV_FILTER_ALL_def demo_entry_def isError_def)
  have "\<not> showEnvFilter [demo_entry]" by (simp add: showEnvFilter_def distinctEnvs_def demo_entry_def set_add_def)
  with history_filter_stuck [of ?q "[demo_entry]" ?p "\<lambda>_. ''now''" demo_now h] h show ?thesis by (auto simp: isError_def)
qed

end
