(* ===== verification/Data_Table.thy ===== *)
theory Data_Table
  imports Web_Ui "HOL-Library.Multiset"
begin

text \<open>
  The generic table (\<open>web/src/components/ui/DataTable.tsx\<close>): client-side sorting with the
  language's stable \<open>Array.prototype.sort\<close>, or sorting and paging delegated to the parent.
  Sort values are of a linearly ordered type (strings, or numbers without \<open>NaN\<close>).
\<close>

section \<open>Sorting\<close>

datatype SortDir = Asc | Desc

record SortState =
  ss_key :: string
  ss_dir :: SortDir

text \<open>
  \<open>col_cellString\<close> is the string the table sorts by when the column has no
  \<open>sortValue\<close>.
\<close>

record ('r, 'm, 'k) ColumnDef =
  col_key :: string
  col_header :: utext
  col_cell :: "'r \<Rightarrow> 'm html list"
  col_sortable :: bool
  col_sortValue :: "('r \<Rightarrow> 'k) option"
  col_cellString :: "'r \<Rightarrow> 'k"

definition sort_value :: "('r, 'm, 'k) ColumnDef \<Rightarrow> 'r \<Rightarrow> 'k" where
  "sort_value col = (case col_sortValue col of Some f \<Rightarrow> f | None \<Rightarrow> col_cellString col)"

text \<open>\<open>sort\<close> with a comparison function: insertion from the right, equal elements keep their order.\<close>

fun js_insort :: "('a \<Rightarrow> 'a \<Rightarrow> int) \<Rightarrow> 'a \<Rightarrow> 'a list \<Rightarrow> 'a list" where
  "js_insort cmp x [] = [x]"
| "js_insort cmp x (y # ys) = (if cmp x y \<le> 0 then x # y # ys else y # js_insort cmp x ys)"

definition js_sort :: "('a \<Rightarrow> 'a \<Rightarrow> int) \<Rightarrow> 'a list \<Rightarrow> 'a list" where
  "js_sort cmp xs = foldr (js_insort cmp) xs []"

definition compare_rows :: "('r \<Rightarrow> 'k :: linorder) \<Rightarrow> SortDir \<Rightarrow> 'r \<Rightarrow> 'r \<Rightarrow> int" where
  "compare_rows f dir a b =
     (let cmp = (if f a < f b then - 1 else if f a > f b then 1 else 0)
      in if dir = Asc then cmp else - cmp)"

definition sortRows :: "'r list \<Rightarrow> ('r, 'm, 'k :: linorder) ColumnDef list \<Rightarrow> SortState \<Rightarrow> 'r list" where
  "sortRows data columns srt =
     (case find (\<lambda>c. col_key c = ss_key srt) columns of
        None \<Rightarrow> data
      | Some col \<Rightarrow> js_sort (compare_rows (sort_value col) (ss_dir srt)) data)"

definition toggleSort :: "SortState option \<Rightarrow> string \<Rightarrow> SortState" where
  "toggleSort srt key = (case srt of
     Some s \<Rightarrow> if ss_key s = key then \<lparr>ss_key = key, ss_dir = (if ss_dir s = Asc then Desc else Asc)\<rparr>
              else \<lparr>ss_key = key, ss_dir = Asc\<rparr>
   | None \<Rightarrow> \<lparr>ss_key = key, ss_dir = Asc\<rparr>)"

section \<open>The table\<close>

text \<open>
  What the parent passes for server mode: the handlers it gave, the paging numbers and its
  sort state. The table's own state is \<open>clientSort\<close>; its messages are a click on a column
  header, and those of the parent.
\<close>

record 'm server_mode =
  sm_onSortChange :: "(SortState \<Rightarrow> 'm) option"
  sm_onPageChange :: "(int \<Rightarrow> 'm) option"
  sm_totalRows :: "nat option"
  sm_perPage :: "nat option"
  sm_currentPage :: "int option"
  sm_serverSort :: "SortState option"

datatype 'm table_msg = ClientSort SortState | ToParent 'm | RowKey string 'm

definition isServerMode :: "'m server_mode \<Rightarrow> bool" where
  "isServerMode sm \<longleftrightarrow> sm_onSortChange sm \<noteq> None \<or> sm_onPageChange sm \<noteq> None"

definition current_sort :: "'m server_mode \<Rightarrow> SortState option \<Rightarrow> SortState option" where
  "current_sort sm clientSort = (if isServerMode sm then sm_serverSort sm else clientSort)"

definition header_click :: "'m server_mode \<Rightarrow> SortState option \<Rightarrow> string \<Rightarrow> 'm table_msg" where
  "header_click sm clientSort key =
     (let newSort = toggleSort (current_sort sm clientSort) key in
      case sm_onSortChange sm of
        Some f \<Rightarrow> ToParent (f newSort)
      | None \<Rightarrow> ClientSort newSort)"

definition table_update :: "'m table_msg \<Rightarrow> SortState option \<Rightarrow> SortState option" where
  "table_update msg clientSort = (case msg of ClientSort s \<Rightarrow> Some s | _ \<Rightarrow> clientSort)"

definition table_rows :: "'m server_mode \<Rightarrow> ('r, 'm, 'k :: linorder) ColumnDef list \<Rightarrow> SortState option \<Rightarrow> 'r list \<Rightarrow> 'r list" where
  "table_rows sm columns clientSort data =
     (case clientSort of
        Some s \<Rightarrow> if \<not> isServerMode sm then sortRows data columns s else data
      | None \<Rightarrow> data)"

definition totalPages :: "nat \<Rightarrow> nat \<Rightarrow> int" where
  "totalPages totalRows perPage = max 1 ((int totalRows + int perPage - 1) div int perPage)"

definition aria_sort :: "SortState option \<Rightarrow> ('r, 'm, 'k) ColumnDef \<Rightarrow> 'x attr list" where
  "aria_sort srt col =
     (if col_sortable col then
        [At ''aria-sort'' (Lit (case srt of
            Some s \<Rightarrow> if ss_key s = col_key col then (if ss_dir s = Asc then ''ascending'' else ''descending'') else ''none''
          | None \<Rightarrow> ''none''))]
      else [])"

definition sort_icon :: "bool \<Rightarrow> SortDir option \<Rightarrow> 'm html" where
  "sort_icon active dir = El ''svg'' [Flag ''aria-hidden'' True]
     (if active \<and> dir = Some Asc then [El ''up'' [] []]
      else if active \<and> dir = Some Desc then [El ''down'' [] []]
      else [El ''up'' [] [], El ''down'' [] []])"

definition header_cell :: "'m server_mode \<Rightarrow> SortState option \<Rightarrow> ('r, 'm, 'k) ColumnDef \<Rightarrow> 'm table_msg html" where
  "header_cell sm clientSort col =
     (let srt = current_sort sm clientSort in
      El ''th'' (At ''scope'' (Lit ''col'') # aria_sort srt col)
        [(if col_sortable col then
            El ''button'' [At ''type'' (Lit ''button''), On ''click'' (header_click sm clientSort (col_key col))]
              [Txt (col_header col), sort_icon (map_option ss_key srt = Some (col_key col)) (map_option ss_dir srt)]
          else if col_header col \<noteq> Lit [] then Txt (col_header col)
          else El ''span'' [] [lit ''Actions''])])"

definition pager :: "int \<Rightarrow> int \<Rightarrow> (int \<Rightarrow> 'm) \<Rightarrow> 'm table_msg html" where
  "pager currentPage pages onPageChange =
     El ''nav'' [At ''aria-label'' (Lit ''Pagination'')]
       [El ''span'' [] [lit ''Page '', lit (show_int currentPage), lit '' of '', lit (show_int pages)],
        El ''div'' []
          [El ''button'' [At ''type'' (Lit ''button''), Flag ''disabled'' (currentPage \<le> 1),
              On ''click'' (ToParent (onPageChange (currentPage - 1)))] [lit ''Previous''],
           El ''button'' [At ''type'' (Lit ''button''), Flag ''disabled'' (pages \<le> currentPage),
              On ''click'' (ToParent (onPageChange (currentPage + 1)))] [lit ''Next'']]]"

text \<open>A row is clickable, and reacts to Enter and Space, if the parent gave \<open>onRowClick\<close>.\<close>

definition table_row :: "('r, 'm, 'k) ColumnDef list \<Rightarrow> ('r \<Rightarrow> 'm) option \<Rightarrow> 'r \<Rightarrow> 'm table_msg html" where
  "table_row columns onRowClick row =
     El ''tr'' (case onRowClick of
         Some f \<Rightarrow> [On ''click'' (ToParent (f row)), OnText ''keydown'' (\<lambda>k. RowKey k (f row)), At ''tabindex'' (Lit ''0'')]
       | None \<Rightarrow> [])
       (map (\<lambda>col. El ''td'' [] (map (map_html ToParent) (col_cell col row))) columns)"

definition DataTable_view ::
    "('r, 'm, 'k :: linorder) ColumnDef list \<Rightarrow> 'r list \<Rightarrow> 'm html option \<Rightarrow> ('r \<Rightarrow> 'm) option \<Rightarrow> utext option \<Rightarrow> bool
      \<Rightarrow> 'm server_mode \<Rightarrow> SortState option \<Rightarrow> 'm table_msg html" where
  "DataTable_view columns data emptyState onRowClick ariaLabel loading sm clientSort =
     (let rows = table_rows sm columns clientSort data in
      El ''div'' []
       (El ''table'' (At ''role'' (Lit ''table'') # (case ariaLabel of Some l \<Rightarrow> [At ''aria-label'' l] | None \<Rightarrow> []))
          [El ''thead'' [] [El ''tr'' [] (map (header_cell sm clientSort) columns)],
           El ''tbody'' []
             (if rows = [] \<and> \<not> loading then
                [El ''tr'' [] [El ''td'' [At ''colspan'' (Lit (show_nat (length columns)))]
                   [(case emptyState of Some h \<Rightarrow> map_html ToParent h | None \<Rightarrow> El ''span'' [] [lit ''No data''])]]]
              else map (table_row columns onRowClick) rows)] #
        (case (sm_totalRows sm, sm_perPage sm, sm_currentPage sm, sm_onPageChange sm) of
           (Some totl, Some per, Some cur, Some f) \<Rightarrow> show_if (1 < totalPages totl per) (pager cur (totalPages totl per) f)
         | _ \<Rightarrow> [])))"

section \<open>Properties\<close>

lemma js_insort_mset [simp]: "mset (js_insort cmp x ys) = add_mset x (mset ys)"
  by (induction ys) auto

lemma js_sort_mset: "mset (js_sort cmp xs) = mset xs"
  by (induction xs) (auto simp: js_sort_def)

lemma compare_le: "compare_rows f dir a b \<le> 0 \<longleftrightarrow> (if dir = Asc then f a \<le> f b else f b \<le> f a)"
  by (auto simp: compare_rows_def Let_def)

lemma js_insort_sorted:
  fixes f :: "'r \<Rightarrow> 'k :: linorder"
  assumes "sorted_wrt (\<lambda>a b. compare_rows f dir a b \<le> 0) ys"
  shows "sorted_wrt (\<lambda>a b. compare_rows f dir a b \<le> 0) (js_insort (compare_rows f dir) x ys)"
  using assms
proof (induction ys)
  case (Cons y ys)
  have "set (js_insort (compare_rows f dir) x ys) = insert x (set ys)"
    by (metis js_insort_mset set_mset_add_mset_insert set_mset_mset)
  with Cons show ?case by (auto simp: compare_le split: if_splits)
qed simp

lemma js_sort_sorted:
  fixes f :: "'r \<Rightarrow> 'k :: linorder"
  shows "sorted_wrt (\<lambda>a b. compare_rows f dir a b \<le> 0) (js_sort (compare_rows f dir) xs)"
  by (induction xs) (simp_all add: js_sort_def js_insort_sorted)

lemma js_insort_stable:
  fixes f :: "'r \<Rightarrow> 'k :: linorder"
  assumes "sorted_wrt (\<lambda>a b. compare_rows f dir a b \<le> 0) ys"
  shows "filter (\<lambda>r. f r = k) (js_insort (compare_rows f dir) x ys) = filter (\<lambda>r. f r = k) (x # ys)"
  using assms
proof (induction ys)
  case (Cons y ys)
  have "f x \<noteq> f y" if "\<not> compare_rows f dir x y \<le> 0" using that by (auto simp: compare_le split: if_splits)
  with Cons show ?case by auto
qed simp

lemma js_sort_stable:
  fixes f :: "'r \<Rightarrow> 'k :: linorder"
  shows "filter (\<lambda>r. f r = k) (js_sort (compare_rows f dir) xs) = filter (\<lambda>r. f r = k) xs"
proof (induction xs)
  case (Cons x xs)
  then show ?case using js_insort_stable [OF js_sort_sorted [of f dir xs], of k x] by (simp add: js_sort_def)
qed (simp add: js_sort_def)

text \<open>
  Clicking a sortable header in client mode. The rows shown are those of the data, none lost or
  repeated, ordered by the column's value in the direction shown in the header; rows with equal
  values keep their order in the data, in both directions; and a second click on the same
  header reverses the direction.
\<close>

theorem header_click_sorts:
  fixes columns :: "('r, 'm, 'k :: linorder) ColumnDef list"
  assumes "\<not> isServerMode sm" and "find (\<lambda>c. col_key c = key) columns = Some col"
    and "table_update (header_click sm srt key) srt = Some s'"
  shows "let rows = table_rows sm columns (Some s') data; f = sort_value col in
    mset rows = mset data
    \<and> sorted_wrt (\<lambda>a b. if ss_dir s' = Asc then f a \<le> f b else f b \<le> f a) rows
    \<and> (\<forall>k. filter (\<lambda>r. f r = k) rows = filter (\<lambda>r. f r = k) data)
    \<and> ss_key s' = key
    \<and> ss_dir s' = (if srt = Some \<lparr>ss_key = key, ss_dir = Asc\<rparr> then Desc else Asc)"
proof -
  have s': "s' = toggleSort srt key"
    using assms(1,3) by (simp add: table_update_def header_click_def isServerMode_def current_sort_def)
  have key: "ss_key s' = key" by (simp add: s' toggleSort_def split: option.split)
  have dir: "ss_dir s' = (if srt = Some \<lparr>ss_key = key, ss_dir = Asc\<rparr> then Desc else Asc)"
    by (cases srt; cases "the srt"; cases "ss_dir (the srt)") (auto simp: s' toggleSort_def)
  have "table_rows sm columns (Some s') data = js_sort (compare_rows (sort_value col) (ss_dir s')) data"
    using assms(1,2) key by (simp add: table_rows_def sortRows_def)
  moreover have "sorted_wrt (\<lambda>a b. if ss_dir s' = Asc then sort_value col a \<le> sort_value col b else sort_value col b \<le> sort_value col a)
      (js_sort (compare_rows (sort_value col) (ss_dir s')) data)"
    using js_sort_sorted [of "sort_value col" "ss_dir s'" data] by (simp only: compare_le)
  ultimately show ?thesis
    unfolding Let_def using key dir by (simp only: js_sort_mset js_sort_stable) simp
qed

definition demo_column :: "(int, unit, int) ColumnDef" where
  "demo_column = \<lparr>col_key = ''n'', col_header = Lit ''N'', col_cell = (\<lambda>_. []), col_sortable = True, col_sortValue = None,
     col_cellString = id\<rparr>"

definition client_mode :: "unit server_mode" where
  "client_mode = \<lparr>sm_onSortChange = None, sm_onPageChange = None, sm_totalRows = None, sm_perPage = None,
     sm_currentPage = None, sm_serverSort = None\<rparr>"

theorem header_click_sorts_witness:
  "sorted (table_rows client_mode [demo_column] (Some \<lparr>ss_key = ''n'', ss_dir = Asc\<rparr>) [3, 1, 2])"
proof -
  have "\<not> isServerMode client_mode" "find (\<lambda>c. col_key c = ''n'') [demo_column] = Some demo_column"
    "table_update (header_click client_mode None ''n'') None = Some \<lparr>ss_key = ''n'', ss_dir = Asc\<rparr>"
    by (simp_all add: isServerMode_def client_mode_def demo_column_def table_update_def header_click_def toggleSort_def current_sort_def)
  from header_click_sorts [OF this, of "[3, 1, 2]"] show ?thesis
    by (simp add: Let_def sort_value_def demo_column_def)
qed

lemma totalPages_ceil: "0 < per \<Longrightarrow> (i < totl) \<Longrightarrow> int (i div per) + 1 \<le> totalPages totl per"
proof -
  assume per: "0 < per" and i: "i < totl"
  have "int (i div per) \<le> (int totl - 1) div int per"
    using i by (simp add: zdiv_int zdiv_mono1 per)
  moreover have "(int totl + int per - 1) div int per = (int totl - 1) div int per + 1"
    using div_add_self2 [of "int per" "int totl - 1"] per by (simp add: algebra_simps)
  ultimately show ?thesis by (simp add: totalPages_def)
qed

text \<open>
  Paging stays in range. From a page between 1 and the number of pages the pager only
  requests pages in that range, and it offers the neighbouring pages that exist; every row of the
  result is on one of those pages.
\<close>

theorem pager_in_range:
  assumes "0 < per" and "1 \<le> cur" and "cur \<le> totalPages totl per"
  shows "set (clicks (pager cur (totalPages totl per) PageTo)) =
      ToParent ` PageTo ` ({cur - 1, cur + 1} \<inter> {1 .. totalPages totl per})
    \<and> (\<forall>i < totl. int (i div per) + 1 \<in> {1 .. totalPages totl per})"
proof -
  have "set (clicks (pager cur (totalPages totl per) PageTo)) =
      ToParent ` PageTo ` ({cur - 1, cur + 1} \<inter> {1 .. totalPages totl per})"
    using assms by (auto simp: pager_def image_iff)
  then show ?thesis using totalPages_ceil [OF assms(1)] by auto
qed

theorem pager_in_range_witness: "set (clicks (pager 1 (totalPages 120 50) id)) = {ToParent 2}"
proof -
  have t: "totalPages 120 50 = 3" by (simp add: totalPages_def)
  have "{1 - 1, 1 + 1} \<inter> {1 .. totalPages 120 50} = {2}" by (auto simp: t)
  with pager_in_range [of 50 1 120 id] t show ?thesis by simp
qed

end
