(* ===== verification/Flag_Lists.thy ===== *)
theory Flag_Lists
  imports Flag_Detail Data_Table
begin

text \<open>
  The two lists of flags: those of an environment with their state
  (\<open>web/src/routes/projects/$slug.environments.$envSlug.flags.tsx\<close>), searched and sorted in the
  browser, and those of a project (\<open>web/src/routes/projects/$slug.flags.tsx\<close>), searched,
  sorted and paged by the service. Both share the confirmed deletion, the debounced search
  and the dialog that creates a flag.

  \<open>toLowerCase\<close> and \<open>localeCompare\<close> depend on the Unicode and locale tables of the browser
  and are parameters (\<open>lower\<close>, \<open>localeCompare\<close>).
\<close>

section \<open>Strings\<close>

text \<open>JavaScript compares strings by their UTF-16 code units; strings are UTF-8 here.\<close>

definition cont_bits :: "string \<Rightarrow> nat \<Rightarrow> nat" where
  "cont_bits s i = (if i < length s then (of_char (s ! i) :: nat) mod 64 else 0)"

fun code_units :: "string \<Rightarrow> nat list" where
  "code_units [] = []"
| "code_units (a # s) =
     (let n = (of_char a :: nat) in
      if n < 0xC0 then n # code_units s
      else if n < 0xE0 then ((n - 0xC0) * 64 + cont_bits s 0) # code_units (drop 1 s)
      else if n < 0xF0 then ((n - 0xE0) * 4096 + cont_bits s 0 * 64 + cont_bits s 1) # code_units (drop 2 s)
      else
        (let v = (n - 0xF0) * 262144 + cont_bits s 0 * 4096 + cont_bits s 1 * 64 + cont_bits s 2 - 0x10000
         in (0xD800 + v div 1024) # (0xDC00 + v mod 1024) # code_units (drop 3 s)))"

definition js_includes :: "string \<Rightarrow> string \<Rightarrow> bool" where
  "js_includes t s \<longleftrightarrow> js_index_of t s \<noteq> None"

text \<open>\<open>URLSearchParams.toString\<close>: the form encoding of names and values.\<close>

definition form_safe :: "char \<Rightarrow> bool" where
  "form_safe c \<longleftrightarrow> is_digit c \<or> (0x41 \<le> (of_char c :: nat) \<and> (of_char c :: nat) \<le> 0x5A) \<or> (0x61 \<le> (of_char c :: nat) \<and> (of_char c :: nat) \<le> 0x7A)
     \<or> c \<in> {CHR ''*'', CHR ''-'', CHR ''.'', CHR ''_''}"

definition form_char :: "char \<Rightarrow> string" where
  "form_char c = (if form_safe c then [c] else if c = CHR '' '' then ''+''
     else [CHR ''%'', hex_upper ((of_char c :: nat) div 16), hex_upper ((of_char c :: nat) mod 16)])"

definition form_encode :: "string \<Rightarrow> string" where
  "form_encode s = concat (map form_char s)"

definition params_string :: "(string \<times> string) list \<Rightarrow> string" where
  "params_string ps = js_join ''&'' (map (\<lambda>(k, v). form_encode k @ CHR ''='' # form_encode v) ps)"

section \<open>Search with a delay\<close>

text \<open>
  Changing the term clears the running timer and starts one of 200 ms, whose callback copies the
  term; so the only timer that fires carries the current term.
\<close>

record search =
  sr_term :: string
  sr_debounced :: string

definition sr_init :: search where
  "sr_init = \<lparr>sr_term = [], sr_debounced = []\<rparr>"

definition setSearchTerm :: "string \<Rightarrow> search \<Rightarrow> search \<times> effect list" where
  "setSearchTerm v s = (s\<lparr>sr_term := v\<rparr>, if v = sr_term s then [] else [SetTimer 200])"

definition debounce_fired :: "search \<Rightarrow> search" where
  "debounce_fired s = s\<lparr>sr_debounced := sr_term s\<rparr>"

definition isSearching :: "search \<Rightarrow> bool" where
  "isSearching s \<longleftrightarrow> sr_debounced s \<noteq> []"

section \<open>Confirmed deletion\<close>

text \<open>
  The key waiting for its confirmation, the text typed into the confirmation dialog, which is
  mounted while a key waits, and the state of the deletion's mutation, which is one for all
  flags of the list.
\<close>

record flag_deletion =
  dl_pending :: "string option"
  dl_confirm :: string
  dl_isPending :: bool
  dl_isError :: bool

definition dl_init :: flag_deletion where
  "dl_init = \<lparr>dl_pending = None, dl_confirm = [], dl_isPending = False, dl_isError = False\<rparr>"

datatype deletion_msg = AskDelete string | InDialog delete_msg | Deleted "web_error option"

definition dl_shown :: "flag_deletion \<Rightarrow> bool" where
  "dl_shown d \<longleftrightarrow> (case dl_pending d of Some k \<Rightarrow> k \<noteq> [] | None \<Rightarrow> False)"

definition deletion_update :: "string \<Rightarrow> string list \<Rightarrow> deletion_msg \<Rightarrow> flag_deletion \<Rightarrow> flag_deletion \<times> effect list" where
  "deletion_update slug queryKey msg d = (case msg of
     AskDelete k \<Rightarrow> (d\<lparr>dl_pending := Some k, dl_confirm := (if dl_shown d then dl_confirm d else [])\<rparr>, [])
   | InDialog (ConfirmText v) \<Rightarrow> (d\<lparr>dl_confirm := v\<rparr>, [])
   | InDialog DeleteConfirm \<Rightarrow> (case dl_pending d of
         Some k \<Rightarrow> (d\<lparr>dl_isPending := True, dl_isError := False\<rparr>, [Send ''DELETE'' (flag_path slug k) None])
       | None \<Rightarrow> (d, []))
   | InDialog DeleteCancel \<Rightarrow> (d\<lparr>dl_pending := None\<rparr>, [])
   | InDialog (DeleteOpenChange is_open) \<Rightarrow> (if is_open then d else d\<lparr>dl_pending := None\<rparr>, [])
   | Deleted None \<Rightarrow> (d\<lparr>dl_pending := None, dl_isPending := False\<rparr>, [Invalidate queryKey])
   | Deleted (Some err) \<Rightarrow> (d\<lparr>dl_isPending := False, dl_isError := True\<rparr>, []))"

definition deletion_view :: "flag_deletion \<Rightarrow> deletion_msg html list" where
  "deletion_view d = (case dl_pending d of
     Some k \<Rightarrow> show_if (k \<noteq> []) (map_html InDialog (DeleteConfirmModal_view k (dl_isPending d) (dl_isError d) (dl_confirm d)))
   | None \<Rightarrow> [])"

section \<open>Parts of both lists\<close>

text \<open>The creation dialog, mounted while it is shown.\<close>

definition create_step :: "string \<Rightarrow> string list \<Rightarrow> flag_msg \<Rightarrow> flag_dialog option \<Rightarrow> flag_dialog option \<times> effect list" where
  "create_step slug queryKey m cr = (case cr of
     None \<Rightarrow> (None, [])
   | Some d \<Rightarrow> (case CreateFlagModal_update slug m d of
       (d', outs) \<Rightarrow>
         (if FlagCreatedOut \<in> set outs \<or> FlagCancelOut \<in> set outs then None else Some d',
          concat (map (\<lambda>x. case x of FlagEff e \<Rightarrow> [e] | FlagCreatedOut \<Rightarrow> [Invalidate queryKey] | FlagCancelOut \<Rightarrow> []) outs))))"

definition copyable :: "string \<Rightarrow> utext \<Rightarrow> 'm html" where
  "copyable v label = El ''CopyableCode'' [At ''value'' (Lit v), At ''aria-label'' label] []"

definition type_badge :: "string \<Rightarrow> 'm html" where
  "type_badge ty = El ''span'' [] [Txt (T (''flags:type_badge.'' @ ty) [(''defaultValue'', ty)])]"

definition search_box :: "string \<Rightarrow> (string \<Rightarrow> 'm) \<Rightarrow> search \<Rightarrow> 'm html" where
  "search_box ns f s = El ''div'' []
     ([ui_Input None False None None
        [At ''value'' (Lit (sr_term s)), OnText ''change'' f, At ''placeholder'' (T (ns @ ''.search_placeholder'') []),
         At ''aria-label'' (T (ns @ ''.search_aria'') [])]] @
      show_if (sr_term s \<noteq> []) (El ''button'' [On ''click'' (f []), At ''aria-label'' (T (ns @ ''.search_clear_aria'') [])]
        [El ''svg'' [Flag ''aria-hidden'' True] [El ''path'' [] []]]))"

definition SearchEmptyState_view :: "string \<Rightarrow> 'm \<Rightarrow> 'm html" where
  "SearchEmptyState_view ns clear = El ''div'' [] [El ''p'' [] [tr (ns @ ''.search_no_results'')],
     ui_Button False False [On ''click'' clear] [tr (ns @ ''.search_clear_aria'')]]"

definition delete_button :: "string \<Rightarrow> (string \<Rightarrow> 'm) \<Rightarrow> string \<Rightarrow> 'm html" where
  "delete_button ns ask k = El ''button'' [On ''click'' (ask k), At ''aria-label'' (T (ns @ ''.delete_flag_aria'') [(''key'', k)])]
     [El ''svg'' [Flag ''aria-hidden'' True] [El ''path'' [] []]]"

definition list_error :: "string \<Rightarrow> 'm \<Rightarrow> 'm html" where
  "list_error ns retry = El ''div'' [] [El ''span'' [] [tr (ns @ ''.error''), lit '' ''], El ''button'' [On ''click'' retry] [tr ''common:actions.retry'']]"

definition list_skeleton :: "'m html" where
  "list_skeleton = El ''div'' []
     [El ''div'' [] [El ''div'' [] [], El ''div'' [] []],
      El ''ul'' [] (replicate 3 (El ''li'' [] [El ''div'' [] [El ''div'' [] [], El ''div'' [] [], El ''div'' [] []],
        El ''div'' [] [El ''div'' [] [], El ''div'' [] []]]))]"

section \<open>The flags of an environment\<close>

record FlagItem =
  fi_id :: string
  fi_key :: string
  fi_name :: string
  fi_type :: string
  fi_variants :: "Variant list"
  fi_default_variant_key :: string
  fi_enabled :: bool

record FlagStats =
  fs_last_evaluated_at :: "string option"
  fs_evaluation_count :: nat

definition stats_path :: "string \<Rightarrow> string \<Rightarrow> string \<Rightarrow> string" where
  "stats_path slug envSlug key = env_flag_path slug envSlug key @ ''/stats''"

text \<open>The date of an evaluated flag may be one the formatter throws on.\<close>

definition LastEvaluatedCell_view :: "(relative_date \<Rightarrow> string) \<Rightarrow> int \<Rightarrow> FlagStats option \<Rightarrow> (string, 'm html) result" where
  "LastEvaluatedCell_view intl now data = (case data of
     None \<Rightarrow> Inr (El ''span'' [] [lit [CHR 0xE2, CHR 0x80, CHR 0x94]])
   | Some st \<Rightarrow> (case fs_last_evaluated_at st of
         Some d \<Rightarrow> (if d = [] \<or> fs_evaluation_count st = 0 then Inr (El ''span'' [] [tr ''flags:stats.never_evaluated''])
                    else await (formatRelativeDate now d) (\<lambda>rel. Inr (El ''span'' [] [lit (intl rel)])))
       | None \<Rightarrow> Inr (El ''span'' [] [tr ''flags:stats.never_evaluated''])))"

record flag_list =
  li_search :: search
  li_toggleErrorKey :: "string option"
  li_deletion :: flag_deletion
  li_create :: "flag_dialog option"
  li_sort :: "SortState option"

definition li_init :: flag_list where
  "li_init = \<lparr>li_search = sr_init, li_toggleErrorKey = None, li_deletion = dl_init, li_create = None, li_sort = None\<rparr>"

datatype list_msg =
    ListSearch string
  | ListDebounced
  | ListToggle string bool
  | ListToggled string "web_error option"
  | ListErrorTimer
  | ListDelete deletion_msg
  | ListNew
  | ListCreate flag_msg
  | ListRetry

record list_env =
  le_flags :: "FlagItem list query"
  le_environments :: "Environment list option"
  le_toggle :: "(string \<times> bool) mutation"
  le_stats :: "string \<Rightarrow> FlagStats option"
  le_creating :: bool

definition list_key :: "string \<Rightarrow> string \<Rightarrow> string list" where
  "list_key slug envSlug = [''flags'', slug, envSlug]"

definition FlagListPage_update :: "string \<Rightarrow> string \<Rightarrow> list_msg \<Rightarrow> flag_list \<Rightarrow> flag_list \<times> effect list" where
  "FlagListPage_update slug envSlug msg p = (case msg of
     ListSearch v \<Rightarrow> (case setSearchTerm v (li_search p) of (s, effs) \<Rightarrow> (p\<lparr>li_search := s\<rparr>, effs))
   | ListDebounced \<Rightarrow> (p\<lparr>li_search := debounce_fired (li_search p)\<rparr>, [])
   | ListToggle k enabled \<Rightarrow> (p, [Send ''PATCH'' (env_flag_path slug envSlug k) (Some (JObj [(''enabled'', JBool enabled)]))])
   | ListToggled k None \<Rightarrow> (p, [Invalidate (list_key slug envSlug)])
   | ListToggled k (Some err) \<Rightarrow> (p\<lparr>li_toggleErrorKey := Some k\<rparr>, [SetTimer 3000])
   | ListErrorTimer \<Rightarrow> (p\<lparr>li_toggleErrorKey := None\<rparr>, [])
   | ListDelete m \<Rightarrow> (case deletion_update slug (list_key slug envSlug) m (li_deletion p) of (d, effs) \<Rightarrow> (p\<lparr>li_deletion := d\<rparr>, effs))
   | ListNew \<Rightarrow> (p\<lparr>li_create := (case li_create p of Some d \<Rightarrow> Some d | None \<Rightarrow> Some fd_init)\<rparr>, [])
   | ListCreate m \<Rightarrow> (case create_step slug (list_key slug envSlug) m (li_create p) of (cr, effs) \<Rightarrow> (p\<lparr>li_create := cr\<rparr>, effs))
   | ListRetry \<Rightarrow> (p, [Refetch (list_key slug envSlug)]))"

definition flag_matches :: "(string \<Rightarrow> string) \<Rightarrow> string \<Rightarrow> FlagItem \<Rightarrow> bool" where
  "flag_matches lower term f \<longleftrightarrow> js_includes (lower term) (lower (fi_key f)) \<or> js_includes (lower term) (lower (fi_name f))"

definition filteredFlags :: "(string \<Rightarrow> string) \<Rightarrow> search \<Rightarrow> FlagItem list \<Rightarrow> FlagItem list" where
  "filteredFlags lower s flags = (if \<not> isSearching s then flags else filter (flag_matches lower (sr_debounced s)) flags)"

definition status_button :: "list_env \<Rightarrow> string option \<Rightarrow> FlagItem \<Rightarrow> list_msg html" where
  "status_button e toggleErrorKey f =
     (let failed = (toggleErrorKey = Some (fi_key f)) in
      El ''button'' [On ''click'' (ListToggle (fi_key f) (\<not> fi_enabled f)),
          Flag ''disabled'' (pending_for (\<lambda>v. fst v = fi_key f) (le_toggle e)), Flag ''aria-pressed'' (fi_enabled f),
          At ''aria-label'' (T (if fi_enabled f then ''flags:toggle.disable'' else ''flags:toggle.enable'') [])]
        [ui_StatusBadge (if failed then BadgeWarning else if fi_enabled f then BadgeEnabled else BadgeDisabled)
           (Some (T (if failed then ''flags:toggle.failed'' else if fi_enabled f then ''flags:toggle.enabled'' else ''flags:toggle.disabled'') []))])"

definition plain_column :: "string \<Rightarrow> utext \<Rightarrow> ('r \<Rightarrow> 'm html) \<Rightarrow> ('r, 'm, nat list) ColumnDef" where
  "plain_column key header cell = \<lparr>col_key = key, col_header = header, col_cell = (\<lambda>r. [cell r]), col_sortable = False,
     col_sortValue = None, col_cellString = (\<lambda>_. [])\<rparr>"

definition sortable_column :: "string \<Rightarrow> utext \<Rightarrow> ('r \<Rightarrow> string) \<Rightarrow> ('r \<Rightarrow> 'm html) \<Rightarrow> ('r, 'm, nat list) ColumnDef" where
  "sortable_column key header v cell = (plain_column key header cell)\<lparr>col_sortable := True, col_sortValue := Some (\<lambda>r. code_units (v r))\<rparr>"

text \<open>The cells of the evaluation column are rendered before, since one may throw: \<open>cell\<close> is the result.\<close>

definition flag_columns ::
    "string \<Rightarrow> string \<Rightarrow> list_env \<Rightarrow> flag_list \<Rightarrow> (FlagItem \<Rightarrow> list_msg html) \<Rightarrow> (FlagItem, list_msg, nat list) ColumnDef list" where
  "flag_columns slug envSlug e p last_cell =
     [sortable_column ''key'' (T ''flags:table.col_key'' []) fi_key (\<lambda>f. El ''div'' []
        [link (flags_page slug envSlug @ ''/'' @ fi_key f) [lit (fi_key f)],
         copyable (fi_key f) (T ''flags:list.copy_key_aria'' [(''key'', fi_key f)]), type_badge (fi_type f)]),
      sortable_column ''name'' (T ''flags:table.col_name'' []) fi_name
        (\<lambda>f. link (flags_page slug envSlug @ ''/'' @ fi_key f) [lit (fi_name f)]),
      plain_column ''default_variant'' (T ''flags:table.col_default_variant'' []) (\<lambda>f. El ''span'' [] [lit (fi_default_variant_key f)]),
      plain_column ''last_evaluated'' (T ''flags:table.col_last_evaluated'' []) last_cell,
      plain_column ''status'' (T ''flags:table.col_status'' []) (status_button e (li_toggleErrorKey p)),
      plain_column ''actions'' (Lit []) (\<lambda>f. delete_button ''flags:list'' (\<lambda>k. ListDelete (AskDelete k)) (fi_key f))]"

definition list_flags :: "list_env \<Rightarrow> FlagItem list" where
  "list_flags e = (case q_data (le_flags e) of Some fs \<Rightarrow> fs | None \<Rightarrow> [])"

definition list_envName :: "string \<Rightarrow> list_env \<Rightarrow> string" where
  "list_envName envSlug e = (case le_environments e of
     None \<Rightarrow> envSlug
   | Some es \<Rightarrow> (case find (\<lambda>x. en_slug x = envSlug) es of Some x \<Rightarrow> en_name x | None \<Rightarrow> envSlug))"

definition client_table :: "'m server_mode" where
  "client_table = \<lparr>sm_onSortChange = None, sm_onPageChange = None, sm_totalRows = None, sm_perPage = None, sm_currentPage = None,
     sm_serverSort = None\<rparr>"

definition EmptyState_view :: "list_msg html" where
  "EmptyState_view = El ''div'' [] [El ''h2'' [] [tr ''flags:list.empty_title''], El ''p'' [] [tr ''flags:list.empty_state''],
     ui_Button False False [On ''click'' ListNew] [tr ''flags:list.new_flag'']]"

definition FlagListSkeleton_view :: "'m html" where
  "FlagListSkeleton_view = list_skeleton"

definition FlagListError_view :: "list_msg html" where
  "FlagListError_view = list_error ''flags:list'' ListRetry"

definition list_table ::
    "(string \<Rightarrow> string) \<Rightarrow> string \<Rightarrow> string \<Rightarrow> list_env \<Rightarrow> flag_list \<Rightarrow> (FlagItem \<Rightarrow> list_msg html) \<Rightarrow> list_msg table_msg html" where
  "list_table lower slug envSlug e p last_cell =
     DataTable_view (flag_columns slug envSlug e p last_cell) (filteredFlags lower (li_search p) (list_flags e))
       (Some (if isSearching (li_search p) then SearchEmptyState_view ''flags:list'' (ListSearch []) else EmptyState_view))
       None (Some (Lit (list_envName envSlug e))) False client_table (li_sort p)"

text \<open>The whole page; a message of the table is its own, or one of the page's.\<close>

definition FlagListPage_view ::
    "(string \<Rightarrow> string) \<Rightarrow> (relative_date \<Rightarrow> string) \<Rightarrow> int \<Rightarrow> string \<Rightarrow> string \<Rightarrow> flag_msg html list \<Rightarrow> list_env \<Rightarrow> flag_list
      \<Rightarrow> (string, list_msg table_msg html) result" where
  "FlagListPage_view lower intl now slug envSlug prompt e p =
     (if isLoading (le_flags e) then Inr FlagListSkeleton_view
      else if isError (le_flags e) then Inr (map_html ToParent FlagListError_view)
      else
        (let flags = list_flags e; shown = filteredFlags lower (li_search p) flags; total = show_nat (length flags) in
         await (render_all (map (\<lambda>f. LastEvaluatedCell_view intl now (le_stats e (fi_key f))) shown)) (\<lambda>_.
         Inr (El ''div'' []
          ([PageHeading [\<lparr>an_label = ''common:nav.environments'', an_to = ''/projects/'' @ slug @ ''/environments''\<rparr>] (Lit (list_envName envSlug e)),
            El ''div'' []
              [El ''p'' [] [Txt (if isSearching (li_search p)
                  then T ''flags:list.search_count'' [(''filtered'', show_nat (length shown)), (''total'', total)]
                  else T ''flags:list.flag_count'' [(''count'', total)])],
               ui_Button False False [On ''click'' (ToParent ListNew)] [tr ''flags:list.new_flag'']]] @
           show_if (flags \<noteq> []) (map_html ToParent (search_box ''flags:list'' ListSearch (li_search p))) @
           [list_table lower slug envSlug e p (\<lambda>f. case LastEvaluatedCell_view intl now (le_stats e (fi_key f)) of Inr h \<Rightarrow> h | Inl _ \<Rightarrow> El ''span'' [] [])] @
           (case li_create p of
              Some d \<Rightarrow> [map_html (\<lambda>m. ToParent (ListCreate m)) (CreateFlagModal_view (le_creating e) prompt d)] | None \<Rightarrow> []) @
           map (map_html (\<lambda>m. ToParent (ListDelete m))) (deletion_view (li_deletion p)))))))"

section \<open>The flags of a project\<close>

record ProjectFlagItem =
  pi_id :: string
  pi_key :: string
  pi_name :: string
  pi_type :: string
  pi_variants :: "Variant list"
  pi_default_variant_key :: string
  pi_created_at :: string

record EnvFlagItem =
  ef_id :: string
  ef_key :: string
  ef_enabled :: bool

definition PER_PAGE :: nat where
  "PER_PAGE = 50"

record project_list =
  pf_search :: search
  pf_page :: int
  pf_sort :: "SortState option"
  pf_deletion :: flag_deletion
  pf_create :: "flag_dialog option"

definition pf_init :: project_list where
  "pf_init = \<lparr>pf_search = sr_init, pf_page = 1, pf_sort = None, pf_deletion = dl_init, pf_create = None\<rparr>"

fun dir_value :: "SortDir \<Rightarrow> string" where
  "dir_value Asc = ''asc''"
| "dir_value Desc = ''desc''"

definition sortByMap :: "string \<Rightarrow> string option" where
  "sortByMap k = map_of [(''key'', ''key''), (''name'', ''name''), (''created'', ''created_at'')] k"

text \<open>The request of the list. An absent sort is two \<open>undefined\<close> entries of the query's key, written empty here.\<close>

definition list_params :: "project_list \<Rightarrow> (string \<times> string) list" where
  "list_params p =
     [(''page'', show_int (pf_page p)), (''per_page'', show_nat PER_PAGE)] @
     (if sr_debounced (pf_search p) \<noteq> [] then [(''search'', sr_debounced (pf_search p))] else []) @
     (case pf_sort p of
        Some s \<Rightarrow> (case sortByMap (ss_key s) of Some apiCol \<Rightarrow> [(''sort_by'', apiCol), (''sort_dir'', dir_value (ss_dir s))] | None \<Rightarrow> [])
      | None \<Rightarrow> [])"

definition project_flags_path :: "string \<Rightarrow> project_list \<Rightarrow> string" where
  "project_flags_path slug p = ''/api/v1/projects/'' @ slug @ ''/flags?'' @ params_string (list_params p)"

definition project_list_key :: "string \<Rightarrow> project_list \<Rightarrow> string list" where
  "project_list_key slug p = [''project-flags'', slug, show_int (pf_page p), show_nat PER_PAGE, sr_debounced (pf_search p)] @
     (case pf_sort p of Some s \<Rightarrow> [ss_key s, dir_value (ss_dir s)] | None \<Rightarrow> [[], []])"

datatype project_msg =
    ProjSearch string
  | ProjDebounced
  | ProjPage int
  | ProjSort SortState
  | ProjDelete deletion_msg
  | ProjNew
  | ProjCreate flag_msg
  | ProjRetry

text \<open>A new term runs the effect that goes back to the first page.\<close>

definition ProjectFlagListPage_update :: "string \<Rightarrow> project_msg \<Rightarrow> project_list \<Rightarrow> project_list \<times> effect list" where
  "ProjectFlagListPage_update slug msg p = (case msg of
     ProjSearch v \<Rightarrow> (case setSearchTerm v (pf_search p) of (s, effs) \<Rightarrow> (p\<lparr>pf_search := s\<rparr>, effs))
   | ProjDebounced \<Rightarrow>
       (if sr_debounced (debounce_fired (pf_search p)) = sr_debounced (pf_search p) then p
        else p\<lparr>pf_search := debounce_fired (pf_search p), pf_page := 1\<rparr>, [])
   | ProjPage n \<Rightarrow> (p\<lparr>pf_page := n\<rparr>, [])
   | ProjSort s \<Rightarrow> (p\<lparr>pf_sort := Some s\<rparr>, [])
   | ProjDelete m \<Rightarrow> (case deletion_update slug (project_list_key slug p) m (pf_deletion p) of (d, effs) \<Rightarrow> (p\<lparr>pf_deletion := d\<rparr>, effs))
   | ProjNew \<Rightarrow> (p\<lparr>pf_create := (case pf_create p of Some d \<Rightarrow> Some d | None \<Rightarrow> Some fd_init)\<rparr>, [])
   | ProjCreate m \<Rightarrow> (case create_step slug (project_list_key slug p) m (pf_create p) of (cr, effs) \<Rightarrow> (p\<lparr>pf_create := cr\<rparr>, effs))
   | ProjRetry \<Rightarrow> (p, [Refetch (project_list_key slug p)]))"

text \<open>
  The environment: the page of flags the service answered with and its total (kept from the
  previous request while the next one runs), whether one is running, the environments, and
  the flags of each environment.
\<close>

record project_env =
  pe_flags :: "(ProjectFlagItem list \<times> nat) query"
  pe_isFetching :: bool
  pe_environments :: "Environment list option"
  pe_envFlags :: "string \<Rightarrow> EnvFlagItem list query"
  pe_creating :: bool

definition sortedEnvs :: "(string \<Rightarrow> string \<Rightarrow> int) \<Rightarrow> project_env \<Rightarrow> Environment list" where
  "sortedEnvs localeCompare e = (case pe_environments e of
     Some es \<Rightarrow> js_sort (\<lambda>a b. localeCompare (en_slug a) (en_slug b)) es | None \<Rightarrow> [])"

definition EnvBadge_view :: "EnvFlagItem list query \<Rightarrow> string \<Rightarrow> string \<Rightarrow> 'm html list" where
  "EnvBadge_view q envName flagKey =
     (if isLoading q then [El ''span'' [] [lit envName]]
      else if isError q then []
      else case q_data q of
        None \<Rightarrow> []
      | Some fs \<Rightarrow> (case find (\<lambda>f. ef_key f = flagKey) fs of
          None \<Rightarrow> []
        | Some f \<Rightarrow> [ui_StatusBadge (if ef_enabled f then BadgeEnabled else BadgeDisabled)
            (Some (T (if ef_enabled f then ''flags:project_list.env_badge_enabled'' else ''flags:project_list.env_badge_disabled'')
               [(''env'', envName)]))]))"

definition EnvironmentStatusBadges_view :: "project_env \<Rightarrow> Environment list \<Rightarrow> string \<Rightarrow> 'm html" where
  "EnvironmentStatusBadges_view e envs flagKey =
     El ''div'' [] (concat (map (\<lambda>env. EnvBadge_view (pe_envFlags e (en_slug env)) (en_name env) flagKey) envs))"

definition project_columns ::
    "string \<Rightarrow> project_env \<Rightarrow> Environment list \<Rightarrow> (ProjectFlagItem \<Rightarrow> project_msg html)
      \<Rightarrow> (ProjectFlagItem, project_msg, nat list) ColumnDef list" where
  "project_columns slug e envs created_cell =
     [sortable_column ''key'' (T ''flags:project_list.col_key'' []) pi_key (\<lambda>f. El ''div'' []
        [(case envs of
            env # _ \<Rightarrow> if en_slug env \<noteq> [] then link (flags_page slug (en_slug env) @ ''/'' @ pi_key f) [lit (pi_key f)]
                       else El ''span'' [] [lit (pi_key f)]
          | [] \<Rightarrow> El ''span'' [] [lit (pi_key f)]),
         copyable (pi_key f) (T ''flags:project_list.copy_key_aria'' [(''key'', pi_key f)])]),
      sortable_column ''name'' (T ''flags:project_list.col_name'' []) pi_name (\<lambda>f. El ''span'' [] [lit (pi_name f)]),
      plain_column ''type'' (T ''flags:project_list.col_type'' []) (\<lambda>f. type_badge (pi_type f)),
      plain_column ''variants'' (T ''flags:project_list.col_variants'' []) (\<lambda>f. El ''span'' [] [lit (show_nat (length (pi_variants f)))]),
      sortable_column ''created'' (T ''flags:project_list.col_created'' []) pi_created_at created_cell] @
     (if envs \<noteq> [] then
        [plain_column ''environments'' (T ''flags:project_list.col_environments'' []) (\<lambda>f. EnvironmentStatusBadges_view e envs (pi_key f))]
      else []) @
     [plain_column ''actions'' (Lit []) (\<lambda>f. delete_button ''flags:project_list'' (\<lambda>k. ProjDelete (AskDelete k)) (pi_key f))]"

definition ProjectEmptyState_view :: "project_msg html" where
  "ProjectEmptyState_view = El ''div'' [] [El ''p'' [] [tr ''flags:project_list.empty_state''],
     ui_Button False False [On ''click'' ProjNew] [tr ''flags:project_list.new_flag'']]"

definition ProjectSearchEmptyState_view :: "project_msg html" where
  "ProjectSearchEmptyState_view = SearchEmptyState_view ''flags:project_list'' (ProjSearch [])"

definition ProjectFlagListSkeleton_view :: "'m html" where
  "ProjectFlagListSkeleton_view = list_skeleton"

definition ProjectFlagListError_view :: "project_msg html" where
  "ProjectFlagListError_view = list_error ''flags:project_list'' ProjRetry"

definition page_flags :: "project_env \<Rightarrow> ProjectFlagItem list" where
  "page_flags e = (case q_data (pe_flags e) of Some (fs, n) \<Rightarrow> fs | None \<Rightarrow> [])"

definition page_total :: "project_env \<Rightarrow> nat" where
  "page_total e = (case q_data (pe_flags e) of Some (fs, n) \<Rightarrow> n | None \<Rightarrow> 0)"

definition project_table ::
    "(string \<Rightarrow> string \<Rightarrow> int) \<Rightarrow> string \<Rightarrow> project_env \<Rightarrow> project_list \<Rightarrow> (ProjectFlagItem \<Rightarrow> project_msg html) \<Rightarrow> project_msg table_msg html" where
  "project_table localeCompare slug e p created_cell =
     DataTable_view (project_columns slug e (sortedEnvs localeCompare e) created_cell) (page_flags e)
       (Some (if isSearching (pf_search p) then ProjectSearchEmptyState_view else ProjectEmptyState_view))
       None (Some (T ''flags:project_list.title'' [])) (pe_isFetching e)
       \<lparr>sm_onSortChange = Some ProjSort, sm_onPageChange = Some ProjPage, sm_totalRows = Some (page_total e), sm_perPage = Some PER_PAGE,
        sm_currentPage = Some (pf_page p), sm_serverSort = pf_sort p\<rparr> None"

definition created_cell :: "(relative_date \<Rightarrow> string) \<Rightarrow> int \<Rightarrow> ProjectFlagItem \<Rightarrow> (string, 'm html) result" where
  "created_cell intl now f = await (formatRelativeDate now (pi_created_at f)) (\<lambda>rel. Inr (El ''span'' [] [lit (intl rel)]))"

definition ProjectFlagListPage_view ::
    "(string \<Rightarrow> string \<Rightarrow> int) \<Rightarrow> (relative_date \<Rightarrow> string) \<Rightarrow> int \<Rightarrow> string \<Rightarrow> flag_msg html list \<Rightarrow> project_env \<Rightarrow> project_list
      \<Rightarrow> (string, project_msg table_msg html) result" where
  "ProjectFlagListPage_view localeCompare intl now slug prompt e p =
     (if isLoading (pe_flags e) then Inr ProjectFlagListSkeleton_view
      else if isError (pe_flags e) then Inr (map_html ToParent ProjectFlagListError_view)
      else await (render_all (map (created_cell intl now) (page_flags e) :: (string, project_msg html) result list)) (\<lambda>_.
        Inr (El ''div'' []
          ([PageHeading [] (T ''flags:project_list.title'' []),
            El ''div'' []
              [El ''p'' [] [Txt (if isSearching (pf_search p)
                  then T ''flags:project_list.search_count'' [(''filtered'', show_nat (length (page_flags e))), (''total'', show_nat (page_total e))]
                  else T ''flags:project_list.flag_count'' [(''count'', show_nat (page_total e))])],
               ui_Button False False [On ''click'' (ToParent ProjNew)] [tr ''flags:project_list.new_flag'']],
            map_html ToParent (search_box ''flags:project_list'' ProjSearch (pf_search p)),
            project_table localeCompare slug e p (\<lambda>f. case created_cell intl now f of Inr h \<Rightarrow> h | Inl _ \<Rightarrow> El ''span'' [] [])] @
           (case pf_create p of
              Some d \<Rightarrow> [map_html (\<lambda>m. ToParent (ProjCreate m)) (CreateFlagModal_view (pe_creating e) prompt d)] | None \<Rightarrow> []) @
           map (map_html (\<lambda>m. ToParent (ProjDelete m))) (deletion_view (pf_deletion p))))))"

end
