(* ===== verification/Flag_Lists_Spec.thy ===== *)
theory Flag_Lists_Spec
  imports Flag_Lists
begin

text \<open>
  What the two lists show and request: the rows of a search, the query string the service
  reads, deletions, the toggles, and the limits of the paging.
\<close>

section \<open>Search and order\<close>

lemma js_includes_iff: "js_includes t s \<longleftrightarrow> (\<exists>a b. s = a @ t @ b)"
proof
  assume "js_includes t s"
  then obtain i where "js_index_of t s = Some i" by (auto simp: js_includes_def)
  from js_index_of_SomeD [OF this] obtain b where "drop i s = t @ b" by (auto simp: starts_with_iff)
  then show "\<exists>a b. s = a @ t @ b" by (metis append_take_drop_id)
next
  assume "\<exists>a b. s = a @ t @ b"
  then obtain a b where "s = a @ t @ b" by blast
  then show "js_includes t s"
  proof (induction a arbitrary: s)
    case Nil
    have "js_index_of t (t @ b) = Some 0"
    proof (cases "t @ b")
      case (Cons c r)
      then have "starts_with t (c # r)" by (metis starts_with_append)
      with Cons show ?thesis by simp
    qed simp
    with Nil show ?case by (simp add: js_includes_def)
  next
    case (Cons c a)
    then have "js_includes t (a @ t @ b)" by simp
    with Cons.prems show ?case by (simp add: js_includes_def)
  qed
qed

lemma filteredFlags_eq: "filteredFlags lower s flags = filter (\<lambda>f. sr_debounced s = [] \<or> flag_matches lower (sr_debounced s) f) flags"
  by (simp add: filteredFlags_def isSearching_def)

definition sort_text :: "string \<Rightarrow> FlagItem \<Rightarrow> string" where
  "sort_text key f = (if key = ''key'' then fi_key f else fi_name f)"

text \<open>
  What a search shows. The rows of the list are exactly the flags whose key or name contains the
  searched term, ignoring case, each as often as the service lists it; sorted by key or name they are in the
  order of their code units, upwards or downwards as the header says, and flags with equal values
  keep the order of the service. An empty search shows all flags.
\<close>

theorem search_shows_matches:
  "let rows = (\<lambda>srt. table_rows client_table (flag_columns slug envSlug e p last_cell) srt (filteredFlags lower s flags));
       hit = (\<lambda>f. sr_debounced s = [] \<or> (\<exists>a b. lower (fi_key f) = a @ lower (sr_debounced s) @ b
         \<or> lower (fi_name f) = a @ lower (sr_debounced s) @ b)) in
   (\<forall>srt. mset (rows srt) = filter_mset hit (mset flags)) \<and> rows None = filter hit flags
   \<and> (\<forall>srt. ss_key srt \<in> {''key'', ''name''} \<longrightarrow>
        (let f = (\<lambda>x. code_units (sort_text (ss_key srt) x)) in
         sorted_wrt (\<lambda>x y. if ss_dir srt = Asc then f x \<le> f y else f y \<le> f x) (rows (Some srt))
         \<and> (\<forall>t. filter (\<lambda>x. f x = t) (rows (Some srt)) = filter (\<lambda>x. f x = t) (filter hit flags))))"
proof -
  let ?rows = "\<lambda>srt. table_rows client_table (flag_columns slug envSlug e p last_cell) srt (filteredFlags lower s flags)"
  let ?hit = "\<lambda>f. sr_debounced s = [] \<or> (\<exists>a b. lower (fi_key f) = a @ lower (sr_debounced s) @ b
         \<or> lower (fi_name f) = a @ lower (sr_debounced s) @ b)"
  have "(sr_debounced s = [] \<or> flag_matches lower (sr_debounced s) f) = ?hit f" for f
    by (auto simp: flag_matches_def js_includes_iff)
  then have flt: "filteredFlags lower s flags = filter ?hit flags" by (simp only: filteredFlags_eq)
  have client: "\<not> isServerMode client_table" by (simp add: isServerMode_def client_table_def)
  have none: "?rows None = filter ?hit flags" unfolding flt by (simp add: table_rows_def)
  have "mset (?rows srt) = filter_mset ?hit (mset flags)" for srt
    unfolding flt by (simp add: table_rows_def sortRows_def js_sort_mset split: option.split)
  moreover have "let f = (\<lambda>x. code_units (sort_text (ss_key srt) x)) in
       sorted_wrt (\<lambda>x y. if ss_dir srt = Asc then f x \<le> f y else f y \<le> f x) (?rows (Some srt))
       \<and> (\<forall>t. filter (\<lambda>x. f x = t) (?rows (Some srt)) = filter (\<lambda>x. f x = t) (filter ?hit flags))"
    if "ss_key srt \<in> {''key'', ''name''}" for srt
  proof -
    let ?f = "\<lambda>x. code_units (sort_text (ss_key srt) x)"
    have "\<exists>col. find (\<lambda>c. col_key c = ss_key srt) (flag_columns slug envSlug e p last_cell) = Some col \<and> sort_value col = ?f"
      using that by (auto simp: flag_columns_def sortable_column_def plain_column_def sort_value_def sort_text_def)
    then have "?rows (Some srt) = js_sort (compare_rows ?f (ss_dir srt)) (filter ?hit flags)"
      unfolding flt using client by (auto simp: table_rows_def sortRows_def)
    then show ?thesis
      unfolding Let_def using js_sort_sorted [of ?f "ss_dir srt" "filter ?hit flags"]
      by (simp only: compare_le js_sort_stable) simp
  qed
  ultimately show ?thesis unfolding Let_def using none by blast
qed

definition demo_item :: "string \<Rightarrow> string \<Rightarrow> FlagItem" where
  "demo_item k n = \<lparr>fi_id = k, fi_key = k, fi_name = n, fi_type = ''bool'', fi_variants = [], fi_default_variant_key = ''false'', fi_enabled = True\<rparr>"

definition demo_list_env :: list_env where
  "demo_list_env = \<lparr>le_flags = \<lparr>isLoading = False, q_error = None, q_data = Some [demo_item ''dark'' ''Dark'', demo_item ''beta'' ''Beta'']\<rparr>,
     le_environments = None, le_toggle = \<lparr>isPending = False, m_variables = None\<rparr>, le_stats = (\<lambda>_. None), le_creating = False\<rparr>"

theorem search_shows_matches_witness:
  "table_rows client_table (flag_columns ''shop'' ''prod'' demo_list_env li_init (\<lambda>_. lit [])) None
     (filteredFlags id \<lparr>sr_term = ''ar'', sr_debounced = ''ar''\<rparr> [demo_item ''dark'' ''Dark'', demo_item ''beta'' ''Beta'']) =
   [demo_item ''dark'' ''Dark'']"
proof -
  let ?s = "\<lparr>sr_term = ''ar'', sr_debounced = ''ar''\<rparr>"
  have d: "\<exists>a b. ''dark'' = a @ ''ar'' @ b" by (rule exI [of _ "''d''"], rule exI [of _ "''k''"]) simp
  have "\<not> js_includes ''ar'' ''beta''" "\<not> js_includes ''ar'' ''Beta''" by code_simp+
  then have b: "\<not> (\<exists>a b. ''beta'' = a @ ''ar'' @ b)" "\<not> (\<exists>a b. ''Beta'' = a @ ''ar'' @ b)" by (simp_all only: js_includes_iff not_False_eq_True)
  have "table_rows client_table (flag_columns ''shop'' ''prod'' demo_list_env li_init (\<lambda>_. lit [])) None
     (filteredFlags id ?s [demo_item ''dark'' ''Dark'', demo_item ''beta'' ''Beta'']) =
     filter (\<lambda>f. sr_debounced ?s = [] \<or> (\<exists>a b. id (fi_key f) = a @ id (sr_debounced ?s) @ b \<or> id (fi_name f) = a @ id (sr_debounced ?s) @ b))
       [demo_item ''dark'' ''Dark'', demo_item ''beta'' ''Beta'']"
    using search_shows_matches [of "''shop''" "''prod''" demo_list_env li_init "\<lambda>_. lit []" id ?s "[demo_item ''dark'' ''Dark'', demo_item ''beta'' ''Beta'']"]
    unfolding Let_def by blast
  also have "\<dots> = [demo_item ''dark'' ''Dark'']"
    using d b unfolding filter.simps by (simp only: demo_item_def FlagItem.simps search.simps id_apply ex_disj_distrib) auto
  finally show ?thesis .
qed

section \<open>The query of the project list\<close>

text \<open>How the service reads a query string.\<close>

definition hex_digit_val :: "char \<Rightarrow> nat" where
  "hex_digit_val c = length (takeWhile (\<lambda>x. x \<noteq> c) hex_digits)"

fun form_decode :: "string \<Rightarrow> string" where
  "form_decode [] = []"
| "form_decode (c # s) =
     (if c = CHR ''+'' then CHR '' '' # form_decode s
      else if c = CHR ''%'' then (case s of h # l # s' \<Rightarrow> char_of (16 * hex_digit_val h + hex_digit_val l) # form_decode s' | _ \<Rightarrow> c # form_decode s)
      else c # form_decode s)"

definition parse_params :: "string \<Rightarrow> (string \<times> string) list" where
  "parse_params q = map (\<lambda>part. (form_decode (takeWhile (\<lambda>c. c \<noteq> CHR ''='') part), form_decode (tl (dropWhile (\<lambda>c. c \<noteq> CHR ''='') part))))
     (js_split (CHR ''&'') q)"

lemma hex_digit_val_upper: "n < 16 \<Longrightarrow> hex_digit_val (hex_upper n) = n"
proof -
  have "\<forall>n \<in> set [0..<16]. hex_digit_val (hex_upper n) = n" by code_simp
  then show "n < 16 \<Longrightarrow> hex_digit_val (hex_upper n) = n" by simp
qed

lemma form_safe_plain: "form_safe c \<Longrightarrow> c \<notin> {CHR ''+'', CHR ''%'', CHR '' '', CHR ''&'', CHR ''=''}"
  by (auto simp: form_safe_def is_digit_def)

lemma form_decode_char: "form_decode (form_char c @ s) = c # form_decode s"
proof -
  have "16 * hex_digit_val (hex_upper ((of_char c :: nat) div 16)) + hex_digit_val (hex_upper ((of_char c :: nat) mod 16)) = of_char c"
    by (simp add: hex_digit_val_upper of_char_div_lt)
  then show ?thesis using form_safe_plain [of c] by (auto simp: form_char_def)
qed

lemma form_round_trip: "form_decode (form_encode s) = s"
proof (induction s)
  case (Cons c s)
  then show ?case using form_decode_char [of c "form_encode s"] by (simp add: form_encode_def)
qed (simp add: form_encode_def)

lemma hex_upper_plain: "n < 16 \<Longrightarrow> hex_upper n \<notin> {CHR ''&'', CHR ''=''}"
  using hex_upper_unreserved [of n] by (auto simp: hex_digits_def)

lemma form_encode_plain: "c \<in> set (form_encode s) \<Longrightarrow> c \<notin> {CHR ''&'', CHR ''=''}"
proof (induction s)
  case (Cons x s)
  have "c \<notin> {CHR ''&'', CHR ''=''}" if "c \<in> set (form_char x)"
    using that form_safe_plain [of x] hex_upper_plain [OF of_char_div_lt [of x]] hex_upper_plain [of "(of_char x :: nat) mod 16"]
    by (auto simp: form_char_def split: if_splits)
  with Cons show ?case by (auto simp: form_encode_def)
qed (simp add: form_encode_def)

lemma params_round_trip:
  assumes "ps \<noteq> []"
  shows "parse_params (params_string ps) = ps"
proof -
  let ?part = "\<lambda>(k, v). form_encode k @ CHR ''='' # form_encode v"
  have amp: "CHR ''&'' \<notin> set (?part x)" for x using form_encode_plain by (cases x) auto
  have split: "js_split (CHR ''&'') (params_string ps) = map ?part ps"
    unfolding params_string_def by (rule js_split_join) (use amp assms in auto)
  have eq: "\<forall>c \<in> set (form_encode k). c \<noteq> CHR ''=''" for k using form_encode_plain by blast
  have "(form_decode (takeWhile (\<lambda>c. c \<noteq> CHR ''='') (?part x)), form_decode (tl (dropWhile (\<lambda>c. c \<noteq> CHR ''='') (?part x)))) = x" for x
    by (cases x) (simp add: takeWhile_append dropWhile_append eq form_round_trip)
  then show ?thesis unfolding parse_params_def split by (simp add: o_def)
qed



section \<open>Deletion\<close>

definition deletion_can :: "unit \<Rightarrow> flag_deletion \<Rightarrow> deletion_msg \<Rightarrow> bool" where
  "deletion_can = (\<lambda>_ d m. (\<exists>h \<in> set (deletion_view d). offered h m) \<or> (\<exists>k. m = AskDelete k) \<or> (\<exists>r. m = Deleted r))"

lemma modal_offers_confirm: "offered (DeleteConfirmModal_view k deleting failed typed) DeleteConfirm \<longleftrightarrow> typed = k \<and> \<not> deleting"
  by (auto simp: DeleteConfirmModal_view_def Let_def show_if_def)

lemma confirm_offered:
  "(\<exists>h \<in> set (deletion_view d). offered h (InDialog DeleteConfirm)) \<longleftrightarrow>
     (\<exists>k. dl_pending d = Some k \<and> k \<noteq> [] \<and> dl_confirm d = k) \<and> \<not> dl_isPending d"
  by (cases "dl_pending d") (auto simp: deletion_view_def modal_offers_confirm show_if_def)

text \<open>What the messages so far justify: the waiting key, the typed text and the requests.\<close>

definition deletion_justified :: "string \<Rightarrow> deletion_msg set \<Rightarrow> flag_deletion \<Rightarrow> effect list \<Rightarrow> bool" where
  "deletion_justified slug M d outs \<longleftrightarrow>
     (\<forall>meth path b. Send meth path b \<in> set outs \<longrightarrow> meth = ''DELETE'' \<and> b = None \<and>
        (\<exists>k. path = flag_path slug k \<and> AskDelete k \<in> M \<and> InDialog (ConfirmText k) \<in> M))
     \<and> (\<forall>k. dl_pending d = Some k \<longrightarrow> AskDelete k \<in> M)
     \<and> (dl_confirm d = [] \<or> InDialog (ConfirmText (dl_confirm d)) \<in> M)"

lemma deletion_justified_step:
  assumes "deletion_justified slug M d outs" and "deletion_can u d m" and "deletion_update slug queryKey m d = (d', os)"
  shows "deletion_justified slug (insert m M) d' (outs @ os)"
proof -
  have conf: "\<exists>k. dl_pending d = Some k \<and> k \<noteq> [] \<and> dl_confirm d = k" if "m = InDialog DeleteConfirm"
    using assms(2) that confirm_offered [of d] by (simp add: deletion_can_def)
  show ?thesis
  proof (cases m)
    case (InDialog x)
    then show ?thesis
      using assms(1,3) conf by (cases x) (auto simp: deletion_justified_def deletion_update_def split: option.splits if_splits, blast+)
  next
    case (Deleted r)
    then show ?thesis using assms(1,3) by (cases r) (auto simp: deletion_justified_def deletion_update_def)
  next
    case (AskDelete k)
    then show ?thesis using assms(1,3) by (auto simp: deletion_justified_def deletion_update_def split: if_splits, blast+)
  qed
qed

lemma deletion_run_justified:
  "page_run (\<lambda>_. deletion_update slug queryKey) deletion_can dl_init ems d outs \<Longrightarrow> deletion_justified slug (set (map snd ems)) d outs"
proof (induction rule: page_run.induct)
  case (run_snoc ems d1 outs u m d2 os)
  then show ?case using deletion_justified_step [OF run_snoc.IH run_snoc.hyps(2,3)] by simp
qed (simp add: deletion_justified_def dl_init_def)

text \<open>
  C31: a flag is deleted only after its key was typed. In every run of the deletion dialog of a
  list, each deletion that is sent is that of a flag whose deletion was asked for and whose key was
  typed, letter by letter, into the dialog before.
\<close>

theorem deletion_needs_typed_key:
  assumes "page_run (\<lambda>_. deletion_update slug queryKey) deletion_can dl_init ems d outs" and "Send meth path b \<in> set outs"
  shows "meth = ''DELETE'' \<and> b = None \<and>
    (\<exists>k. path = flag_path slug k \<and> AskDelete k \<in> set (map snd ems) \<and> InDialog (ConfirmText k) \<in> set (map snd ems))"
  using deletion_run_justified [OF assms(1)] assms(2) unfolding deletion_justified_def by blast

definition ask_and_type :: "string \<Rightarrow> (unit \<times> deletion_msg) list" where
  "ask_and_type k = [((), AskDelete k), ((), InDialog (ConfirmText k)), ((), InDialog DeleteConfirm)]"

theorem deletion_needs_typed_key_witness:
  "\<exists>d. page_run (\<lambda>_. deletion_update ''shop'' [''flags'']) deletion_can dl_init (ask_and_type ''dark'') d [Send ''DELETE'' (flag_path ''shop'' ''dark'') None]
     \<and> InDialog (ConfirmText ''dark'') \<in> set (map snd (ask_and_type ''dark''))"
proof -
  let ?r = "page_run (\<lambda>_. deletion_update ''shop'' [''flags'']) deletion_can dl_init"
  let ?d1 = "dl_init\<lparr>dl_pending := Some ''dark''\<rparr>" let ?d2 = "?d1\<lparr>dl_confirm := ''dark''\<rparr>" let ?d3 = "?d2\<lparr>dl_isPending := True\<rparr>"
  have "?r ([] @ [((), AskDelete ''dark'')]) ?d1 ([] @ [])"
    by (rule page_run.run_snoc [OF page_run.run_Nil]) (simp_all add: deletion_can_def deletion_update_def dl_init_def dl_shown_def)
  then have "?r (([] @ [((), AskDelete ''dark'')]) @ [((), InDialog (ConfirmText ''dark''))]) ?d2 (([] @ []) @ [])"
    by (rule page_run.run_snoc)
      (simp_all add: deletion_can_def deletion_update_def deletion_view_def DeleteConfirmModal_view_def Let_def dl_init_def show_if_def)
  then have "?r ((([] @ [((), AskDelete ''dark'')]) @ [((), InDialog (ConfirmText ''dark''))]) @ [((), InDialog DeleteConfirm)]) ?d3
      ((([] @ []) @ []) @ [Send ''DELETE'' (flag_path ''shop'' ''dark'') None])"
    by (rule page_run.run_snoc) (simp_all add: deletion_can_def confirm_offered deletion_update_def dl_init_def)
  then have run: "?r (ask_and_type ''dark'') ?d3 [Send ''DELETE'' (flag_path ''shop'' ''dark'') None]" by (simp add: ask_and_type_def)
  from deletion_needs_typed_key [OF run, of "''DELETE''" "flag_path ''shop'' ''dark''" None]
  have "InDialog (ConfirmText ''dark'') \<in> set (map snd (ask_and_type ''dark''))" by (auto simp: flag_path_def)
  with run show ?thesis by blast
qed

text \<open>
  A failed deletion is reported at another flag. The mutation's error outlives the dialog: after the
  deletion of one flag failed and its dialog was closed, asking for the deletion of another
  flag shows that flag's dialog with the failure, although only the first flag's deletion was requested.
\<close>

theorem failure_shown_for_other_flag:
  assumes "a \<noteq> []" and "b \<noteq> []"
  shows "case dialog_run (deletion_update slug queryKey) dl_init
      [AskDelete a, InDialog (ConfirmText a), InDialog DeleteConfirm, Deleted (Some err), InDialog DeleteCancel, AskDelete b] of
    (d, effs) \<Rightarrow> effs = [Send ''DELETE'' (flag_path slug a) None] \<and>
      (\<exists>h. deletion_view d = [h] \<and> T ''flags:delete.body'' [(''key'', b)] \<in> set (texts h) \<and> T ''flags:delete.failed'' [] \<in> set (texts h))"
  using assms
  by (simp add: dialog_run_def deletion_update_def dl_init_def dl_shown_def deletion_view_def show_if_def DeleteConfirmModal_view_def Let_def
      ui_Dialog_def ui_DialogContent_def)

theorem failure_shown_for_other_flag_witness:
  "\<exists>h. deletion_view (fst (dialog_run (deletion_update ''shop'' [''flags'']) dl_init
      [AskDelete ''a'', InDialog (ConfirmText ''a''), InDialog DeleteConfirm, Deleted (Some (OtherError ''offline'')), InDialog DeleteCancel, AskDelete ''b''])) = [h]
    \<and> T ''flags:delete.failed'' [] \<in> set (texts h)"
  using failure_shown_for_other_flag [of "''a''" "''b''" "''shop''" "[''flags'']" "OtherError ''offline''"]
  by (auto simp: case_prod_beta)

section \<open>Toggles\<close>

text \<open>
  A row's switch asks for the opposite of what it shows. The control of a flag's row is offered unless a toggle of that very flag
  is running, and pressing it requests the state the row does not show, for that flag in
  the page's environment. A failed toggle is shown at its flag until three seconds are over, but the timer of
  an earlier failure, of whichever flag, ends it sooner.
\<close>

theorem list_toggle:
  "(offered (status_button e err f) m \<longleftrightarrow>
      m = ListToggle (fi_key f) (\<not> fi_enabled f) \<and> \<not> pending_for (\<lambda>v. fst v = fi_key f) (le_toggle e))
   \<and> snd (FlagListPage_update slug envSlug (ListToggle (fi_key f) (\<not> fi_enabled f)) p) =
       [Send ''PATCH'' (env_flag_path slug envSlug (fi_key f)) (Some (JObj [(''enabled'', JBool (\<not> fi_enabled f))]))]
   \<and> (T ''flags:toggle.failed'' [] \<in> set (texts (status_button e err f)) \<longleftrightarrow> err = Some (fi_key f))
   \<and> (case dialog_run (FlagListPage_update slug envSlug) p [ListToggled a (Some x), ListToggled (fi_key f) (Some y)] of (p1, effs) \<Rightarrow>
        li_toggleErrorKey p1 = Some (fi_key f) \<and> effs = [SetTimer 3000, SetTimer 3000] \<and>
        li_toggleErrorKey (fst (FlagListPage_update slug envSlug ListErrorTimer p1)) = None)"
  by (auto simp: status_button_def Let_def ui_StatusBadge_def FlagListPage_update_def dialog_run_def)

section \<open>Paging\<close>

lemma table_offers:
  assumes "offered (DataTable_view columns data emptyState None label loading sm srt) (ToParent m)"
  shows "(\<exists>col \<in> set columns. col_sortable col \<and> header_click sm srt (col_key col) = ToParent m)
    \<or> (\<exists>col \<in> set columns. \<exists>r. \<exists>h \<in> set (col_cell col r). offered h m)
    \<or> (\<exists>h. emptyState = Some h \<and> offered h m)
    \<or> (\<exists>totl per cur f. sm_totalRows sm = Some totl \<and> sm_perPage sm = Some per \<and> sm_currentPage sm = Some cur \<and> sm_onPageChange sm = Some f
        \<and> 1 < totalPages totl per \<and> offered (pager cur (totalPages totl per) f) (ToParent m))"
proof -
  have header: "offered (header_cell sm srt col) (ToParent m) \<longleftrightarrow> col_sortable col \<and> header_click sm srt (col_key col) = ToParent m" for col
    by (auto simp: header_cell_def Let_def sort_icon_def aria_sort_def)
  have row: "\<exists>col \<in> set columns. \<exists>h \<in> set (col_cell col r). offered h m" if "offered (table_row columns None r) (ToParent m)" for r
    using that by (auto simp: table_row_def)
  show ?thesis
    using assms unfolding DataTable_view_def Let_def
    by (auto simp: header show_if_def dest!: row split: option.splits if_splits)
qed

lemma pager_offers: "offered (pager cur pages f) (ToParent m) \<longleftrightarrow> (1 < cur \<and> m = f (cur - 1)) \<or> (cur < pages \<and> m = f (cur + 1))"
  by (auto simp: pager_def)

lemma project_cells_offer:
  assumes "col \<in> set (project_columns slug e envs cell)" and "h \<in> set (col_cell col r)" and "offered h (ProjPage n)"
    and "\<And>f. \<not> offered (cell f) (ProjPage n)"
  shows False
proof -
  have badge: "\<not> offered g m" if "g \<in> set (EnvBadge_view q nm k)" for g q nm k and m :: project_msg
    using that by (auto simp: EnvBadge_view_def ui_StatusBadge_def split: if_splits option.splits)
  show ?thesis
    using assms badge
    by (auto simp: project_columns_def sortable_column_def plain_column_def copyable_def type_badge_def delete_button_def
        EnvironmentStatusBadges_view_def split: if_splits list.splits)
qed

lemma search_box_offers: "offered (search_box ns f s) m \<Longrightarrow> \<exists>v. m = f v"
  by (auto simp: search_box_def show_if_def split: if_splits)

lemma created_cell_offers: "created_cell intl now f = Inr h \<Longrightarrow> \<not> offered h m"
  by (auto simp: created_cell_def await_eq_Inr)

lemma project_table_offers:
  assumes "offered (project_table localeCompare slug e p cell) (ToParent (ProjPage n))" and "\<And>f. \<not> offered (cell f) (ProjPage n)"
  shows "1 < totalPages (page_total e) PER_PAGE \<and> (n = pf_page p - 1 \<and> 1 < pf_page p \<or> n = pf_page p + 1)"
proof -
  have "\<not> offered (if isSearching (pf_search p) then ProjectSearchEmptyState_view else ProjectEmptyState_view) (ProjPage n)"
    by (simp add: ProjectSearchEmptyState_view_def SearchEmptyState_view_def ProjectEmptyState_view_def)
  moreover have "\<not> offered h (ProjPage n)"
    if "col \<in> set (project_columns slug e (sortedEnvs localeCompare e) cell)" "h \<in> set (col_cell col r)" for col h r
    using project_cells_offer [OF that _ assms(2)] by blast
  ultimately show ?thesis
    using table_offers [OF assms(1) [unfolded project_table_def]]
    by (auto simp: header_click_def Let_def pager_offers)
qed

lemma project_page_offers:
  assumes "ProjectFlagListPage_view localeCompare intl now slug prompt e p = Inr h" and "offered h (ToParent (ProjPage n))"
  shows "1 < totalPages (page_total e) PER_PAGE \<and> (n = pf_page p - 1 \<and> 1 < pf_page p \<or> n = pf_page p + 1)"
proof -
  let ?cell = "\<lambda>f. case created_cell intl now f of Inr h \<Rightarrow> h | Inl _ \<Rightarrow> El ''span'' [] []"
  have cell: "\<not> offered (?cell f) (ProjPage n)" for f by (cases "created_cell intl now f :: (string, project_msg html) result") (auto dest: created_cell_offers)
  have "offered (project_table localeCompare slug e p ?cell) (ToParent (ProjPage n))"
    using assms
    by (auto simp: ProjectFlagListPage_view_def await_eq_Inr ProjectFlagListSkeleton_view_def list_skeleton_def
        ProjectFlagListError_view_def list_error_def PageHeading_def dest!: search_box_offers
        split: if_splits option.splits)
  from project_table_offers [OF this cell] show ?thesis .
qed

text \<open>What can come on the page: what it offers, the timer of the search, and responses.\<close>

definition project_can ::
    "(string \<Rightarrow> string \<Rightarrow> int) \<Rightarrow> (relative_date \<Rightarrow> string) \<Rightarrow> string \<Rightarrow> project_env \<times> int \<times> flag_msg html list \<Rightarrow> project_list \<Rightarrow> project_msg \<Rightarrow> bool" where
  "project_can localeCompare intl slug = (\<lambda>(e, now, prompt) p m.
     (\<exists>h. ProjectFlagListPage_view localeCompare intl now slug prompt e p = Inr h \<and> offered h (ToParent m))
     \<or> m = ProjDebounced \<or> (\<exists>r. m = ProjDelete (Deleted r)) \<or> (\<exists>r. m = ProjCreate (FlagSettled r)))"

interpretation paging: page "\<lambda>_. ProjectFlagListPage_update slug" "project_can localeCompare intl slug" "\<lambda>p. 1 \<le> pf_page p" "\<lambda>_. True"
  for slug localeCompare intl
proof unfold_locales
  fix p en m
  assume inv: "1 \<le> pf_page p" and can: "project_can localeCompare intl slug en p m"
  obtain e now prompt where en: "en = (e, now, prompt)" by (cases en)
  have "1 \<le> n" if "m = ProjPage n" for n
    using can project_page_offers [of localeCompare intl now slug prompt e p _ n] that inv by (auto simp: project_can_def en)
  then show "1 \<le> pf_page (fst (ProjectFlagListPage_update slug m p))"
    using inv by (cases m) (auto simp: ProjectFlagListPage_update_def setSearchTerm_def split: prod.splits)
qed simp

text \<open>
  The page number. Whatever the user does, the list is on a page from one on, and a new search
  starts on the first page, so the service is never asked for a page before the first one.
\<close>

theorem page_number_positive:
  assumes "page_run (\<lambda>_. ProjectFlagListPage_update slug) (project_can localeCompare intl slug) pf_init ems p outs"
  shows "1 \<le> pf_page p
    \<and> (sr_term (pf_search p) \<noteq> sr_debounced (pf_search p) \<longrightarrow>
        pf_page (fst (ProjectFlagListPage_update slug ProjDebounced p)) = 1
        \<and> sr_debounced (pf_search (fst (ProjectFlagListPage_update slug ProjDebounced p))) = sr_term (pf_search p))"
  using paging.run_page [OF assms] by (simp add: pf_init_def ProjectFlagListPage_update_def debounce_fired_def)

theorem page_number_positive_witness:
  "1 \<le> pf_page (fst (ProjectFlagListPage_update ''shop'' ProjDebounced (pf_init\<lparr>pf_search := \<lparr>sr_term = ''a'', sr_debounced = []\<rparr>\<rparr>)))"
proof -
  let ?e = "(\<lparr>pe_flags = \<lparr>isLoading = False, q_error = None, q_data = None\<rparr>, pe_isFetching = False, pe_environments = None,
      pe_envFlags = (\<lambda>_. \<lparr>isLoading = True, q_error = None, q_data = None\<rparr>), pe_creating = False\<rparr>, 0 :: int, [] :: flag_msg html list)"
  let ?run = "page_run (\<lambda>_. ProjectFlagListPage_update ''shop'') (project_can (\<lambda>_ _. 0) (\<lambda>_. []) ''shop'') pf_init"
  have "?run ([] @ [(?e, ProjSearch ''a'')]) (pf_init\<lparr>pf_search := \<lparr>sr_term = ''a'', sr_debounced = []\<rparr>\<rparr>) ([] @ [SetTimer 200])"
    by (rule page_run.run_snoc [OF page_run.run_Nil])
      (auto simp: project_can_def ProjectFlagListPage_view_def isError_def page_flags_def search_box_def ProjectFlagListPage_update_def
        setSearchTerm_def pf_init_def sr_init_def)
  from page_number_positive [OF this] show ?thesis by simp
qed

text \<open>
  The last page can be lost. A deletion leaves the page number as it is. When the flags of a project fit on one page
  but the list is on a later one (the only flag of the second page was deleted), it
  says that there are no flags, next to their count, and offers no other page.
\<close>

theorem empty_last_page:
  assumes "page_flags e = []" and "page_total e \<le> 50" and "\<not> pe_isFetching e" and "\<not> isSearching (pf_search p)"
    and "\<not> isLoading (pe_flags e)" and "\<not> isError (pe_flags e)"
  shows "(\<exists>h. ProjectFlagListPage_view localeCompare intl now slug prompt e p = Inr h
      \<and> T ''flags:project_list.empty_state'' [] \<in> set (texts h)
      \<and> T ''flags:project_list.flag_count'' [(''count'', show_nat (page_total e))] \<in> set (texts h)
      \<and> (\<forall>n. \<not> offered h (ToParent (ProjPage n))))
    \<and> pf_page (fst (ProjectFlagListPage_update slug (ProjDelete (Deleted None)) p)) = pf_page p"
proof -
  have pages: "totalPages (page_total e) PER_PAGE = 1"
    using assms(2) zdiv_mono1 [of "int (page_total e) + 49" 99 50] by (simp add: totalPages_def PER_PAGE_def max_def add.commute)
  obtain h where h: "ProjectFlagListPage_view localeCompare intl now slug prompt e p = Inr h"
    using assms by (simp add: ProjectFlagListPage_view_def)
  have "T ''flags:project_list.empty_state'' [] \<in> set (texts h)"
    using h assms
    by (auto simp: ProjectFlagListPage_view_def project_table_def DataTable_view_def table_rows_def ProjectEmptyState_view_def)
  moreover have "T ''flags:project_list.flag_count'' [(''count'', show_nat (page_total e))] \<in> set (texts h)"
    using h assms by (auto simp: ProjectFlagListPage_view_def)
  moreover have "\<not> offered h (ToParent (ProjPage n))" for n using project_page_offers [OF h, of n] pages by auto
  ultimately show ?thesis using h by (auto simp: ProjectFlagListPage_update_def deletion_update_def split: prod.splits)
qed

definition demo_last_page :: project_env where
  "demo_last_page = \<lparr>pe_flags = \<lparr>isLoading = False, q_error = None, q_data = Some ([], 50)\<rparr>, pe_isFetching = False, pe_environments = None,
     pe_envFlags = (\<lambda>_. \<lparr>isLoading = True, q_error = None, q_data = None\<rparr>), pe_creating = False\<rparr>"

theorem empty_last_page_witness:
  "\<exists>h. ProjectFlagListPage_view (\<lambda>_ _. 0) (\<lambda>_. []) 0 ''shop'' [] demo_last_page (pf_init\<lparr>pf_page := 2\<rparr>) = Inr h
     \<and> T ''flags:project_list.empty_state'' [] \<in> set (texts h)
     \<and> T ''flags:project_list.flag_count'' [(''count'', show_nat 50)] \<in> set (texts h)"
proof -
  have "page_flags demo_last_page = []" "page_total demo_last_page \<le> 50" "\<not> pe_isFetching demo_last_page"
    "\<not> isSearching (pf_search (pf_init\<lparr>pf_page := 2\<rparr>))" "\<not> isLoading (pe_flags demo_last_page)" "\<not> isError (pe_flags demo_last_page)"
    by (simp_all add: demo_last_page_def page_flags_def page_total_def isSearching_def pf_init_def sr_init_def isError_def)
  moreover have "page_total demo_last_page = 50" by (simp add: demo_last_page_def page_total_def)
  ultimately show ?thesis
    using empty_last_page [of demo_last_page "pf_init\<lparr>pf_page := 2\<rparr>" "\<lambda>_ _. 0" "\<lambda>_. []" 0 "''shop''" "[]"] by (simp only: ) blast
qed

end
