(* ===== verification/Segments_Page.thy ===== *)
theory Segments_Page
  imports Dialogs_Spec Js_Date
begin

text \<open>
  The segment page of a project (\<open>web/src/routes/projects/$slug.segments.tsx\<close>): the list, the
  dialogs that create, rename and delete a segment, and the member editor. All four
  dialogs stay mounted while they are closed, so their state outlives the segment they were
  opened for; the effects that follow \<open>segment\<close> and \<open>fetchedMembers\<close> are
  messages of their own.
\<close>

section \<open>Creating\<close>

record Segment =
  se_id :: string
  se_slug :: string
  se_name :: string
  se_projectId :: string
  se_createdAt :: string
  se_memberCount :: nat

definition seg_validateSlug :: "string \<Rightarrow> utext option" where
  "seg_validateSlug = validate_key ''segments:create.slug_too_long'' ''segments:create.slug_invalid''"

record seg_dialog =
  sd_name :: string
  sd_slug :: string
  sd_slugTouched :: bool
  sd_slugError :: "utext option"
  sd_serverError :: "utext option"

definition sd_init :: seg_dialog where
  "sd_init = \<lparr>sd_name = [], sd_slug = [], sd_slugTouched = False, sd_slugError = None, sd_serverError = None\<rparr>"

datatype seg_msg =
    SegName string
  | SegSlug string
  | SegSlugBlur
  | SegSubmit
  | SegSettled "web_error option"
  | SegCancel
  | SegOpenChange bool

datatype seg_out = SegEff effect | SegCreatedOut | SegCancelOut

definition segments_path :: "string \<Rightarrow> string" where
  "segments_path slug = ''/api/v1/projects/'' @ slug @ ''/segments''"

definition seg_error :: "web_error \<Rightarrow> seg_dialog \<Rightarrow> seg_dialog" where
  "seg_error err d = (case err of
     APIError st m c \<Rightarrow>
       (if st = 409 \<or> c = ''conflict'' then d\<lparr>sd_slugError := Some (T ''segments:create.slug_conflict'' [])\<rparr>
        else if st = 400 \<and> c = ''validation_error'' then d\<lparr>sd_slugError := Some (Lit m)\<rparr>
        else d\<lparr>sd_serverError := Some (Lit m)\<rparr>)
   | OtherError m \<Rightarrow> d\<lparr>sd_serverError := Some (T ''segments:create.server_error'' [])\<rparr>)"

definition seg_submit :: "string \<Rightarrow> seg_dialog \<Rightarrow> seg_dialog \<times> seg_out list" where
  "seg_submit slug d =
     (if js_trim (sd_name d) = [] then (d, [])
      else case seg_validateSlug (sd_slug d) of
        Some err \<Rightarrow> (d\<lparr>sd_slugError := Some err\<rparr>, [])
      | None \<Rightarrow>
          (if sd_slug d = [] then (d\<lparr>sd_slugError := Some (T ''segments:create.slug_required'' [])\<rparr>, [])
           else (d\<lparr>sd_serverError := None\<rparr>,
             [SegEff (Send ''POST'' (segments_path slug) (Some (JObj [(''name'', JStr (sd_name d)), (''slug'', JStr (sd_slug d))])))])))"

definition CreateSegmentModal_update :: "string \<Rightarrow> seg_msg \<Rightarrow> seg_dialog \<Rightarrow> seg_dialog \<times> seg_out list" where
  "CreateSegmentModal_update slug msg d = (case msg of
     SegName v \<Rightarrow> (if sd_slugTouched d then d\<lparr>sd_name := v\<rparr>
                   else d\<lparr>sd_name := v, sd_slug := slugify v, sd_slugError := seg_validateSlug (slugify v)\<rparr>, [])
   | SegSlug v \<Rightarrow> (d\<lparr>sd_slug := v, sd_slugTouched := True, sd_slugError := None, sd_serverError := None\<rparr>, [])
   | SegSlugBlur \<Rightarrow> (d\<lparr>sd_slugError := seg_validateSlug (sd_slug d)\<rparr>, [])
   | SegSubmit \<Rightarrow> seg_submit slug d
   | SegSettled None \<Rightarrow> (d, [SegCreatedOut])
   | SegSettled (Some err) \<Rightarrow> (seg_error err d, [])
   | SegCancel \<Rightarrow> (d, [SegCancelOut])
   | SegOpenChange is_open \<Rightarrow> (d, if is_open then [] else [SegCancelOut]))"

definition CreateSegmentModal_view :: "bool \<Rightarrow> bool \<Rightarrow> seg_dialog \<Rightarrow> seg_msg html" where
  "CreateSegmentModal_view is_open pending d =
     (let bad = (\<not> no_error (sd_slugError d)) in
      ui_Dialog is_open SegOpenChange [ui_DialogContent
       [ui_DialogHeader [ui_DialogTitle [tr ''segments:create.title'']],
        El ''form'' [On ''submit'' SegSubmit]
          ([El ''div'' []
              [ui_Label ''seg-name'' [tr ''segments:create.name_label''],
               ui_Input None False (Some ''seg-name'') None
                 [At ''type'' (Lit ''text''), Flag ''autofocus'' True, At ''value'' (Lit (sd_name d)), OnText ''change'' SegName,
                  At ''placeholder'' (T ''segments:create.name_placeholder'' [])]],
            El ''div'' []
              ([ui_Label ''seg-slug'' [tr ''segments:create.slug_label''],
                ui_Input None bad (Some ''seg-slug'') (if bad then Some ''seg-slug-error'' else None)
                  [At ''type'' (Lit ''text''), At ''value'' (Lit (sd_slug d)), OnText ''change'' SegSlug, On ''blur'' SegSlugBlur,
                   At ''placeholder'' (T ''segments:create.slug_placeholder'' [])]] @
               (case sd_slugError d of Some e \<Rightarrow> show_if bad (El ''p'' [At ''id'' (Lit ''seg-slug-error'')] [Txt e]) | None \<Rightarrow> []))] @
           error_text (sd_serverError d) @
           [ui_DialogFooter
             [ui_Button False pending [At ''type'' (Lit ''button''), On ''click'' SegCancel] [tr ''common:actions.cancel''],
              ui_Button pending (bad \<or> js_trim (sd_name d) = [] \<or> sd_slug d = []) [At ''type'' (Lit ''submit'')]
                [tr ''common:actions.create'']]])]])"

section \<open>Renaming\<close>

record seg_edit =
  sx_name :: string
  sx_serverError :: "utext option"

datatype seg_edit_msg =
    SegEditShown Segment
  | SegEditName string
  | SegEditSubmit
  | SegEditSettled "(web_error, Segment) result"
  | SegEditCancel
  | SegEditOpenChange bool

datatype seg_edit_out = SegEditEff effect | SegSavedOut Segment | SegEditCancelOut

text \<open>\<open>SegEditShown\<close> is the effect that follows the segment. A rejected \<open>No segment\<close> sends nothing.\<close>

definition EditSegmentModal_update ::
    "string \<Rightarrow> Segment option \<Rightarrow> seg_edit_msg \<Rightarrow> seg_edit \<Rightarrow> seg_edit \<times> seg_edit_out list" where
  "EditSegmentModal_update projectSlug segment msg d = (case msg of
     SegEditShown s \<Rightarrow> (d\<lparr>sx_name := se_name s\<rparr>, [])
   | SegEditName v \<Rightarrow> (d\<lparr>sx_name := v, sx_serverError := None\<rparr>, [])
   | SegEditSubmit \<Rightarrow>
       (if js_trim (sx_name d) = [] then (d, [])
        else (d\<lparr>sx_serverError := None\<rparr>, case segment of
            None \<Rightarrow> []
          | Some s \<Rightarrow> [SegEditEff (Send ''PATCH'' (segments_path projectSlug @ ''/'' @ se_slug s) (Some (JObj [(''name'', JStr (sx_name d))])))]))
   | SegEditSettled (Inr updated) \<Rightarrow> (d, [SegSavedOut updated])
   | SegEditSettled (Inl err) \<Rightarrow> (d\<lparr>sx_serverError := Some (api_or (T ''segments:edit.server_error'' []) err)\<rparr>, [])
   | SegEditCancel \<Rightarrow> (d, [SegEditCancelOut])
   | SegEditOpenChange is_open \<Rightarrow> (d, if is_open then [] else [SegEditCancelOut]))"

definition EditSegmentModal_view :: "bool \<Rightarrow> Segment option \<Rightarrow> bool \<Rightarrow> seg_edit \<Rightarrow> seg_edit_msg html" where
  "EditSegmentModal_view is_open segment pending d =
     ui_Dialog is_open SegEditOpenChange [ui_DialogContent
       [ui_DialogHeader [ui_DialogTitle [tr ''segments:edit.title'']],
        El ''form'' [On ''submit'' SegEditSubmit]
          ([El ''div'' []
              [ui_Label ''edit-seg-name'' [tr ''segments:edit.name_label''],
               ui_Input None False (Some ''edit-seg-name'') None
                 [At ''type'' (Lit ''text''), Flag ''autofocus'' True, At ''value'' (Lit (sx_name d)), OnText ''change'' SegEditName]],
            El ''div'' []
              [El ''label'' [] [tr ''segments:edit.slug_label''],
               El ''div'' [] (case segment of Some s \<Rightarrow> [lit (se_slug s)] | None \<Rightarrow> []),
               El ''p'' [] [tr ''segments:edit.slug_immutable'']]] @
           error_text (sx_serverError d) @
           [ui_DialogFooter
             [ui_Button False pending [At ''type'' (Lit ''button''), On ''click'' SegEditCancel] [tr ''common:actions.cancel''],
              ui_Button pending (js_trim (sx_name d) = []) [At ''type'' (Lit ''submit'')] [tr ''common:actions.save'']]])]]"

section \<open>Members\<close>

record members_dialog =
  mm_members :: "string list"
  mm_addKey :: string
  mm_addError :: "utext option"
  mm_bulkText :: string
  mm_showBulk :: bool
  mm_saveError :: "utext option"

definition mm_init :: members_dialog where
  "mm_init = \<lparr>mm_members = [], mm_addKey = [], mm_addError = None, mm_bulkText = [], mm_showBulk = False, mm_saveError = None\<rparr>"

datatype members_msg =
    MembersFetched "string list"
  | MembersAddKey string
  | MembersAdd
  | MembersRemove string
  | MembersBulkText string
  | MembersBulkToggle
  | MembersBulkApply
  | MembersSettled "web_error option"
  | MembersOpenChange bool

datatype members_out = MembersEff effect | MembersCancelOut

definition members_path :: "string \<Rightarrow> Segment \<Rightarrow> string" where
  "members_path projectSlug s = segments_path projectSlug @ ''/'' @ se_slug s @ ''/members''"

definition membersKey :: "string \<Rightarrow> Segment \<Rightarrow> string list" where
  "membersKey projectSlug s = [''segments'', projectSlug, se_slug s, ''members'']"

definition save_members :: "string \<Rightarrow> Segment \<Rightarrow> string list \<Rightarrow> members_out" where
  "save_members projectSlug s keys =
     MembersEff (Send ''PUT'' (members_path projectSlug s) (Some (JObj [(''members'', JArr (map JStr keys))])))"

definition handleAddMember :: "string \<Rightarrow> Segment \<Rightarrow> members_dialog \<Rightarrow> members_dialog \<times> members_out list" where
  "handleAddMember projectSlug s d =
     (let key = js_trim (mm_addKey d) in
      if key = [] then (d, [])
      else if key \<in> set (mm_members d) then (d\<lparr>mm_addError := Some (T ''segments:members.duplicate_key'' [])\<rparr>, [])
      else (d\<lparr>mm_members := mm_members d @ [key], mm_addKey := [], mm_addError := None\<rparr>,
            [save_members projectSlug s (mm_members d @ [key])]))"

definition bulk_keys :: "string \<Rightarrow> string list" where
  "bulk_keys bulkText = fold set_add (filter (\<lambda>k. k \<noteq> []) (map js_trim (js_split nl bulkText))) []"

text \<open>The dialog can be used only while it shows a segment, which is the argument \<open>s\<close>.\<close>

definition ManageMembersModal_update ::
    "string \<Rightarrow> Segment \<Rightarrow> members_msg \<Rightarrow> members_dialog \<Rightarrow> members_dialog \<times> members_out list" where
  "ManageMembersModal_update projectSlug s msg d = (case msg of
     MembersFetched ms \<Rightarrow> (d\<lparr>mm_members := ms\<rparr>, [])
   | MembersAddKey v \<Rightarrow> (d\<lparr>mm_addKey := v, mm_addError := None\<rparr>, [])
   | MembersAdd \<Rightarrow> handleAddMember projectSlug s d
   | MembersRemove key \<Rightarrow>
       (let nx = filter (\<lambda>m. m \<noteq> key) (mm_members d) in (d\<lparr>mm_members := nx\<rparr>, [save_members projectSlug s nx]))
   | MembersBulkText v \<Rightarrow> (d\<lparr>mm_bulkText := v\<rparr>, [])
   | MembersBulkToggle \<Rightarrow>
       (if \<not> mm_showBulk d then d\<lparr>mm_bulkText := js_join [nl] (mm_members d), mm_showBulk := True\<rparr> else d\<lparr>mm_showBulk := False\<rparr>, [])
   | MembersBulkApply \<Rightarrow>
       (let deduped = bulk_keys (mm_bulkText d) in
        (d\<lparr>mm_members := deduped, mm_showBulk := False\<rparr>, [save_members projectSlug s deduped]))
   | MembersSettled None \<Rightarrow> (d\<lparr>mm_saveError := None\<rparr>, [MembersEff (Invalidate (membersKey projectSlug s))])
   | MembersSettled (Some err) \<Rightarrow> (d\<lparr>mm_saveError := Some (api_or (T ''segments:members.save_failed'' []) err)\<rparr>, [])
   | MembersOpenChange is_open \<Rightarrow> (d, if is_open then [] else [MembersCancelOut]))"

definition member_line :: "bool \<Rightarrow> string \<Rightarrow> members_msg html" where
  "member_line pending key = El ''li'' []
     [El ''span'' [] [lit key],
      El ''button'' [On ''click'' (MembersRemove key), Flag ''disabled'' pending,
          At ''aria-label'' (T ''segments:members.remove_aria'' [(''key'', key)])]
        [El ''svg'' [Flag ''aria-hidden'' True] [El ''path'' [] []]]]"

definition members_body :: "bool \<Rightarrow> members_dialog \<Rightarrow> members_msg html list" where
  "members_body pending d =
     [El ''div'' []
        [text_input (\<not> no_error (mm_addError d)) (mm_addKey d) MembersAddKey
           [On ''enter'' MembersAdd, At ''placeholder'' (T ''segments:members.add_placeholder'' []),
            At ''aria-label'' (T ''segments:members.add_aria'' [])],
         ui_Button False (js_trim (mm_addKey d) = [] \<or> pending) [At ''type'' (Lit ''button''), On ''click'' MembersAdd]
           [tr ''segments:members.add_button'']]] @
     error_text (mm_addError d) @
     [El ''div'' []
        [if mm_members d = [] then El ''p'' [] [tr ''segments:members.no_members'']
         else El ''ul'' [] (map (member_line pending) (mm_members d))],
      El ''div'' []
        ([El ''button'' [On ''click'' MembersBulkToggle]
            [tr (if mm_showBulk d then ''segments:members.bulk_hide'' else ''segments:members.bulk_show'')]] @
         show_if (mm_showBulk d) (El ''div'' []
           [ui_Textarea None False None None
              [At ''value'' (Lit (mm_bulkText d)), OnText ''change'' MembersBulkText, At ''rows'' (Lit ''5''),
               At ''placeholder'' (T ''segments:members.bulk_placeholder'' []), At ''aria-label'' (T ''segments:members.bulk_aria'' [])],
            ui_Button pending False [At ''type'' (Lit ''button''), On ''click'' MembersBulkApply] [tr ''segments:members.bulk_apply'']]))] @
     error_text (mm_saveError d)"

definition ManageMembersModal_view ::
    "bool \<Rightarrow> Segment option \<Rightarrow> string list query \<Rightarrow> bool \<Rightarrow> members_dialog \<Rightarrow> members_msg html" where
  "ManageMembersModal_view is_open segment q pending d =
     ui_Dialog is_open MembersOpenChange [ui_DialogContent
       (ui_DialogHeader
          [ui_DialogTitle [Txt (T ''segments:members.title'' (case segment of Some s \<Rightarrow> [(''slug'', se_slug s)] | None \<Rightarrow> []))],
           ui_DialogCloseButton (MembersOpenChange False)] #
        (if isLoading q then [El ''div'' [] (replicate 3 (El ''div'' [] []))]
         else if isError q then [El ''p'' [] [tr ''segments:members.failed_to_load'']]
         else members_body pending d))]"

section \<open>The page\<close>

record segments_page =
  sl_showCreate :: bool
  sl_pendingDelete :: "Segment option"
  sl_editing :: "Segment option"
  sl_managing :: "Segment option"

definition sl_init :: segments_page where
  "sl_init = \<lparr>sl_showCreate = False, sl_pendingDelete = None, sl_editing = None, sl_managing = None\<rparr>"

text \<open>
  What the page itself reacts to: its own buttons and what the dialogs report to it. The
  cached list is part of the state of the query client and is rewritten by a saved name.
\<close>

datatype list_msg =
    ShowCreate
  | CreateDone
  | CreateCancelled
  | EditSegment Segment
  | EditSaved Segment
  | EditCancelled
  | ManageSegment Segment
  | ManageCancelled
  | AskDeleteSegment Segment
  | ConfirmDeleteSegment
  | SegmentDeleted bool
  | DeleteCancelled
  | DeleteOpened bool
  | RetryList

definition SegmentListPage_update ::
    "string \<Rightarrow> list_msg \<Rightarrow> segments_page \<times> Segment list option \<Rightarrow> (segments_page \<times> Segment list option) \<times> effect list" where
  "SegmentListPage_update slug msg = (\<lambda>(p, cached). case msg of
     ShowCreate \<Rightarrow> ((p\<lparr>sl_showCreate := True\<rparr>, cached), [])
   | CreateDone \<Rightarrow> ((p\<lparr>sl_showCreate := False\<rparr>, cached), [Invalidate [''segments'', slug]])
   | CreateCancelled \<Rightarrow> ((p\<lparr>sl_showCreate := False\<rparr>, cached), [])
   | EditSegment s \<Rightarrow> ((p\<lparr>sl_editing := Some s\<rparr>, cached), [])
   | EditSaved u \<Rightarrow> ((p\<lparr>sl_editing := None\<rparr>, map_option (map (\<lambda>s. if se_id s = se_id u then u else s)) cached), [])
   | EditCancelled \<Rightarrow> ((p\<lparr>sl_editing := None\<rparr>, cached), [])
   | ManageSegment s \<Rightarrow> ((p\<lparr>sl_managing := Some s\<rparr>, cached), [])
   | ManageCancelled \<Rightarrow> ((p\<lparr>sl_managing := None\<rparr>, cached), [])
   | AskDeleteSegment s \<Rightarrow> ((p\<lparr>sl_pendingDelete := Some s\<rparr>, cached), [])
   | ConfirmDeleteSegment \<Rightarrow> ((p, cached), case sl_pendingDelete p of
         None \<Rightarrow> [] | Some s \<Rightarrow> [Send ''DELETE'' (segments_path slug @ ''/'' @ se_slug s) None])
   | SegmentDeleted ok \<Rightarrow> if ok then ((p\<lparr>sl_pendingDelete := None\<rparr>, cached), [Invalidate [''segments'', slug]]) else ((p, cached), [])
   | DeleteCancelled \<Rightarrow> ((p\<lparr>sl_pendingDelete := None\<rparr>, cached), [])
   | DeleteOpened is_open \<Rightarrow> ((if is_open then p else p\<lparr>sl_pendingDelete := None\<rparr>, cached), [])
   | RetryList \<Rightarrow> ((p, cached), [Refetch [''segments'', slug]]))"

text \<open>\<open>intl\<close> renders relative dates, \<open>full\<close> is \<open>toLocaleString\<close> of the browser.\<close>

definition SegmentRow_view ::
    "(relative_date \<Rightarrow> string) \<Rightarrow> (int option \<Rightarrow> string) \<Rightarrow> int \<Rightarrow> Segment \<Rightarrow> (string, list_msg html) result" where
  "SegmentRow_view intl full now s = await (formatRelativeDate now (se_createdAt s)) (\<lambda>rel. Inr (El ''li'' []
     [El ''div'' []
        [El ''span'' [] [lit (se_slug s)], El ''span'' [] [lit (se_name s)],
         El ''span'' [] [Txt (T ''segments:members_count'' [(''count'', show_nat (se_memberCount s))])]],
      El ''div'' []
        [El ''time'' [At ''datetime'' (Lit (se_createdAt s)), At ''title'' (Lit (full (date_parse (se_createdAt s))))] [lit (intl rel)],
         ui_Button False False [On ''click'' (ManageSegment s)] [tr ''segments:members.members_button''],
         El ''button'' [On ''click'' (EditSegment s), At ''aria-label'' (T ''segments:edit_aria'' [(''slug'', se_slug s)])]
           [El ''svg'' [Flag ''aria-hidden'' True] [El ''path'' [] []]],
         El ''button'' [On ''click'' (AskDeleteSegment s), At ''aria-label'' (T ''segments:delete_aria'' [(''slug'', se_slug s)])]
           [El ''svg'' [Flag ''aria-hidden'' True] [El ''path'' [] []]]]]))"

definition SegmentEmptyState_view :: "list_msg html" where
  "SegmentEmptyState_view = El ''div'' []
     [El ''h2'' [] [tr ''segments:empty_title''], El ''p'' [] [tr ''segments:empty_state''],
      ui_Button False False [On ''click'' ShowCreate] [tr ''segments:new_segment'']]"

definition DeleteSegmentModal_view :: "Segment option \<Rightarrow> bool \<Rightarrow> bool \<Rightarrow> list_msg html" where
  "DeleteSegmentModal_view segment isDeleting deleteFailed =
     ui_Dialog (segment \<noteq> None) DeleteOpened [ui_DialogContent
       ([ui_DialogHeader ([ui_DialogTitle [tr ''segments:delete.title'']] @
           (case segment of Some s \<Rightarrow> [ui_DialogDescription [Txt (T ''segments:delete.body'' [(''slug'', se_slug s)])]] | None \<Rightarrow> [])),
         El ''p'' [] [tr ''segments:delete.warning'']] @
        show_if deleteFailed (El ''p'' [] [tr ''segments:delete.failed'']) @
        [ui_DialogFooter
          [ui_Button False isDeleting [Flag ''autofocus'' True, At ''type'' (Lit ''button''), On ''click'' DeleteCancelled]
             [tr ''common:actions.cancel''],
           ui_Button isDeleting False [At ''type'' (Lit ''button''), On ''click'' ConfirmDeleteSegment] [tr ''common:actions.delete'']]])]"

definition SegmentListSkeleton_view :: "'m html" where
  "SegmentListSkeleton_view = El ''div'' []
     [El ''div'' [] [El ''div'' [] [], El ''div'' [] []],
      El ''ul'' [] (replicate 3 (El ''li'' []
        [El ''div'' [] [El ''div'' [] [], El ''div'' [] []],
         El ''div'' [] [El ''div'' [] [], El ''div'' [] [], El ''div'' [] [], El ''div'' [] []]]))]"

text \<open>The page around its dialogs, whose trees are the argument \<open>modals\<close>.\<close>

definition SegmentListPage_view ::
    "(relative_date \<Rightarrow> string) \<Rightarrow> (int option \<Rightarrow> string) \<Rightarrow> int \<Rightarrow> Segment list query \<Rightarrow> list_msg html list
       \<Rightarrow> (string, list_msg html) result" where
  "SegmentListPage_view intl full now q modals =
     (if isLoading q then Inr SegmentListSkeleton_view
      else if isError q then
        Inr (El ''div'' [] [El ''span'' [] [tr ''segments:error'', lit '' ''],
          El ''button'' [On ''click'' RetryList] [tr ''common:actions.retry'']])
      else
        (let segments = (case q_data q of Some ss \<Rightarrow> ss | None \<Rightarrow> []);
             heading = El ''div'' [] [El ''h1'' [] [tr ''segments:title''],
               ui_Button False False [On ''click'' ShowCreate] [tr ''segments:new_segment'']]
         in if segments = [] then Inr (El ''div'' [] ([heading, SegmentEmptyState_view] @ modals))
            else await (render_all (map (SegmentRow_view intl full now) segments)) (\<lambda>rows.
              Inr (El ''div'' [] ([heading, El ''ul'' [] rows] @ modals)))))"

end
