(* ===== verification/Segments_Spec.thy ===== *)
theory Segments_Spec
  imports Segments_Page
begin

text \<open>
  What the segment page guarantees: only valid segments are requested, member lists are saved
  without blanks and duplicates, the bulk editor reads back what it shows, only asked-for
  segments are deleted; and how state that outlives its segment overwrites another one.
\<close>

section \<open>Creating\<close>

definition seg_inv :: "seg_dialog \<Rightarrow> bool" where
  "seg_inv d \<longleftrightarrow> (sd_slugTouched d \<or> sd_slug d = slugify (sd_name d))"

definition seg_request_ok :: "string \<Rightarrow> seg_out \<Rightarrow> bool" where
  "seg_request_ok slug x = (case x of
     SegEff (Send meth path b) \<Rightarrow> meth = ''POST'' \<and> path = segments_path slug \<and>
       (\<exists>nm sl. b = Some (JObj [(''name'', JStr nm), (''slug'', JStr sl)]) \<and> js_trim nm \<noteq> [] \<and> KEY_RE sl \<and> js_length sl \<le> 128)
   | _ \<Rightarrow> True)"

lemma seg_submit_ok: "x \<in> set (snd (seg_submit p d)) \<Longrightarrow> seg_request_ok p x"
  by (auto simp: seg_submit_def seg_request_ok_def seg_validateSlug_def validate_key_None split: if_splits option.splits)

lemma seg_submit_frame [simp]:
  "sd_name (fst (seg_submit p d)) = sd_name d" "sd_slug (fst (seg_submit p d)) = sd_slug d"
  "sd_slugTouched (fst (seg_submit p d)) = sd_slugTouched d"
  by (simp_all add: seg_submit_def split: option.split)

interpretation seg: dialog "CreateSegmentModal_update p" sd_init seg_inv "seg_request_ok p" for p
proof unfold_locales
  show "seg_inv sd_init" by (simp add: seg_inv_def sd_init_def)
next
  fix s m
  assume "seg_inv s"
  then show "seg_inv (fst (CreateSegmentModal_update p m s))"
    by (cases m) (simp_all add: seg_inv_def CreateSegmentModal_update_def seg_error_def
        split: option.split web_error.split)
next
  fix s m x
  assume "x \<in> set (snd (CreateSegmentModal_update p m s))"
  then show "seg_request_ok p x"
    by (cases m) (auto simp: CreateSegmentModal_update_def seg_submit_ok, auto simp: seg_request_ok_def split: option.splits if_splits)
qed

text \<open>
  Requests of the segment dialog. Over any sequence of user actions and responses only
  segments with a non-blank name and a valid slug of at most 128 characters are requested. The
  dialog keeps its fields when the segment was created or the dialog was closed, so it opens
  again with the previous segment's name and slug.
\<close>

theorem segment_requests_valid:
  "let (d, outs) = dialog_run (CreateSegmentModal_update p) sd_init msgs in
   (\<forall>meth path b. SegEff (Send meth path b) \<in> set outs \<longrightarrow> meth = ''POST'' \<and> path = segments_path p \<and>
      (\<exists>nm sl. b = Some (JObj [(''name'', JStr nm), (''slug'', JStr sl)]) \<and> js_trim nm \<noteq> [] \<and> KEY_RE sl \<and> js_length sl \<le> 128))
   \<and> (\<not> sd_slugTouched d \<longrightarrow> sd_slug d = slugify (sd_name d))
   \<and> fst (CreateSegmentModal_update p (SegSettled None) d) = d \<and> fst (CreateSegmentModal_update p SegCancel d) = d"
proof -
  obtain d outs where r: "dialog_run (CreateSegmentModal_update p) sd_init msgs = (d, outs)" by fastforce
  then have run: "seg.run p msgs = (d, outs)" by (simp add: dialog_run_def seg.run_def)
  have inv: "seg_inv d" using seg.run_inv [of p msgs] run by simp
  have "seg_request_ok p x" if "x \<in> set outs" for x using seg.run_outputs [of x p msgs] run that by simp
  then show ?thesis
    unfolding r using inv by (fastforce simp: seg_inv_def seg_request_ok_def CreateSegmentModal_update_def)
qed

theorem segment_requests_valid_witness:
  "sd_slug (fst (dialog_run (CreateSegmentModal_update ''shop'') sd_init [SegName ''Beta users''])) = slugify ''Beta users''"
  using segment_requests_valid [of "''shop''" "[SegName ''Beta users'']"]
  by (simp add: dialog_run_def CreateSegmentModal_update_def sd_init_def)

section \<open>Members\<close>

lemma fold_set_add_props: "distinct acc \<Longrightarrow> distinct (fold set_add xs acc) \<and> set (fold set_add xs acc) = set xs \<union> set acc"
  by (induction xs arbitrary: acc) (auto simp: set_add_def)

lemma fold_set_add_distinct: "distinct (acc @ xs) \<Longrightarrow> fold set_add xs acc = acc @ xs"
proof (induction xs arbitrary: acc)
  case (Cons x xs)
  then have "set_add x acc = acc @ [x]" by (simp add: set_add_def)
  with Cons.IH [of "acc @ [x]"] Cons.prems show ?case by simp
qed simp

lemma bulk_keys_props: "distinct (bulk_keys s)" "[] \<notin> set (bulk_keys s)"
  using fold_set_add_props [of "[]" "filter (\<lambda>k. k \<noteq> []) (map js_trim (js_split nl s))"] by (simp_all add: bulk_keys_def)

definition member_text :: "string \<Rightarrow> bool" where
  "member_text k \<longleftrightarrow> k \<noteq> [] \<and> js_trim k = k \<and> nl \<notin> set k"

lemma js_trim_Nil: "js_trim [] = []"
  by (simp add: js_trim_def)

lemma bulk_round_trip:
  assumes "distinct ms" and "list_all member_text ms"
  shows "bulk_keys (js_join [nl] ms) = ms"
proof (cases ms)
  case Nil
  then show ?thesis by (simp add: bulk_keys_def js_trim_Nil)
next
  case (Cons m rest)
  have "js_split nl (js_join [nl] ms) = ms" using assms(2) Cons by (intro js_split_join) (auto simp: list_all_iff member_text_def)
  moreover have "map js_trim ms = ms" "filter (\<lambda>k. k \<noteq> []) ms = ms"
    using assms(2) by (simp_all add: list_all_iff member_text_def map_idI)
  ultimately show ?thesis using fold_set_add_distinct [of "[]" ms] assms(1) by (simp add: bulk_keys_def)
qed

definition members_ok :: "members_dialog \<Rightarrow> bool" where
  "members_ok d \<longleftrightarrow> distinct (mm_members d) \<and> [] \<notin> set (mm_members d)"

text \<open>
  The environment of the member editor: the shown segment, its query and whether a save is
  running. The service lists each member once and never a blank one.
\<close>

definition members_can :: "Segment \<times> string list query \<times> bool \<Rightarrow> members_dialog \<Rightarrow> members_msg \<Rightarrow> bool" where
  "members_can = (\<lambda>(s, q, pending) d m.
     offered (ManageMembersModal_view True (Some s) q pending d) m
     \<or> (\<exists>ms. m = MembersFetched ms \<and> distinct ms \<and> [] \<notin> set ms) \<or> (\<exists>r. m = MembersSettled r))"

definition members_upd ::
    "string \<Rightarrow> Segment \<times> string list query \<times> bool \<Rightarrow> members_msg \<Rightarrow> members_dialog \<Rightarrow> members_dialog \<times> members_out list" where
  "members_upd p = (\<lambda>(s, q, pending). ManageMembersModal_update p s)"

definition members_saved :: "string \<Rightarrow> members_out \<Rightarrow> bool" where
  "members_saved p x = (case x of
     MembersEff (Send meth path b) \<Rightarrow> meth = ''PUT'' \<and> (\<exists>s keys. path = members_path p s \<and>
       b = Some (JObj [(''members'', JArr (map JStr keys))]) \<and> distinct keys \<and> [] \<notin> set keys)
   | _ \<Rightarrow> True)"

lemma save_members_saved: "distinct keys \<Longrightarrow> [] \<notin> set keys \<Longrightarrow> members_saved p (save_members p s keys)"
  by (auto simp: members_saved_def save_members_def)

lemma add_member_step:
  assumes "members_ok d"
  shows "members_ok (fst (handleAddMember p s d))" "x \<in> set (snd (handleAddMember p s d)) \<Longrightarrow> members_saved p x"
  using assms by (auto simp: members_ok_def handleAddMember_def Let_def intro!: save_members_saved split: if_splits)

lemma members_fetched_offered: "\<not> offered (ManageMembersModal_view o' so q pend d) (MembersFetched ms)"
  by (auto simp: ManageMembersModal_view_def members_body_def member_line_def error_text_def show_if_def
      split: if_splits option.splits)

interpretation members: page "members_upd p" members_can members_ok "members_saved p" for p
proof unfold_locales
  fix d e m x
  assume ok: "members_ok d" and can: "members_can e d m"
  obtain s q pending where e: "e = (s, q, pending)" by (cases e)
  have fetched: "distinct ms \<and> [] \<notin> set ms" if "m = MembersFetched ms" for ms
    using can that members_fetched_offered by (auto simp: members_can_def e)
  show "members_ok (fst (members_upd p e m d))"
    using ok fetched add_member_step(1) [OF ok] bulk_keys_props
    by (cases m) (auto simp: members_upd_def e ManageMembersModal_update_def members_ok_def Let_def split: option.splits)
  assume "x \<in> set (snd (members_upd p e m d))"
  then show "members_saved p x"
    using ok add_member_step(2) [OF ok, of x p s] bulk_keys_props
    by (cases m) (auto simp: members_upd_def e ManageMembersModal_update_def members_ok_def Let_def intro!: save_members_saved
        split: option.splits if_splits, auto simp: members_saved_def)
qed


definition demo_segment :: "string \<Rightarrow> Segment" where
  "demo_segment sl = \<lparr>se_id = sl, se_slug = sl, se_name = sl, se_projectId = ''1'', se_createdAt = ''2024-02-29T09:05:30Z'', se_memberCount = 0\<rparr>"

definition loaded :: "string list \<Rightarrow> string list query" where
  "loaded ms = \<lparr>isLoading = False, q_error = None, q_data = Some ms\<rparr>"

lemma members_step:
  assumes "page_run (members_upd p) members_can d0 ems d outs" and "members_can e d m" and "members_upd p e m d = (d', os)"
    and "ems' = ems @ [(e, m)]" and "outs' = outs @ os"
  shows "page_run (members_upd p) members_can d0 ems' d' outs'"
  using page_run.run_snoc [OF assms(1-3)] assms(4,5) by simp

text \<open>
  The bulk editor overwrites another segment. The editor is not reset when it is closed: opened
  for one segment with the bulk text showing that segment's members, closed, and opened for
  another segment, it still shows the first segment's members, and applying them replaces the
  other segment's members by them.
\<close>

theorem bulk_overwrites_other_segment:
  assumes "distinct ms" and "list_all member_text ms" and "distinct ms'" and "[] \<notin> set ms'"
  shows "\<exists>d ems. page_run (members_upd p) members_can mm_init ems d
      [MembersCancelOut, MembersEff (Send ''PUT'' (members_path p b) (Some (JObj [(''members'', JArr (map JStr ms))])))]
    \<and> map snd ems = [MembersFetched ms, MembersBulkToggle, MembersOpenChange False, MembersFetched ms', MembersBulkApply]
    \<and> map (\<lambda>(e, m). fst e) ems = [a, a, a, b, b]"
proof -
  let ?ea = "(a, loaded ms, False)" and ?eb = "(b, loaded ms', False)"
  let ?d1 = "mm_init\<lparr>mm_members := ms\<rparr>" let ?d2 = "?d1\<lparr>mm_bulkText := js_join [nl] ms, mm_showBulk := True\<rparr>"
  let ?d4 = "?d2\<lparr>mm_members := ms'\<rparr>" let ?d5 = "?d4\<lparr>mm_members := ms, mm_showBulk := False\<rparr>"
  have nb: "[] \<notin> set ms" using assms(2) by (auto simp: list_all_iff member_text_def)
  note upd = members_upd_def ManageMembersModal_update_def Let_def
  have "page_run (members_upd p) members_can mm_init [(?ea, MembersFetched ms)] ?d1 []"
    by (rule members_step [OF page_run.run_Nil]) (use assms nb in \<open>auto simp: members_can_def upd\<close>)
  then have "page_run (members_upd p) members_can mm_init [(?ea, MembersFetched ms), (?ea, MembersBulkToggle)] ?d2 []"
    by (rule members_step) (auto simp: members_can_def upd ManageMembersModal_view_def loaded_def isError_def members_body_def mm_init_def)
  then have "page_run (members_upd p) members_can mm_init
      [(?ea, MembersFetched ms), (?ea, MembersBulkToggle), (?ea, MembersOpenChange False)] ?d2 [MembersCancelOut]"
    by (rule members_step) (auto simp: members_can_def upd ManageMembersModal_view_def)
  then have "page_run (members_upd p) members_can mm_init
      [(?ea, MembersFetched ms), (?ea, MembersBulkToggle), (?ea, MembersOpenChange False), (?eb, MembersFetched ms')] ?d4 [MembersCancelOut]"
    by (rule members_step) (use assms in \<open>auto simp: members_can_def upd\<close>)
  then have "page_run (members_upd p) members_can mm_init
      [(?ea, MembersFetched ms), (?ea, MembersBulkToggle), (?ea, MembersOpenChange False), (?eb, MembersFetched ms'), (?eb, MembersBulkApply)] ?d5
      [MembersCancelOut, save_members p b ms]"
    by (rule members_step)
       (auto simp: members_can_def upd ManageMembersModal_view_def loaded_def isError_def members_body_def show_if_def
          bulk_round_trip [OF assms(1,2)])
  then show ?thesis unfolding save_members_def by (intro exI conjI) auto
qed

theorem bulk_overwrites_other_segment_witness:
  "\<exists>d ems. page_run (members_upd ''shop'') members_can mm_init ems d
     [MembersCancelOut, MembersEff (Send ''PUT'' (members_path ''shop'' (demo_segment ''staff''))
        (Some (JObj [(''members'', JArr (map JStr [''ann'', ''bob'']))])))]"
proof -
  have "list_all member_text [''ann'', ''bob'']" by code_simp
  from bulk_overwrites_other_segment [OF _ this, of "[''eve'']" "''shop''" "demo_segment ''staff''" "demo_segment ''beta''"]
  show ?thesis by auto
qed


section \<open>Deleting and renaming\<close>

text \<open>
  Only the segment that was asked about is deleted. A DELETE is sent only while a segment
  waits for its confirmation, and names that segment; the rendered dialog offers the
  confirmation exactly then and while no deletion runs. A saved name replaces that segment in the
  cached list and leaves the others and the order as they were.
\<close>

theorem segment_deletion_confirmed:
  "(\<forall>meth path b. Send meth path b \<in> set (snd (SegmentListPage_update slug msg (p, cached))) \<longrightarrow>
      msg = ConfirmDeleteSegment \<and> meth = ''DELETE'' \<and> b = None \<and>
      (\<exists>s. sl_pendingDelete p = Some s \<and> path = segments_path slug @ ''/'' @ se_slug s))
   \<and> (offered (DeleteSegmentModal_view (sl_pendingDelete p) isDeleting failed) ConfirmDeleteSegment \<longleftrightarrow>
        sl_pendingDelete p \<noteq> None \<and> \<not> isDeleting)
   \<and> (case SegmentListPage_update slug (EditSaved u) (p, Some ss) of ((p', cached'), effs) \<Rightarrow>
        \<exists>ss'. cached' = Some ss' \<and> length ss' = length ss \<and>
          (\<forall>i < length ss. ss' ! i = (if se_id (ss ! i) = se_id u then u else ss ! i)))"
proof -
  have "offered (DeleteSegmentModal_view (sl_pendingDelete p) isDeleting failed) ConfirmDeleteSegment \<longleftrightarrow>
      sl_pendingDelete p \<noteq> None \<and> \<not> isDeleting"
    by (cases "sl_pendingDelete p") (auto simp: DeleteSegmentModal_view_def show_if_def)
  moreover have "msg = ConfirmDeleteSegment \<and> meth = ''DELETE'' \<and> b = None \<and>
      (\<exists>s. sl_pendingDelete p = Some s \<and> path = segments_path slug @ ''/'' @ se_slug s)"
    if "Send meth path b \<in> set (snd (SegmentListPage_update slug msg (p, cached)))" for meth path b
    using that by (cases msg; cases "sl_pendingDelete p") (auto simp: SegmentListPage_update_def split: if_splits)
  ultimately show ?thesis by (auto simp: SegmentListPage_update_def)
qed

theorem segment_deletion_confirmed_witness:
  "offered (DeleteSegmentModal_view (Some (demo_segment ''beta'')) False False) ConfirmDeleteSegment"
  using segment_deletion_confirmed [where p = "sl_init\<lparr>sl_pendingDelete := Some (demo_segment ''beta'')\<rparr>" and isDeleting = False
      and failed = False]
  by simp

end
