(* ===== verification/Members_Page.thy ===== *)
theory Members_Page
  imports Page_Runs Js_Date
begin

text \<open>
  The member page of a project (\<open>web/src/routes/projects/$slug.members.tsx\<close>): the list with the
  role of each member, the form that adds one, and the dialog that removes one. What the page
  offers depends on the role of the signed-in user, which it reads from the list itself.
\<close>

section \<open>Roles and members\<close>

datatype Role = RoleAdmin | RoleEditor | RoleViewer

definition ROLES :: "Role list" where
  "ROLES = [RoleAdmin, RoleEditor, RoleViewer]"

fun role_value :: "Role \<Rightarrow> string" where
  "role_value RoleAdmin = ''admin''"
| "role_value RoleEditor = ''editor''"
| "role_value RoleViewer = ''viewer''"

text \<open>The cast of a select's value, which is one of the three.\<close>

definition as_role :: "string \<Rightarrow> Role" where
  "as_role v = (if v = ''admin'' then RoleAdmin else if v = ''editor'' then RoleEditor else RoleViewer)"

fun ROLE_I18N_KEYS :: "Role \<Rightarrow> string" where
  "ROLE_I18N_KEYS RoleAdmin = ''projects:members.role_admin''"
| "ROLE_I18N_KEYS RoleEditor = ''projects:members.role_editor''"
| "ROLE_I18N_KEYS RoleViewer = ''projects:members.role_viewer''"

fun ROLE_DESCRIPTIONS :: "Role \<Rightarrow> string" where
  "ROLE_DESCRIPTIONS RoleAdmin = ''projects:members.role_admin_description''"
| "ROLE_DESCRIPTIONS RoleEditor = ''projects:members.role_editor_description''"
| "ROLE_DESCRIPTIONS RoleViewer = ''projects:members.role_viewer_description''"

record ProjectMember =
  pm_project_id :: string
  pm_user_id :: string
  pm_role :: Role
  pm_name :: string
  pm_email :: string
  pm_created_at :: string

definition project_members_path :: "string \<Rightarrow> string" where
  "project_members_path slug = ''/api/v1/projects/'' @ slug @ ''/members''"

definition memberDisplayName :: "ProjectMember \<Rightarrow> string" where
  "memberDisplayName m = (if pm_name m \<noteq> [] then pm_name m else pm_user_id m)"

section \<open>The form\<close>

record add_member =
  am_userId :: string
  am_role :: Role
  am_error :: "utext option"

definition am_init :: add_member where
  "am_init = \<lparr>am_userId = [], am_role = RoleViewer, am_error = None\<rparr>"

datatype add_member_msg = MemberUserId string | MemberRole string | MemberSubmit | MemberAdded "web_error option"

definition AddMemberForm_update :: "string \<Rightarrow> add_member_msg \<Rightarrow> add_member \<Rightarrow> add_member \<times> effect list" where
  "AddMemberForm_update slug msg f = (case msg of
     MemberUserId v \<Rightarrow> (f\<lparr>am_userId := v, am_error := None\<rparr>, [])
   | MemberRole v \<Rightarrow> (f\<lparr>am_role := as_role v\<rparr>, [])
   | MemberSubmit \<Rightarrow> (if js_trim (am_userId f) = [] then (f, [])
       else (f\<lparr>am_error := None\<rparr>, [Send ''POST'' (project_members_path slug)
         (Some (JObj [(''user_id'', JStr (js_trim (am_userId f))), (''role'', JStr (role_value (am_role f)))]))]))
   | MemberAdded None \<Rightarrow> (\<lparr>am_userId = [], am_role = RoleViewer, am_error = None\<rparr>, [Invalidate [''members'', slug]])
   | MemberAdded (Some err) \<Rightarrow>
       (f\<lparr>am_error := Some (case err of
           APIError st m c \<Rightarrow> if st = 409 then T ''projects:members.already_member'' [] else Lit m
         | OtherError m \<Rightarrow> T ''projects:members.add_failed'' [])\<rparr>, []))"

definition shown_error :: "utext option \<Rightarrow> bool" where
  "shown_error e \<longleftrightarrow> (case e of Some t \<Rightarrow> t \<noteq> Lit [] | None \<Rightarrow> False)"

definition role_items :: "'m html list" where
  "role_items = map (\<lambda>r. ui_SelectItem (role_value r) [tr (ROLE_I18N_KEYS r)]) ROLES"

definition AddMemberForm_view :: "bool \<Rightarrow> add_member \<Rightarrow> add_member_msg html" where
  "AddMemberForm_view pending f =
     El ''div'' []
       ([El ''h2'' [] [tr ''projects:members.add_title''],
         El ''form'' [On ''submit'' MemberSubmit]
           [El ''div'' []
              [ui_Label ''member-user-id'' [tr ''projects:members.user_id_label''],
               ui_Input None (shown_error (am_error f)) (Some ''member-user-id'')
                 (Some (if shown_error (am_error f) then ''add-member-error'' else ''member-user-id-helper''))
                 [At ''type'' (Lit ''text''), At ''value'' (Lit (am_userId f)), OnText ''change'' MemberUserId,
                  At ''placeholder'' (T ''projects:members.user_id_placeholder'' [])],
               El ''p'' [At ''id'' (Lit ''member-user-id-helper'')] [tr ''projects:members.user_id_helper'']],
            El ''div'' []
              [ui_Select (role_value (am_role f)) MemberRole False [At ''aria-label'' (T ''projects:members.role_label'' [])] role_items],
            ui_Button pending (js_trim (am_userId f) = []) [At ''type'' (Lit ''submit'')] [tr ''projects:members.add_button'']]] @
        (case am_error f of
           Some e \<Rightarrow> show_if (e \<noteq> Lit []) (El ''p'' [At ''id'' (Lit ''add-member-error'')] [Txt e])
         | None \<Rightarrow> []))"

section \<open>The page\<close>

record members_page =
  mp_currentUserId :: "string option"
  mp_pendingRemove :: "ProjectMember option"
  mp_removeError :: "utext option"
  mp_roleErrors :: "(string, utext) js_map"
  mp_form :: add_member

definition mp_init :: members_page where
  "mp_init = \<lparr>mp_currentUserId = None, mp_pendingRemove = None, mp_removeError = None, mp_roleErrors = [], mp_form = am_init\<rparr>"

text \<open>
  What the page reads from outside: the query of the members and the requests that are
  running, a role change with its member.
\<close>

record members_env =
  me_query :: "ProjectMember list query"
  me_roleMutation :: "(string \<times> Role) mutation"
  me_adding :: bool
  me_removing :: bool

definition me_members :: "members_env \<Rightarrow> ProjectMember list" where
  "me_members e = (case q_data (me_query e) of Some ms \<Rightarrow> ms | None \<Rightarrow> [])"

definition myRole :: "members_env \<Rightarrow> members_page \<Rightarrow> Role" where
  "myRole e p = (case find (\<lambda>m. Some (pm_user_id m) = mp_currentUserId p) (me_members e) of
     Some m \<Rightarrow> pm_role m | None \<Rightarrow> RoleViewer)"

definition isAdmin :: "members_env \<Rightarrow> members_page \<Rightarrow> bool" where
  "isAdmin e p \<longleftrightarrow> myRole e p = RoleAdmin"

datatype member_msg =
    GotUser "string option"
  | AddForm add_member_msg
  | FormMounted
  | RoleChange string string
  | RoleSettled string "web_error option"
  | RemoveIntent ProjectMember
  | ConfirmRemove
  | RemoveSettled "web_error option"
  | RemoveCancel
  | RemoveOpenChange bool
  | AddClick
  | RetryMembers

datatype member_out = MemberEff effect | FocusAddForm

definition remove_message :: "web_error \<Rightarrow> utext" where
  "remove_message err = (case err of
     APIError st m c \<Rightarrow> if c = ''last_admin'' then T ''projects:members.last_admin'' [] else Lit m
   | OtherError m \<Rightarrow> T ''projects:members.remove_failed'' [])"

text \<open>
  \<open>GotUser\<close> is the subject of the signed-in user, \<open>FormMounted\<close> the form's being mounted (it is
  as long as the user is an administrator), \<open>AddClick\<close> scrolls to the form and focuses it.
\<close>

definition MemberListPage_update :: "string \<Rightarrow> member_msg \<Rightarrow> members_page \<Rightarrow> members_page \<times> member_out list" where
  "MemberListPage_update slug msg p = (case msg of
     GotUser sub \<Rightarrow> (case sub of Some s \<Rightarrow> if s \<noteq> [] then p\<lparr>mp_currentUserId := Some s\<rparr> else p | None \<Rightarrow> p, [])
   | AddForm m \<Rightarrow> (case AddMemberForm_update slug m (mp_form p) of (f, effs) \<Rightarrow> (p\<lparr>mp_form := f\<rparr>, map MemberEff effs))
   | FormMounted \<Rightarrow> (p\<lparr>mp_form := am_init\<rparr>, [])
   | RoleChange userId v \<Rightarrow> (p, [MemberEff (Send ''PATCH'' (project_members_path slug @ ''/'' @ userId)
         (Some (JObj [(''role'', JStr (role_value (as_role v)))])))])
   | RoleSettled userId None \<Rightarrow>
       (p\<lparr>mp_roleErrors := map_del userId (mp_roleErrors p)\<rparr>, [MemberEff (Invalidate [''members'', slug])])
   | RoleSettled userId (Some err) \<Rightarrow>
       (p\<lparr>mp_roleErrors := map_set userId (api_or (T ''projects:members.role_update_failed'' []) err) (mp_roleErrors p)\<rparr>, [])
   | RemoveIntent m \<Rightarrow> (p\<lparr>mp_pendingRemove := Some m, mp_removeError := None\<rparr>, [])
   | ConfirmRemove \<Rightarrow> (p, case mp_pendingRemove p of
         Some m \<Rightarrow> [MemberEff (Send ''DELETE'' (project_members_path slug @ ''/'' @ pm_user_id m) None)] | None \<Rightarrow> [])
   | RemoveSettled None \<Rightarrow>
       (p\<lparr>mp_pendingRemove := None, mp_removeError := None\<rparr>, [MemberEff (Invalidate [''members'', slug])])
   | RemoveSettled (Some err) \<Rightarrow> (p\<lparr>mp_removeError := Some (remove_message err)\<rparr>, [])
   | RemoveCancel \<Rightarrow> (p\<lparr>mp_pendingRemove := None, mp_removeError := None\<rparr>, [])
   | RemoveOpenChange is_open \<Rightarrow> (if is_open then p else p\<lparr>mp_pendingRemove := None, mp_removeError := None\<rparr>, [])
   | AddClick \<Rightarrow> (p, [FocusAddForm])
   | RetryMembers \<Rightarrow> (p, [MemberEff (Refetch [''members'', slug])]))"

definition RoleBadge :: "Role \<Rightarrow> 'm html" where
  "RoleBadge r = El ''span'' [] [tr (ROLE_I18N_KEYS r)]"

definition RoleExplanation :: "'m html" where
  "RoleExplanation = El ''div'' []
     [El ''p'' [] [tr ''projects:members.roles_explanation_title''],
      El ''ul'' [] (map (\<lambda>r. El ''li'' [] [RoleBadge r, El ''span'' [] [tr (ROLE_DESCRIPTIONS r)]]) ROLES)]"

definition MemberEmptyState_view :: "bool \<Rightarrow> member_msg html" where
  "MemberEmptyState_view admin = El ''div'' []
     (if admin then
        [El ''p'' [] [tr ''projects:members.empty''],
         ui_Button False False [On ''click'' AddClick] [tr ''projects:members.add_button''],
         RoleExplanation]
      else [El ''p'' [] [tr ''projects:members.empty_nonadmin''], El ''p'' [] [tr ''projects:members.empty_nonadmin_hint'']])"

definition member_role_cell :: "bool \<Rightarrow> utext \<Rightarrow> bool \<Rightarrow> ProjectMember \<Rightarrow> member_msg html" where
  "member_role_cell admin roleError rolePending m = El ''td'' []
     [if admin then
        El ''div'' []
          (ui_Select (role_value (pm_role m)) (RoleChange (pm_user_id m)) rolePending
             [At ''aria-label'' (T ''projects:members.role_aria'' [(''name'', memberDisplayName m)])] role_items #
           show_if (roleError \<noteq> Lit []) (El ''p'' [] [Txt roleError]))
      else RoleBadge (pm_role m)]"

definition MemberRow_view ::
    "(relative_date \<Rightarrow> string) \<Rightarrow> (int option \<Rightarrow> string) \<Rightarrow> int \<Rightarrow> bool \<Rightarrow> bool \<Rightarrow> utext \<Rightarrow> bool \<Rightarrow> ProjectMember
      \<Rightarrow> (string, member_msg html) result" where
  "MemberRow_view intl full now admin isSelf roleError rolePending m =
     await (formatRelativeDate now (pm_created_at m)) (\<lambda>rel. Inr (El ''tr'' []
       ([El ''td'' [] [El ''div'' []
           ([El ''span'' [] (lit (memberDisplayName m) # show_if isSelf (El ''span'' [] [tr ''projects:members.you'']))] @
            show_if (pm_email m \<noteq> []) (El ''span'' [] [lit (pm_email m)]) @
            show_if (pm_name m = []) (El ''span'' [] [lit (pm_user_id m)]))],
         member_role_cell admin roleError rolePending m,
         El ''td'' [] [El ''time'' [At ''datetime'' (Lit (pm_created_at m)),
             At ''title'' (Lit (full (date_parse (pm_created_at m))))] [lit (intl rel)]]] @
        show_if admin (El ''td'' [] [El ''button'' [On ''click'' (RemoveIntent m),
            At ''aria-label'' (T ''projects:members.remove_aria'' [(''name'', memberDisplayName m)])]
            [El ''svg'' [Flag ''aria-hidden'' True] [El ''path'' [] []]]]))))"

definition RemoveMemberDialog_view :: "ProjectMember option \<Rightarrow> utext option \<Rightarrow> bool \<Rightarrow> member_msg html" where
  "RemoveMemberDialog_view member err isRemoving =
     ui_Dialog (member \<noteq> None) RemoveOpenChange [ui_DialogContent
       ([ui_DialogHeader (ui_DialogTitle [tr ''projects:members.remove_dialog_title''] #
           (case member of Some m \<Rightarrow> [ui_DialogDescription
                (Txt (T ''projects:members.remove_dialog_body'' [(''name'', memberDisplayName m)]) #
                 show_if (pm_email m \<noteq> []) (El ''span'' [] [lit '' ('', lit (pm_email m), lit '')'']))] | None \<Rightarrow> []))] @
        error_text err @
        [ui_DialogFooter
          [ui_Button False isRemoving [Flag ''autofocus'' True, At ''type'' (Lit ''button''), On ''click'' RemoveCancel] [tr ''common:actions.cancel''],
           ui_Button isRemoving False [At ''type'' (Lit ''button''), On ''click'' ConfirmRemove] [tr ''projects:members.remove'']]])]"

definition MemberListSkeleton_view :: "'m html" where
  "MemberListSkeleton_view = El ''div'' []
     [El ''div'' [] [],
      El ''div'' [] (El ''div'' [] [El ''div'' [] [], El ''div'' [] [], El ''div'' [] []] #
        replicate 3 (El ''div'' [] [El ''div'' [] [], El ''div'' [] [], El ''div'' [] []]))]"

definition member_rows ::
    "(relative_date \<Rightarrow> string) \<Rightarrow> (int option \<Rightarrow> string) \<Rightarrow> int \<Rightarrow> members_env \<Rightarrow> members_page
      \<Rightarrow> (string, member_msg html list) result" where
  "member_rows intl full now e p = render_all (map (\<lambda>m. MemberRow_view intl full now (isAdmin e p)
       (Some (pm_user_id m) = mp_currentUserId p)
       (case map_get (mp_roleErrors p) (pm_user_id m) of Some t \<Rightarrow> t | None \<Rightarrow> Lit [])
       (pending_for (\<lambda>v. fst v = pm_user_id m) (me_roleMutation e)) m) (me_members e))"

definition members_list :: "members_env \<Rightarrow> members_page \<Rightarrow> member_msg html list \<Rightarrow> member_msg html" where
  "members_list e p rows =
     El ''div'' []
       ([El ''h1'' [] [tr ''projects:members.title''],
         (if me_members e = [] then MemberEmptyState_view (isAdmin e p)
          else El ''div'' [] [El ''table'' []
            [El ''thead'' [] [El ''tr'' [] ([El ''th'' [] [tr ''projects:members.column_member''],
                El ''th'' [] [tr ''projects:members.column_role''], El ''th'' [] [tr ''projects:members.column_joined'']] @
                show_if (isAdmin e p) (El ''th'' [] []))],
             El ''tbody'' [] rows]])] @
        show_if (isAdmin e p) (El ''div'' [] [map_html AddForm (AddMemberForm_view (me_adding e) (mp_form p))]) @
        [RemoveMemberDialog_view (mp_pendingRemove p) (mp_removeError p) (me_removing e)])"

definition MemberListPage_view ::
    "(relative_date \<Rightarrow> string) \<Rightarrow> (int option \<Rightarrow> string) \<Rightarrow> int \<Rightarrow> members_env \<Rightarrow> members_page \<Rightarrow> (string, member_msg html) result" where
  "MemberListPage_view intl full now e p =
     (if isLoading (me_query e) then Inr MemberListSkeleton_view
      else if isError (me_query e) then Inr (El ''div'' []
        [El ''span'' [] [tr ''projects:members.error'', lit '' ''], El ''button'' [On ''click'' RetryMembers] [tr ''common:actions.retry'']])
      else await (member_rows intl full now e p) (\<lambda>rows. Inr (members_list e p rows)))"

end
