(* ===== verification/Members_Spec.thy ===== *)
theory Members_Spec
  imports Members_Page
begin

text \<open>
  What the member page lets whom do: somebody who is no administrator sends nothing, and an
  administrator's requests are those the page shows.
\<close>

section \<open>What the page offers\<close>

lemma role_items_simps [simp]:
  "(\<exists>h \<in> set role_items. offered h m) = False" "option_values role_items = [''admin'', ''editor'', ''viewer'']"
  "concat (map submits role_items) = []"
  by (auto simp: role_items_def ROLES_def)

lemma form_offers:
  "offered (AddMemberForm_view pending f) m \<longleftrightarrow>
     (m = MemberSubmit \<and> \<not> pending \<and> js_trim (am_userId f) \<noteq> []) \<or> (\<exists>v. m = MemberUserId v)
     \<or> (\<exists>v \<in> {''admin'', ''editor'', ''viewer''}. m = MemberRole v)"
proof -
  have "\<not> (\<exists>h \<in> set (case am_error f of Some e \<Rightarrow> show_if (e \<noteq> Lit []) (El ''p'' [At ''id'' (Lit ''add-member-error'')] [Txt e]) | None \<Rightarrow> []). offered h m)"
    by (auto simp: show_if_def split: option.splits)
  then show ?thesis by (auto simp: AddMemberForm_view_def can_submit_def bex_Un)
qed

lemma badge_offers [simp]: "\<not> offered (RoleBadge r) m" "\<not> offered RoleExplanation m"
  by (auto simp: RoleBadge_def RoleExplanation_def)

lemma role_cell_offers:
  "offered (member_role_cell admin err pend x) m \<longleftrightarrow>
     admin \<and> \<not> pend \<and> (\<exists>v \<in> {''admin'', ''editor'', ''viewer''}. m = RoleChange (pm_user_id x) v)"
  by (auto simp: member_role_cell_def show_if_def split: if_splits)

lemma row_offers:
  assumes "MemberRow_view intl full now admin self err pend x = Inr h"
  shows "offered h m \<longleftrightarrow> admin \<and> (m = RemoveIntent x \<or> \<not> pend \<and> (\<exists>v \<in> {''admin'', ''editor'', ''viewer''}. m = RoleChange (pm_user_id x) v))"
  using assms by (auto simp: MemberRow_view_def await_eq_Inr bex_Un role_cell_offers)

lemma render_all_offers:
  assumes "render_all (map f xs) = Inr hs" and "\<And>x h. x \<in> set xs \<Longrightarrow> f x = Inr h \<Longrightarrow> offered h m \<longleftrightarrow> Q x"
  shows "(\<exists>h \<in> set hs. offered h m) \<longleftrightarrow> (\<exists>x \<in> set xs. Q x)"
  using assms
proof (induction xs arbitrary: hs)
  case (Cons x xs)
  then obtain h hs' where hs: "f x = Inr h" "render_all (map f xs) = Inr hs'" "hs = h # hs'" by (auto simp: await_eq_Inr)
  have "offered h m = Q x" using Cons.prems(2) hs(1) by simp
  with Cons.IH [OF hs(2)] Cons.prems(2) hs(3) show ?case by simp
qed simp

lemma rows_offer:
  assumes "member_rows intl full now e p = Inr rows"
  shows "(\<exists>h \<in> set rows. offered h m) \<longleftrightarrow> (\<exists>x \<in> set (me_members e). isAdmin e p \<and> (m = RemoveIntent x \<or>
      \<not> pending_for (\<lambda>v. fst v = pm_user_id x) (me_roleMutation e) \<and> (\<exists>v \<in> {''admin'', ''editor'', ''viewer''}. m = RoleChange (pm_user_id x) v)))"
  using assms unfolding member_rows_def by (rule render_all_offers) (rule row_offers)

lemma remove_dialog_offers:
  "offered (RemoveMemberDialog_view x err removing) m \<longleftrightarrow>
     (\<exists>b. m = RemoveOpenChange b) \<or> x \<noteq> None \<and> \<not> removing \<and> (m = RemoveCancel \<or> m = ConfirmRemove)"
  by (cases x) (auto simp: RemoveMemberDialog_view_def bex_Un show_if_def)

lemma no_members_no_admin: "me_members e = [] \<Longrightarrow> \<not> isAdmin e p"
  by (simp add: isAdmin_def myRole_def)

lemma page_offers:
  assumes "MemberListPage_view intl full now e p = Inr h" and "offered h m"
  shows "m = RetryMembers \<or> (\<exists>b. m = RemoveOpenChange b) \<or> (mp_pendingRemove p \<noteq> None \<and> (m = RemoveCancel \<or> m = ConfirmRemove))
    \<or> isAdmin e p \<and> ((\<exists>f. m = AddForm f \<and> offered (AddMemberForm_view (me_adding e) (mp_form p)) f)
        \<or> (\<exists>x \<in> set (me_members e). m = RemoveIntent x \<or> (\<exists>v \<in> {''admin'', ''editor'', ''viewer''}. m = RoleChange (pm_user_id x) v)))"
proof (cases "isLoading (me_query e) \<or> isError (me_query e)")
  case True
  then show ?thesis using assms by (auto simp: MemberListPage_view_def MemberListSkeleton_view_def split: if_splits)
next
  case False
  then obtain rows where rows: "member_rows intl full now e p = Inr rows"
    using assms(1) by (auto simp: MemberListPage_view_def await_eq_Inr)
  have empty: "\<not> offered (MemberEmptyState_view False) m" by (simp add: MemberEmptyState_view_def)
  show ?thesis
    using False assms no_members_no_admin [of e p] empty rows_offer [OF rows, of m]
    by (auto simp: MemberListPage_view_def members_list_def rows bex_Un remove_dialog_offers split: if_splits)
qed

section \<open>Who can do what\<close>

text \<open>
  What can happen on the page of a user with subject \<open>sub\<close>: what it offers, and responses. The
  environment is the page's, with the current time.
\<close>

definition member_can ::
    "string \<Rightarrow> (relative_date \<Rightarrow> string) \<Rightarrow> (int option \<Rightarrow> string) \<Rightarrow> members_env \<times> int \<Rightarrow> members_page \<Rightarrow> member_msg \<Rightarrow> bool" where
  "member_can sub intl full = (\<lambda>(e, now) p m.
     (\<exists>h. MemberListPage_view intl full now e p = Inr h \<and> offered h m)
     \<or> m \<in> {GotUser None, GotUser (Some sub), FormMounted} \<or> (\<exists>u r. m = RoleSettled u r) \<or> (\<exists>r. m = RemoveSettled r)
     \<or> (\<exists>r. m = AddForm (MemberAdded r)))"

definition members_upd' :: "string \<Rightarrow> members_env \<times> int \<Rightarrow> member_msg \<Rightarrow> members_page \<Rightarrow> members_page \<times> member_out list" where
  "members_upd' slug = (\<lambda>en. MemberListPage_update slug)"

text \<open>The service never lists the user as an administrator.\<close>

definition no_admin :: "string \<Rightarrow> members_env \<times> int \<Rightarrow> bool" where
  "no_admin sub = (\<lambda>(e, now). \<forall>x \<in> set (me_members e). pm_user_id x = sub \<longrightarrow> pm_role x \<noteq> RoleAdmin)"

definition outsider :: "string \<Rightarrow> members_page \<Rightarrow> bool" where
  "outsider sub p \<longleftrightarrow> mp_pendingRemove p = None \<and> mp_currentUserId p \<in> {None, Some sub}"

lemma outsider_not_admin: "outsider sub p \<Longrightarrow> no_admin sub (e, now) \<Longrightarrow> \<not> isAdmin e p"
  by (auto simp: isAdmin_def myRole_def outsider_def no_admin_def find_Some_iff split: option.splits)

interpretation outsider: page "members_upd' slug" "\<lambda>en p m. member_can sub intl full en p m \<and> no_admin sub en" "outsider sub"
  "\<lambda>x. \<forall>meth path b. x \<noteq> MemberEff (Send meth path b)" for slug sub intl full
proof unfold_locales
  fix en p m x
  assume inv: "outsider sub p" and can: "member_can sub intl full en p m \<and> no_admin sub en"
  obtain e now where en: "en = (e, now)" by (cases en)
  have "\<not> isAdmin e p" using outsider_not_admin [OF inv, of e now] can by (simp add: en)
  moreover have "mp_pendingRemove p = None" using inv by (simp add: outsider_def)
  ultimately have m: "m \<in> {GotUser None, GotUser (Some sub), FormMounted, RetryMembers} \<or> (\<exists>u r. m = RoleSettled u r)
      \<or> (\<exists>r. m = RemoveSettled r) \<or> (\<exists>r. m = AddForm (MemberAdded r)) \<or> (\<exists>b. m = RemoveOpenChange b)"
    using can page_offers [of intl full now e p _ m] by (fastforce simp: member_can_def en)
  show "outsider sub (fst (members_upd' slug en m p))"
    using inv m by (auto simp: members_upd'_def MemberListPage_update_def AddMemberForm_update_def outsider_def split: option.splits if_splits)
  assume "x \<in> set (snd (members_upd' slug en m p))"
  then show "\<forall>meth path b. x \<noteq> MemberEff (Send meth path b)"
    using m by (auto simp: members_upd'_def MemberListPage_update_def AddMemberForm_update_def split: option.splits)
qed

text \<open>
  C29: only administrators change members. While the service never lists the signed-in user as an
  administrator of the project, no sequence of actions on the page sends a request that changes
  anything, whichever lists arrive meanwhile and whatever earlier requests answer.
\<close>

theorem only_admins_change_members:
  assumes "page_run (members_upd' slug) (member_can sub intl full) mp_init ems p outs"
    and "\<forall>(en, m) \<in> set ems. no_admin sub en"
  shows "MemberEff (Send meth path b) \<notin> set outs"
proof -
  have "outsider sub mp_init" by (simp add: outsider_def mp_init_def)
  from outsider.run_page [OF run_restrict [OF assms] this] show ?thesis by blast
qed

definition demo_member :: "string \<Rightarrow> Role \<Rightarrow> ProjectMember" where
  "demo_member u r = \<lparr>pm_project_id = ''1'', pm_user_id = u, pm_role = r, pm_name = [], pm_email = [], pm_created_at = utc_stamp \<lparr>c_year = 2024, c_month = 2, c_day = 29\<rparr> 9 5 30\<rparr>"

definition demo_members_env :: "ProjectMember list \<Rightarrow> members_env" where
  "demo_members_env ms = \<lparr>me_query = \<lparr>isLoading = False, q_error = None, q_data = Some ms\<rparr>,
     me_roleMutation = \<lparr>isPending = False, m_variables = None\<rparr>, me_adding = False, me_removing = False\<rparr>"

theorem only_admins_change_members_witness:
  "\<exists>ems p. page_run (members_upd' ''shop'') (member_can ''ann'' (\<lambda>_. []) (\<lambda>_. [])) mp_init ems p [MemberEff (Refetch [''members'', ''shop''])]
     \<and> (\<forall>meth path b. MemberEff (Send meth path b) \<notin> set [MemberEff (Refetch [''members'', ''shop''])])"
proof -
  let ?e = "(demo_members_env [demo_member ''ann'' RoleEditor], 0 :: int)"
  let ?f = "(demo_members_env []\<lparr>me_query := \<lparr>isLoading = False, q_error = Some (OtherError ''offline''), q_data = None\<rparr>\<rparr>, 0 :: int)"
  note defs = member_can_def members_upd'_def MemberListPage_update_def
  let ?p = "mp_init\<lparr>mp_currentUserId := Some ''ann''\<rparr>"
  have "page_run (members_upd' ''shop'') (member_can ''ann'' (\<lambda>_. []) (\<lambda>_. [])) mp_init ([] @ [(?e, GotUser (Some ''ann''))]) ?p ([] @ [])"
    by (rule page_run.run_snoc [OF page_run.run_Nil]) (simp_all add: defs)
  then have run: "page_run (members_upd' ''shop'') (member_can ''ann'' (\<lambda>_. []) (\<lambda>_. [])) mp_init
      (([] @ [(?e, GotUser (Some ''ann''))]) @ [(?f, RetryMembers)]) ?p (([] @ []) @ [MemberEff (Refetch [''members'', ''shop''])])"
    by (rule page_run.run_snoc) (simp_all add: defs MemberListPage_view_def isError_def)
  from only_admins_change_members [OF run] have "MemberEff (Send meth path b) \<notin> set [MemberEff (Refetch [''members'', ''shop''])]" for meth path b
    by (simp add: no_admin_def demo_members_env_def demo_member_def me_members_def)
  with run show ?thesis by auto
qed

text \<open>
  An administrator's requests are those the page shows. A rendered control that sends a request is
  shown to an administrator, with one exception: the dialog that is asking about a member. A role is
  changed to one of the three roles and for a listed member; a user is added by an identifier
  that is not blank and has no blanks around it; the member that is removed is the one the dialog
  names. The administrator's version of the empty list is never shown.
\<close>

theorem member_requests:
  assumes "MemberListPage_view intl full now e p = Inr h" and "offered h m"
  shows "m \<noteq> AddClick
    \<and> (MemberEff (Send meth path b) \<in> set (snd (MemberListPage_update slug m p)) \<longrightarrow>
        meth = ''POST'' \<and> isAdmin e p \<and> path = project_members_path slug \<and>
          (\<exists>u r. b = Some (JObj [(''user_id'', JStr u), (''role'', JStr (role_value r))]) \<and> u \<noteq> [] \<and> u = js_trim (am_userId (mp_form p)))
        \<or> meth = ''PATCH'' \<and> isAdmin e p \<and> (\<exists>x \<in> set (me_members e). \<exists>r. path = project_members_path slug @ ''/'' @ pm_user_id x
            \<and> b = Some (JObj [(''role'', JStr (role_value r))]) \<and> m = RoleChange (pm_user_id x) (role_value r))
        \<or> meth = ''DELETE'' \<and> b = None \<and> (\<exists>x. mp_pendingRemove p = Some x \<and> path = project_members_path slug @ ''/'' @ pm_user_id x
            \<and> T ''projects:members.remove_dialog_body'' [(''name'', memberDisplayName x)] \<in> set (texts h)))"
proof -
  have role: "\<exists>r. v = role_value r \<and> as_role v = r" if "v \<in> {''admin'', ''editor'', ''viewer''}" for v
    using that role_value.simps by (metis (no_types, lifting) as_role_def empty_iff insert_iff)
  have shown: "T ''projects:members.remove_dialog_body'' [(''name'', memberDisplayName x)] \<in> set (texts h)"
    if "m = ConfirmRemove" "mp_pendingRemove p = Some x" for x
  proof -
    have "\<not> isLoading (me_query e)" "\<not> isError (me_query e)"
      using assms that(1) by (auto simp: MemberListPage_view_def MemberListSkeleton_view_def split: if_splits)
    with assms(1) that(2) show ?thesis
      by (auto simp: MemberListPage_view_def members_list_def await_eq_Inr RemoveMemberDialog_view_def ui_Dialog_def ui_DialogContent_def ui_DialogHeader_def
          ui_DialogDescription_def)
  qed
  from page_offers [OF assms] show ?thesis
  proof (elim disjE conjE exE bexE)
    fix f
    assume "isAdmin e p" "m = AddForm f" "offered (AddMemberForm_view (me_adding e) (mp_form p)) f"
    then show ?thesis by (auto simp: form_offers MemberListPage_update_def AddMemberForm_update_def)
  next
    fix x v
    assume "isAdmin e p" "x \<in> set (me_members e)" "v \<in> {''admin'', ''editor'', ''viewer''}" "m = RoleChange (pm_user_id x) v"
    with role [of v] show ?thesis by (auto simp: MemberListPage_update_def)
  next
    assume "mp_pendingRemove p \<noteq> None" "m = ConfirmRemove"
    with shown show ?thesis by (auto simp: MemberListPage_update_def)
  qed (simp_all add: MemberListPage_update_def)
qed

theorem member_requests_witness:
  "\<exists>h. MemberListPage_view (\<lambda>_. []) (\<lambda>_. []) 1709283930000 (demo_members_env [demo_member ''ann'' RoleAdmin])
         (mp_init\<lparr>mp_currentUserId := Some ''ann'', mp_form := am_init\<lparr>am_userId := '' bob ''\<rparr>\<rparr>) = Inr h
     \<and> offered h (AddForm MemberSubmit) \<and> js_trim '' bob '' \<noteq> []"
proof -
  let ?e = "demo_members_env [demo_member ''ann'' RoleAdmin]"
  let ?p = "mp_init\<lparr>mp_currentUserId := Some ''ann'', mp_form := am_init\<lparr>am_userId := '' bob ''\<rparr>\<rparr>"
  have trim: "js_trim '' bob '' = ''bob''" by code_simp
  have "civil_ok \<lparr>c_year = 2024, c_month = 2, c_day = 29\<rparr>" by code_simp
  then obtain t where "date_parse (utc_stamp \<lparr>c_year = 2024, c_month = 2, c_day = 29\<rparr> 9 5 30) = Some t"
    using date_parse_stamp by simp
  then have "\<exists>d. formatRelativeDate 1709283930000 (utc_stamp \<lparr>c_year = 2024, c_month = 2, c_day = 29\<rparr> 9 5 30) = Inr d"
    unfolding formatRelativeDate_def by (simp add: Let_def)
  then obtain d where date: "formatRelativeDate 1709283930000 (utc_stamp \<lparr>c_year = 2024, c_month = 2, c_day = 29\<rparr> 9 5 30) = Inr d" ..
  have admin: "isAdmin ?e ?p" by (simp add: isAdmin_def myRole_def demo_members_env_def demo_member_def me_members_def)
  have ok: "\<not> isLoading (me_query ?e)" "\<not> isError (me_query ?e)" "me_adding ?e = False" "me_members ?e = [demo_member ''ann'' RoleAdmin]"
    by (simp_all add: demo_members_env_def isError_def me_members_def)
  have "\<not> isl (member_rows (\<lambda>_. []) (\<lambda>_. []) 1709283930000 ?e ?p)"
    unfolding member_rows_def ok by (simp add: MemberRow_view_def demo_member_def date)
  then obtain rows where rows: "member_rows (\<lambda>_. []) (\<lambda>_. []) 1709283930000 ?e ?p = Inr rows"
    by (cases "member_rows (\<lambda>_. []) (\<lambda>_. []) 1709283930000 ?e ?p") simp_all
  let ?h = "members_list ?e ?p rows"
  have h: "MemberListPage_view (\<lambda>_. []) (\<lambda>_. []) 1709283930000 ?e ?p = Inr ?h"
    using ok rows by (simp add: MemberListPage_view_def)
  have "offered (AddMemberForm_view (me_adding ?e) (mp_form ?p)) MemberSubmit" unfolding ok by (simp add: form_offers trim)
  then have off: "offered ?h (AddForm MemberSubmit)" using admin by (simp add: members_list_def bex_Un)
  from member_requests [OF h off, of "''POST''" "project_members_path ''shop''"
      "Some (JObj [(''user_id'', JStr ''bob''), (''role'', JStr ''viewer'')])" "''shop''"]
  have "js_trim '' bob '' \<noteq> []" using trim by (simp add: MemberListPage_update_def AddMemberForm_update_def am_init_def)
  then show ?thesis using h off by blast
qed

text \<open>
  A failed role change is reported at its member. After the answer to a role change, the row of that member shows
  the error of the answer, or none after a success; every other member's row is as before.
  The last administrator's removal and a user who is a member already have messages of their own.
\<close>

theorem member_errors:
  "(case MemberListPage_update slug (RoleSettled u r) p of (p', outs) \<Rightarrow>
      map_get (mp_roleErrors p') v = (if v = u then map_option (api_or (T ''projects:members.role_update_failed'' [])) r
        else map_get (mp_roleErrors p) v)
      \<and> (outs = []) = (r \<noteq> None))
   \<and> (case MemberListPage_update slug (RemoveSettled (Some (APIError st msg ''last_admin''))) p of (p', outs) \<Rightarrow>
        mp_removeError p' = Some (T ''projects:members.last_admin'' []) \<and> mp_pendingRemove p' = mp_pendingRemove p)
   \<and> (case MemberListPage_update slug (AddForm (MemberAdded (Some (APIError 409 msg c)))) p of (p', outs) \<Rightarrow>
        am_error (mp_form p') = Some (T ''projects:members.already_member'' []) \<and> am_userId (mp_form p') = am_userId (mp_form p))"
  by (cases r) (auto simp: MemberListPage_update_def AddMemberForm_update_def remove_message_def js_map_rules)

end
