(* ===== verification/Api_Keys.thy ===== *)
theory Api_Keys
  imports Dialogs_Spec Js_Date
begin

text \<open>
  The API key page of a project (\<open>web/src/routes/projects/$slug.api-keys.tsx\<close>): choosing an
  environment, the cards with their capability tiers, creating a key, which is shown
  once, and revoking one. The creation dialog is mounted as long as an environment is chosen,
  whether it is open or not.
\<close>

section \<open>Data\<close>

record KeyEnv =
  ke_id :: string
  ke_name :: string
  ke_slug :: string

record APIKey =
  ak_id :: string
  ak_name :: string
  ak_prefix :: string
  ak_tier :: ToolCapabilityTier
  ak_created_at :: string
  ak_revoked_at :: "string option"

fun tier_value :: "ToolCapabilityTier \<Rightarrow> string" where
  "tier_value TierRead = ''read''"
| "tier_value TierWrite = ''write''"
| "tier_value TierDestructive = ''destructive''"

definition api_keys_path :: "string \<Rightarrow> string \<Rightarrow> string" where
  "api_keys_path slug envSlug = ''/api/v1/projects/'' @ slug @ ''/environments/'' @ envSlug @ ''/api-keys''"

definition keysKey :: "string \<Rightarrow> string \<Rightarrow> string list" where
  "keysKey slug envSlug = [''api-keys'', slug, envSlug]"

text \<open>The query keeps the keys that are not revoked; an empty date counts as absent.\<close>

definition live_keys :: "APIKey list \<Rightarrow> APIKey list" where
  "live_keys ks = filter (\<lambda>k. ak_revoked_at k = None \<or> ak_revoked_at k = Some []) ks"

section \<open>A key's card\<close>

datatype tier_msg = TierEdit | TierCancel | TierChosen ToolCapabilityTier | TierSettled "web_error option" | RevokeIntent

definition key_prefix :: "APIKey \<Rightarrow> string" where
  "key_prefix k = ''cg_'' @ ak_prefix k @ [CHR 0xE2, CHR 0x80, CHR 0xA6]"

definition APIKeyCard_update :: "string \<Rightarrow> string \<Rightarrow> APIKey \<Rightarrow> tier_msg \<Rightarrow> bool \<Rightarrow> bool \<times> effect list" where
  "APIKeyCard_update slug envSlug k msg editingTier = (case msg of
     TierEdit \<Rightarrow> (True, [])
   | TierCancel \<Rightarrow> (False, [])
   | TierChosen t \<Rightarrow> (editingTier, [Send ''PATCH'' (api_keys_path slug envSlug @ ''/'' @ ak_id k)
         (Some (JObj [(''capability_tier'', JStr (tier_value t))]))])
   | TierSettled None \<Rightarrow> (False, [Invalidate (keysKey slug envSlug)])
   | TierSettled (Some err) \<Rightarrow> (editingTier, [])
   | RevokeIntent \<Rightarrow> (editingTier, []))"

definition APIKeyCard_view ::
    "(relative_date \<Rightarrow> string) \<Rightarrow> (int option \<Rightarrow> string) \<Rightarrow> int \<Rightarrow> APIKey \<Rightarrow> bool \<Rightarrow> (string, tier_msg html) result" where
  "APIKeyCard_view intl full now k editingTier = await (formatRelativeDate now (ak_created_at k)) (\<lambda>rel. Inr (El ''div'' []
     [El ''div'' []
        [El ''div'' []
           [El ''span'' [] [lit (ak_name k)],
            (if editingTier then
               El ''div'' [] [ui_TierSelector (ak_tier k) TierChosen,
                 El ''button'' [On ''click'' TierCancel, At ''aria-label'' (T ''common:actions.cancel'' [])] [lit [CHR 0xE2, CHR 0x9C, CHR 0x95]]]
             else El ''button'' [On ''click'' TierEdit, At ''aria-label'' (T ''projects:api_keys.change_tier_aria'' [(''name'', ak_name k)])]
               [ui_TierBadge (Some (ak_tier k))])],
         El ''div'' []
           [El ''span'' [] [lit (key_prefix k)],
            El ''time'' [At ''datetime'' (Lit (ak_created_at k)), At ''title'' (Lit (full (date_parse (ak_created_at k))))] [lit (intl rel)]]],
      El ''button'' [On ''click'' RevokeIntent, At ''aria-label'' (T ''projects:api_keys.revoke_aria'' [(''name'', ak_name k)])]
        [tr ''projects:api_keys.revoke'']]))"

section \<open>Creating a key\<close>

datatype CreatePhase = FormPhase | ShowPhase string string

record key_dialog =
  kd_phase :: CreatePhase
  kd_name :: string
  kd_tier :: ToolCapabilityTier
  kd_serverError :: "utext option"
  kd_copied :: bool

definition kd_init :: key_dialog where
  "kd_init = \<lparr>kd_phase = FormPhase, kd_name = [], kd_tier = TierRead, kd_serverError = None, kd_copied = False\<rparr>"

datatype key_msg =
    KeyName string
  | KeyTier ToolCapabilityTier
  | KeySubmit
  | KeyCreated string string
  | KeyFailed web_error
  | KeyCancel
  | KeyOpenChange bool
  | KeyCopy
  | KeyCopyWritten bool
  | KeyCopyTimer
  | KeyDone
  | KeyShowOpenChange bool

datatype key_out = KeyEff effect | KeyCreatedOut | KeyCancelOut

text \<open>
  \<open>KeyCreated key name\<close> is the response of a successful creation; the timer resets the label of
  the copy button.
\<close>

definition CreateAPIKeyModal_update :: "string \<Rightarrow> string \<Rightarrow> key_msg \<Rightarrow> key_dialog \<Rightarrow> key_dialog \<times> key_out list" where
  "CreateAPIKeyModal_update slug envSlug msg d = (case msg of
     KeyName v \<Rightarrow> (d\<lparr>kd_name := v, kd_serverError := None\<rparr>, [])
   | KeyTier t \<Rightarrow> (d\<lparr>kd_tier := t\<rparr>, [])
   | KeySubmit \<Rightarrow> (if js_trim (kd_name d) = [] then (d, [])
       else (d\<lparr>kd_serverError := None\<rparr>, [KeyEff (Send ''POST'' (api_keys_path slug envSlug)
              (Some (JObj [(''name'', JStr (kd_name d)), (''capability_tier'', JStr (tier_value (kd_tier d)))])))]))
   | KeyCreated k nm \<Rightarrow> (d\<lparr>kd_phase := ShowPhase k nm\<rparr>, [])
   | KeyFailed err \<Rightarrow> (d\<lparr>kd_serverError := Some (api_or (T ''projects:api_keys.server_error'' []) err)\<rparr>, [])
   | KeyCancel \<Rightarrow> (d, [KeyCancelOut])
   | KeyOpenChange is_open \<Rightarrow> (d, if is_open then [] else [KeyCancelOut])
   | KeyCopy \<Rightarrow> (d, case kd_phase d of ShowPhase k nm \<Rightarrow> [KeyEff (CopyToClipboard k)] | FormPhase \<Rightarrow> [])
   | KeyCopyWritten ok \<Rightarrow> if ok then (d\<lparr>kd_copied := True\<rparr>, [KeyEff (SetTimer 2000)]) else (d, [])
   | KeyCopyTimer \<Rightarrow> (d\<lparr>kd_copied := False\<rparr>, [])
   | KeyDone \<Rightarrow> (d, [KeyCreatedOut])
   | KeyShowOpenChange is_open \<Rightarrow> (d, if is_open then [] else [KeyCreatedOut]))"

definition curlSnippet :: "string \<Rightarrow> string \<Rightarrow> string \<Rightarrow> string" where
  "curlSnippet slug envSlug k =
     ''curl -X POST https://<your-host>/api/v1/projects/'' @ slug @ ''/environments/'' @ envSlug @ ''/flags/<flag-key>/evaluate '' @ [CHR 0x5C, nl] @
     ''  -H '' @ [CHR 0x22] @ ''Authorization: Bearer '' @ k @ [CHR 0x22, CHR 0x20, CHR 0x5C, nl] @
     ''  -H '' @ [CHR 0x22] @ ''Content-Type: application/json'' @ [CHR 0x22, CHR 0x20, CHR 0x5C, nl] @
     ''  -d '' @ [CHR 0x27, CHR 0x7B, CHR 0x22] @ ''context'' @ [CHR 0x22] @ '': {'' @ [CHR 0x22] @ ''key'' @ [CHR 0x22] @ '': '' @
       [CHR 0x22] @ ''user-123'' @ [CHR 0x22] @ ''}}'' @ [CHR 0x27]"

definition ShowOnceModal_view :: "bool \<Rightarrow> string \<Rightarrow> string \<Rightarrow> string \<Rightarrow> string \<Rightarrow> bool \<Rightarrow> key_msg html" where
  "ShowOnceModal_view is_open slug envSlug keyName plaintextKey copied =
     ui_Dialog is_open KeyShowOpenChange [ui_DialogContent
       [ui_DialogHeader [ui_DialogTitle [Txt (T ''projects:api_keys.show_once_title'' [(''name'', keyName)])]],
        El ''p'' [] [tr ''projects:api_keys.show_once_warning''],
        El ''div'' []
          [El ''label'' [] [tr ''projects:api_keys.your_key_label''],
           El ''div'' []
             [El ''code'' [] [lit plaintextKey],
              ui_Button False False [At ''type'' (Lit ''button''), On ''click'' KeyCopy, At ''aria-label'' (T ''projects:api_keys.copy_aria'' [])]
                [tr (if copied then ''projects:api_keys.copied'' else ''projects:api_keys.copy'')]]],
        El ''div'' []
          [El ''label'' [] [tr ''projects:api_keys.getting_started_label''],
           El ''pre'' [] [lit (curlSnippet slug envSlug plaintextKey)]],
        ui_DialogFooter [ui_Button False False [On ''click'' KeyDone] [tr ''projects:api_keys.done'']]]]"

definition CreateAPIKeyModal_view :: "bool \<Rightarrow> string \<Rightarrow> string \<Rightarrow> bool \<Rightarrow> key_dialog \<Rightarrow> key_msg html" where
  "CreateAPIKeyModal_view is_open slug envSlug pending d = (case kd_phase d of
     ShowPhase k nm \<Rightarrow> ShowOnceModal_view is_open slug envSlug nm k (kd_copied d)
   | FormPhase \<Rightarrow>
       ui_Dialog is_open KeyOpenChange [ui_DialogContent
         [ui_DialogHeader [ui_DialogTitle [tr ''projects:api_keys.create_title'']],
          El ''form'' [On ''submit'' KeySubmit]
            ([El ''div'' []
                [ui_Label ''key-name'' [tr ''projects:api_keys.name_label''],
                 ui_Input None False (Some ''key-name'') None
                   [At ''type'' (Lit ''text''), Flag ''autofocus'' True, At ''value'' (Lit (kd_name d)), OnText ''change'' KeyName,
                    At ''placeholder'' (T ''projects:api_keys.name_placeholder'' [])]],
              El ''div'' [] [El ''label'' [] [tr ''projects:api_keys.capability_tier_label''], ui_TierSelector (kd_tier d) KeyTier]] @
             error_text (kd_serverError d) @
             [ui_DialogFooter
               [ui_Button False pending [At ''type'' (Lit ''button''), On ''click'' KeyCancel] [tr ''common:actions.cancel''],
                ui_Button pending (js_trim (kd_name d) = []) [At ''type'' (Lit ''submit'')] [tr ''projects:api_keys.create_button'']]])]])"

section \<open>The page\<close>

record keys_page =
  kp_selected :: "string option"
  kp_showCreate :: bool
  kp_pendingRevoke :: "APIKey option"
  kp_dialog :: key_dialog

definition kp_init :: keys_page where
  "kp_init = \<lparr>kp_selected = None, kp_showCreate = False, kp_pendingRevoke = None, kp_dialog = kd_init\<rparr>"

text \<open>The environment of the page: the two queries and which requests are running or failed.\<close>

record keys_env =
  ks_envs :: "KeyEnv list query"
  ks_keys :: "APIKey list query"
  ks_creating :: bool
  ks_revoking :: bool
  ks_revokeFailed :: bool

definition envSlug_of :: "keys_env \<Rightarrow> keys_page \<Rightarrow> string option" where
  "envSlug_of e p = (case kp_selected p of
     Some s \<Rightarrow> Some s
   | None \<Rightarrow> (case q_data (ks_envs e) of Some (env # _) \<Rightarrow> Some (ke_slug env) | _ \<Rightarrow> None))"

definition shown_keys :: "keys_env \<Rightarrow> APIKey list" where
  "shown_keys e = (case q_data (ks_keys e) of Some ks \<Rightarrow> live_keys ks | None \<Rightarrow> [])"

datatype keys_msg =
    SelectEnv string
  | NewKey
  | KeyDialog key_msg
  | KeyCard APIKey tier_msg
  | ConfirmRevoke
  | RevokeSettled bool
  | RevokeCancel
  | RevokeOpenChange bool
  | RetryKeys

definition or_null :: "string option \<Rightarrow> string" where
  "or_null s = (case s of Some x \<Rightarrow> x | None \<Rightarrow> ''null'')"

text \<open>The state of a card, \<open>editingTier\<close>, is the card's own; only its revocation concerns the page.\<close>

definition APIKeyPage_update :: "string \<Rightarrow> keys_env \<Rightarrow> keys_msg \<Rightarrow> keys_page \<Rightarrow> keys_page \<times> effect list" where
  "APIKeyPage_update slug e msg p =
     (let envSlug = or_null (envSlug_of e p) in
      case msg of
        SelectEnv v \<Rightarrow> (p\<lparr>kp_selected := Some v\<rparr>, [])
      | NewKey \<Rightarrow> (p\<lparr>kp_showCreate := True\<rparr>, [])
      | KeyDialog m \<Rightarrow> (case CreateAPIKeyModal_update slug envSlug m (kp_dialog p) of
            (d, outs) \<Rightarrow>
              (p\<lparr>kp_dialog := d, kp_showCreate := (kp_showCreate p \<and> KeyCreatedOut \<notin> set outs \<and> KeyCancelOut \<notin> set outs)\<rparr>,
               concat (map (\<lambda>x. case x of KeyEff f \<Rightarrow> [f] | KeyCreatedOut \<Rightarrow> [Invalidate (keysKey slug envSlug)] | KeyCancelOut \<Rightarrow> []) outs)))
      | KeyCard k m \<Rightarrow>
          (if m = RevokeIntent then p\<lparr>kp_pendingRevoke := Some k\<rparr> else p, snd (APIKeyCard_update slug envSlug k m True))
      | ConfirmRevoke \<Rightarrow> (p, case kp_pendingRevoke p of
            Some k \<Rightarrow> [Send ''DELETE'' (api_keys_path slug envSlug @ ''/'' @ ak_id k) None] | None \<Rightarrow> [])
      | RevokeSettled ok \<Rightarrow> if ok then (p\<lparr>kp_pendingRevoke := None\<rparr>, [Invalidate (keysKey slug envSlug)]) else (p, [])
      | RevokeCancel \<Rightarrow> (p\<lparr>kp_pendingRevoke := None\<rparr>, [])
      | RevokeOpenChange is_open \<Rightarrow> (if is_open then p else p\<lparr>kp_pendingRevoke := None\<rparr>, [])
      | RetryKeys \<Rightarrow> (p, [Refetch (keysKey slug envSlug)]))"

definition APIKeyEmptyState_view :: "keys_msg html" where
  "APIKeyEmptyState_view = El ''div'' [] [El ''p'' [] [tr ''projects:api_keys.empty''],
     ui_Button False False [On ''click'' NewKey] [tr ''projects:api_keys.new_key'']]"

definition APIKeyListSkeleton_view :: "'m html" where
  "APIKeyListSkeleton_view = El ''div'' [] (replicate 3 (El ''div'' []
     [El ''div'' [] [El ''div'' [] [El ''div'' [] [], El ''div'' [] []], El ''div'' [] [El ''div'' [] [], El ''div'' [] []]], El ''div'' [] []]))"

definition RevokeAPIKeyModal_view :: "APIKey option \<Rightarrow> bool \<Rightarrow> bool \<Rightarrow> bool \<Rightarrow> keys_msg html" where
  "RevokeAPIKeyModal_view apiKey isLastKey isRevoking revokeFailed =
     ui_Dialog (apiKey \<noteq> None) RevokeOpenChange [ui_DialogContent
       ([ui_DialogHeader ([ui_DialogTitle [tr ''projects:api_keys.revoke_title'']] @
           (case apiKey of Some k \<Rightarrow> [ui_DialogDescription [Txt (T ''projects:api_keys.revoke_body''
              [(''prefix'', key_prefix k), (''name'', ak_name k)])]] | None \<Rightarrow> []))] @
        show_if isLastKey (El ''p'' [] [tr ''projects:api_keys.revoke_last_warning'']) @
        show_if revokeFailed (El ''p'' [] [tr ''projects:api_keys.revoke_failed'']) @
        [ui_DialogFooter
          [ui_Button False isRevoking [Flag ''autofocus'' True, At ''type'' (Lit ''button''), On ''click'' RevokeCancel] [tr ''common:actions.cancel''],
           ui_Button isRevoking False [At ''type'' (Lit ''button''), On ''click'' ConfirmRevoke] [tr ''projects:api_keys.revoke'']]])]"

text \<open>The cards are rendered with their own state; \<open>cards\<close> is the result, or what a card threw.\<close>

definition keys_section :: "keys_env \<Rightarrow> keys_msg html list \<Rightarrow> keys_msg html" where
  "keys_section e cards =
     (if isLoading (ks_keys e) then APIKeyListSkeleton_view
      else if isError (ks_keys e) then
        El ''div'' [] [El ''span'' [] [tr ''projects:api_keys.error'', lit '' ''], El ''button'' [On ''click'' RetryKeys] [tr ''common:actions.retry'']]
      else if shown_keys e = [] then APIKeyEmptyState_view
      else El ''div'' [] cards)"

definition env_section :: "keys_env \<Rightarrow> keys_msg html list \<Rightarrow> string option \<Rightarrow> keys_msg html list" where
  "env_section e cards envSlug =
     (if isLoading (ks_envs e) then [El ''div'' [] []]
      else if isError (ks_envs e) then [El ''p'' [] [tr ''projects:api_keys.environments_error'']]
      else case q_data (ks_envs e) of
        Some (env # envs) \<Rightarrow>
          [El ''div'' [] [El ''label'' [] [tr ''projects:api_keys.environment_label''],
             ui_Select (case envSlug of Some s \<Rightarrow> s | None \<Rightarrow> []) SelectEnv False [At ''aria-label'' (T ''projects:api_keys.environment_label'' [])]
               (map (\<lambda>v. ui_SelectItem (ke_slug v) [lit (ke_name v)]) (env # envs))],
           keys_section e cards]
      | _ \<Rightarrow> [El ''p'' [] [tr ''projects:api_keys.no_environments'']])"

definition create_section :: "string \<Rightarrow> keys_env \<Rightarrow> keys_page \<Rightarrow> keys_msg html list" where
  "create_section slug e p = (case envSlug_of e p of
     Some s \<Rightarrow> show_if (s \<noteq> []) (map_html KeyDialog (CreateAPIKeyModal_view (kp_showCreate p) slug s (ks_creating e) (kp_dialog p)))
   | None \<Rightarrow> [])"

definition APIKeyPage_view :: "string \<Rightarrow> keys_env \<Rightarrow> keys_msg html list \<Rightarrow> keys_page \<Rightarrow> keys_msg html" where
  "APIKeyPage_view slug e cards p =
     El ''div'' []
       ([El ''div'' [] [El ''h1'' [] [tr ''projects:api_keys.title''],
           ui_Button False (envSlug_of e p = None) [On ''click'' NewKey] [tr ''projects:api_keys.new_key'']]] @
        env_section e cards (envSlug_of e p) @ create_section slug e p @
        [RevokeAPIKeyModal_view (kp_pendingRevoke p) (length (shown_keys e) = 1) (ks_revoking e) (ks_revokeFailed e)])"

end
