(* ===== verification/Api_Keys_Spec.thy ===== *)
theory Api_Keys_Spec
  imports Api_Keys
begin

text \<open>
  What the API key page guarantees about its requests, and that the key that is meant to be
  shown once is shown again whenever the dialog is opened.
\<close>

section \<open>The plaintext key\<close>

text \<open>
  The environment of a step: the queries and the rendered cards, whose controls send card messages
  only. While no creation runs, no creation response arrives.
\<close>

definition cards_ok :: "keys_msg html list \<Rightarrow> bool" where
  "cards_ok cards \<longleftrightarrow> (\<forall>h \<in> set cards. \<forall>m. offered h m \<longrightarrow> (\<exists>k t. m = KeyCard k t))"

definition idle_can :: "string \<Rightarrow> keys_env \<times> keys_msg html list \<Rightarrow> keys_page \<Rightarrow> keys_msg \<Rightarrow> bool" where
  "idle_can slug = (\<lambda>(e, cards) p m. \<not> ks_creating e \<and> cards_ok cards \<and>
     (offered (APIKeyPage_view slug e cards p) m \<or> (\<exists>ok. m = RevokeSettled ok) \<or> (\<exists>k r. m = KeyCard k (TierSettled r))
      \<or> (\<exists>ok. m = KeyDialog (KeyCopyWritten ok)) \<or> m = KeyDialog KeyCopyTimer))"

definition keys_upd :: "string \<Rightarrow> keys_env \<times> keys_msg html list \<Rightarrow> keys_msg \<Rightarrow> keys_page \<Rightarrow> keys_page \<times> effect list" where
  "keys_upd slug = (\<lambda>(e, cards). APIKeyPage_update slug e)"

lemma show_once_offers:
  "offered (ShowOnceModal_view is_open slug envSlug nm k copied) m \<Longrightarrow> m \<in> {KeyCopy, KeyDone} \<or> (\<exists>b. m = KeyShowOpenChange b)"
  by (auto simp: ShowOnceModal_view_def)

lemma revoke_offers_dialog: "\<not> offered (RevokeAPIKeyModal_view a b c d) (KeyDialog m)"
  by (cases a) (auto simp: RevokeAPIKeyModal_view_def show_if_def)

lemma section_offers_dialog:
  assumes "cards_ok cards" and "h \<in> set (env_section e cards s)"
  shows "\<not> offered h (KeyDialog m)"
proof -
  have "\<not> offered (keys_section e cards) (KeyDialog m)"
    using assms(1) by (auto simp: cards_ok_def keys_section_def APIKeyListSkeleton_view_def APIKeyEmptyState_view_def)
  then show ?thesis
    using assms(2) by (auto simp: env_section_def split: if_splits option.splits list.splits)
qed

lemma page_offers_dialog:
  assumes "offered (APIKeyPage_view slug e cards p) (KeyDialog m)" and "cards_ok cards" and "kd_phase (kp_dialog p) = ShowPhase k nm"
  shows "m \<in> {KeyCopy, KeyDone} \<or> (\<exists>b. m = KeyShowOpenChange b)"
proof -
  have "\<exists>h \<in> set (create_section slug e p). offered h (KeyDialog m)"
    using assms(1) revoke_offers_dialog section_offers_dialog [OF assms(2)] by (auto simp: APIKeyPage_view_def)
  then obtain s where "offered (CreateAPIKeyModal_view (kp_showCreate p) slug s (ks_creating e) (kp_dialog p)) m"
    by (auto simp: create_section_def show_if_def split: option.splits if_splits)
  then show ?thesis using show_once_offers unfolding CreateAPIKeyModal_view_def assms(3) by simp
qed

lemma key_outs_send:
  "Send meth path b \<in> set (concat (map (\<lambda>x. case x of KeyEff f \<Rightarrow> [f] | KeyCreatedOut \<Rightarrow> [Invalidate i] | KeyCancelOut \<Rightarrow> []) outs))
     \<longleftrightarrow> KeyEff (Send meth path b) \<in> set outs"
  by (induction outs) (auto split: key_out.splits)

lemma shown_step:
  assumes "kd_phase (kp_dialog p) = ShowPhase k nm" and "m \<in> {KeyCopy, KeyDone, KeyCopyTimer} \<or> (\<exists>b. m = KeyShowOpenChange b \<or> m = KeyCopyWritten b)"
  shows "kd_phase (fst (CreateAPIKeyModal_update slug envSlug m (kp_dialog p))) = ShowPhase k nm"
    "KeyEff (Send meth path b) \<notin> set (snd (CreateAPIKeyModal_update slug envSlug m (kp_dialog p)))"
  using assms by (auto simp: CreateAPIKeyModal_update_def split: if_splits)

lemma page_dialog_step:
  assumes "kd_phase (kp_dialog p) = ShowPhase k nm" and "m \<in> {KeyCopy, KeyDone, KeyCopyTimer} \<or> (\<exists>b. m = KeyShowOpenChange b \<or> m = KeyCopyWritten b)"
  shows "kd_phase (kp_dialog (fst (APIKeyPage_update slug e (KeyDialog m) p))) = ShowPhase k nm"
    "Send meth path b \<notin> set (snd (APIKeyPage_update slug e (KeyDialog m) p))"
proof -
  let ?s = "or_null (envSlug_of e p)"
  obtain d outs where r: "CreateAPIKeyModal_update slug ?s m (kp_dialog p) = (d, outs)" by fastforce
  note s = shown_step(1) [OF assms, where slug = slug and envSlug = ?s]
    shown_step(2) [OF assms, where slug = slug and envSlug = ?s and meth = meth and path = path and b = b]
  show "kd_phase (kp_dialog (fst (APIKeyPage_update slug e (KeyDialog m) p))) = ShowPhase k nm"
    using s(1) r by (simp add: APIKeyPage_update_def Let_def)
  have "KeyEff (Send meth path b) \<notin> set outs" using s(2) r by simp
  then show "Send meth path b \<notin> set (snd (APIKeyPage_update slug e (KeyDialog m) p))"
    using r by (simp add: APIKeyPage_update_def Let_def key_outs_send del: set_concat)
qed

interpretation shown: page "keys_upd slug" "idle_can slug" "\<lambda>p. kd_phase (kp_dialog p) = ShowPhase k nm"
  "\<lambda>x. \<forall>path b. x \<noteq> Send ''POST'' path b" for slug k nm
proof unfold_locales
  fix p :: keys_page and ec m x
  assume inv: "kd_phase (kp_dialog p) = ShowPhase k nm" and can: "idle_can slug ec p m"
  obtain e cards where ec: "ec = (e, cards)" by (cases ec)
  have dialog: "m' \<in> {KeyCopy, KeyDone, KeyCopyTimer} \<or> (\<exists>b. m' = KeyShowOpenChange b \<or> m' = KeyCopyWritten b)" if "m = KeyDialog m'" for m'
    using can that page_offers_dialog [of slug e cards p m' k nm] inv by (auto simp: idle_can_def ec)
  show "kd_phase (kp_dialog (fst (keys_upd slug ec m p))) = ShowPhase k nm"
  proof (cases m)
    case (KeyDialog m')
    then show ?thesis using page_dialog_step(1) [OF inv dialog] by (simp add: keys_upd_def ec)
  qed (use inv in \<open>simp_all add: keys_upd_def ec APIKeyPage_update_def Let_def\<close>)
  assume x: "x \<in> set (snd (keys_upd slug ec m p))"
  show "\<forall>path b. x \<noteq> Send ''POST'' path b"
  proof (cases m)
    case (KeyDialog m')
    then show ?thesis using x page_dialog_step(2) [OF inv dialog] by (auto simp: keys_upd_def ec)
  next
    case (KeyCard c t)
    then show ?thesis using x by (cases t) (auto simp: keys_upd_def ec APIKeyPage_update_def APIKeyCard_update_def Let_def split: option.splits)
  qed (use x in \<open>auto simp: keys_upd_def ec APIKeyPage_update_def Let_def split: option.splits if_splits\<close>)
qed


definition demo_keys_env :: keys_env where
  "demo_keys_env = \<lparr>ks_envs = \<lparr>isLoading = False, q_error = None, q_data = Some [\<lparr>ke_id = ''1'', ke_name = ''Prod'', ke_slug = ''prod''\<rparr>]\<rparr>,
     ks_keys = \<lparr>isLoading = False, q_error = None, q_data = Some []\<rparr>, ks_creating = False, ks_revoking = False, ks_revokeFailed = False\<rparr>"


section \<open>Requests\<close>

text \<open>
  Requests of the API key page. A key is created only for a non-blank name, with the chosen
  tier and in the chosen environment; a tier is changed only by choosing one on the key's
  card; a key is revoked only after it was asked for, and only that one; the revocation is
  offered exactly while it is asked for and not running; and revoked keys are not listed.
\<close>

theorem api_key_requests:
  "(\<forall>meth path b. Send meth path b \<in> set (snd (APIKeyPage_update slug e msg p)) \<longrightarrow>
      (meth = ''POST'' \<and> msg = KeyDialog KeySubmit \<and> js_trim (kd_name (kp_dialog p)) \<noteq> [] \<and> path = api_keys_path slug (or_null (envSlug_of e p))
         \<and> b = Some (JObj [(''name'', JStr (kd_name (kp_dialog p))), (''capability_tier'', JStr (tier_value (kd_tier (kp_dialog p))))]))
      \<or> (meth = ''PATCH'' \<and> (\<exists>k t. msg = KeyCard k (TierChosen t) \<and> path = api_keys_path slug (or_null (envSlug_of e p)) @ ''/'' @ ak_id k))
      \<or> (meth = ''DELETE'' \<and> msg = ConfirmRevoke \<and>
           (\<exists>k. kp_pendingRevoke p = Some k \<and> path = api_keys_path slug (or_null (envSlug_of e p)) @ ''/'' @ ak_id k)))
   \<and> (offered (RevokeAPIKeyModal_view (kp_pendingRevoke p) l revoking failed) ConfirmRevoke \<longleftrightarrow> kp_pendingRevoke p \<noteq> None \<and> \<not> revoking)
   \<and> (\<forall>k \<in> set (shown_keys e). ak_revoked_at k = None \<or> ak_revoked_at k = Some [])"
proof -
  let ?s = "or_null (envSlug_of e p)"
  have "(meth = ''POST'' \<and> msg = KeyDialog KeySubmit \<and> js_trim (kd_name (kp_dialog p)) \<noteq> [] \<and> path = api_keys_path slug ?s
         \<and> b = Some (JObj [(''name'', JStr (kd_name (kp_dialog p))), (''capability_tier'', JStr (tier_value (kd_tier (kp_dialog p))))]))
      \<or> (meth = ''PATCH'' \<and> (\<exists>k t. msg = KeyCard k (TierChosen t) \<and> path = api_keys_path slug ?s @ ''/'' @ ak_id k))
      \<or> (meth = ''DELETE'' \<and> msg = ConfirmRevoke \<and> (\<exists>k. kp_pendingRevoke p = Some k \<and> path = api_keys_path slug ?s @ ''/'' @ ak_id k))"
    if send: "Send meth path b \<in> set (snd (APIKeyPage_update slug e msg p))" for meth path b
  proof (cases msg)
    case (KeyDialog m)
    then have "KeyEff (Send meth path b) \<in> set (snd (CreateAPIKeyModal_update slug ?s m (kp_dialog p)))"
      using send by (simp add: APIKeyPage_update_def Let_def key_outs_send del: set_concat split: prod.splits)
    then show ?thesis using KeyDialog by (cases m) (auto simp: CreateAPIKeyModal_update_def split: if_splits CreatePhase.splits)
  next
    case (KeyCard k t)
    then show ?thesis using send by (cases t) (auto simp: APIKeyPage_update_def APIKeyCard_update_def Let_def split: option.splits)
  next
    case ConfirmRevoke
    then show ?thesis using send by (cases "kp_pendingRevoke p") (auto simp: APIKeyPage_update_def Let_def)
  qed (use send in \<open>auto simp: APIKeyPage_update_def Let_def split: if_splits\<close>)
  moreover have "offered (RevokeAPIKeyModal_view (kp_pendingRevoke p) l revoking failed) ConfirmRevoke \<longleftrightarrow> kp_pendingRevoke p \<noteq> None \<and> \<not> revoking"
    by (cases "kp_pendingRevoke p") (auto simp: RevokeAPIKeyModal_view_def show_if_def)
  moreover have "\<forall>k \<in> set (shown_keys e). ak_revoked_at k = None \<or> ak_revoked_at k = Some []"
    by (auto simp: shown_keys_def live_keys_def split: option.splits)
  ultimately show ?thesis by blast
qed

theorem api_key_requests_witness:
  "Send ''POST'' (api_keys_path ''shop'' ''prod'') (Some (JObj [(''name'', JStr ''ci''), (''capability_tier'', JStr ''read'')]))
     \<in> set (snd (APIKeyPage_update ''shop'' demo_keys_env (KeyDialog KeySubmit) (kp_init\<lparr>kp_dialog := kd_init\<lparr>kd_name := ''ci''\<rparr>\<rparr>)))
   \<and> js_trim ''ci'' \<noteq> []"
proof -
  let ?p = "kp_init\<lparr>kp_dialog := kd_init\<lparr>kd_name := ''ci''\<rparr>\<rparr>"
  have trim: "js_trim ''ci'' = ''ci''" by code_simp
  have "envSlug_of demo_keys_env ?p = Some ''prod''" by (simp add: envSlug_of_def demo_keys_env_def kp_init_def)
  then have sent: "Send ''POST'' (api_keys_path ''shop'' ''prod'') (Some (JObj [(''name'', JStr ''ci''), (''capability_tier'', JStr ''read'')]))
     \<in> set (snd (APIKeyPage_update ''shop'' demo_keys_env (KeyDialog KeySubmit) ?p))"
    by (simp add: APIKeyPage_update_def Let_def CreateAPIKeyModal_update_def trim or_null_def kd_init_def)
  have "js_trim (kd_name (kp_dialog ?p)) \<noteq> []"
    using api_key_requests [of "''shop''" demo_keys_env "KeyDialog KeySubmit" ?p False False False] sent by blast
  with sent show ?thesis by simp
qed

end
