(* ===== verification/Settings_Pages.thy ===== *)
theory Settings_Pages
  imports Dialogs_Spec Js_Date Page_Runs
begin

text \<open>
  The settings of a project: its name, slug and deletion
  (\<open>web/src/routes/projects/$slug.settings.tsx\<close>), and its environments
  (\<open>web/src/routes/projects/$slug.settings.environments.tsx\<close>). The project comes from the loader of the
  route (\<open>$slug.tsx\<close>), the role from \<open>useProjectRole\<close>.
\<close>

section \<open>The project\<close>

record ProjectData =
  pj_id :: string
  pj_name :: string
  pj_slug :: string
  pj_created_at :: string

definition project_path :: "string \<Rightarrow> string" where
  "project_path slug = ''/api/v1/projects/'' @ slug"

text \<open>The loader: a 404 becomes the router's \<open>notFound\<close>, other errors are thrown on.\<close>

datatype load_error = NotFound | LoadFailed web_error

definition projectRoute_loader :: "(web_error, ProjectData) result \<Rightarrow> (load_error, ProjectData) result" where
  "projectRoute_loader r = (case r of
     Inr p \<Rightarrow> Inr p
   | Inl err \<Rightarrow> (case err of APIError st m c \<Rightarrow> if st = 404 then Inl NotFound else Inl (LoadFailed err)
       | OtherError m \<Rightarrow> Inl (LoadFailed err)))"

subsection \<open>Name\<close>

record name_field =
  nf_name :: string
  nf_saved :: bool
  nf_serverError :: "utext option"

definition nf_init :: "ProjectData \<Rightarrow> name_field" where
  "nf_init p = \<lparr>nf_name = pj_name p, nf_saved = False, nf_serverError = None\<rparr>"

datatype name_msg = NameInput string | NameSubmit | NameSettled "web_error option" | NameTimer

definition NameField_update :: "ProjectData \<Rightarrow> name_msg \<Rightarrow> name_field \<Rightarrow> name_field \<times> effect list" where
  "NameField_update project msg f = (case msg of
     NameInput v \<Rightarrow> (f\<lparr>nf_name := v, nf_serverError := None, nf_saved := False\<rparr>, [])
   | NameSubmit \<Rightarrow> (if js_trim (nf_name f) = [] \<or> nf_name f = pj_name project then (f, [])
       else (f\<lparr>nf_serverError := None\<rparr>, [Send ''PATCH'' (project_path (pj_slug project)) (Some (JObj [(''name'', JStr (nf_name f))]))]))
   | NameSettled None \<Rightarrow> (f\<lparr>nf_saved := True, nf_serverError := None\<rparr>, [Invalidate [''projects''], SetTimer 2000])
   | NameSettled (Some err) \<Rightarrow> (f\<lparr>nf_serverError := Some (api_or (T ''projects:settings.save_failed'' []) err)\<rparr>, [])
   | NameTimer \<Rightarrow> (f\<lparr>nf_saved := False\<rparr>, []))"

definition NameField_view :: "ProjectData \<Rightarrow> bool \<Rightarrow> bool \<Rightarrow> name_field \<Rightarrow> name_msg html" where
  "NameField_view project admin pending f =
     El ''div'' []
       ([ui_Label ''project-name'' [tr ''projects:settings.name_label''],
         (if admin then
            El ''form'' [On ''submit'' NameSubmit]
              [ui_Input None False (Some ''project-name'') None
                 [At ''type'' (Lit ''text''), At ''value'' (Lit (nf_name f)), OnText ''change'' NameInput],
               ui_Button pending (js_trim (nf_name f) = [] \<or> nf_name f = pj_name project) [At ''type'' (Lit ''submit'')]
                 [tr (if nf_saved f then ''projects:settings.saved'' else ''projects:settings.save'')]]
          else El ''p'' [] [lit (pj_name project)])] @
        error_text (nf_serverError f))"

subsection \<open>Slug\<close>

definition SlugField_update :: "string \<Rightarrow> copy_msg \<Rightarrow> bool \<Rightarrow> bool \<times> effect list" where
  "SlugField_update slug msg copied = (case msg of
     CopyClick \<Rightarrow> (copied, [CopyToClipboard slug])
   | CopyWritten ok \<Rightarrow> if ok then (True, [SetTimer 1500]) else (copied, [])
   | CopyTimer \<Rightarrow> (False, []))"

definition SlugField_view :: "string \<Rightarrow> bool \<Rightarrow> copy_msg html" where
  "SlugField_view slug copied = El ''div'' []
     [El ''p'' [] [tr ''projects:settings.slug_label''],
      El ''div'' []
        [El ''span'' [] [lit slug],
         El ''div'' [] [El ''button'' [On ''click'' CopyClick, At ''aria-label'' (T ''projects:settings.copy_slug_aria'' [(''slug'', slug)])]
           [tr (if copied then ''projects:settings.copied'' else ''projects:settings.copy'')]],
         El ''p'' [] [tr ''projects:settings.slug_immutable'']]]"

subsection \<open>Deletion\<close>

text \<open>The dialog is mounted with the danger zone; closing it keeps what was typed.\<close>

record danger_zone =
  dz_show :: bool
  dz_confirmName :: string
  dz_serverError :: "utext option"

definition dz_init :: danger_zone where
  "dz_init = \<lparr>dz_show = False, dz_confirmName = [], dz_serverError = None\<rparr>"

datatype danger_msg =
    DangerOpen
  | DangerCancel
  | DangerOpenChange bool
  | DangerName string
  | DangerSubmit
  | DangerSettled "web_error option"

definition DangerZone_update :: "ProjectData \<Rightarrow> danger_msg \<Rightarrow> danger_zone \<Rightarrow> danger_zone \<times> effect list" where
  "DangerZone_update project msg z = (case msg of
     DangerOpen \<Rightarrow> (z\<lparr>dz_show := True\<rparr>, [])
   | DangerCancel \<Rightarrow> (z\<lparr>dz_show := False\<rparr>, [])
   | DangerOpenChange is_open \<Rightarrow> (if is_open then z else z\<lparr>dz_show := False\<rparr>, [])
   | DangerName v \<Rightarrow> (z\<lparr>dz_confirmName := v, dz_serverError := None\<rparr>, [])
   | DangerSubmit \<Rightarrow> (if dz_confirmName z \<noteq> pj_name project then (z, [])
       else (z\<lparr>dz_serverError := None\<rparr>, [Send ''DELETE'' (project_path (pj_slug project)) None]))
   | DangerSettled None \<Rightarrow> (z, [Invalidate [''projects''], Navigate ''/''])
   | DangerSettled (Some err) \<Rightarrow> (z\<lparr>dz_serverError := Some (api_or (T ''projects:delete_project.failed'' []) err)\<rparr>, []))"

definition DeleteProjectModal_view :: "ProjectData \<Rightarrow> bool \<Rightarrow> danger_zone \<Rightarrow> danger_msg html" where
  "DeleteProjectModal_view project pending z =
     ui_Dialog (dz_show z) DangerOpenChange [ui_DialogContent
       [ui_DialogHeader [ui_DialogTitle [tr ''projects:delete_project.title'']],
        El ''p'' [] [Txt (T ''projects:delete_project.body'' [(''name'', pj_name project)])],
        El ''ul'' [] [El ''li'' [] [tr ''projects:delete_project.item_flags''], El ''li'' [] [tr ''projects:delete_project.item_environments''],
          El ''li'' [] [tr ''projects:delete_project.item_members'']],
        El ''div'' [] [tr ''projects:delete_project.warning''],
        El ''form'' [On ''submit'' DangerSubmit]
          ([El ''div'' []
             [ui_Label ''confirm-name'' [Txt (T ''projects:delete_project.confirm_label'' [(''name'', pj_name project)])],
              ui_Input None False (Some ''confirm-name'') None
                [At ''type'' (Lit ''text''), At ''value'' (Lit (dz_confirmName z)), OnText ''change'' DangerName, Flag ''autofocus'' True,
                 At ''placeholder'' (Lit (pj_name project))]]] @
           error_text (dz_serverError z) @
           [ui_DialogFooter
             [ui_Button False pending [At ''type'' (Lit ''button''), On ''click'' DangerCancel] [tr ''common:actions.cancel''],
              ui_Button pending (dz_confirmName z \<noteq> pj_name project) [At ''type'' (Lit ''submit'')] [tr ''projects:delete_project.delete_button'']]])]]"

definition DangerZone_view :: "ProjectData \<Rightarrow> bool \<Rightarrow> danger_zone \<Rightarrow> danger_msg html" where
  "DangerZone_view project pending z = El ''section'' []
     [El ''h2'' [] [tr ''projects:settings.danger_section''],
      El ''div'' []
        [El ''div'' [] [El ''p'' [] [tr ''projects:settings.delete_title''], El ''p'' [] [tr ''projects:settings.delete_description'']],
         ui_Button False False [On ''click'' DangerOpen] [tr ''projects:settings.delete_button'']],
      DeleteProjectModal_view project pending z]"

subsection \<open>The page\<close>

record settings_page =
  sp_name :: name_field
  sp_copied :: bool
  sp_danger :: danger_zone

datatype settings_msg = SettingsName name_msg | SettingsSlug copy_msg | SettingsDanger danger_msg | SettingsRetry

definition ProjectSettingsPage_update :: "ProjectData \<Rightarrow> settings_msg \<Rightarrow> settings_page \<Rightarrow> settings_page \<times> effect list" where
  "ProjectSettingsPage_update project msg p = (case msg of
     SettingsName m \<Rightarrow> (case NameField_update project m (sp_name p) of (f, effs) \<Rightarrow> (p\<lparr>sp_name := f\<rparr>, effs))
   | SettingsSlug m \<Rightarrow> (case SlugField_update (pj_slug project) m (sp_copied p) of (c, effs) \<Rightarrow> (p\<lparr>sp_copied := c\<rparr>, effs))
   | SettingsDanger m \<Rightarrow> (case DangerZone_update project m (sp_danger p) of (z, effs) \<Rightarrow> (p\<lparr>sp_danger := z\<rparr>, effs))
   | SettingsRetry \<Rightarrow> (p, [Refetch [''project-role'', pj_slug project]]))"

definition SettingsSkeleton_view :: "'m html" where
  "SettingsSkeleton_view = El ''div'' [] [El ''div'' [] [], El ''div'' [] [],
     El ''div'' [] (replicate 2 (El ''div'' [] [El ''div'' [] [], El ''div'' [] []]))]"

definition GeneralSection_view :: "ProjectData \<Rightarrow> bool \<Rightarrow> bool \<Rightarrow> settings_page \<Rightarrow> settings_msg html" where
  "GeneralSection_view project admin renaming p = El ''section'' []
     [El ''h2'' [] [tr ''projects:settings.general_section''],
      El ''div'' [] [map_html SettingsName (NameField_view project admin renaming (sp_name p)),
        map_html SettingsSlug (SlugField_view (pj_slug project) (sp_copied p))]]"

text \<open>\<open>role\<close> is the query of the role, whose data is the role of a member or \<open>None\<close>.\<close>

definition ProjectSettingsPage_view ::
    "ProjectData \<Rightarrow> string \<Rightarrow> string option query \<Rightarrow> bool \<Rightarrow> bool \<Rightarrow> settings_page \<Rightarrow> settings_msg html" where
  "ProjectSettingsPage_view project pathname role renaming deleting p =
     (if isLoading role then SettingsSkeleton_view
      else if isError role then El ''div'' []
        [El ''span'' [] [tr ''projects:settings.failed_to_load'', lit '' ''], El ''button'' [On ''click'' SettingsRetry] [tr ''common:actions.retry'']]
      else
        (let admin = (q_data role = Some (Some ''admin'')) in
         El ''div'' []
           ([El ''h1'' [] [tr ''projects:settings.title''], SettingsTabBar (pj_slug project) pathname, GeneralSection_view project admin renaming p] @
            show_if admin (El ''div'' [] [El ''div'' [] [], map_html SettingsDanger (DangerZone_view project deleting (sp_danger p))]))))"

section \<open>Environments\<close>

record ProjectEnvironment =
  pv_id :: string
  pv_project_id :: string
  pv_name :: string
  pv_slug :: string
  pv_created_at :: string

text \<open>\<open>/^\/projects\/[^/]+\/environments\/([^/]+)/\<close>\<close>

definition useActiveEnvSlug :: "string \<Rightarrow> string option" where
  "useActiveEnvSlug pathname =
     (if starts_with ''/projects/'' pathname then
        (let rest = drop 10 pathname; seg = takeWhile (\<lambda>c. c \<noteq> CHR ''/'') rest; after = dropWhile (\<lambda>c. c \<noteq> CHR ''/'') rest in
         if seg \<noteq> [] \<and> starts_with ''/environments/'' after then
           (let e = takeWhile (\<lambda>c. c \<noteq> CHR ''/'') (drop 14 after) in if e \<noteq> [] then Some e else None)
         else None)
      else None)"

subsection \<open>A row\<close>

record env_row =
  er_isEditing :: bool
  er_editValue :: string
  er_validationError :: bool
  er_renameError :: bool

definition er_init :: "ProjectEnvironment \<Rightarrow> env_row" where
  "er_init env = \<lparr>er_isEditing = False, er_editValue = pv_name env, er_validationError = False, er_renameError = False\<rparr>"

datatype row_msg =
    RowStart
  | RowInput string
  | RowBlur
  | RowKeyDown string
  | RowRenamed "web_error option"
  | RowErrorTimer
  | RowDelete

definition environment_path :: "string \<Rightarrow> string \<Rightarrow> string" where
  "environment_path projectSlug slug = ''/api/v1/projects/'' @ projectSlug @ ''/environments/'' @ slug"

definition saveEdit :: "string \<Rightarrow> ProjectEnvironment \<Rightarrow> env_row \<Rightarrow> env_row \<times> effect list" where
  "saveEdit projectSlug env r =
     (let trimmed = js_trim (er_editValue r) in
      if trimmed = [] then (r\<lparr>er_validationError := True\<rparr>, [])
      else if trimmed = pv_name env then (r\<lparr>er_isEditing := False\<rparr>, [])
      else (r, [Send ''PATCH'' (environment_path projectSlug (pv_slug env)) (Some (JObj [(''name'', JStr trimmed)]))]))"

definition row_cancelEdit :: "ProjectEnvironment \<Rightarrow> env_row \<Rightarrow> env_row" where
  "row_cancelEdit env r = r\<lparr>er_editValue := pv_name env, er_validationError := False, er_isEditing := False\<rparr>"

definition EnvironmentRow_update :: "string \<Rightarrow> ProjectEnvironment \<Rightarrow> row_msg \<Rightarrow> env_row \<Rightarrow> env_row \<times> effect list" where
  "EnvironmentRow_update projectSlug env msg r = (case msg of
     RowStart \<Rightarrow> (r\<lparr>er_editValue := pv_name env, er_validationError := False, er_renameError := False, er_isEditing := True\<rparr>, [])
   | RowInput v \<Rightarrow> (r\<lparr>er_editValue := v, er_validationError := (er_validationError r \<and> js_trim v = [])\<rparr>, [])
   | RowBlur \<Rightarrow> saveEdit projectSlug env r
   | RowKeyDown k \<Rightarrow> if k = ''Enter'' then saveEdit projectSlug env r else if k = ''Escape'' then (row_cancelEdit env r, []) else (r, [])
   | RowRenamed None \<Rightarrow> (r\<lparr>er_isEditing := False, er_renameError := False\<rparr>, [Invalidate [''environments'', projectSlug]])
   | RowRenamed (Some err) \<Rightarrow> (r\<lparr>er_isEditing := False, er_renameError := True, er_editValue := pv_name env\<rparr>, [SetTimer 3000])
   | RowErrorTimer \<Rightarrow> (r\<lparr>er_renameError := False\<rparr>, [])
   | RowDelete \<Rightarrow> (r, []))"

definition EnvironmentRow_view ::
    "(relative_date \<Rightarrow> string) \<Rightarrow> (int option \<Rightarrow> string) \<Rightarrow> int \<Rightarrow> ProjectEnvironment \<Rightarrow> bool \<Rightarrow> env_row \<Rightarrow> (string, row_msg html) result" where
  "EnvironmentRow_view intl full now env canEdit r =
     await (formatRelativeDate now (pv_created_at env)) (\<lambda>rel. Inr (El ''li'' []
       [El ''div'' []
          ([El ''span'' [] [lit (pv_slug env)],
            (if er_isEditing r then
               El ''input'' [At ''type'' (Lit ''text''), At ''value'' (Lit (er_editValue r)), OnText ''change'' RowInput, On ''blur'' RowBlur,
                 OnText ''keydown'' RowKeyDown, Flag ''aria-invalid'' (er_validationError r),
                 At ''aria-label'' (T ''projects:environments.edit_aria'' [(''slug'', pv_slug env)])] []
             else El ''span'' [] [lit (pv_name env)])] @
           show_if (er_renameError r) (El ''span'' [] [tr ''projects:environments.rename_failed''])),
        El ''div'' []
          ([El ''time'' [At ''datetime'' (Lit (pv_created_at env)), At ''title'' (Lit (full (date_parse (pv_created_at env))))] [lit (intl rel)]] @
           show_if (canEdit \<and> \<not> er_isEditing r) (El ''button'' [On ''click'' RowStart,
             At ''aria-label'' (T ''projects:environments.edit_aria'' [(''slug'', pv_slug env)])] [El ''svg'' [Flag ''aria-hidden'' True] [El ''path'' [] []]]) @
           [El ''button'' [On ''click'' RowDelete, At ''aria-label'' (T ''projects:environments.delete_aria'' [(''slug'', pv_slug env)])]
             [El ''svg'' [Flag ''aria-hidden'' True] [El ''path'' [] []]]])]))"

subsection \<open>The page\<close>

record envs_page =
  ep_showCreate :: bool
  ep_create :: env_dialog
  ep_pendingDelete :: "ProjectEnvironment option"
  ep_isDeleting :: bool
  ep_deleteFailed :: bool
  ep_rows :: "string \<Rightarrow> env_row"

definition ep_init :: "(string \<Rightarrow> env_row) \<Rightarrow> envs_page" where
  "ep_init rows = \<lparr>ep_showCreate = False, ep_create = ed_reset, ep_pendingDelete = None, ep_isDeleting = False, ep_deleteFailed = False, ep_rows = rows\<rparr>"

datatype envs_msg =
    EnvsNew
  | EnvsCreate env_msg
  | EnvsRow ProjectEnvironment row_msg
  | EnvsConfirm
  | EnvsDeleted string "web_error option"
  | EnvsCancel
  | EnvsOpenChange bool
  | EnvsRetry

text \<open>The rows keep their own state, by the id of their environment. \<open>pathname\<close> is the location.\<close>

definition EnvironmentSettingsPage_update :: "string \<Rightarrow> string \<Rightarrow> envs_msg \<Rightarrow> envs_page \<Rightarrow> envs_page \<times> effect list" where
  "EnvironmentSettingsPage_update slug pathname msg p = (case msg of
     EnvsNew \<Rightarrow> (p\<lparr>ep_showCreate := True\<rparr>, [])
   | EnvsCreate m \<Rightarrow> (case CreateEnvironmentDialog_update slug m (ep_create p) of
         (d, outs) \<Rightarrow>
           (p\<lparr>ep_create := d, ep_showCreate := (ep_showCreate p \<and> EnvCreatedOut \<notin> set outs \<and> EnvCancelOut \<notin> set outs)\<rparr>,
            concat (map (\<lambda>x. case x of EnvEff f \<Rightarrow> [f] | _ \<Rightarrow> []) outs)))
   | EnvsRow env m \<Rightarrow> (case EnvironmentRow_update slug env m (ep_rows p (pv_id env)) of
         (r, effs) \<Rightarrow>
           (let p' = p\<lparr>ep_rows := (ep_rows p)(pv_id env := r)\<rparr>
            in (if m = RowDelete then p'\<lparr>ep_pendingDelete := Some env\<rparr> else p', effs)))
   | EnvsConfirm \<Rightarrow> (case ep_pendingDelete p of
         Some env \<Rightarrow> (p\<lparr>ep_isDeleting := True, ep_deleteFailed := False\<rparr>, [Send ''DELETE'' (environment_path slug (pv_slug env)) None])
       | None \<Rightarrow> (p, []))
   | EnvsDeleted envSlug None \<Rightarrow> (p\<lparr>ep_isDeleting := False, ep_pendingDelete := None\<rparr>,
         Invalidate [''environments'', slug] # (if Some envSlug = useActiveEnvSlug pathname then [Navigate (''/projects/'' @ slug)] else []))
   | EnvsDeleted envSlug (Some err) \<Rightarrow> (p\<lparr>ep_isDeleting := False, ep_deleteFailed := True\<rparr>, [])
   | EnvsCancel \<Rightarrow> (p\<lparr>ep_pendingDelete := None\<rparr>, [])
   | EnvsOpenChange is_open \<Rightarrow> (if is_open then p else p\<lparr>ep_pendingDelete := None\<rparr>, [])
   | EnvsRetry \<Rightarrow> (p, [Refetch [''environments'', slug]]))"

definition EnvironmentEmptyState_view :: "envs_msg html" where
  "EnvironmentEmptyState_view = El ''div'' [] [El ''p'' [] [tr ''projects:environments.empty''],
     ui_Button False False [On ''click'' EnvsNew] [tr ''projects:environments.new_button'']]"

definition DeleteEnvironmentModal_view :: "ProjectEnvironment option \<Rightarrow> bool \<Rightarrow> bool \<Rightarrow> envs_msg html" where
  "DeleteEnvironmentModal_view environment isDeleting deleteFailed =
     ui_Dialog (environment \<noteq> None) EnvsOpenChange [ui_DialogContent
       ([ui_DialogHeader (ui_DialogTitle [tr ''projects:environments.delete_title''] #
           (case environment of Some e \<Rightarrow> [ui_DialogDescription [Txt (T ''projects:environments.delete_body'' [(''slug'', pv_slug e)])]] | None \<Rightarrow> [])),
         El ''p'' [] [tr ''projects:environments.delete_warning'']] @
        show_if deleteFailed (El ''p'' [] [tr ''projects:environments.delete_failed'']) @
        [ui_DialogFooter
          [ui_Button False isDeleting [Flag ''autofocus'' True, At ''type'' (Lit ''button''), On ''click'' EnvsCancel] [tr ''common:actions.cancel''],
           ui_Button isDeleting False [At ''type'' (Lit ''button''), On ''click'' EnvsConfirm] [tr ''projects:environments.delete_button'']]])]"

definition EnvironmentListSkeleton_view :: "'m html" where
  "EnvironmentListSkeleton_view = El ''div'' []
     [El ''div'' [] [El ''div'' [] [], El ''div'' [] []],
      El ''ul'' [] (replicate 3 (El ''li'' [] [El ''div'' [] [El ''div'' [] [], El ''div'' [] []], El ''div'' [] [El ''div'' [] [], El ''div'' [] []]]))]"

definition env_rows ::
    "(relative_date \<Rightarrow> string) \<Rightarrow> (int option \<Rightarrow> string) \<Rightarrow> int \<Rightarrow> bool \<Rightarrow> envs_page \<Rightarrow> ProjectEnvironment list
      \<Rightarrow> (string, envs_msg html list) result" where
  "env_rows intl full now canEdit p envs = render_all (map (\<lambda>env.
     await (EnvironmentRow_view intl full now env canEdit (ep_rows p (pv_id env))) (\<lambda>h. Inr (map_html (EnvsRow env) h))) envs)"

definition envs_list :: "string \<Rightarrow> string \<Rightarrow> ProjectEnvironment list \<Rightarrow> bool \<Rightarrow> envs_page \<Rightarrow> envs_msg html list \<Rightarrow> envs_msg html" where
  "envs_list slug pathname envs creating p rows = El ''div'' []
     [El ''h1'' [] [tr ''projects:settings.title''], SettingsTabBar slug pathname,
      El ''div'' [] [El ''h2'' [] [tr ''projects:environments.title''],
        ui_Button False False [On ''click'' EnvsNew] [tr ''projects:environments.new_button'']],
      (if envs = [] then EnvironmentEmptyState_view else El ''ul'' [] rows),
      map_html EnvsCreate (CreateEnvironmentDialog_view (ep_showCreate p) creating (ep_create p)),
      DeleteEnvironmentModal_view (ep_pendingDelete p) (ep_isDeleting p) (ep_deleteFailed p)]"

definition EnvironmentSettingsPage_view ::
    "(relative_date \<Rightarrow> string) \<Rightarrow> (int option \<Rightarrow> string) \<Rightarrow> int \<Rightarrow> string \<Rightarrow> string \<Rightarrow> string option option \<Rightarrow> ProjectEnvironment list query
      \<Rightarrow> bool \<Rightarrow> envs_page \<Rightarrow> (string, envs_msg html) result" where
  "EnvironmentSettingsPage_view intl full now slug pathname role q creating p =
     (if isLoading q then Inr EnvironmentListSkeleton_view
      else if isError q then Inr (El ''div'' []
        [El ''span'' [] [tr ''projects:environments.error'', lit '' ''], El ''button'' [On ''click'' EnvsRetry] [tr ''common:actions.retry'']])
      else
        (let envs = (case q_data q of Some es \<Rightarrow> es | None \<Rightarrow> []) in
         await (env_rows intl full now (role = Some (Some ''admin'')) p envs) (\<lambda>rows. Inr (envs_list slug pathname envs creating p rows))))"

end
