(* ===== verification/Settings_Spec.thy ===== *)
theory Settings_Spec
  imports Settings_Pages
begin

text \<open>
  What the settings pages guarantee: who can rename and delete, what is sent, and where the pages
  go wrong: the name that cannot be taken back, the rename that is sent twice, the redirect that
  never happens.
\<close>

section \<open>The project\<close>

lemma name_offers:
  "offered (NameField_view project admin pending f) m \<longleftrightarrow> admin \<and> ((\<exists>v. m = NameInput v) \<or>
     m = NameSubmit \<and> \<not> pending \<and> js_trim (nf_name f) \<noteq> [] \<and> nf_name f \<noteq> pj_name project)"
  by (auto simp: NameField_view_def can_submit_def bex_Un)

lemma submits_error_text [simp]: "concat (map submits (error_text e)) = []"
  by (cases e) (simp_all add: error_text_def show_if_def)

lemma danger_offers:
  "offered (DangerZone_view project pending z) m \<longleftrightarrow> m = DangerOpen \<or> (\<exists>b. m = DangerOpenChange b) \<or>
     dz_show z \<and> ((\<exists>v. m = DangerName v) \<or> m = DangerCancel \<and> \<not> pending \<or> m = DangerSubmit \<and> \<not> pending \<and> dz_confirmName z = pj_name project)"
  by (auto simp: DangerZone_view_def DeleteProjectModal_view_def can_submit_def bex_Un ui_DialogFooter_def)

lemma tab_bar_offers [simp]: "\<not> offered (SettingsTabBar slug pathname) m"
  by (auto simp: SettingsTabBar_def Let_def show_if_def split: if_splits)

lemma slug_offers: "offered (SlugField_view slug copied) m \<longleftrightarrow> m = CopyClick"
  by (auto simp: SlugField_view_def)

lemma settings_offers:
  assumes "offered (ProjectSettingsPage_view project pathname role renaming deleting p) m"
  shows "m \<in> {SettingsRetry, SettingsSlug CopyClick} \<or>
    q_data role = Some (Some ''admin'') \<and> ((\<exists>n. m = SettingsName n \<and> offered (NameField_view project True renaming (sp_name p)) n)
      \<or> (\<exists>d. m = SettingsDanger d \<and> offered (DangerZone_view project deleting (sp_danger p)) d))"
  using assms
  by (auto simp: ProjectSettingsPage_view_def SettingsSkeleton_view_def GeneralSection_view_def Let_def bex_Un slug_offers name_offers
      split: if_splits)

text \<open>
  C35: what the settings page of a project can send. Only an administrator is offered a control that sends
  something: a new name that is not blank and differs from the loaded one, or the deletion, and that
  only after the loaded name of the project was typed exactly.
\<close>

theorem settings_requests:
  assumes "offered (ProjectSettingsPage_view project pathname role renaming deleting p) m"
    and "Send meth path b \<in> set (snd (ProjectSettingsPage_update project m p))"
  shows "q_data role = Some (Some ''admin'') \<and> path = project_path (pj_slug project) \<and>
    (meth = ''PATCH'' \<and> (\<exists>v. b = Some (JObj [(''name'', JStr v)]) \<and> js_trim v \<noteq> [] \<and> v \<noteq> pj_name project)
     \<or> meth = ''DELETE'' \<and> b = None \<and> dz_show (sp_danger p) \<and> dz_confirmName (sp_danger p) = pj_name project)"
  using settings_offers [OF assms(1)] assms(2)
  by (auto simp: ProjectSettingsPage_update_def NameField_update_def SlugField_update_def DangerZone_update_def name_offers danger_offers
      split: if_splits)

definition demo_project :: ProjectData where
  "demo_project = \<lparr>pj_id = ''1'', pj_name = ''Shop'', pj_slug = ''shop'', pj_created_at = ''2024-02-29T09:05:30Z''\<rparr>"

definition demo_settings :: settings_page where
  "demo_settings = \<lparr>sp_name = nf_init demo_project, sp_copied = False,
     sp_danger = \<lparr>dz_show = True, dz_confirmName = ''Shop'', dz_serverError = None\<rparr>\<rparr>"

definition admin_role :: "string option query" where
  "admin_role = \<lparr>isLoading = False, q_error = None, q_data = Some (Some ''admin'')\<rparr>"

theorem settings_requests_witness:
  "Send ''DELETE'' (project_path ''shop'') None \<in> set (snd (ProjectSettingsPage_update demo_project (SettingsDanger DangerSubmit) demo_settings))
   \<and> dz_confirmName (sp_danger demo_settings) = pj_name demo_project"
proof -
  have off: "offered (ProjectSettingsPage_view demo_project ''/projects/shop/settings'' admin_role False False demo_settings) (SettingsDanger DangerSubmit)"
    by (simp add: ProjectSettingsPage_view_def admin_role_def isError_def bex_Un danger_offers, simp add: demo_settings_def demo_project_def)
  have sent: "Send ''DELETE'' (project_path ''shop'') None \<in> set (snd (ProjectSettingsPage_update demo_project (SettingsDanger DangerSubmit) demo_settings))"
    by (simp add: ProjectSettingsPage_update_def DangerZone_update_def demo_settings_def demo_project_def)
  from settings_requests [OF off sent] sent show ?thesis by simp
qed

text \<open>
  A name cannot be taken back. Saving a name does not reload the project, which comes from the route's
  loader: afterwards the page still compares with the name it was opened with. Renaming back to that
  name is not offered and sends nothing, the saved name is offered for saving again, and the
  deletion has to be confirmed with the old name.
\<close>

theorem rename_back_blocked:
  assumes "js_trim v \<noteq> []" and "v \<noteq> pj_name project"
  shows "case dialog_run (NameField_update project) (nf_init project) [NameInput v, NameSubmit, NameSettled None] of (f, effs) \<Rightarrow>
      effs = [Send ''PATCH'' (project_path (pj_slug project)) (Some (JObj [(''name'', JStr v)])), Invalidate [''projects''], SetTimer 2000]
      \<and> offered (NameField_view project True False f) NameSubmit
      \<and> (case NameField_update project (NameInput (pj_name project)) f of (f', effs') \<Rightarrow>
          \<not> offered (NameField_view project True pending f') NameSubmit \<and> snd (NameField_update project NameSubmit f') = [])
      \<and> (dz_confirmName z = v \<longrightarrow> \<not> offered (DangerZone_view project deleting z) DangerSubmit)"
  using assms by (auto simp: dialog_run_def NameField_update_def nf_init_def name_offers danger_offers)

theorem rename_back_blocked_witness:
  "snd (dialog_run (NameField_update demo_project) (nf_init demo_project) [NameInput ''Store'', NameSubmit, NameSettled None]) =
     [Send ''PATCH'' (project_path ''shop'') (Some (JObj [(''name'', JStr ''Store'')])), Invalidate [''projects''], SetTimer 2000]"
proof -
  have "js_trim ''Store'' \<noteq> []" by code_simp
  moreover have "''Store'' \<noteq> pj_name demo_project" by (simp add: demo_project_def)
  ultimately show ?thesis using rename_back_blocked [of "''Store''" demo_project False dz_init False]
    by (simp add: case_prod_beta) (simp add: demo_project_def)
qed

section \<open>Environments\<close>

lemma row_offers_edit:
  assumes "EnvironmentRow_view intl full now env canEdit r = Inr h"
  shows "offered h m \<longleftrightarrow> m = RowDelete \<or> (canEdit \<and> \<not> er_isEditing r \<and> m = RowStart)
    \<or> er_isEditing r \<and> (m = RowBlur \<or> (\<exists>v. m = RowInput v) \<or> (\<exists>k. m = RowKeyDown k))"
  using assms by (cases "er_isEditing r") (auto simp: EnvironmentRow_view_def await_eq_Inr bex_Un)

text \<open>
  A step of a row: the environment as listed, the time and whether the user may edit; what
  the row offers, responses and the timer.
\<close>

type_synonym row_env = "ProjectEnvironment \<times> int \<times> bool"

definition row_can :: "(relative_date \<Rightarrow> string) \<Rightarrow> (int option \<Rightarrow> string) \<Rightarrow> row_env \<Rightarrow> env_row \<Rightarrow> row_msg \<Rightarrow> bool" where
  "row_can intl full = (\<lambda>(env, now, canEdit) r m.
     (\<exists>h. EnvironmentRow_view intl full now env canEdit r = Inr h \<and> offered h m) \<or> (\<exists>x. m = RowRenamed x) \<or> m = RowErrorTimer)"

definition row_upd :: "string \<Rightarrow> row_env \<Rightarrow> row_msg \<Rightarrow> env_row \<Rightarrow> env_row \<times> effect list" where
  "row_upd slug = (\<lambda>(env, now, canEdit). EnvironmentRow_update slug env)"

definition rename_ok :: "string \<Rightarrow> effect \<Rightarrow> bool" where
  "rename_ok slug x = (case x of
     Send meth path b \<Rightarrow> meth = ''PATCH'' \<and> (\<exists>s v. path = environment_path slug s \<and> b = Some (JObj [(''name'', JStr (js_trim v))]) \<and> js_trim v \<noteq> [])
   | _ \<Rightarrow> True)"

interpretation renames: page "row_upd slug" "row_can intl full" "\<lambda>_. True" "rename_ok slug" for slug intl full
proof unfold_locales
  fix r :: env_row and en m x
  assume "x \<in> set (snd (row_upd slug en m r))"
  then show "rename_ok slug x"
    by (cases m; cases en) (auto simp: row_upd_def EnvironmentRow_update_def saveEdit_def Let_def rename_ok_def split: if_splits option.splits)
qed simp

interpretation readers: page "row_upd slug" "\<lambda>en r m. row_can intl full en r m \<and> \<not> snd (snd en)" "\<lambda>r. \<not> er_isEditing r"
  "\<lambda>x. \<forall>meth path b. x \<noteq> Send meth path b" for slug intl full
proof unfold_locales
  fix r :: env_row and en m x
  assume inv: "\<not> er_isEditing r" and can: "row_can intl full en r m \<and> \<not> snd (snd en)"
  obtain env now ce where en: "en = (env, now, ce)" by (cases en)
  have m: "m = RowDelete \<or> m = RowErrorTimer \<or> (\<exists>x. m = RowRenamed x)"
    using can inv row_offers_edit [of intl full now env ce r _ m] by (auto simp: row_can_def en)
  show "\<not> er_isEditing (fst (row_upd slug en m r))"
    using m inv by (auto simp: row_upd_def en EnvironmentRow_update_def split: option.splits)
  assume "x \<in> set (snd (row_upd slug en m r))"
  then show "\<forall>meth path b. x \<noteq> Send meth path b"
    using m by (auto simp: row_upd_def en EnvironmentRow_update_def split: option.splits)
qed

text \<open>
  Renaming an environment. In every run of a row, a rename sends a name that is not blank, without blanks
  around it; and as long as the user is not an administrator the row sends nothing at all.
\<close>

theorem renames_by_admins:
  assumes "page_run (row_upd slug) (row_can intl full) (er_init env0) ems r outs" and "Send meth path b \<in> set outs"
  shows "meth = ''PATCH'' \<and> (\<exists>s v. path = environment_path slug s \<and> b = Some (JObj [(''name'', JStr (js_trim v))]) \<and> js_trim v \<noteq> [])
    \<and> (\<exists>env now. (env, now, True) \<in> fst ` set ems)"
proof -
  have "rename_ok slug (Send meth path b)" using renames.run_page [OF assms(1)] assms(2) by blast
  moreover have "\<exists>env now. (env, now, True) \<in> fst ` set ems"
  proof (rule ccontr)
    assume no: "\<not> (\<exists>env now. (env, now, True) \<in> fst ` set ems)"
    have "\<forall>(e, m) \<in> set ems. \<not> snd (snd e)"
    proof (intro ballI case_prodI2)
      fix x e m
      assume "x \<in> set ems" "x = (e, m)"
      then have "e \<in> fst ` set ems" by (metis fst_conv imageI)
      with no show "\<not> snd (snd e)" by (metis prod.collapse)
    qed
    from readers.run_page [OF run_restrict [OF assms(1) this]] assms(2) show False
      by (auto simp: er_init_def)
  qed
  ultimately show ?thesis by (simp add: rename_ok_def)
qed

text \<open>
  A rename is sent twice. Enter sends the new name and leaves the field open until the answer; leaving the field
  meanwhile sends the same request again.
\<close>

theorem rename_sent_twice:
  assumes "js_trim v \<noteq> []" and "js_trim v \<noteq> pv_name env"
  shows "case dialog_run (EnvironmentRow_update slug env) (er_init env) [RowStart, RowInput v, RowKeyDown ''Enter'', RowBlur] of (r, effs) \<Rightarrow>
      (let req = Send ''PATCH'' (environment_path slug (pv_slug env)) (Some (JObj [(''name'', JStr (js_trim v))])) in
       effs = [req, req]) \<and> er_isEditing r"
  using assms by (simp add: dialog_run_def EnvironmentRow_update_def er_init_def saveEdit_def Let_def)

definition demo_environment :: ProjectEnvironment where
  "demo_environment = \<lparr>pv_id = ''1'', pv_project_id = ''1'', pv_name = ''Prod'', pv_slug = ''prod'',
     pv_created_at = utc_stamp \<lparr>c_year = 2024, c_month = 2, c_day = 29\<rparr> 9 5 30\<rparr>"

theorem rename_sent_twice_witness:
  "length (snd (dialog_run (EnvironmentRow_update ''shop'' demo_environment) (er_init demo_environment)
     [RowStart, RowInput ''Live'', RowKeyDown ''Enter'', RowBlur])) = 2"
proof -
  have "js_trim ''Live'' = ''Live''" by code_simp
  with rename_sent_twice [of "''Live''" demo_environment "''shop''"] show ?thesis by (auto simp: case_prod_beta Let_def demo_environment_def)
qed

lemma demo_row_view: "\<exists>h. EnvironmentRow_view intl full now demo_environment canEdit r = Inr h"
proof -
  have "civil_ok \<lparr>c_year = 2024, c_month = 2, c_day = 29\<rparr>" by code_simp
  then obtain t where "date_parse (pv_created_at demo_environment) = Some t"
    using date_parse_stamp by (simp add: demo_environment_def)
  then have "\<exists>d. formatRelativeDate now (pv_created_at demo_environment) = Inr d"
    unfolding formatRelativeDate_def by (simp add: Let_def)
  then obtain d where "formatRelativeDate now (pv_created_at demo_environment) = Inr d" ..
  then show ?thesis unfolding EnvironmentRow_view_def by simp
qed

theorem renames_by_admins_witness:
  "\<exists>ems r b. page_run (row_upd ''shop'') (row_can (\<lambda>_. []) (\<lambda>_. [])) (er_init demo_environment) ems r
       [Send ''PATCH'' (environment_path ''shop'' ''prod'') b] \<and> (\<exists>v. b = Some (JObj [(''name'', JStr (js_trim v))]) \<and> js_trim v \<noteq> [])"
proof -
  let ?e = "(demo_environment, 0 :: int, True)"
  let ?r = "page_run (row_upd ''shop'') (row_can (\<lambda>_. []) (\<lambda>_. [])) (er_init demo_environment)"
  let ?r1 = "(er_init demo_environment)\<lparr>er_isEditing := True\<rparr>" let ?r2 = "?r1\<lparr>er_editValue := ''Live''\<rparr>"
  have trim: "js_trim ''Live'' = ''Live''" by code_simp
  have can: "row_can (\<lambda>_. []) (\<lambda>_. []) ?e r m" if "m = RowStart \<and> \<not> er_isEditing r \<or> er_isEditing r \<and> (m = RowBlur \<or> (\<exists>v. m = RowInput v))" for r m
    using demo_row_view [of "\<lambda>_. []" "\<lambda>_. []" 0 True r] row_offers_edit [of "\<lambda>_. []" "\<lambda>_. []" 0 demo_environment True r _ m] that
    by (auto simp: row_can_def)
  note upd = row_upd_def EnvironmentRow_update_def er_init_def
  have "?r ([] @ [(?e, RowStart)]) ?r1 ([] @ [])"
    by (rule page_run.run_snoc [OF page_run.run_Nil]) (rule can, simp_all add: upd)
  then have "?r (([] @ [(?e, RowStart)]) @ [(?e, RowInput ''Live'')]) ?r2 (([] @ []) @ [])"
    by (rule page_run.run_snoc) (rule can, simp_all add: upd)
  then have run: "?r ((([] @ [(?e, RowStart)]) @ [(?e, RowInput ''Live'')]) @ [(?e, RowBlur)]) ?r2
      ((([] @ []) @ []) @ [Send ''PATCH'' (environment_path ''shop'' ''prod'') (Some (JObj [(''name'', JStr ''Live'')]))])"
    by (rule page_run.run_snoc) (rule can, simp_all add: upd saveEdit_def Let_def trim demo_environment_def)
  have "Send ''PATCH'' (environment_path ''shop'' ''prod'') (Some (JObj [(''name'', JStr ''Live'')])) \<in>
      set ((([] @ []) @ []) @ [Send ''PATCH'' (environment_path ''shop'' ''prod'') (Some (JObj [(''name'', JStr ''Live'')]))])" by simp
  from renames_by_admins [OF run this]
  have "\<exists>v. Some (JObj [(''name'', JStr ''Live'')]) = Some (JObj [(''name'', JStr (js_trim v))]) \<and> js_trim v \<noteq> []" by blast
  with run show ?thesis unfolding append_Nil by blast
qed

lemma segment_split: "CHR ''/'' \<notin> set s \<Longrightarrow> takeWhile (\<lambda>c. c \<noteq> CHR ''/'') (s @ CHR ''/'' # t) = s \<and> dropWhile (\<lambda>c. c \<noteq> CHR ''/'') (s @ CHR ''/'' # t) = CHR ''/'' # t"
  by (induction s) auto

lemma active_env:
  assumes "CHR ''/'' \<notin> set slug" and "slug \<noteq> []" and "CHR ''/'' \<notin> set e" and "e \<noteq> []"
  shows "useActiveEnvSlug (''/projects/'' @ slug @ ''/environments/'' @ e @ CHR ''/'' # rest) = Some e"
    and "useActiveEnvSlug (''/projects/'' @ slug @ ''/settings/environments'') = None"
  using segment_split [OF assms(1)] segment_split [OF assms(3), of rest] assms(2,4) by (simp_all add: useActiveEnvSlug_def Let_def)

lemma envs_delete_offered:
  "offered (DeleteEnvironmentModal_view x isDeleting failed) m \<longleftrightarrow>
     (\<exists>b. m = EnvsOpenChange b) \<or> x \<noteq> None \<and> \<not> isDeleting \<and> (m = EnvsCancel \<or> m = EnvsConfirm)"
  by (cases x) (auto simp: DeleteEnvironmentModal_view_def bex_Un show_if_def)

text \<open>
  Deleting an environment. The confirmation is offered exactly while the dialog asks about an environment and no deletion
  runs, and deletes that environment; the row offers the deletion to everybody, the rename to
  administrators only. After the deletion the page stays: on the settings page's own
  path the active environment is never one, so the redirect to the project does not happen.
\<close>

theorem environment_deletion:
  assumes "CHR ''/'' \<notin> set slug" and "slug \<noteq> []"
    and "EnvironmentRow_view intl full now env canEdit r = Inr h"
  shows "(offered (DeleteEnvironmentModal_view (ep_pendingDelete p) (ep_isDeleting p) (ep_deleteFailed p)) EnvsConfirm \<longleftrightarrow>
       ep_pendingDelete p \<noteq> None \<and> \<not> ep_isDeleting p)
    \<and> (\<forall>e. ep_pendingDelete p = Some e \<longrightarrow>
        snd (EnvironmentSettingsPage_update slug pathname EnvsConfirm p) = [Send ''DELETE'' (environment_path slug (pv_slug e)) None])
    \<and> offered h RowDelete \<and> (offered h RowStart \<longleftrightarrow> canEdit \<and> \<not> er_isEditing r)
    \<and> ep_pendingDelete (fst (EnvironmentSettingsPage_update slug pathname (EnvsRow env RowDelete) p)) = Some env
    \<and> snd (EnvironmentSettingsPage_update slug (''/projects/'' @ slug @ ''/settings/environments'') (EnvsDeleted s None) p) =
        [Invalidate [''environments'', slug]]"
  using active_env(2) [OF assms(1,2), of "''x''"] row_offers_edit [OF assms(3)]
  by (auto simp: envs_delete_offered EnvironmentSettingsPage_update_def EnvironmentRow_update_def Let_def)

theorem environment_deletion_witness:
  "snd (EnvironmentSettingsPage_update ''shop'' (''/projects/'' @ ''shop'' @ ''/settings/environments'') (EnvsDeleted ''prod'' None)
     (ep_init (\<lambda>_. er_init demo_environment))) = [Invalidate [''environments'', ''shop'']]"
proof -
  obtain h where "EnvironmentRow_view (\<lambda>_. []) (\<lambda>_. []) 0 demo_environment False (er_init demo_environment) = Inr h"
    using demo_row_view by blast
  from environment_deletion [OF _ _ this, of "''shop''" "ep_init (\<lambda>_. er_init demo_environment)" "[]" "''prod''"] show ?thesis by simp
qed

end
