(* ===== verification/Audit_Page.thy ===== *)
theory Audit_Page
  imports Flag_Lists
begin

text \<open>
  The audit log of a project (\<open>web/src/routes/projects/$slug.audit.tsx\<close>): a list of entries loaded page by page,
  filtered by a flag key, each entry with a detail panel. The pages are those of an infinite query;
  the page reads what the library keeps of it (\<open>infinite\<close>).
\<close>

section \<open>Data\<close>

record AuditEntry =
  ae_id :: string
  ae_occurred_at :: string
  ae_actor_id :: string
  ae_actor_email :: string
  ae_action :: string
  ae_entity_type :: string
  ae_entity_id :: string
  ae_flag_key :: string
  ae_environment_slug :: string
  ae_source :: string
  ae_before_state :: string
  ae_after_state :: string
  ae_project_slug :: string

record AuditListResponse =
  al_entries :: "AuditEntry list"
  al_next_cursor :: "string option"

record infinite =
  iq_isLoading :: bool
  iq_isError :: bool
  iq_pages :: "AuditListResponse list option"
  iq_isFetchingNextPage :: bool

section \<open>Requests\<close>

definition audit_params :: "string \<Rightarrow> string option \<Rightarrow> (string \<times> string) list" where
  "audit_params flagKey pageParam =
     [(''limit'', ''50'')] @ (if flagKey \<noteq> [] then [(''flag_key'', flagKey)] else []) @
     (case pageParam of Some c \<Rightarrow> if c \<noteq> [] then [(''cursor'', c)] else [] | None \<Rightarrow> [])"

definition audit_path :: "string \<Rightarrow> string \<Rightarrow> string option \<Rightarrow> string" where
  "audit_path slug flagKey pageParam = ''/api/v1/projects/'' @ slug @ ''/audit?'' @ params_string (audit_params flagKey pageParam)"

definition getNextPageParam :: "AuditListResponse \<Rightarrow> string option" where
  "getNextPageParam lastPage = al_next_cursor lastPage"

definition hasNextPage :: "AuditListResponse list option \<Rightarrow> bool" where
  "hasNextPage pages = (case pages of Some ps \<Rightarrow> ps \<noteq> [] \<and> getNextPageParam (last ps) \<noteq> None | None \<Rightarrow> False)"

definition audit_entries :: "AuditListResponse list option \<Rightarrow> AuditEntry list" where
  "audit_entries pages = (case pages of Some ps \<Rightarrow> concat (map al_entries ps) | None \<Rightarrow> [])"

section \<open>Formatting\<close>

text \<open>
  \<open>JSON.stringify(value, null, 2)\<close>; \<open>num\<close> prints the number a literal denotes, which depends on the
  rounding to doubles.
\<close>

definition json_indent :: "nat \<Rightarrow> string" where
  "json_indent d = nl # replicate (2 * d) (CHR '' '')"

fun json_pretty :: "(string \<Rightarrow> string) \<Rightarrow> nat \<Rightarrow> json \<Rightarrow> string" where
  "json_pretty num d JNull = ''null''"
| "json_pretty num d (JBool b) = (if b then ''true'' else ''false'')"
| "json_pretty num d (JNum l) = num l"
| "json_pretty num d (JStr s) = quote_json s"
| "json_pretty num d (JArr vs) =
     (if vs = [] then ''[]''
      else ''['' @ json_indent (d + 1) @ js_join ('','' @ json_indent (d + 1)) (map (json_pretty num (d + 1)) vs) @ json_indent d @ '']'')"
| "json_pretty num d (JObj kvs) =
     (if kvs = [] then ''{}''
      else ''{'' @ json_indent (d + 1) @
        js_join ('','' @ json_indent (d + 1)) (map (\<lambda>(k, v). quote_json k @ '': '' @ json_pretty num (d + 1) v) kvs) @ json_indent d @ ''}'')"

definition formatJSON :: "(string \<Rightarrow> string) \<Rightarrow> string \<Rightarrow> string" where
  "formatJSON num s = (case json_parse s of Some v \<Rightarrow> json_pretty num 0 v | None \<Rightarrow> s)"

section \<open>The page\<close>

text \<open>\<open>useDebounced\<close>: a change of the value clears the running timer and starts another one.\<close>

record audit_page =
  au_flagKey :: string
  au_debounced :: string
  au_expandedId :: "string option"

definition au_init :: audit_page where
  "au_init = \<lparr>au_flagKey = [], au_debounced = [], au_expandedId = None\<rparr>"

datatype audit_msg =
    AuditFilter string
  | AuditDebounced
  | AuditToggle string
  | AuditKeyDown string string
  | AuditMore
  | AuditRetry

datatype audit_out = AuditEff effect | FetchNext string

definition toggle_entry :: "string \<Rightarrow> audit_page \<Rightarrow> audit_page" where
  "toggle_entry i p = p\<lparr>au_expandedId := (if au_expandedId p = Some i then None else Some i)\<rparr>"

definition audit_key :: "string \<Rightarrow> audit_page \<Rightarrow> string list" where
  "audit_key slug p = [''audit'', slug, au_debounced p]"

text \<open>\<open>fetchNextPage\<close> requests the page after the last one.\<close>

definition AuditLogPage_update :: "string \<Rightarrow> infinite \<Rightarrow> audit_msg \<Rightarrow> audit_page \<Rightarrow> audit_page \<times> audit_out list" where
  "AuditLogPage_update slug q msg p = (case msg of
     AuditFilter v \<Rightarrow> (p\<lparr>au_flagKey := v\<rparr>, if v = au_flagKey p then [] else [AuditEff (SetTimer 300)])
   | AuditDebounced \<Rightarrow> (p\<lparr>au_debounced := au_flagKey p\<rparr>, [])
   | AuditToggle i \<Rightarrow> (toggle_entry i p, [])
   | AuditKeyDown i k \<Rightarrow> (if k = ''Enter'' \<or> k = '' '' then toggle_entry i p else p, [])
   | AuditMore \<Rightarrow> (p, case iq_pages q of
         Some ps \<Rightarrow> if ps \<noteq> [] then [FetchNext (audit_path slug (au_debounced p) (getNextPageParam (last ps)))] else []
       | None \<Rightarrow> [])
   | AuditRetry \<Rightarrow> (p, [AuditEff (Refetch (audit_key slug p))]))"

definition or_no_state :: "string \<Rightarrow> 'm html" where
  "or_no_state s = (if s \<noteq> [] then lit s else tr ''projects:audit.detail_no_state'')"

definition audit_state_view :: "(string \<Rightarrow> string) \<Rightarrow> string \<Rightarrow> string \<Rightarrow> 'm html" where
  "audit_state_view num label s = El ''div'' []
     [El ''span'' [] [tr label],
      (if s \<noteq> [] then El ''pre'' [] [lit (formatJSON num s)] else El ''span'' [] [tr ''projects:audit.detail_no_state''])]"

definition AuditDetailPanel_view :: "(string \<Rightarrow> string) \<Rightarrow> AuditEntry \<Rightarrow> 'm html" where
  "AuditDetailPanel_view num entry = El ''div'' []
     [El ''div'' []
        ([El ''div'' [] [El ''span'' [] [tr ''projects:audit.detail_entity_type''], El ''div'' [] [or_no_state (ae_entity_type entry)]],
          El ''div'' [] [El ''span'' [] [tr ''projects:audit.detail_entity_id''], El ''div'' [] [or_no_state (ae_entity_id entry)]]] @
         show_if (ae_source entry \<noteq> []) (El ''div'' [] [El ''span'' [] [tr ''projects:audit.detail_source''],
           El ''div'' [] [El ''span'' [] [lit (ae_source entry)]]])),
      El ''div'' [] [audit_state_view num ''projects:audit.detail_before'' (ae_before_state entry),
        audit_state_view num ''projects:audit.detail_after'' (ae_after_state entry)]]"

definition audit_cell :: "string \<Rightarrow> 'm html" where
  "audit_cell s = El ''td'' [] [if s \<noteq> [] then El ''span'' [] [lit s] else El ''span'' [] [tr ''projects:audit.detail_no_state'']]"

definition AuditEntryRow_view ::
    "(string \<Rightarrow> string) \<Rightarrow> (relative_date \<Rightarrow> string) \<Rightarrow> int \<Rightarrow> AuditEntry \<Rightarrow> bool \<Rightarrow> (string, audit_msg html) result" where
  "AuditEntryRow_view num intl now entry isExpanded =
     await (formatRelativeDate now (ae_occurred_at entry)) (\<lambda>rel. Inr (El ''fragment'' []
       (El ''tr'' [At ''role'' (Lit ''row''), At ''tabindex'' (Lit ''0''), Flag ''aria-expanded'' isExpanded,
            At ''aria-controls'' (Lit (''audit-detail-'' @ ae_id entry)), On ''click'' (AuditToggle (ae_id entry)),
            OnText ''keydown'' (AuditKeyDown (ae_id entry))]
          [El ''td'' [] [El ''time'' [At ''datetime'' (Lit (ae_occurred_at entry)), At ''title'' (Lit (intl rel))]
             [lit (formatAbsoluteDate (ae_occurred_at entry))]],
           El ''td'' [] [El ''span'' [] [lit (ae_actor_email entry)]],
           El ''td'' [] [El ''span'' [] [lit (ae_action entry)]],
           audit_cell (ae_flag_key entry), audit_cell (ae_environment_slug entry)] #
        show_if isExpanded (El ''tr'' [At ''id'' (Lit (''audit-detail-'' @ ae_id entry)), At ''role'' (Lit ''row'')]
          [El ''td'' [At ''colspan'' (Lit ''5'')] [AuditDetailPanel_view num entry]]))))"

definition AuditLogSkeleton_view :: "'m html" where
  "AuditLogSkeleton_view = El ''div'' [] [El ''div'' [] [], El ''div'' [] [],
     El ''div'' [] (El ''div'' [] (replicate 5 (El ''div'' [] [])) # replicate 5 (El ''div'' [] (replicate 5 (El ''div'' [] []))))]"

definition audit_list :: "infinite \<Rightarrow> audit_page \<Rightarrow> audit_msg html list \<Rightarrow> audit_msg html" where
  "audit_list q p rows = El ''div'' []
     ([El ''h1'' [] [tr ''projects:audit.title''],
       El ''div'' [] [ui_Label ''audit-flag-filter'' [tr ''projects:audit.filter_label''],
         ui_Input None False (Some ''audit-flag-filter'') None
           [At ''type'' (Lit ''text''), At ''value'' (Lit (au_flagKey p)), OnText ''change'' AuditFilter,
            At ''placeholder'' (T ''projects:audit.filter_placeholder'' [])]],
       (if audit_entries (iq_pages q) = [] then El ''div'' [] [El ''p'' [] [tr ''projects:audit.empty'']]
        else El ''div'' [] [El ''table'' [At ''role'' (Lit ''treegrid'')]
          [El ''thead'' [] [El ''tr'' [] (map (\<lambda>c. El ''th'' [] [tr c])
              [''projects:audit.column_timestamp'', ''projects:audit.column_actor'', ''projects:audit.column_action'',
               ''projects:audit.column_flag'', ''projects:audit.column_environment''])],
           El ''tbody'' [] rows]])] @
      show_if (hasNextPage (iq_pages q)) (El ''div'' [] [El ''button'' [On ''click'' AuditMore, Flag ''disabled'' (iq_isFetchingNextPage q)]
        [tr (if iq_isFetchingNextPage q then ''projects:audit.loading_more'' else ''projects:audit.load_more'')]]))"

definition AuditLogPage_view ::
    "(string \<Rightarrow> string) \<Rightarrow> (relative_date \<Rightarrow> string) \<Rightarrow> int \<Rightarrow> infinite \<Rightarrow> audit_page \<Rightarrow> (string, audit_msg html) result" where
  "AuditLogPage_view num intl now q p =
     (if iq_isLoading q then Inr AuditLogSkeleton_view
      else if iq_isError q then Inr (El ''div'' []
        [El ''span'' [] [tr ''projects:audit.error'', lit '' ''], El ''button'' [On ''click'' AuditRetry] [tr ''common:actions.retry'']])
      else await (render_all (map (\<lambda>x. AuditEntryRow_view num intl now x (au_expandedId p = Some (ae_id x))) (audit_entries (iq_pages q))))
        (\<lambda>rows. Inr (audit_list q p rows)))"

end
