(* ===== verification/Audit_Spec.thy ===== *)
theory Audit_Spec
  imports Audit_Page Flag_Lists_Spec
begin

text \<open>
  The audit log shows the whole log, page by page and in order; the formatted states denote the
  values the service sent; and the filter field disappears while its result is loaded.
\<close>

section \<open>Formatted JSON\<close>

definition blank :: "string \<Rightarrow> bool" where
  "blank w \<longleftrightarrow> list_all is_json_ws w"

lemma blank_indent [simp]: "blank (json_indent d)" "blank []" "blank (CHR '' '' # w) = blank w"
  by (simp_all add: blank_def json_indent_def is_json_ws_def list_all_iff)

lemma skip_blank: "blank w \<Longrightarrow> skip_ws (w @ s) = skip_ws s"
  by (induction w) (simp_all add: blank_def skip_ws_def)

lemma pvalue_blank: "blank w \<Longrightarrow> pvalue n (w @ s) = pvalue n s"
  by (cases n) (simp_all add: skip_blank)

lemma pelems_blank: "blank w \<Longrightarrow> pelems n (w @ s) = pelems n s"
  by (cases n) (simp_all add: pvalue_blank)

lemma pmembers_blank: "blank w \<Longrightarrow> pmembers n acc (w @ s) = pmembers n acc s"
  by (cases n) (simp_all add: skip_blank)

lemma pelems_pretty:
  assumes "\<And>v n r. v \<in> set vs \<Longrightarrow> 2 * length (f v) < n \<Longrightarrow> pvalue n (f v @ r) = Some (v, r)"
    and "vs \<noteq> []" and "2 * length (js_join ('','' @ w) (map f vs)) + 1 < n" and "blank w" and "blank w'"
  shows "pelems n (js_join ('','' @ w) (map f vs) @ w' @ CHR '']'' # r) = Some (vs, r)"
  using assms(1-3)
proof (induction vs arbitrary: n)
  case (Cons v vs)
  obtain m where n: "n = Suc m" using Cons.prems(3) by (cases n) auto
  have skip: "skip_ws (w' @ CHR '']'' # r) = CHR '']'' # r" using skip_blank [OF assms(5)] by (simp add: is_json_ws_def)
  show ?case
  proof (cases vs)
    case Nil
    then show ?thesis using Cons.prems n skip by simp
  next
    case (Cons x xs)
    then have "pelems m (js_join ('','' @ w) (map f vs) @ w' @ CHR '']'' # r) = Some (vs, r)"
      using Cons.prems Cons.IH [of m] n by simp
    moreover have "pvalue m (f v @ t) = Some (v, t)" for t using Cons.prems n \<open>vs = x # xs\<close> by simp
    ultimately show ?thesis using n Cons pelems_blank [OF assms(4)] by (simp add: is_json_ws_def)
  qed
qed simp

lemma pmembers_pretty:
  assumes "\<And>kv n r. kv \<in> set kvs \<Longrightarrow> 2 * length (f (snd kv)) < n \<Longrightarrow> pvalue n (f (snd kv) @ r) = Some (snd kv, r)"
    and "kvs \<noteq> []" and "2 * length (js_join ('','' @ w) (map (\<lambda>(k, v). quote_json k @ '': '' @ f v) kvs)) < n"
    and "distinct (map fst (acc @ kvs))" and "blank w" and "blank w'"
  shows "pmembers n acc (js_join ('','' @ w) (map (\<lambda>(k, v). quote_json k @ '': '' @ f v) kvs) @ w' @ CHR ''}'' # r) = Some (acc @ kvs, r)"
  using assms(1-4)
proof (induction kvs arbitrary: n acc)
  case (Cons kv kvs)
  let ?ms = "\<lambda>(k, v). quote_json k @ '': '' @ f v"
  obtain m where n: "n = Suc m" using Cons.prems(3) by (cases n) auto
  obtain k v where kv: "kv = (k, v)" by fastforce
  have ms: "?ms kv = CHR 0x22 # concat (map esc k) @ CHR 0x22 # CHR '':'' # CHR '' '' # f v"
    by (simp add: quote_json_def kv)
  have fresh: "map_set k v acc = acc @ [(k, v)]" using Cons.prems(4) kv by (auto intro!: map_set_fresh)
  have len: "2 * length (f v) < m" using Cons.prems(3) n kv by (cases kvs) (auto simp: quote_json_def)
  have val: "pvalue m (CHR '' '' # f v @ t) = Some (v, t)" for t
    using Cons.prems(1) [of kv m t] len kv pvalue_blank [of "[CHR '' '']" m "f v @ t"] by simp
  have skip: "skip_ws (w' @ CHR ''}'' # r) = CHR ''}'' # r" using skip_blank [OF assms(6)] by (simp add: is_json_ws_def)
  show ?case
  proof (cases kvs)
    case Nil
    then show ?thesis using n kv val fresh ms skip by (simp add: is_json_ws_def parse_chars_quote)
  next
    case (Cons x xs)
    then have "pmembers m (acc @ [(k, v)]) (js_join ('','' @ w) (map ?ms kvs) @ w' @ CHR ''}'' # r) = Some (acc @ (k, v) # kvs, r)"
      using Cons.prems Cons.IH [of m "acc @ [(k, v)]"] n kv by simp
    then show ?thesis using n kv val fresh Cons ms pmembers_blank [OF assms(5)]
      by (simp add: is_json_ws_def parse_chars_quote)
  qed
qed simp

lemma pretty_head: "plain_json v \<Longrightarrow> \<exists>c t. json_pretty num d v = c # t \<and> \<not> is_json_ws c \<and> c \<noteq> CHR '']''"
  by (cases v) (auto simp: quote_json_def is_json_ws_def)

lemma pvalue_pretty:
  "plain_json v \<Longrightarrow> 2 * length (json_pretty num d v) < n \<Longrightarrow> pvalue n (json_pretty num d v @ r) = Some (v, r)"
proof (induction v arbitrary: d n r)
  case (JArr vs)
  obtain m where n: "n = Suc m" using JArr.prems(2) by (cases n) auto
  let ?w = "json_indent (d + 1)" and ?f = "json_pretty num (d + 1)"
  show ?case
  proof (cases vs)
    case Nil
    then show ?thesis using n by (simp add: is_json_ws_def)
  next
    case (Cons x xs)
    obtain t where t: "js_join ('','' @ ?w) (map ?f vs) = ?f x @ t"
      using js_join_Cons_append [of "'','' @ ?w" "?f x" "map ?f xs"] Cons by auto
    obtain c u where c: "?f x = c # u" "\<not> is_json_ws c" "c \<noteq> CHR '']''"
      using pretty_head [of x] JArr.prems(1) Cons by fastforce
    have "pelems m (js_join ('','' @ ?w) (map ?f vs) @ json_indent d @ CHR '']'' # r) = Some (vs, r)"
      using JArr n Cons by (intro pelems_pretty) (auto simp: list_all_iff)
    then have "pelems m (?w @ js_join ('','' @ ?w) (map ?f vs) @ json_indent d @ CHR '']'' # r) = Some (vs, r)"
      by (simp only: pelems_blank [OF blank_indent(1)])
    moreover have "skip_ws (?w @ js_join ('','' @ ?w) (map ?f vs) @ json_indent d @ CHR '']'' # r) = c # u @ t @ json_indent d @ CHR '']'' # r"
      using c t by (simp add: skip_blank)
    ultimately show ?thesis using n c(3) Cons by (simp add: is_json_ws_def)
  qed
next
  case (JObj kvs)
  obtain m where n: "n = Suc m" using JObj.prems(2) by (cases n) auto
  let ?w = "json_indent (d + 1)" and ?f = "json_pretty num (d + 1)"
  let ?ms = "\<lambda>(k, v). quote_json k @ '': '' @ ?f v"
  show ?case
  proof (cases kvs)
    case Nil
    then show ?thesis using n by (simp add: is_json_ws_def)
  next
    case (Cons x xs)
    obtain t where t: "js_join ('','' @ ?w) (map ?ms kvs) = CHR 0x22 # t"
      using js_join_Cons_append [of "'','' @ ?w" "?ms x" "map ?ms xs"] Cons by (auto simp: quote_json_def split: prod.splits)
    have "pmembers m [] (js_join ('','' @ ?w) (map ?ms kvs) @ json_indent d @ CHR ''}'' # r) = Some ([] @ kvs, r)"
    proof (rule pmembers_pretty)
      fix kv k' r' assume "kv \<in> set kvs" "2 * length (?f (snd kv)) < k'"
      moreover have "snd kv \<in> Basic_BNFs.snds kv" by (simp add: snds.simps)
      ultimately show "pvalue k' (?f (snd kv) @ r') = Some (snd kv, r')"
        using JObj.IH [of kv "snd kv"] JObj.prems(1) by (auto simp: list_all_iff case_prod_beta')
    qed (use JObj.prems Cons n in \<open>simp_all\<close>)
    then have "pmembers m [] (?w @ js_join ('','' @ ?w) (map ?ms kvs) @ json_indent d @ CHR ''}'' # r) = Some (kvs, r)"
      by (simp only: pmembers_blank [OF blank_indent(1)] append_Nil)
    moreover have "skip_ws (?w @ js_join ('','' @ ?w) (map ?ms kvs) @ json_indent d @ CHR ''}'' # r) = CHR 0x22 # t @ json_indent d @ CHR ''}'' # r"
      using t by (simp add: skip_blank is_json_ws_def)
    ultimately show ?thesis using n Cons by (simp add: is_json_ws_def)
  qed
qed (auto simp: quote_json_def parse_chars_quote keyword_def is_json_ws_def gr0_conv_Suc less_eq_Suc_le
      numeral_2_eq_2 dest!: Suc_le_D)



section \<open>The whole log\<close>

text \<open>
  A service that pages through a log: \<open>chunks\<close> are the pages in order, \<open>cursor i\<close> names the page after
  page \<open>i\<close>; \<open>ents\<close> and \<open>nxt\<close> read a page's entries and the cursor of the next one. What the library does
  with an answer to \<open>fetchNextPage\<close> is documented: the page is appended.
\<close>

definition page_param :: "(nat \<Rightarrow> string) \<Rightarrow> nat \<Rightarrow> string option" where
  "page_param cursor i = (if i = 0 then None else Some (cursor (i - 1)))"

definition pages_through ::
    "('p \<Rightarrow> 'e list) \<Rightarrow> ('p \<Rightarrow> string option) \<Rightarrow> (string option \<Rightarrow> 'p) \<Rightarrow> 'e list list \<Rightarrow> (nat \<Rightarrow> string) \<Rightarrow> bool" where
  "pages_through ents nxt serve chunks cursor \<longleftrightarrow> chunks \<noteq> [] \<and>
     (\<forall>i < length chunks. ents (serve (page_param cursor i)) = chunks ! i \<and>
        nxt (serve (page_param cursor i)) = (if Suc i < length chunks then Some (cursor i) else None))"

definition load_more :: "('p \<Rightarrow> string option) \<Rightarrow> (string option \<Rightarrow> 'p) \<Rightarrow> 'p list \<Rightarrow> 'p list" where
  "load_more nxt serve ps = ps @ [serve (nxt (last ps))]"

definition load_pages :: "('p \<Rightarrow> string option) \<Rightarrow> (string option \<Rightarrow> 'p) \<Rightarrow> nat \<Rightarrow> 'p list" where
  "load_pages nxt serve k = (load_more nxt serve ^^ k) [serve None]"

lemma loaded_pages:
  assumes "pages_through ents nxt serve chunks cursor" and "k < length chunks"
  shows "load_pages nxt serve k = map (\<lambda>i. serve (page_param cursor i)) [0..<Suc k]"
  using assms(2)
proof (induction k)
  case 0
  show ?case by (simp add: load_pages_def page_param_def)
next
  case (Suc k)
  let ?pages = "map (\<lambda>i. serve (page_param cursor i))"
  have "nxt (serve (page_param cursor k)) = Some (cursor k)" using assms(1) Suc.prems by (simp add: pages_through_def)
  then have "load_more nxt serve (?pages [0..<Suc k]) = ?pages [0..<Suc (Suc k)]"
    by (simp add: load_more_def page_param_def)
  with Suc show ?case by (simp add: load_pages_def)
qed

lemma loaded_log:
  assumes "pages_through ents nxt serve chunks cursor" and "k < length chunks"
  shows "concat (map ents (load_pages nxt serve k)) = concat (take (Suc k) chunks)"
    and "load_pages nxt serve k \<noteq> []"
    and "nxt (last (load_pages nxt serve k)) = (if Suc k < length chunks then Some (cursor k) else None)"
proof -
  note pages = loaded_pages [OF assms]
  have "map ents (load_pages nxt serve k) = map ((!) chunks) [0..<Suc k]"
    unfolding pages using assms by (auto simp: pages_through_def o_def)
  also have "\<dots> = take (Suc k) chunks" using assms(2) by (intro nth_equalityI) (simp_all del: upt_Suc)
  finally show "concat (map ents (load_pages nxt serve k)) = concat (take (Suc k) chunks)" by simp
  show "load_pages nxt serve k \<noteq> []" unfolding pages by simp
  show "nxt (last (load_pages nxt serve k)) = (if Suc k < length chunks then Some (cursor k) else None)"
    unfolding pages using assms by (simp add: pages_through_def)
qed


definition demo_audit :: "string \<Rightarrow> AuditEntry" where
  "demo_audit i = \<lparr>ae_id = i, ae_occurred_at = ''2024-02-29T09:05:30Z'', ae_actor_id = ''u'', ae_actor_email = ''a@b'', ae_action = ''flag.created'',
     ae_entity_type = ''flag'', ae_entity_id = i, ae_flag_key = ''dark'', ae_environment_slug = [], ae_source = [], ae_before_state = [],
     ae_after_state = [], ae_project_slug = ''shop''\<rparr>"

definition demo_serve :: "string option \<Rightarrow> AuditListResponse" where
  "demo_serve c = (if c = None then \<lparr>al_entries = [demo_audit ''1''], al_next_cursor = Some ''x''\<rparr>
     else \<lparr>al_entries = [demo_audit ''2''], al_next_cursor = None\<rparr>)"


section \<open>Details and filter\<close>

lemma detail_texts: "T ''projects:audit.detail_before'' [] \<in> set (texts (AuditDetailPanel_view num x))"
  by (simp add: AuditDetailPanel_view_def audit_state_view_def)

lemma row_view:
  assumes "AuditEntryRow_view num intl now x isExpanded = Inr h"
  shows "T ''projects:audit.detail_before'' [] \<in> set (texts h) \<longleftrightarrow> isExpanded"
    and "offered h m \<longleftrightarrow> m = AuditToggle (ae_id x) \<or> (\<exists>k. m = AuditKeyDown (ae_id x) k)"
proof -
  have panel: "\<not> offered (AuditDetailPanel_view num x) m"
    by (auto simp: AuditDetailPanel_view_def audit_state_view_def or_no_state_def show_if_def)
  have cell: "\<not> offered (audit_cell s) m" for s by (simp add: audit_cell_def)
  have cell_texts: "T ''projects:audit.detail_before'' [] \<notin> set (texts (audit_cell s :: audit_msg html))" for s by (simp add: audit_cell_def)
  obtain rel where rel: "formatRelativeDate now (ae_occurred_at x) = Inr rel"
    using assms by (auto simp: AuditEntryRow_view_def await_eq_Inr)
  show "T ''projects:audit.detail_before'' [] \<in> set (texts h) \<longleftrightarrow> isExpanded"
    using assms detail_texts [of num x] cell_texts unfolding AuditEntryRow_view_def rel by (auto simp: show_if_def split: if_splits)
  show "offered h m \<longleftrightarrow> m = AuditToggle (ae_id x) \<or> (\<exists>k. m = AuditKeyDown (ae_id x) k)"
    using assms unfolding AuditEntryRow_view_def rel by (auto simp: show_if_def panel cell split: if_splits)
qed

text \<open>
  One entry is open at a time. Toggling an entry that is closed opens it and closes every other one, toggling it again closes it, by
  click as well as by Enter and Space and no other key; a row shows the details exactly if it is the open one.
  While the entries for a new filter are loaded, the page offers nothing, not even the filter field.
\<close>

theorem one_entry_open:
  assumes "AuditEntryRow_view num intl now x isExpanded = Inr h"
  shows "(T ''projects:audit.detail_before'' [] \<in> set (texts h) \<longleftrightarrow> isExpanded)
    \<and> (\<forall>m. offered h m \<longleftrightarrow> m = AuditToggle (ae_id x) \<or> (\<exists>k. m = AuditKeyDown (ae_id x) k))
    \<and> (\<forall>k. fst (AuditLogPage_update slug q (AuditKeyDown i k) p) =
        (if k \<in> {''Enter'', '' ''} then fst (AuditLogPage_update slug q (AuditToggle i) p) else p))
    \<and> (let p1 = fst (AuditLogPage_update slug q (AuditToggle i) p) in
        (au_expandedId p1 = Some j \<longleftrightarrow> j = i \<and> au_expandedId p \<noteq> Some i)
        \<and> (au_expandedId p \<noteq> Some i \<longrightarrow> au_expandedId (fst (AuditLogPage_update slug q (AuditToggle i) p1)) = None))
    \<and> (iq_isLoading q \<longrightarrow> (\<exists>h'. AuditLogPage_view num intl now q p = Inr h' \<and> (\<forall>m. \<not> offered h' m)))"
proof -
  note row = row_view [OF assms]
  have "fst (AuditLogPage_update slug q (AuditKeyDown i k) p) =
      (if k \<in> {''Enter'', '' ''} then fst (AuditLogPage_update slug q (AuditToggle i) p) else p)" for k
    by (simp add: AuditLogPage_update_def)
  moreover have "\<exists>h'. AuditLogPage_view num intl now q p = Inr h' \<and> (\<forall>m. \<not> offered h' m)" if "iq_isLoading q"
    using that by (simp add: AuditLogPage_view_def AuditLogSkeleton_view_def)
  moreover have "let p1 = fst (AuditLogPage_update slug q (AuditToggle i) p) in
        (au_expandedId p1 = Some j \<longleftrightarrow> j = i \<and> au_expandedId p \<noteq> Some i)
        \<and> (au_expandedId p \<noteq> Some i \<longrightarrow> au_expandedId (fst (AuditLogPage_update slug q (AuditToggle i) p1)) = None)"
    by (auto simp: AuditLogPage_update_def toggle_entry_def Let_def)
  ultimately show ?thesis using row by blast
qed

theorem one_entry_open_witness:
  "au_expandedId (fst (AuditLogPage_update ''shop'' \<lparr>iq_isLoading = True, iq_isError = False, iq_pages = None, iq_isFetchingNextPage = False\<rparr>
     (AuditToggle ''1'') au_init)) = Some ''1''"
proof -
  let ?q = "\<lparr>iq_isLoading = True, iq_isError = False, iq_pages = None, iq_isFetchingNextPage = False\<rparr>"
  let ?x = "(demo_audit ''1'')\<lparr>ae_occurred_at := utc_stamp \<lparr>c_year = 2024, c_month = 2, c_day = 29\<rparr> 9 5 30\<rparr>"
  have "civil_ok \<lparr>c_year = 2024, c_month = 2, c_day = 29\<rparr>" by code_simp
  then obtain t where "date_parse (ae_occurred_at ?x) = Some t" using date_parse_stamp by simp
  then have "\<exists>d. formatRelativeDate 0 (ae_occurred_at ?x) = Inr d" unfolding formatRelativeDate_def by (simp add: Let_def)
  then obtain d where "formatRelativeDate 0 (ae_occurred_at ?x) = Inr d" ..
  then obtain h where "AuditEntryRow_view id (\<lambda>_. []) 0 ?x False = Inr h" unfolding AuditEntryRow_view_def by simp
  from one_entry_open [OF this, of "''shop''" ?q "''1''" au_init "''1''"] show ?thesis by (simp add: Let_def au_init_def)
qed

end
