(* ===== verification/Evaluations_Page.thy ===== *)
theory Evaluations_Page
  imports Audit_Spec
begin

text \<open>
  The evaluations of a flag
  (\<open>web/src/routes/projects/$slug.environments.$envSlug.flags.$key.evaluations.tsx\<close>): a log loaded page by page
  like the audit log, each row with its expandable context. \<open>full\<close> renders a date in the language of the
  browser, \<open>num\<close> prints a number.
\<close>

record MatchedRule =
  mr_id :: string
  mr_name :: string

record EvaluationEvent =
  ev_id :: string
  ev_occurred_at :: string
  ev_flag_key :: string
  ev_user_id :: string
  ev_input_context :: "(string \<times> json) list"
  ev_matched_rule :: "MatchedRule option"
  ev_variant_key :: string
  ev_reason :: string

record EvaluationListResponse =
  el_items :: "EvaluationEvent list"
  el_next_cursor :: "string option"

definition REASON_LABEL_MAP :: "string \<Rightarrow> string option" where
  "REASON_LABEL_MAP r = map_of
     [(''flag_disabled'', ''flags:audit.reason_flag_disabled''), (''no_match'', ''flags:audit.reason_no_match''),
      (''rule_match'', ''flags:audit.reason_rule_match''), (''override'', ''flags:audit.reason_override'')] r"

definition evaluations_path :: "detail_ctx \<Rightarrow> string option \<Rightarrow> string" where
  "evaluations_path ctx pageParam =
     (let url = env_flag_path (dc_slug ctx) (dc_envSlug ctx) (dc_key ctx) @ ''/evaluations'' in
      case pageParam of Some c \<Rightarrow> if c \<noteq> [] then url @ ''?before='' @ encodeURIComponent c else url | None \<Rightarrow> url)"

definition eval_nextPageParam :: "EvaluationListResponse \<Rightarrow> string option" where
  "eval_nextPageParam lastPage = el_next_cursor lastPage"

record eval_query =
  eq_isLoading :: bool
  eq_error :: "web_error option"
  eq_pages :: "EvaluationListResponse list option"
  eq_isFetchingNextPage :: bool

definition allItems :: "EvaluationListResponse list option \<Rightarrow> EvaluationEvent list" where
  "allItems pages = (case pages of Some ps \<Rightarrow> concat (map el_items ps) | None \<Rightarrow> [])"

definition eval_hasNextPage :: "EvaluationListResponse list option \<Rightarrow> bool" where
  "eval_hasNextPage pages = (case pages of Some ps \<Rightarrow> ps \<noteq> [] \<and> eval_nextPageParam (last ps) \<noteq> None | None \<Rightarrow> False)"

datatype evals_msg = EvalsMore | EvalsExpand string

text \<open>\<open>expanded\<close> holds the rows that are open: each row has a state of its own, by the item's id.\<close>

definition FlagEvaluationsPage_update ::
    "detail_ctx \<Rightarrow> eval_query \<Rightarrow> evals_msg \<Rightarrow> (string \<Rightarrow> bool) \<Rightarrow> (string \<Rightarrow> bool) \<times> string list" where
  "FlagEvaluationsPage_update ctx q msg expanded = (case msg of
     EvalsMore \<Rightarrow> (expanded, case eq_pages q of
         Some ps \<Rightarrow> if ps \<noteq> [] then [evaluations_path ctx (eval_nextPageParam (last ps))] else [] | None \<Rightarrow> [])
   | EvalsExpand i \<Rightarrow> (expanded(i := \<not> expanded i), []))"

definition EvaluationRow_view :: "(string \<Rightarrow> string) \<Rightarrow> (int option \<Rightarrow> string) \<Rightarrow> EvaluationEvent \<Rightarrow> bool \<Rightarrow> evals_msg html" where
  "EvaluationRow_view num full item expanded = El ''fragment'' []
     (El ''tr'' []
        [El ''td'' [] [lit (full (date_parse (ev_occurred_at item)))],
         El ''td'' [] [lit (if ev_user_id item \<noteq> [] then ev_user_id item else [CHR 0xE2, CHR 0x80, CHR 0x94])],
         El ''td'' [] [(case ev_matched_rule item of
             Some r \<Rightarrow> El ''span'' [At ''title'' (T ''flags:audit.rule_id_label'' [(''id'', mr_id r)])]
               [lit (if mr_name r \<noteq> [] then mr_name r else mr_id r)]
           | None \<Rightarrow> El ''span'' [] [tr ''flags:audit.no_rule_matched''])],
         El ''td'' [] [El ''span'' [] [lit (ev_variant_key item)]],
         El ''td'' [] [El ''span'' [] [(case REASON_LABEL_MAP (ev_reason item) of Some k \<Rightarrow> tr k | None \<Rightarrow> lit (ev_reason item))]],
         El ''td'' [] [El ''button'' [On ''click'' (EvalsExpand (ev_id item)), Flag ''aria-expanded'' expanded,
             At ''aria-label'' (T ''flags:audit.context_expand_aria'' [(''id'', ev_id item)])] [lit (up_down expanded)]]] #
      show_if expanded (El ''tr'' [] [El ''td'' [At ''colspan'' (Lit ''6'')] [El ''pre'' [] [lit (json_pretty num 0 (JObj (ev_input_context item)))]]]))"

definition FlagEvaluationsPage_view ::
    "(string \<Rightarrow> string) \<Rightarrow> (int option \<Rightarrow> string) \<Rightarrow> detail_ctx \<Rightarrow> eval_query \<Rightarrow> (string \<Rightarrow> bool) \<Rightarrow> evals_msg html" where
  "FlagEvaluationsPage_view num full ctx q expanded =
     (if eq_isLoading q then El ''div'' [] [El ''p'' [] [tr ''flags:audit.loading'']]
      else case eq_error q of
        Some err \<Rightarrow> El ''div'' [] [El ''p'' [] [Txt (api_or (T ''flags:audit.load_error'' []) err)]]
      | None \<Rightarrow>
          (let page = flags_page (dc_slug ctx) (dc_envSlug ctx); items = allItems (eq_pages q) in
           El ''div'' []
             [PageHeading [\<lparr>an_label = dc_envSlug ctx, an_to = page\<rparr>, \<lparr>an_label = dc_key ctx, an_to = page @ ''/'' @ dc_key ctx\<rparr>]
                (T ''flags:heading.evaluations'' []),
              El ''div'' []
                (El ''div'' [] [El ''h2'' [] [tr ''flags:audit.tab_title'']] #
                 (if items = [] then [El ''div'' [] [El ''p'' [] [tr ''flags:audit.empty_state'']]]
                  else
                    El ''div'' [] [El ''table'' []
                      [El ''thead'' [] [El ''tr'' [] (map (\<lambda>c. El ''th'' [] [tr c])
                         [''flags:audit.col_timestamp'', ''flags:audit.col_user'', ''flags:audit.col_rule'', ''flags:audit.col_variant'',
                          ''flags:audit.col_reason'', ''flags:audit.col_context''])],
                       El ''tbody'' [] (map (\<lambda>item. EvaluationRow_view num full item (expanded (ev_id item))) items)]] #
                    show_if (eval_hasNextPage (eq_pages q)) (El ''div'' []
                      [ui_Button False (eq_isFetchingNextPage q) [On ''click'' EvalsMore] [tr ''flags:audit.load_more'']])))]))"

section \<open>Properties\<close>

text \<open>
  The evaluations are shown page by page. After \<open>k\<close> further pages the items are those of the first \<open>k + 1\<close> pages in order; the button
  is offered while a page is left and something is shown, and it requests the next page by its cursor, which
  arrives unchanged; the context of an open row denotes the context that was evaluated.
\<close>

theorem evaluations_complete:
  assumes "pages_through el_items eval_nextPageParam serve chunks cursor" and "k < length chunks" and "\<forall>i. cursor i \<noteq> []"
    and "hd chunks \<noteq> []"
    and "q = \<lparr>eq_isLoading = False, eq_error = None, eq_pages = Some (load_pages eval_nextPageParam serve k), eq_isFetchingNextPage = False\<rparr>"
  shows "allItems (eq_pages q) = concat (take (Suc k) chunks)
    \<and> (offered (FlagEvaluationsPage_view num full ctx q expanded) EvalsMore \<longleftrightarrow> Suc k < length chunks)
    \<and> (Suc k < length chunks \<longrightarrow> (\<exists>c. snd (FlagEvaluationsPage_update ctx q EvalsMore expanded) =
         [env_flag_path (dc_slug ctx) (dc_envSlug ctx) (dc_key ctx) @ ''/evaluations?before='' @ c]
        \<and> (\<forall>s. encodeURIComponent s = c \<longleftrightarrow> s = cursor k)))
    \<and> (plain_json (JObj (ev_input_context item)) \<longrightarrow>
        (\<exists>s. Lit s \<in> set (texts (EvaluationRow_view num full item True)) \<and> json_parse s = Some (JObj (ev_input_context item))))"
proof -
  note log = loaded_log [OF assms(1,2)]
  have pages: "eq_pages q = Some (load_pages eval_nextPageParam serve k)" "\<not> eq_isFetchingNextPage q" "\<not> eq_isLoading q" "eq_error q = None"
    by (simp_all add: assms(5))
  have items: "allItems (eq_pages q) = concat (take (Suc k) chunks)" using log(1) by (simp add: pages allItems_def)
  have "chunks \<noteq> []" using assms(2) by auto
  then have some: "allItems (eq_pages q) \<noteq> []" using assms(4) unfolding items by (cases chunks) auto
  have row: "\<not> offered (EvaluationRow_view num full x b) EvalsMore" for x b
    by (auto simp: EvaluationRow_view_def show_if_def split: option.splits)
  have "offered (FlagEvaluationsPage_view num full ctx q expanded) EvalsMore \<longleftrightarrow> eval_hasNextPage (eq_pages q)"
    using some by (auto simp: FlagEvaluationsPage_view_def pages(2-4) Let_def bex_Un row PageHeading_def)
  also have "\<dots> \<longleftrightarrow> Suc k < length chunks" using log(2,3) by (simp add: pages eval_hasNextPage_def)
  finally have more: "offered (FlagEvaluationsPage_view num full ctx q expanded) EvalsMore \<longleftrightarrow> Suc k < length chunks" .
  have req: "snd (FlagEvaluationsPage_update ctx q EvalsMore expanded) =
      [env_flag_path (dc_slug ctx) (dc_envSlug ctx) (dc_key ctx) @ ''/evaluations?before='' @ encodeURIComponent (cursor k)]"
    if "Suc k < length chunks" using log(2,3) that assms(3) by (simp add: FlagEvaluationsPage_update_def pages evaluations_path_def Let_def)
  have "json_parse (json_pretty num 0 v) = Some v" if "plain_json v" for v
    using pvalue_pretty [OF that, of num 0 "2 * length (json_pretty num 0 v) + 2" "[]"] by (simp add: json_parse_def)
  moreover have "Lit (json_pretty num 0 (JObj (ev_input_context item))) \<in> set (texts (EvaluationRow_view num full item True))"
    by (simp add: EvaluationRow_view_def show_if_def)
  ultimately show ?thesis using items more req encodeURIComponent_inj by blast
qed

definition demo_evaluation :: EvaluationEvent where
  "demo_evaluation = \<lparr>ev_id = ''1'', ev_occurred_at = [], ev_flag_key = ''dark'', ev_user_id = ''u'', ev_input_context = [], ev_matched_rule = None,
     ev_variant_key = ''true'', ev_reason = ''no_match''\<rparr>"

theorem evaluations_complete_witness:
  "allItems (Some (load_pages eval_nextPageParam (\<lambda>_. \<lparr>el_items = [demo_evaluation], el_next_cursor = None\<rparr>) 0)) = [demo_evaluation]"
proof -
  let ?serve = "\<lambda>_ :: string option. \<lparr>el_items = [demo_evaluation], el_next_cursor = None\<rparr>"
  have "pages_through el_items eval_nextPageParam ?serve [[demo_evaluation]] (\<lambda>_. ''x'')"
    by (simp add: pages_through_def eval_nextPageParam_def)
  from evaluations_complete [OF this, of 0 _ id "\<lambda>_. []" "\<lparr>dc_slug = ''shop'', dc_envSlug = ''prod'', dc_key = ''dark''\<rparr>" "\<lambda>_. False" demo_evaluation,
      OF _ _ _ refl]
  show ?thesis by simp
qed

end
