(* ===== verification/Compare_Page.thy ===== *)
theory Compare_Page
  imports Flag_Lists
begin

text \<open>
  The comparison of the environments of a project (\<open>web/src/routes/projects/$slug.compare.tsx\<close>): a matrix of
  flags and environments, built from one query per environment, shown in pages of fifty flags.
  \<open>localeCompare\<close> is the browser's.
\<close>

section \<open>Model\<close>

record EnvFlag =
  cf_id :: string
  cf_key :: string
  cf_name :: string
  cf_enabled :: bool
  cf_default_variant_key :: string

record CompareFlag =
  cp_id :: string
  cp_key :: string
  cp_name :: string

record CellState =
  cs_enabled :: bool
  cs_default_variant_key :: string

definition PAGE_SIZE :: nat where
  "PAGE_SIZE = 50"

text \<open>The queries the page reads; the list has one entry for each environment.\<close>

record compare_env =
  cq_envs :: "Environment list query"
  cq_flags :: "CompareFlag list query"
  cq_envFlags :: "EnvFlag list query list"

definition compare_envs :: "compare_env \<Rightarrow> Environment list" where
  "compare_envs e = (case q_data (cq_envs e) of Some es \<Rightarrow> es | None \<Rightarrow> [])"

definition compare_isLoading :: "compare_env \<Rightarrow> bool" where
  "compare_isLoading e \<longleftrightarrow> isLoading (cq_envs e) \<or> isLoading (cq_flags e) \<or> list_ex isLoading (cq_envFlags e)"

definition compare_isError :: "compare_env \<Rightarrow> bool" where
  "compare_isError e \<longleftrightarrow> isError (cq_envs e) \<or> isError (cq_flags e) \<or> list_ex isError (cq_envFlags e)"

type_synonym matrix = "(string, (string, CellState) js_map) js_map"

definition add_cell :: "Environment \<Rightarrow> EnvFlag \<Rightarrow> matrix \<Rightarrow> matrix" where
  "add_cell env flag m =
     (let row = (case map_get m (cf_key flag) of Some r \<Rightarrow> r | None \<Rightarrow> []) in
      map_set (cf_key flag) (map_set (en_slug env) \<lparr>cs_enabled = cf_enabled flag, cs_default_variant_key = cf_default_variant_key flag\<rparr> row) m)"

fun add_column :: "Environment \<times> EnvFlag list query \<Rightarrow> matrix \<Rightarrow> matrix" where
  "add_column (env, q) m = (case q_data q of Some fs \<Rightarrow> fold (add_cell env) fs m | None \<Rightarrow> m)"

definition matrix :: "compare_env \<Rightarrow> matrix" where
  "matrix e = fold add_column (zip (compare_envs e) (cq_envFlags e)) []"

definition matrix_cell :: "matrix \<Rightarrow> string \<Rightarrow> string \<Rightarrow> CellState option" where
  "matrix_cell m key slug = (case map_get m key of Some row \<Rightarrow> map_get row slug | None \<Rightarrow> None)"

definition compare_sorted :: "(string \<Rightarrow> string \<Rightarrow> int) \<Rightarrow> compare_env \<Rightarrow> CompareFlag list" where
  "compare_sorted localeCompare e =
     js_sort (\<lambda>a b. localeCompare (cp_key a) (cp_key b)) (case q_data (cq_flags e) of Some fs \<Rightarrow> fs | None \<Rightarrow> [])"

definition compare_totalPages :: "CompareFlag list \<Rightarrow> nat" where
  "compare_totalPages fs = (length fs + PAGE_SIZE - 1) div PAGE_SIZE"

definition pagedFlags :: "nat \<Rightarrow> CompareFlag list \<Rightarrow> CompareFlag list" where
  "pagedFlags pg fs = take PAGE_SIZE (drop (pg * PAGE_SIZE) fs)"

datatype compare_msg = ComparePage int | CompareRetry

text \<open>The page's number; the pager never asks for one below zero.\<close>

definition compare_retry :: "string \<Rightarrow> compare_env \<Rightarrow> effect list" where
  "compare_retry slug e = [Refetch [''environments'', slug], Refetch [''flags'', slug]] @
     map (\<lambda>(env, q). Refetch [''flags'', slug, en_slug env]) (zip (compare_envs e) (cq_envFlags e))"

definition CompareEnvironmentsPage_update :: "string \<Rightarrow> compare_env \<Rightarrow> compare_msg \<Rightarrow> int \<Rightarrow> int \<times> effect list" where
  "CompareEnvironmentsPage_update slug e msg pg = (case msg of
     ComparePage n \<Rightarrow> (n, [])
   | CompareRetry \<Rightarrow> (pg, compare_retry slug e))"

definition MatrixCell_view :: "CellState \<Rightarrow> 'm html" where
  "MatrixCell_view cell = El ''div'' []
     [El ''span'' [] [El ''span'' [Flag ''aria-hidden'' True] [], tr (if cs_enabled cell then ''projects:compare.enabled'' else ''projects:compare.disabled'')],
      El ''span'' [] [lit (cs_default_variant_key cell)]]"

definition Pagination_view :: "int \<Rightarrow> nat \<Rightarrow> compare_msg html" where
  "Pagination_view pg pages = El ''div'' []
     [El ''span'' [] [Txt (T ''projects:compare.page_info'' [(''current'', show_int (pg + 1)), (''total'', show_nat pages)])],
      El ''div'' []
        [El ''button'' [On ''click'' (ComparePage (pg - 1)), Flag ''disabled'' (pg = 0)] [tr ''projects:compare.previous''],
         El ''button'' [On ''click'' (ComparePage (pg + 1)), Flag ''disabled'' (int pages - 1 \<le> pg)] [tr ''projects:compare.next'']]]"

definition CompareEmptyState_view :: "'m html" where
  "CompareEmptyState_view = El ''div'' [] [El ''p'' [] [tr ''projects:compare.empty'']]"

definition MatrixSkeleton_view :: "'m html" where
  "MatrixSkeleton_view = El ''div'' []
     (El ''div'' [] (El ''div'' [] [] # replicate 3 (El ''div'' [] [])) #
      replicate 5 (El ''div'' [] (El ''div'' [] [] # replicate 3 (El ''div'' [] [El ''div'' [] [], El ''div'' [] []]))))"

definition MatrixError_view :: "compare_msg html" where
  "MatrixError_view = El ''div'' [] [El ''span'' [] [tr ''projects:compare.error'', lit '' ''],
     El ''button'' [On ''click'' CompareRetry] [tr ''common:actions.retry'']]"

definition matrix_row :: "compare_env \<Rightarrow> CompareFlag \<Rightarrow> 'm html" where
  "matrix_row e flag = El ''tr'' []
     (El ''td'' [] [El ''span'' [] [lit (cp_key flag)]] #
      map (\<lambda>env. El ''td'' [] [case matrix_cell (matrix e) (cp_key flag) (en_slug env) of
          Some cell \<Rightarrow> MatrixCell_view cell
        | None \<Rightarrow> El ''span'' [] [lit [CHR 0xE2, CHR 0x80, CHR 0x94]]]) (compare_envs e))"

definition CompareEnvironmentsPage_view :: "(string \<Rightarrow> string \<Rightarrow> int) \<Rightarrow> compare_env \<Rightarrow> int \<Rightarrow> compare_msg html" where
  "CompareEnvironmentsPage_view localeCompare e pg =
     (let flags = compare_sorted localeCompare e in
      El ''div'' [] (El ''h1'' [] [tr ''projects:compare.title''] #
        (if compare_isLoading e then [MatrixSkeleton_view]
         else if compare_isError e then [MatrixError_view]
         else if flags = [] then [CompareEmptyState_view]
         else
           El ''div'' [] [El ''table'' [At ''aria-label'' (T ''projects:compare.matrix_aria'' [])]
             [El ''thead'' [] [El ''tr'' [] (El ''th'' [At ''scope'' (Lit ''col'')] [tr ''projects:compare.flag_header''] #
                map (\<lambda>env. El ''th'' [At ''scope'' (Lit ''col'')] [El ''span'' [] [lit (en_slug env)]]) (compare_envs e))],
              El ''tbody'' [] (map (matrix_row e) (pagedFlags (nat pg) flags))]] #
           show_if (1 < compare_totalPages flags) (Pagination_view pg (compare_totalPages flags)))))"

section \<open>The matrix\<close>

definition cell_of :: "EnvFlag \<Rightarrow> CellState" where
  "cell_of f = \<lparr>cs_enabled = cf_enabled f, cs_default_variant_key = cf_default_variant_key f\<rparr>"

lemma add_cell_get: "matrix_cell (add_cell env f m) k s = (if k = cf_key f \<and> s = en_slug env then Some (cell_of f) else matrix_cell m k s)"
proof -
  have "map_get ([] :: (string, CellState) js_map) s = None" by (simp add: map_get_def)
  then show ?thesis
    by (cases "map_get m (cf_key f)") (auto simp: matrix_cell_def add_cell_def Let_def js_map_rules cell_of_def)
qed

lemma add_cells_get:
  "matrix_cell (fold (add_cell env) fs m) k s =
     (if s = en_slug env \<and> k \<in> cf_key ` set fs then map_option cell_of (find (\<lambda>f. cf_key f = k) (rev fs)) else matrix_cell m k s)"
proof (induction fs rule: rev_induct)
  case (snoc f fs)
  then show ?case by (auto simp: add_cell_get)
qed simp

text \<open>
  The flag with a key that an environment's list has last; keys are distinct in a list of the service, so it
  is the flag with that key.
\<close>

definition env_flag :: "EnvFlag list query \<Rightarrow> string \<Rightarrow> EnvFlag option" where
  "env_flag q k = (case q_data q of Some fs \<Rightarrow> find (\<lambda>f. cf_key f = k) fs | None \<Rightarrow> None)"

lemma find_rev_distinct: "distinct (map cf_key fs) \<Longrightarrow> find (\<lambda>f. cf_key f = k) (rev fs) = find (\<lambda>f. cf_key f = k) fs"
proof (induction fs)
  case (Cons f fs)
  have "cf_key f \<notin> cf_key ` set fs" using Cons.prems by simp
  then have "find (\<lambda>f. cf_key f = k) fs = None" if "cf_key f = k"
    using that by (metis (mono_tags, lifting) find_None_iff image_eqI)
  with Cons show ?case by (auto simp: find_append split: option.splits)
qed simp

definition keys_distinct :: "EnvFlag list query \<Rightarrow> bool" where
  "keys_distinct q = (case q_data q of Some fs \<Rightarrow> distinct (map cf_key fs) | None \<Rightarrow> True)"

lemma column_cells:
  assumes "keys_distinct q"
  shows "matrix_cell (add_column (env, q) m) k s =
    (if s = en_slug env \<and> env_flag q k \<noteq> None then map_option cell_of (env_flag q k) else matrix_cell m k s)"
proof (cases "q_data q")
  case (Some fs)
  then have "env_flag q k = find (\<lambda>f. cf_key f = k) fs" "distinct (map cf_key fs)" using assms by (simp_all add: env_flag_def keys_distinct_def)
  moreover have "find (\<lambda>f. cf_key f = k) fs = None \<longleftrightarrow> k \<notin> cf_key ` set fs" by (auto simp: find_None_iff)
  ultimately show ?thesis using Some by (simp add: add_cells_get find_rev_distinct)
qed (simp add: env_flag_def)

lemma other_columns:
  assumes "\<forall>x \<in> set xs. keys_distinct (snd x)" and "s \<notin> (\<lambda>x. en_slug (fst x)) ` set xs"
  shows "matrix_cell (fold add_column xs m) k s = matrix_cell m k s"
  using assms
proof (induction xs arbitrary: m)
  case (Cons x xs)
  have "matrix_cell (add_column x m) k s = matrix_cell m k s"
    using Cons.prems column_cells [of "snd x" "fst x" m k s] by auto
  with Cons show ?case by simp
qed simp

lemma matrix_fold:
  assumes "\<forall>x \<in> set xs. keys_distinct (snd x)" and "distinct (map (\<lambda>x. en_slug (fst x)) xs)" and "y \<in> set xs"
    and "\<forall>x \<in> set xs. matrix_cell m k (en_slug (fst x)) = None"
  shows "matrix_cell (fold add_column xs m) k (en_slug (fst y)) = map_option cell_of (env_flag (snd y) k)"
  using assms
proof (induction xs arbitrary: m)
  case (Cons x xs)
  note col = column_cells [of "snd x" "fst x" m k, unfolded prod.collapse]
  show ?case
  proof (cases "y = x")
    case True
    then have "en_slug (fst y) \<notin> (\<lambda>x. en_slug (fst x)) ` set xs" using Cons.prems(2) by simp
    then have "matrix_cell (fold add_column xs (add_column x m)) k (en_slug (fst y)) = matrix_cell (add_column x m) k (en_slug (fst y))"
      using Cons.prems(1) by (intro other_columns) simp_all
    also have "\<dots> = map_option cell_of (env_flag (snd y) k)" using Cons.prems(1,4) True col by auto
    finally show ?thesis by simp
  next
    case False
    then have mem: "y \<in> set xs" using Cons.prems(3) by simp
    have "en_slug (fst z) \<noteq> en_slug (fst x)" if "z \<in> set xs" for z using Cons.prems(2) that by (metis (mono_tags, lifting) distinct.simps(2) image_eqI list.set_map list.simps(9))
    then have "\<forall>z \<in> set xs. matrix_cell (add_column x m) k (en_slug (fst z)) = None" using Cons.prems(1,4) col by auto
    then show ?thesis using Cons.IH [OF _ _ mem, of "add_column x m"] Cons.prems(1,2) by simp
  qed
qed simp


definition demo_compare :: compare_env where
  "demo_compare = \<lparr>cq_envs = \<lparr>isLoading = False, q_error = None, q_data = Some [\<lparr>en_id = ''1'', en_slug = ''prod'', en_name = ''Prod''\<rparr>]\<rparr>,
     cq_flags = \<lparr>isLoading = False, q_error = None, q_data = Some []\<rparr>,
     cq_envFlags = [\<lparr>isLoading = False, q_error = None, q_data = Some [\<lparr>cf_id = ''1'', cf_key = ''dark'', cf_name = ''Dark'', cf_enabled = True,
       cf_default_variant_key = ''true''\<rparr>]\<rparr>]\<rparr>"


end
