(* ===== verification/Project_Overview.thy ===== *)
theory Project_Overview
  imports Settings_Pages Flag_Detail Data_Table
begin

text \<open>
  The list of projects (\<open>web/src/routes/index.tsx\<close>), the dashboard of a project
  (\<open>routes/projects/$slug.index.tsx\<close>) with its own dialog for a new flag, and the overview of its
  environments (\<open>routes/projects/$slug.environments.tsx\<close>).
\<close>

section \<open>The projects\<close>

record Project =
  pr_id :: string
  pr_name :: string
  pr_slug :: string
  pr_created_at :: string

text \<open>\<open>d[key].length\<close>; the response is an object of lists.\<close>

definition project_count :: "string \<Rightarrow> (string, 'a list) js_map \<Rightarrow> (web_error, nat) result" where
  "project_count key d = (case map_get d key of Some xs \<Rightarrow> Inr (length xs) | None \<Rightarrow> Inl (OtherError ''TypeError''))"

definition count_path :: "string \<Rightarrow> string \<Rightarrow> string" where
  "count_path slug resource = ''/api/v1/projects/'' @ slug @ ''/'' @ resource"

definition CountBadge_view :: "string \<Rightarrow> nat query \<Rightarrow> 'm html" where
  "CountBadge_view label q = El ''span'' []
     [(if isLoading q then El ''span'' [] []
       else if isError q then El ''span'' [] [lit ''-'']
       else El ''span'' [] [lit (show_nat (case q_data q of Some n \<Rightarrow> n | None \<Rightarrow> 0))]),
      El ''span'' [] [tr label]]"

text \<open>The three counts of a card: environments, flags, members.\<close>

definition ProjectCard_view :: "(string \<Rightarrow> string \<Rightarrow> nat query) \<Rightarrow> Project \<Rightarrow> 'm html" where
  "ProjectCard_view counts project = link (''/projects/'' @ pr_slug project)
     [El ''h2'' [] [lit (pr_name project)], El ''p'' [] [lit (pr_slug project)],
      El ''div'' []
        [CountBadge_view ''projects:list.count_environments'' (counts (pr_slug project) ''environments''),
         CountBadge_view ''projects:list.count_flags'' (counts (pr_slug project) ''flags''),
         CountBadge_view ''projects:list.count_members'' (counts (pr_slug project) ''members'')]]"

definition HomePageSkeleton_view :: "'m html" where
  "HomePageSkeleton_view = El ''div'' [] [El ''div'' [] [],
     El ''div'' [] (replicate 3 (El ''div'' [] [El ''div'' [] [], El ''div'' [] [], El ''div'' [] (replicate 3 (El ''div'' [] []))]))]"

text \<open>\<open>HomeCreate\<close> opens the dialog of the provider (\<open>pp_handleOpen\<close>).\<close>

datatype home_msg = HomeRetry | HomeCreate

definition HomePage_update :: "home_msg \<Rightarrow> project_provider \<Rightarrow> project_provider \<times> effect list" where
  "HomePage_update msg p = (case msg of
     HomeRetry \<Rightarrow> (p, [Refetch [''projects'']])
   | HomeCreate \<Rightarrow> (pp_handleOpen True p, []))"

definition HomePage_view :: "Project list query \<Rightarrow> (string \<Rightarrow> string \<Rightarrow> nat query) \<Rightarrow> home_msg html" where
  "HomePage_view q counts =
     (if isLoading q then HomePageSkeleton_view
      else if isError q then El ''div'' [] [El ''p'' [] [tr ''projects:list.error''],
        El ''button'' [On ''click'' HomeRetry] [tr ''common:actions.retry'']]
      else
        (let projects = (case q_data q of Some ps \<Rightarrow> ps | None \<Rightarrow> []) in
         if projects = [] then El ''div'' []
           [El ''h1'' [] [tr ''projects:list.empty_title''], El ''p'' [] [tr ''projects:list.empty_body''],
            ui_Button False False [On ''click'' HomeCreate] [tr ''projects:list.first_project_button'']]
         else El ''div'' []
           [El ''div'' [] [El ''h1'' [] [tr ''projects:list.title''],
              ui_Button False False [On ''click'' HomeCreate] [tr ''projects:list.new_project'']],
            El ''div'' [] (map (ProjectCard_view counts) projects)]))"

section \<open>The dashboard's dialog for a new flag\<close>

text \<open>
  The dashboard has a copy of the flag dialog of \<open>flag-create-modal.tsx\<close> with the same state but for
  \<open>nameTouched\<close>, which it does not have: here the name does not follow the key. The validation
  (\<open>validateFlagKey\<close> is \<open>validateKeyLocally\<close>), the request and the handling of errors are the same.
\<close>

definition validateFlagKey :: "string \<Rightarrow> utext option" where
  "validateFlagKey = validate_key ''flags:create.key_too_long'' ''flags:create.key_invalid''"

definition DashboardFlagModal_update :: "string \<Rightarrow> flag_msg \<Rightarrow> flag_dialog \<Rightarrow> flag_dialog \<times> flag_out list" where
  "DashboardFlagModal_update slug msg d = (case msg of
     FlagKey v \<Rightarrow>
       (let d1 = d\<lparr>fd_key := v, fd_keyError := None, fd_serverError := None\<rparr>
        in (if fd_keyTouched d then d1\<lparr>fd_keyError := validateFlagKey v\<rparr> else d1, []))
   | FlagName v \<Rightarrow> (d\<lparr>fd_name := v\<rparr>, [])
   | _ \<Rightarrow> CreateFlagModal_update slug msg d)"

definition dashboard_flag_form :: "bool \<Rightarrow> flag_dialog \<Rightarrow> flag_msg html" where
  "dashboard_flag_form pending d =
     (let bad = (\<not> no_error (fd_keyError d)) in
      El ''form'' [On ''submit'' FlagSubmit]
        ([El ''div'' []
            ([ui_Label ''flag-key-dashboard'' [tr ''flags:create.key_label''],
              ui_Input None bad (Some ''flag-key-dashboard'') (if bad then Some ''flag-key-dashboard-error'' else None)
                [At ''type'' (Lit ''text''), Flag ''autofocus'' True, At ''value'' (Lit (fd_key d)), OnText ''change'' FlagKey,
                 On ''blur'' FlagKeyBlur, At ''placeholder'' (T ''flags:create.key_placeholder'' [])]] @
             (case fd_keyError d of Some e \<Rightarrow> show_if bad (El ''p'' [At ''id'' (Lit ''flag-key-dashboard-error'')] [Txt e]) | None \<Rightarrow> [])),
          El ''div'' []
            [ui_Label ''flag-name-dashboard'' [tr ''flags:create.name_label''],
             ui_Input None False (Some ''flag-name-dashboard'') None
                [At ''type'' (Lit ''text''), At ''value'' (Lit (fd_name d)), OnText ''change'' FlagName,
                 At ''placeholder'' (T ''flags:create.name_placeholder'' [])]],
          El ''div'' []
            [ui_Label ''flag-type-dashboard'' [tr ''flags:create.type_label''],
             ui_Select (fd_type d) FlagTypeChosen False [At ''aria-label'' (T ''flags:create.type_aria'' [])]
               (map (\<lambda>ty. ui_SelectItem ty [tr (''flags:create.type_'' @ ty)]) [''bool'', ''string'', ''number'', ''json''])]] @
         error_text (fd_serverError d) @
         [El ''div'' []
           [ui_Button False pending [At ''type'' (Lit ''button''), On ''click'' FlagCancel] [tr ''common:actions.cancel''],
            ui_Button pending bad [At ''type'' (Lit ''submit'')]
              [tr (if pending then ''common:states.creating'' else ''common:actions.create'')]]]))"

definition DashboardFlagModal_view :: "bool \<Rightarrow> flag_dialog \<Rightarrow> flag_msg html" where
  "DashboardFlagModal_view pending d =
     ui_Dialog True FlagOpenChange [ui_DialogContent (ui_DialogCloseButton (FlagOpenChange False) #
       (if created d then
          (let k = the (fd_createdKey d) in
           [ui_DialogHeader [ui_DialogTitle [tr ''flags:create.success_title'']],
            El ''p'' [] [tr ''flags:create.success_body''],
            El ''CopyableCode'' [At ''value'' (Lit k), At ''aria-label'' (T ''flags:create.success_copy_aria'' [(''key'', k)])] [],
            ui_DialogFooter [ui_Button False False [On ''click'' FlagDone] [tr ''flags:create.success_done'']]])
        else [ui_DialogHeader [ui_DialogTitle [tr ''flags:create.title'']], dashboard_flag_form pending d]))]"

section \<open>The dashboard\<close>

record DashboardFlag =
  df_id :: string
  df_key :: string
  df_name :: string
  df_created_at :: string

text \<open>
  The difference of two times; it is not a number if a date is invalid, which \<open>sort\<close> treats like zero.
\<close>

definition newer_first :: "DashboardFlag \<Rightarrow> DashboardFlag \<Rightarrow> int" where
  "newer_first a b = (case (date_parse (df_created_at a), date_parse (df_created_at b)) of
     (Some ta, Some tb) \<Rightarrow> tb - ta | _ \<Rightarrow> 0)"

definition recent :: "DashboardFlag list \<Rightarrow> DashboardFlag list" where
  "recent flags = take 5 (js_sort newer_first flags)"

definition ProjectHeader_view :: "string \<Rightarrow> string \<Rightarrow> bool \<Rightarrow> copy_msg html" where
  "ProjectHeader_view name slug copied = El ''fragment'' []
     [El ''h1'' [] [lit name],
      El ''div'' [] [El ''button'' [On ''click'' CopyClick, At ''aria-label'' (T ''projects:dashboard.copy_slug_aria'' [(''slug'', slug)])]
        (lit slug # show_if copied (El ''span'' [] [tr ''projects:settings.copied'']))]]"

text \<open>\<open>copySlug\<close> of the header is the one of the settings page.\<close>

definition ProjectHeader_update :: "string \<Rightarrow> copy_msg \<Rightarrow> bool \<Rightarrow> bool \<times> effect list" where
  "ProjectHeader_update = SlugField_update"

definition recent_item ::
    "(relative_date \<Rightarrow> string) \<Rightarrow> (int option \<Rightarrow> string) \<Rightarrow> int \<Rightarrow> string \<Rightarrow> string \<Rightarrow> DashboardFlag \<Rightarrow> (string, 'm html) result" where
  "recent_item intl full now projectSlug firstEnvSlug flag =
     await (formatRelativeDate now (df_created_at flag)) (\<lambda>rel. Inr (El ''li'' []
       [link (flags_page projectSlug firstEnvSlug @ ''/'' @ df_key flag)
         [El ''div'' [] [El ''span'' [] [lit (df_key flag)], El ''span'' [] [lit (df_name flag)]],
          El ''time'' [At ''datetime'' (Lit (df_created_at flag)), At ''title'' (Lit (full (date_parse (df_created_at flag))))] [lit (intl rel)]]]))"

definition RecentFlagsList_view ::
    "(relative_date \<Rightarrow> string) \<Rightarrow> (int option \<Rightarrow> string) \<Rightarrow> int \<Rightarrow> DashboardFlag list \<Rightarrow> string \<Rightarrow> string \<Rightarrow> (string, 'm html) result" where
  "RecentFlagsList_view intl full now flags projectSlug firstEnvSlug =
     await (render_all (map (recent_item intl full now projectSlug firstEnvSlug) (recent flags))) (\<lambda>items. Inr (El ''ul'' [] items))"

definition RecentFlagsSkeleton_view :: "'m html" where
  "RecentFlagsSkeleton_view = El ''ul'' [] (replicate 3 (El ''li'' [] [El ''div'' [] [El ''div'' [] [], El ''div'' [] []], El ''div'' [] []]))"

record dashboard =
  db_copied :: bool
  db_showCreateEnv :: bool
  db_createEnv :: env_dialog
  db_createFlag :: "flag_dialog option"

definition db_init :: dashboard where
  "db_init = \<lparr>db_copied = False, db_showCreateEnv = False, db_createEnv = ed_reset, db_createFlag = None\<rparr>"

datatype dashboard_msg =
    DashCopy copy_msg
  | DashNewFlag
  | DashNewEnv
  | DashEnv env_msg
  | DashFlag flag_msg
  | DashRetry

definition env_effects :: "env_out list \<Rightarrow> effect list" where
  "env_effects outs = concat (map (\<lambda>x. case x of EnvEff f \<Rightarrow> [f] | _ \<Rightarrow> []) outs)"

definition flag_effects :: "flag_out list \<Rightarrow> effect list" where
  "flag_effects outs = concat (map (\<lambda>x. case x of FlagEff f \<Rightarrow> [f] | _ \<Rightarrow> []) outs)"

text \<open>
  The flag dialog is mounted while it is shown, so it starts afresh each time; a response after it was
  closed changes nothing. The environment dialog stays mounted and resets itself.
\<close>

definition ProjectDashboard_update :: "string \<Rightarrow> dashboard_msg \<Rightarrow> dashboard \<Rightarrow> dashboard \<times> effect list" where
  "ProjectDashboard_update slug msg p = (case msg of
     DashCopy m \<Rightarrow> (case ProjectHeader_update slug m (db_copied p) of (c, effs) \<Rightarrow> (p\<lparr>db_copied := c\<rparr>, effs))
   | DashNewFlag \<Rightarrow> (p\<lparr>db_createFlag := Some (case db_createFlag p of Some d \<Rightarrow> d | None \<Rightarrow> fd_init)\<rparr>, [])
   | DashNewEnv \<Rightarrow> (p\<lparr>db_showCreateEnv := True\<rparr>, [])
   | DashEnv m \<Rightarrow> (case CreateEnvironmentDialog_update slug m (db_createEnv p) of
         (d, outs) \<Rightarrow>
           (p\<lparr>db_createEnv := d, db_showCreateEnv := (db_showCreateEnv p \<and> EnvCreatedOut \<notin> set outs \<and> EnvCancelOut \<notin> set outs)\<rparr>,
            env_effects outs))
   | DashFlag m \<Rightarrow> (case db_createFlag p of
         None \<Rightarrow> (p, [])
       | Some d \<Rightarrow> (case DashboardFlagModal_update slug m d of
           (d', outs) \<Rightarrow>
             (p\<lparr>db_createFlag := (if FlagCreatedOut \<in> set outs \<or> FlagCancelOut \<in> set outs then None else Some d')\<rparr>,
              flag_effects outs @ (if FlagCreatedOut \<in> set outs then [Invalidate [''flags'', slug]] else []))))
   | DashRetry \<Rightarrow> (p, [Refetch [''flags'', slug]]))"

definition FlagsNeedEnvironmentState_view :: "dashboard_msg html" where
  "FlagsNeedEnvironmentState_view = El ''div'' []
     [El ''h2'' [] [tr ''projects:dashboard.flags_need_environment_title''], El ''p'' [] [tr ''projects:dashboard.flags_need_environment''],
      ui_Button False False [On ''click'' DashNewEnv] [tr ''projects:dashboard.create_first_environment_cta'']]"

definition FlagsEmptyState_view :: "dashboard_msg html" where
  "FlagsEmptyState_view = El ''div'' []
     [El ''h2'' [] [tr ''projects:dashboard.no_flags_title''], El ''p'' [] [tr ''projects:dashboard.no_flags''],
      ui_Button False False [On ''click'' DashNewFlag] [tr ''projects:dashboard.create_flag_cta'']]"

definition SectionError_view :: "string \<Rightarrow> dashboard_msg html" where
  "SectionError_view label = El ''div'' []
     [El ''span'' [] [Txt (T ''projects:dashboard.failed_to_load'' [(''resource'', label)]), lit '' ''],
      El ''button'' [On ''click'' DashRetry] [tr ''common:actions.retry'']]"

text \<open>What the page is rendered with; reading \<open>data!\<close> of a query without data would throw.\<close>

record dashboard_env =
  de_now :: int
  de_envs :: "Environment list query"
  de_flags :: "DashboardFlag list query"
  de_creatingEnv :: bool
  de_creatingFlag :: bool

definition hasEnvironments :: "dashboard_env \<Rightarrow> bool" where
  "hasEnvironments e \<longleftrightarrow> \<not> isLoading (de_envs e) \<and> \<not> isError (de_envs e) \<and>
     0 < (case q_data (de_envs e) of Some es \<Rightarrow> length es | None \<Rightarrow> 0)"

definition required :: "'a query \<Rightarrow> (string, 'a) result" where
  "required q = (case q_data q of Some x \<Rightarrow> Inr x | None \<Rightarrow> Inl ''TypeError'')"

definition dashboard_recent ::
    "(relative_date \<Rightarrow> string) \<Rightarrow> (int option \<Rightarrow> string) \<Rightarrow> string \<Rightarrow> dashboard_env \<Rightarrow> (string, dashboard_msg html) result" where
  "dashboard_recent intl full slug e =
     (if isLoading (de_flags e) then Inr RecentFlagsSkeleton_view
      else if isError (de_flags e) then Inr (SectionError_view ''flags'')
      else if isLoading (de_envs e) \<or> isError (de_envs e) then Inr RecentFlagsSkeleton_view
      else await (required (de_envs e)) (\<lambda>envs.
        case envs of
          [] \<Rightarrow> Inr FlagsNeedEnvironmentState_view
        | first # _ \<Rightarrow> await (required (de_flags e)) (\<lambda>flags.
            if flags = [] then Inr FlagsEmptyState_view
            else RecentFlagsList_view intl full (de_now e) flags slug (en_slug first))))"

definition ProjectDashboard_view ::
    "(relative_date \<Rightarrow> string) \<Rightarrow> (int option \<Rightarrow> string) \<Rightarrow> ProjectData \<Rightarrow> dashboard_env \<Rightarrow> dashboard \<Rightarrow> (string, dashboard_msg html) result" where
  "ProjectDashboard_view intl full project e p =
     await (dashboard_recent intl full (pj_slug project) e) (\<lambda>body. Inr (El ''div'' []
       ([map_html DashCopy (ProjectHeader_view (pj_name project) (pj_slug project) (db_copied p)),
         El ''div'' [] [ui_Button False (\<not> hasEnvironments e) [On ''click'' DashNewFlag] [tr ''projects:dashboard.quick_create_flag'']],
         El ''section'' [] [El ''h2'' [] [tr ''projects:dashboard.recent_flags_section''], body],
         map_html DashEnv (CreateEnvironmentDialog_view (db_showCreateEnv p) (de_creatingEnv e) (db_createEnv p))] @
        (case db_createFlag p of Some d \<Rightarrow> [map_html DashFlag (DashboardFlagModal_view (de_creatingFlag e) d)] | None \<Rightarrow> []))))"

section \<open>The environments of a project\<close>

record overview =
  ov_showCreate :: bool
  ov_create :: env_dialog

datatype overview_msg = OverNew | OverRetry | OverCreate env_msg

definition EnvironmentsOverviewPage_update :: "string \<Rightarrow> overview_msg \<Rightarrow> overview \<Rightarrow> overview \<times> effect list" where
  "EnvironmentsOverviewPage_update slug msg p = (case msg of
     OverNew \<Rightarrow> (p\<lparr>ov_showCreate := True\<rparr>, [])
   | OverRetry \<Rightarrow> (p, [Refetch [''environments'', slug]])
   | OverCreate m \<Rightarrow> (case CreateEnvironmentDialog_update slug m (ov_create p) of
         (d, outs) \<Rightarrow>
           (p\<lparr>ov_create := d, ov_showCreate := (ov_showCreate p \<and> EnvCreatedOut \<notin> set outs \<and> EnvCancelOut \<notin> set outs)\<rparr>,
            env_effects outs)))"

text \<open>The flags of an environment, of which the card reads the number.\<close>

definition EnvironmentCard_view :: "'f list query \<Rightarrow> string \<Rightarrow> Environment \<Rightarrow> (string, 'm html) result" where
  "EnvironmentCard_view flags projectSlug env =
     await (if isLoading flags then Inr (El ''div'' [] [])
            else if isError flags then Inr (El ''p'' [] [tr ''projects:environments_overview.flag_count_error''])
            else await (required flags) (\<lambda>fs. Inr (El ''p'' [] [Txt (T ''projects:environments_overview.flag_count'' [(''count'', show_nat (length fs))])])))
       (\<lambda>count. Inr (link (flags_page projectSlug (en_slug env))
         [El ''div'' [] [El ''h3'' [] [lit (en_name env)], El ''span'' [] [lit (en_slug env)]], count]))"

definition OverviewEmptyState_view :: "overview_msg html" where
  "OverviewEmptyState_view = El ''div'' []
     [El ''h2'' [] [tr ''projects:environments_overview.empty_title''], El ''p'' [] [tr ''projects:environments_overview.empty_body''],
      ui_Button False False [On ''click'' OverNew] [tr ''projects:environments_overview.create_first_cta'']]"

definition OverviewErrorState_view :: "overview_msg html" where
  "OverviewErrorState_view = El ''div'' [] [El ''p'' [] [tr ''projects:environments_overview.error''],
     ui_Button False False [On ''click'' OverRetry] [tr ''common:actions.retry'']]"

definition EnvironmentCardsSkeleton_view :: "'m html" where
  "EnvironmentCardsSkeleton_view = El ''div'' []
     (replicate 3 (El ''div'' [] [El ''div'' [] [El ''div'' [] [], El ''div'' [] []], El ''div'' [] []]))"

definition overview_body :: "(string \<Rightarrow> 'f list query) \<Rightarrow> string \<Rightarrow> Environment list query \<Rightarrow> (string, overview_msg html) result" where
  "overview_body flags slug q =
     (if isLoading q then Inr EnvironmentCardsSkeleton_view
      else if isError q then Inr OverviewErrorState_view
      else await (required q) (\<lambda>envs.
        if envs = [] then Inr OverviewEmptyState_view
        else await (render_all (map (\<lambda>env. EnvironmentCard_view (flags (en_slug env)) slug env) envs)) (\<lambda>cards. Inr (El ''div'' [] cards))))"

definition EnvironmentsOverviewPage_view ::
    "(string \<Rightarrow> 'f list query) \<Rightarrow> string \<Rightarrow> Environment list query \<Rightarrow> bool \<Rightarrow> overview \<Rightarrow> (string, overview_msg html) result" where
  "EnvironmentsOverviewPage_view flags slug q creating p =
     await (overview_body flags slug q) (\<lambda>body. Inr (El ''div'' []
       [El ''div'' [] [El ''h1'' [] [tr ''projects:environments_overview.title''],
          ui_Button False False [On ''click'' OverNew] [tr ''projects:environments_overview.create_button'']],
        body,
        map_html OverCreate (CreateEnvironmentDialog_view (ov_showCreate p) creating (ov_create p))]))"

end
