(* ===== verification/Overview_Spec.thy ===== *)
theory Overview_Spec
  imports Project_Overview
begin

text \<open>
  What the dashboard shows and sends: the newest flags, requests that are valid in any run of the page,
  a flag only where an environment exists; and its two gaps: a flag without a name, and a failed
  environment query that looks like loading for ever.
\<close>

section \<open>The newest flags\<close>

lemma js_insort_cong: "(\<And>y. y \<in> set ys \<Longrightarrow> (cmp x y \<le> 0) = (cmp' x y \<le> 0)) \<Longrightarrow> js_insort cmp x ys = js_insort cmp' x ys"
  by (induction ys) auto

lemma js_sort_set: "set (js_sort cmp xs) = set xs"
  by (metis js_sort_mset set_mset_mset)

lemma js_sort_cong:
  assumes "\<And>x y. x \<in> set xs \<Longrightarrow> y \<in> set xs \<Longrightarrow> (cmp x y \<le> 0) = (cmp' x y \<le> 0)"
  shows "js_sort cmp xs = js_sort cmp' xs"
  using assms
proof (induction xs)
  case (Cons x xs)
  then have "js_sort cmp xs = js_sort cmp' xs" by simp
  moreover have "js_insort cmp x (js_sort cmp' xs) = js_insort cmp' x (js_sort cmp' xs)"
    using Cons.prems by (intro js_insort_cong) (simp add: js_sort_set)
  ultimately show ?case by (simp add: js_sort_def)
qed (simp add: js_sort_def)

definition created_time :: "DashboardFlag \<Rightarrow> int" where
  "created_time f = the (date_parse (df_created_at f))"

lemma newest_sort:
  assumes "list_all (\<lambda>f. date_parse (df_created_at f) \<noteq> None) flags"
  shows "js_sort newer_first flags = js_sort (compare_rows created_time Desc) flags"
proof (rule js_sort_cong)
  fix x y assume "x \<in> set flags" "y \<in> set flags"
  with assms obtain s t where "date_parse (df_created_at x) = Some s" "date_parse (df_created_at y) = Some t"
    unfolding list_all_iff by blast
  then show "(newer_first x y \<le> 0) = (compare_rows created_time Desc x y \<le> 0)"
    by (simp add: newer_first_def compare_le created_time_def)
qed

lemma recent_item_defined:
  "date_parse (df_created_at f) \<noteq> None \<Longrightarrow> \<exists>h. recent_item intl full now slug env f = Inr h"
  by (auto simp: recent_item_def formatRelativeDate_def Let_def await_def)

lemma render_all_defined:
  "list_all (\<lambda>x. \<exists>h. g x = Inr h) xs \<Longrightarrow> \<exists>hs. render_all (map g xs) = Inr hs \<and> list_all2 (\<lambda>x h. g x = Inr h) xs hs"
  by (induction xs) (auto simp: await_def)

text \<open>
  The dashboard shows the newest flags. If all creation dates are valid, the list is rendered: it has the five
  newest flags of the response, or all if there are fewer, newest first; no flag that is left out is newer than one that
  is shown, and flags with the same date keep the order of the response.
\<close>

theorem recent_flags_newest:
  assumes "list_all (\<lambda>f. date_parse (df_created_at f) \<noteq> None) flags"
  shows "length (recent flags) = min 5 (length flags)
    \<and> mset (recent flags) \<subseteq># mset flags
    \<and> sorted_wrt (\<lambda>a b. created_time b \<le> created_time a) (recent flags)
    \<and> (\<forall>f \<in># mset flags - mset (recent flags). \<forall>g \<in> set (recent flags). created_time f \<le> created_time g)
    \<and> (\<exists>rest. filter (\<lambda>f. created_time f = k) (recent flags) @ rest = filter (\<lambda>f. created_time f = k) flags)
    \<and> (\<exists>items :: 'm html list. RecentFlagsList_view intl full now flags slug env = Inr (El ''ul'' [] items)
        \<and> list_all2 (\<lambda>f h. recent_item intl full now slug env f = Inr h) (recent flags) items)"
proof -
  let ?s = "js_sort (compare_rows created_time Desc) flags"
  have r: "recent flags = take 5 ?s" by (simp add: recent_def newest_sort [OF assms])
  have ms: "mset ?s = mset (take 5 ?s) + mset (drop 5 ?s)" by (metis append_take_drop_id mset_append)
  have srt: "sorted_wrt (\<lambda>a b. created_time b \<le> created_time a) ?s"
    using js_sort_sorted [of created_time Desc flags] by (simp add: compare_le)
  have len: "length ?s = length flags" using js_sort_mset [of "compare_rows created_time Desc" flags] mset_eq_length by blast
  have "length (recent flags) = min 5 (length flags)" by (simp add: r len min.commute)
  moreover have "mset (recent flags) \<subseteq># mset flags" using ms js_sort_mset [of "compare_rows created_time Desc" flags] by (simp add: r)
  moreover have "sorted_wrt (\<lambda>a b. created_time b \<le> created_time a) (recent flags)" using srt by (simp add: r sorted_wrt_take)
  moreover have "\<forall>f \<in># mset flags - mset (recent flags). \<forall>g \<in> set (recent flags). created_time f \<le> created_time g"
  proof -
    have "mset flags - mset (recent flags) = mset (drop 5 ?s)"
      using ms js_sort_mset [of "compare_rows created_time Desc" flags] by (simp add: r)
    moreover have "created_time f \<le> created_time g" if "f \<in> set (drop 5 ?s)" "g \<in> set (take 5 ?s)" for f g
      using srt that by (metis append_take_drop_id sorted_wrt_append)
    ultimately show ?thesis by (simp add: r)
  qed
  moreover have "\<exists>rest. filter (\<lambda>f. created_time f = k) (recent flags) @ rest = filter (\<lambda>f. created_time f = k) flags"
    using js_sort_stable [of created_time k Desc flags] unfolding r by (metis append_take_drop_id filter_append)
  moreover have "list_all (\<lambda>f. \<exists>h :: 'm html. recent_item intl full now slug env f = Inr h) (recent flags)"
    using assms js_sort_set [of "compare_rows created_time Desc" flags]
    by (auto simp: list_all_iff r intro!: recent_item_defined dest!: in_set_takeD)
  from render_all_defined [OF this] obtain items :: "'m html list" where "render_all (map (recent_item intl full now slug env) (recent flags)) = Inr items"
      "list_all2 (\<lambda>f h. recent_item intl full now slug env f = Inr h) (recent flags) items"
    by blast
  then have "\<exists>items :: 'm html list. RecentFlagsList_view intl full now flags slug env = Inr (El ''ul'' [] items)
      \<and> list_all2 (\<lambda>f h. recent_item intl full now slug env f = Inr h) (recent flags) items"
    by (simp add: RecentFlagsList_view_def await_def)
  ultimately show ?thesis by blast
qed

definition dated_flag :: "string \<Rightarrow> int \<Rightarrow> DashboardFlag" where
  "dated_flag k year = \<lparr>df_id = k, df_key = k, df_name = k, df_created_at = utc_stamp \<lparr>c_year = year, c_month = 1, c_day = 1\<rparr> 9 5 30\<rparr>"

lemma demo_flags_dated: "list_all (\<lambda>f. date_parse (df_created_at f) \<noteq> None) [dated_flag ''old'' 2023, dated_flag ''new'' 2024]"
proof -
  have "civil_ok \<lparr>c_year = 2023, c_month = 1, c_day = 1\<rparr>" "civil_ok \<lparr>c_year = 2024, c_month = 1, c_day = 1\<rparr>" by code_simp+
  then show ?thesis using date_parse_stamp by (simp add: dated_flag_def)
qed

theorem recent_flags_newest_witness:
  "length (recent [dated_flag ''old'' 2023, dated_flag ''new'' 2024]) = 2
   \<and> sorted_wrt (\<lambda>a b. created_time b \<le> created_time a) (recent [dated_flag ''old'' 2023, dated_flag ''new'' 2024])"
proof -
  note r = recent_flags_newest [OF demo_flags_dated]
  show ?thesis using r [THEN conjunct1] r [THEN conjunct2, THEN conjunct2, THEN conjunct1] by simp
qed

section \<open>Requests\<close>

lemma dash_flag_request_ok: "x \<in> set (snd (DashboardFlagModal_update p m d)) \<Longrightarrow> flag_request_ok p x"
  by (cases m) (auto simp: DashboardFlagModal_update_def CreateFlagModal_update_def flag_request_ok_def Let_def validateKeyLocally_def
      validate_key_None default_variant_listed split: option.splits if_splits)

definition dash_request_ok :: "string \<Rightarrow> effect \<Rightarrow> bool" where
  "dash_request_ok slug x \<longleftrightarrow> env_request_ok slug (EnvEff x) \<or> flag_request_ok slug (FlagEff x)"

lemma env_effects_ok: "\<forall>x \<in> set outs. env_request_ok slug x \<Longrightarrow> x \<in> set (env_effects outs) \<Longrightarrow> dash_request_ok slug x"
  by (auto simp: env_effects_def dash_request_ok_def split: env_out.splits)

lemma flag_effects_ok: "\<forall>x \<in> set outs. flag_request_ok slug x \<Longrightarrow> x \<in> set (flag_effects outs) \<Longrightarrow> dash_request_ok slug x"
  by (auto simp: flag_effects_def dash_request_ok_def split: flag_out.splits)

lemma env_update_ok: "x \<in> set (snd (CreateEnvironmentDialog_update p m d)) \<Longrightarrow> env_request_ok p x"
  by (cases m) (auto simp: CreateEnvironmentDialog_update_def env_request_ok_def env_submit_ok [unfolded env_request_ok_def]
      split: option.splits if_splits dest: env_submit_ok)

lemma dash_effects_ok:
  assumes "x \<in> set (snd (ProjectDashboard_update slug m p))"
  shows "dash_request_ok slug x"
proof (cases m)
  case (DashEnv em)
  then show ?thesis using assms env_effects_ok [of "snd (CreateEnvironmentDialog_update slug em (db_createEnv p))" slug x] env_update_ok
    by (auto simp: ProjectDashboard_update_def split: prod.splits)
next
  case (DashFlag fm)
  then obtain d where d: "db_createFlag p = Some d" using assms by (cases "db_createFlag p") (simp_all add: ProjectDashboard_update_def)
  have "x \<in> set (flag_effects (snd (DashboardFlagModal_update slug fm d))) \<or> x = Invalidate [''flags'', slug]"
    using assms DashFlag d by (auto simp: ProjectDashboard_update_def split: prod.splits if_splits)
  then show ?thesis using flag_effects_ok [of "snd (DashboardFlagModal_update slug fm d)" slug x] dash_flag_request_ok
    by (auto simp: dash_request_ok_def env_request_ok_def)
qed (use assms in \<open>auto simp: ProjectDashboard_update_def ProjectHeader_update_def SlugField_update_def dash_request_ok_def env_request_ok_def
    split: copy_msg.splits if_splits prod.splits\<close>)

text \<open>A step of the page: what it offers, responses and timers.\<close>

definition dash_can ::
    "(relative_date \<Rightarrow> string) \<Rightarrow> (int option \<Rightarrow> string) \<Rightarrow> ProjectData \<Rightarrow> dashboard_env \<Rightarrow> dashboard \<Rightarrow> dashboard_msg \<Rightarrow> bool" where
  "dash_can intl full project e p m \<longleftrightarrow>
     (\<exists>h. ProjectDashboard_view intl full project e p = Inr h \<and> offered h m)
     \<or> (\<exists>r. m = DashEnv (EnvSettled r)) \<or> (\<exists>r. m = DashFlag (FlagSettled r)) \<or> (\<exists>b. m = DashCopy (CopyWritten b)) \<or> m = DashCopy CopyTimer"

lemma env_dialog_offers: "offered (CreateEnvironmentDialog_view is_open pending d) m \<Longrightarrow> \<not> (\<exists>r. m = EnvSettled r)"
  by (auto simp: CreateEnvironmentDialog_view_def Let_def bex_Un show_if_def split: option.splits if_splits)

lemma recent_list_silent: "RecentFlagsList_view intl full now flags slug env = Inr h \<Longrightarrow> \<not> offered h m"
proof -
  have item: "\<not> offered h m" if "recent_item intl full now slug env f = Inr h" for f and h :: "'a html"
    using that by (auto simp: recent_item_def await_eq_Inr)
  have all: "\<not> (\<exists>h \<in> set hs. offered h m)"
    if "render_all (map (recent_item intl full now slug env) fs) = Inr hs" for fs and hs :: "'a html list"
    using that by (induction fs arbitrary: hs) (auto simp: await_eq_Inr dest: item)
  assume "RecentFlagsList_view intl full now flags slug env = Inr h"
  then show ?thesis using all by (auto simp: RecentFlagsList_view_def await_eq_Inr)
qed

lemma dash_body_offers:
  assumes "dashboard_recent intl full slug e = Inr h" and "offered h m"
  shows "m = DashRetry \<or> m = DashNewEnv \<or> m = DashNewFlag \<and> hasEnvironments e"
proof (cases "isLoading (de_flags e) \<or> isError (de_flags e) \<or> isLoading (de_envs e) \<or> isError (de_envs e)")
  case True
  with assms show ?thesis by (auto simp: dashboard_recent_def RecentFlagsSkeleton_view_def SectionError_view_def split: if_splits)
next
  case False
  with assms(1) obtain envs where envs: "q_data (de_envs e) = Some envs"
    by (cases "q_data (de_envs e)") (auto simp: dashboard_recent_def required_def)
  show ?thesis
  proof (cases envs)
    case Nil
    with False envs assms show ?thesis by (auto simp: dashboard_recent_def required_def FlagsNeedEnvironmentState_view_def)
  next
    case (Cons first rest)
    with False envs assms show ?thesis
      by (auto simp: dashboard_recent_def required_def hasEnvironments_def FlagsEmptyState_view_def await_eq_Inr recent_list_silent split: if_splits)
  qed
qed

lemma dash_offers_flag:
  assumes "ProjectDashboard_view intl full project e p = Inr h" and "offered h m"
  shows "(m = DashNewFlag \<longrightarrow> hasEnvironments e) \<and> ((\<exists>fm. m = DashFlag fm) \<longrightarrow> db_createFlag p \<noteq> None)"
  using assms dash_body_offers [of intl full "pj_slug project" e _ m]
  by (auto simp: ProjectDashboard_view_def await_eq_Inr bex_Un split: option.splits)

interpretation dash: page "\<lambda>e. ProjectDashboard_update (pj_slug project)" "dash_can intl full project" "\<lambda>_. True"
    "dash_request_ok (pj_slug project)" for project intl full
  by unfold_locales (auto dest: dash_effects_ok)

text \<open>Runs in which no environment is ever shown.\<close>

interpretation dash_empty: page "\<lambda>e. ProjectDashboard_update (pj_slug project)"
    "\<lambda>e p m. dash_can intl full project e p m \<and> \<not> hasEnvironments e" "\<lambda>p. db_createFlag p = None"
    "\<lambda>x. env_request_ok (pj_slug project) (EnvEff x)" for project intl full
proof unfold_locales
  fix p :: dashboard and e m x
  assume none: "db_createFlag p = None" and can: "dash_can intl full project e p m \<and> \<not> hasEnvironments e"
  then have m: "m \<noteq> DashNewFlag" using dash_offers_flag [of intl full project e p _ m] by (auto simp: dash_can_def)
  show "db_createFlag (fst (ProjectDashboard_update (pj_slug project) m p)) = None"
    using none m by (cases m) (auto simp: ProjectDashboard_update_def split: prod.splits)
  assume x: "x \<in> set (snd (ProjectDashboard_update (pj_slug project) m p))"
  show "env_request_ok (pj_slug project) (EnvEff x)"
  proof (cases m)
    case (DashEnv em)
    then show ?thesis using x env_update_ok [of _ "pj_slug project" em "db_createEnv p"]
      by (auto simp: ProjectDashboard_update_def env_effects_def split: prod.splits env_out.splits)
  qed (use x none m in \<open>auto simp: ProjectDashboard_update_def ProjectHeader_update_def SlugField_update_def env_request_ok_def
      split: copy_msg.splits if_splits prod.splits\<close>)
qed


definition demo_overview :: ProjectData where
  "demo_overview = \<lparr>pj_id = ''1'', pj_name = ''Shop'', pj_slug = ''shop'', pj_created_at = ''2024-02-29T09:05:30Z''\<rparr>"

definition demo_dash_env :: dashboard_env where
  "demo_dash_env = \<lparr>de_now = 0, de_envs = \<lparr>isLoading = False, q_error = None, q_data = Some [\<lparr>en_id = ''1'', en_slug = ''prod'', en_name = ''Prod''\<rparr>]\<rparr>,
     de_flags = \<lparr>isLoading = False, q_error = None, q_data = Some []\<rparr>, de_creatingEnv = False, de_creatingFlag = False\<rparr>"

lemma demo_dash_view:
  assumes "db_createFlag p = Some d" and "offered (DashboardFlagModal_view False d) m"
  shows "dash_can intl full demo_overview demo_dash_env p (DashFlag m)"
  using assms
  by (simp add: dash_can_def ProjectDashboard_view_def dashboard_recent_def demo_dash_env_def isError_def required_def await_def bex_Un)

definition demo_dialog :: flag_dialog where
  "demo_dialog = fd_init\<lparr>fd_key := ''dark''\<rparr>"

lemma demo_dialog_fields: "fd_key demo_dialog = ''dark''" "\<not> created demo_dialog" "fd_keyError demo_dialog = None" "fd_serverError demo_dialog = None"
  "\<not> created fd_init"
  by (simp_all add: demo_dialog_def fd_init_def created_def)

lemma demo_dialog_offers:
  "offered (DashboardFlagModal_view False fd_init) (FlagKey ''dark'')" "offered (DashboardFlagModal_view False demo_dialog) FlagSubmit"
  by (simp_all add: DashboardFlagModal_view_def dashboard_flag_form_def demo_dialog_fields Let_def bex_Un can_submit_def no_error_def error_text_def)

lemma demo_dialog_steps:
  "DashboardFlagModal_update slug (FlagKey ''dark'') fd_init = (demo_dialog, [])"
  "DashboardFlagModal_update slug FlagSubmit demo_dialog =
     (demo_dialog, [FlagEff (Send ''POST'' (''/api/v1/projects/'' @ slug @ ''/flags'') (Some (create_flag_body demo_dialog)))])"
proof -
  have "validateKeyLocally ''dark'' = None" by code_simp
  then show "DashboardFlagModal_update slug FlagSubmit demo_dialog =
     (demo_dialog, [FlagEff (Send ''POST'' (''/api/v1/projects/'' @ slug @ ''/flags'') (Some (create_flag_body demo_dialog)))])"
    by (simp add: DashboardFlagModal_update_def CreateFlagModal_update_def demo_dialog_fields)
qed (simp add: DashboardFlagModal_update_def demo_dialog_def fd_init_def)

abbreviation demo_can :: "dashboard_env \<Rightarrow> dashboard \<Rightarrow> dashboard_msg \<Rightarrow> bool" where
  "demo_can \<equiv> dash_can (\<lambda>_. []) (\<lambda>_. []) demo_overview"

lemma demo_step_new:
  "demo_can demo_dash_env db_init DashNewFlag"
  "ProjectDashboard_update slug DashNewFlag db_init = (db_init\<lparr>db_createFlag := Some fd_init\<rparr>, [])"
  by (simp add: dash_can_def ProjectDashboard_view_def dashboard_recent_def demo_dash_env_def isError_def required_def await_def bex_Un hasEnvironments_def)
    (simp add: ProjectDashboard_update_def db_init_def)

lemma demo_step_flag:
  assumes "offered (DashboardFlagModal_view False d) m" and "DashboardFlagModal_update slug m d = (d', map FlagEff effs)"
  shows "demo_can demo_dash_env (db_init\<lparr>db_createFlag := Some d\<rparr>) (DashFlag m)"
    "ProjectDashboard_update slug (DashFlag m) (db_init\<lparr>db_createFlag := Some d\<rparr>) = (db_init\<lparr>db_createFlag := Some d'\<rparr>, effs)"
proof -
  show "demo_can demo_dash_env (db_init\<lparr>db_createFlag := Some d\<rparr>) (DashFlag m)"
    by (rule demo_dash_view [OF _ assms(1)]) simp
  have "flag_effects (map FlagEff effs) = effs" by (induction effs) (simp_all add: flag_effects_def)
  moreover have "FlagCreatedOut \<notin> set (map FlagEff effs)" "FlagCancelOut \<notin> set (map FlagEff effs)" by auto
  ultimately show "ProjectDashboard_update slug (DashFlag m) (db_init\<lparr>db_createFlag := Some d\<rparr>) = (db_init\<lparr>db_createFlag := Some d'\<rparr>, effs)"
    by (simp add: ProjectDashboard_update_def assms(2))
qed

abbreviation demo_run :: "(dashboard_env \<times> dashboard_msg) list \<Rightarrow> dashboard \<Rightarrow> effect list \<Rightarrow> bool" where
  "demo_run \<equiv> page_run (\<lambda>e. ProjectDashboard_update (pj_slug demo_overview)) demo_can db_init"

lemma demo_run_new: "demo_run ([] @ [(demo_dash_env, DashNewFlag)]) (db_init\<lparr>db_createFlag := Some fd_init\<rparr>) ([] @ [])"
  by (rule run_snoc [OF run_Nil]) (rule demo_step_new)+

lemma demo_run_flag:
  assumes "demo_run ems (db_init\<lparr>db_createFlag := Some d\<rparr>) outs" and "offered (DashboardFlagModal_view False d) m"
    and "DashboardFlagModal_update (pj_slug demo_overview) m d = (d', map FlagEff effs)"
  shows "demo_run (ems @ [(demo_dash_env, DashFlag m)]) (db_init\<lparr>db_createFlag := Some d'\<rparr>) (outs @ effs)"
  by (rule run_snoc [OF assms(1)]) (rule demo_step_flag [OF assms(2,3)])+

lemma demo_dash_run:
  "\<exists>ems p outs. demo_run ems p (outs @ [Send ''POST'' (''/api/v1/projects/'' @ pj_slug demo_overview @ ''/flags'') (Some (create_flag_body demo_dialog))])"
proof -
  from demo_run_flag [OF demo_run_new demo_dialog_offers(1), of demo_dialog "[]"] obtain ems outs
    where "demo_run ems (db_init\<lparr>db_createFlag := Some demo_dialog\<rparr>) outs"
    by (auto simp only: demo_dialog_steps list.map simp_thms)
  from demo_run_flag [OF this demo_dialog_offers(2), of demo_dialog
      "[Send ''POST'' (''/api/v1/projects/'' @ pj_slug demo_overview @ ''/flags'') (Some (create_flag_body demo_dialog))]"]
  show ?thesis by (auto simp only: demo_dialog_steps list.map simp_thms)
qed


text \<open>
  Gaps of the dashboard. The dialog does not fill in the name from the key: typing a valid key and submitting requests a
  flag whose name is empty, while the dialog of the flag list sends the key as its name. And when the
  environments cannot be loaded the section of recent flags shows what it shows while loading, with no
  control to try again, and creating a flag is disabled.
\<close>

theorem dashboard_gaps:
  assumes "KEY_RE k" and "js_length k \<le> 128"
  shows "snd (dialog_run (DashboardFlagModal_update slug) fd_init [FlagKey k, FlagSubmit]) =
      [FlagEff (Send ''POST'' (''/api/v1/projects/'' @ slug @ ''/flags'') (Some (create_flag_body (fd_init\<lparr>fd_key := k\<rparr>))))]
    \<and> snd (dialog_run (CreateFlagModal_update slug) fd_init [FlagKey k, FlagSubmit]) =
      [FlagEff (Send ''POST'' (''/api/v1/projects/'' @ slug @ ''/flags'') (Some (create_flag_body (fd_init\<lparr>fd_key := k, fd_name := k\<rparr>))))]
    \<and> (isError (de_envs e) \<and> \<not> isLoading (de_flags e) \<and> \<not> isError (de_flags e) \<longrightarrow>
        dashboard_recent intl full slug e = dashboard_recent intl full slug (e\<lparr>de_envs := \<lparr>isLoading = True, q_error = None, q_data = None\<rparr>\<rparr>)
        \<and> (\<forall>h. ProjectDashboard_view intl full project e db_init = Inr h \<longrightarrow> \<not> offered h DashRetry \<and> \<not> offered h DashNewFlag))"
proof -
  have v: "validateKeyLocally k = None" "k \<noteq> []" using assms by (auto simp: validateKeyLocally_def validate_key_None KEY_RE_def)
  have "\<not> offered h DashRetry \<and> \<not> offered h DashNewFlag"
    if "isError (de_envs e)" "\<not> isLoading (de_flags e)" "\<not> isError (de_flags e)" "ProjectDashboard_view intl full project e db_init = Inr h" for h
    using that by (auto simp: ProjectDashboard_view_def dashboard_recent_def await_eq_Inr bex_Un db_init_def hasEnvironments_def RecentFlagsSkeleton_view_def)
  then show ?thesis
    using v by (auto simp: dialog_run_def DashboardFlagModal_update_def CreateFlagModal_update_def fd_init_def Let_def create_flag_body_def
        dashboard_recent_def)
qed

theorem dashboard_gaps_witness:
  "snd (dialog_run (DashboardFlagModal_update ''shop'') fd_init [FlagKey ''dark'', FlagSubmit]) =
     [FlagEff (Send ''POST'' ''/api/v1/projects/shop/flags'' (Some (create_flag_body (fd_init\<lparr>fd_key := ''dark''\<rparr>))))]"
proof -
  have "KEY_RE ''dark''" "js_length ''dark'' \<le> 128" by code_simp+
  from dashboard_gaps [OF this, of "''shop''"] show ?thesis by simp
qed

end
