(* ===== verification/App_Shell.thy ===== *)
theory App_Shell
  imports Project_Overview Flag_Lists
begin

text \<open>
  The application around the pages: start-up (\<open>web/src/main.tsx\<close>, \<open>brand.tsx\<close>), the error boundary, the
  route table (\<open>router.tsx\<close> and the \<open>createRoute\<close> calls of \<open>routes\<close>), the sign-in guard and the shell
  (\<open>_authenticated.tsx\<close>), the sign-in callback, the side bar, the project switcher and the user menu.
  The OIDC client, the router and \<open>i18next\<close> are third-party code; their outcomes are inputs.
\<close>

section \<open>Start-up\<close>

record BrandConfig =
  app_name :: string
  logo_url :: "string option"
  accent_colour :: string

definition defaultBrand :: BrandConfig where
  "defaultBrand = \<lparr>app_name = ''Cuttlegate'', logo_url = None, accent_colour = ''#6366f1''\<rparr>"

text \<open>The context holds the configuration of the nearest \<open>BrandProvider\<close>.\<close>

definition useBrand :: "BrandConfig option \<Rightarrow> BrandConfig" where
  "useBrand provider = (case provider of Some config \<Rightarrow> config | None \<Rightarrow> defaultBrand)"

datatype boot_step =
    SetAccent string
  | SetTitle string
  | InitUserManager user_manager
  | RenderApp BrandConfig
  | LogError string
  | ShowFailure string

text \<open>
  What start-up waits for: the response (or the message of the rejection), the configuration in its body,
  the translations; \<open>bi_body_first\<close> says which of the last two rejects first if both do.
\<close>

record boot_inputs =
  bi_response :: "(string, web_response) result"
  bi_config :: "(string, OIDCConfig \<times> BrandConfig) result"
  bi_i18n :: "(string, unit) result"
  bi_body_first :: bool
  bi_has_root :: bool

definition boot_config :: "boot_inputs \<Rightarrow> (string, OIDCConfig \<times> BrandConfig) result" where
  "boot_config b =
     await (bi_response b) (\<lambda>res.
       if \<not> wr_ok res then Inl (''Failed to load config: '' @ show_nat (wr_status res))
       else if bi_body_first b then await (bi_config b) (\<lambda>c. await (bi_i18n b) (\<lambda>_. Inr c))
       else await (bi_i18n b) (\<lambda>_. bi_config b))"

text \<open>The steps taken, and the message of the error that ends them, if any.\<close>

definition bootstrap :: "boot_inputs \<Rightarrow> boot_step list \<times> string option" where
  "bootstrap b = (case boot_config b of
     Inl message \<Rightarrow> ([], Some message)
   | Inr (oidc, brand) \<Rightarrow>
       (let steps = [SetAccent (accent_colour brand), SetTitle (app_name brand), InitUserManager (initUserManager oidc)] in
        if bi_has_root b then (steps @ [RenderApp brand], None) else (steps, Some ''Missing #root element'')))"

definition main :: "boot_inputs \<Rightarrow> boot_step list" where
  "main b = (case bootstrap b of
     (steps, None) \<Rightarrow> steps
   | (steps, Some message) \<Rightarrow> steps @ [LogError message] @
       (if bi_has_root b then [ShowFailure (''Failed to start application: '' @ message)] else []))"

section \<open>The error boundary\<close>

text \<open>The state is \<open>hasError\<close>.\<close>

datatype boundary_msg = BoundaryReload

definition getDerivedStateFromError :: "'e \<Rightarrow> bool" where
  "getDerivedStateFromError error = True"

definition ErrorBoundary_update :: "boundary_msg \<Rightarrow> bool \<Rightarrow> bool \<times> effect list" where
  "ErrorBoundary_update msg hasError = (case msg of BoundaryReload \<Rightarrow> (hasError, [Reload]))"

definition ErrorBoundary_view :: "(boundary_msg \<Rightarrow> 'm) \<Rightarrow> bool \<Rightarrow> 'm html \<Rightarrow> 'm html" where
  "ErrorBoundary_view f hasError children =
     (if hasError then El ''div'' [At ''role'' (Lit ''alert'')] [El ''div'' []
        [El ''h1'' [] [lit ''Something went wrong''],
         El ''p'' [] [lit ''An unexpected error occurred. Please reload the page.''],
         El ''button'' [At ''type'' (Lit ''button''), On ''click'' (f BoundaryReload)] [lit ''Reload'']]]
      else children)"

text \<open>Rendering inside the boundary: a thrown error sets the state, and the fallback is rendered instead.\<close>

definition render_in_boundary :: "(boundary_msg \<Rightarrow> 'm) \<Rightarrow> bool \<Rightarrow> (string, 'm html) result \<Rightarrow> 'm html \<times> bool" where
  "render_in_boundary f hasError r = (case r of
     Inr h \<Rightarrow> (ErrorBoundary_view f hasError h, hasError)
   | Inl e \<Rightarrow> (ErrorBoundary_view f (getDerivedStateFromError e) (El ''fragment'' [] []), getDerivedStateFromError e))"

section \<open>Routes\<close>

datatype route =
    RootRoute | AuthenticatedRoute | IndexRoute | CallbackRoute | ProjectRoute | ProjectIndexRoute | EnvironmentsOverviewRoute
  | SegmentListRoute | ProjectSettingsRoute | EnvironmentSettingsRoute | CompareRoute | ApiKeyListRoute | MemberListRoute
  | AuditRoute | ProjectFlagListRoute | ProjectEnvRoute | FlagListRoute | FlagDetailRoute | FlagRulesRoute | FlagEvaluationsRoute

text \<open>\<open>addChildren\<close> of \<open>router.tsx\<close>.\<close>

fun route_children :: "route \<Rightarrow> route list" where
  "route_children RootRoute = [AuthenticatedRoute, CallbackRoute]"
| "route_children AuthenticatedRoute = [IndexRoute, ProjectRoute]"
| "route_children ProjectRoute = [ProjectIndexRoute, EnvironmentsOverviewRoute, SegmentListRoute, ProjectSettingsRoute,
     EnvironmentSettingsRoute, CompareRoute, ApiKeyListRoute, MemberListRoute, AuditRoute, ProjectFlagListRoute, ProjectEnvRoute]"
| "route_children ProjectEnvRoute = [FlagListRoute, FlagDetailRoute, FlagRulesRoute, FlagEvaluationsRoute]"
| "route_children _ = []"

text \<open>\<open>getParentRoute\<close> and \<open>path\<close> of each route; a route without a path adds nothing.\<close>

fun getParentRoute :: "route \<Rightarrow> route option" where
  "getParentRoute RootRoute = None"
| "getParentRoute AuthenticatedRoute = Some RootRoute"
| "getParentRoute CallbackRoute = Some RootRoute"
| "getParentRoute IndexRoute = Some AuthenticatedRoute"
| "getParentRoute ProjectRoute = Some AuthenticatedRoute"
| "getParentRoute FlagListRoute = Some ProjectEnvRoute"
| "getParentRoute FlagDetailRoute = Some ProjectEnvRoute"
| "getParentRoute FlagRulesRoute = Some ProjectEnvRoute"
| "getParentRoute FlagEvaluationsRoute = Some FlagDetailRoute"
| "getParentRoute _ = Some ProjectRoute"

fun route_path :: "route \<Rightarrow> string list" where
  "route_path RootRoute = []"
| "route_path AuthenticatedRoute = []"
| "route_path IndexRoute = []"
| "route_path CallbackRoute = [''auth'', ''callback'']"
| "route_path ProjectRoute = [''projects'', ''$slug'']"
| "route_path ProjectIndexRoute = []"
| "route_path EnvironmentsOverviewRoute = [''environments'']"
| "route_path SegmentListRoute = [''segments'']"
| "route_path ProjectSettingsRoute = [''settings'']"
| "route_path EnvironmentSettingsRoute = [''settings'', ''environments'']"
| "route_path CompareRoute = [''compare'']"
| "route_path ApiKeyListRoute = [''api-keys'']"
| "route_path MemberListRoute = [''members'']"
| "route_path AuditRoute = [''audit'']"
| "route_path ProjectFlagListRoute = [''flags'']"
| "route_path ProjectEnvRoute = [''environments'', ''$envSlug'']"
| "route_path FlagListRoute = [''flags'']"
| "route_path FlagDetailRoute = [''flags'', ''$key'']"
| "route_path FlagRulesRoute = [''flags'', ''$key'', ''rules'']"
| "route_path FlagEvaluationsRoute = [''evaluations'']"

text \<open>The routes whose component renders an \<open>Outlet\<close>, which is where the router puts the next match.\<close>

fun has_outlet :: "route \<Rightarrow> bool" where
  "has_outlet RootRoute = True"
| "has_outlet AuthenticatedRoute = True"
| "has_outlet ProjectRoute = True"
| "has_outlet ProjectEnvRoute = True"
| "has_outlet _ = False"

text \<open>The routes of the tree, which is five levels deep.\<close>

fun route_subtree :: "nat \<Rightarrow> route \<Rightarrow> route list" where
  "route_subtree 0 r = []"
| "route_subtree (Suc n) r = r # concat (map (route_subtree n) (route_children r))"

definition createAppRouter :: "route list" where
  "createAppRouter = route_subtree 5 RootRoute"

text \<open>The chain from the root down to a route; five steps up reach the root from everywhere.\<close>

fun route_up :: "nat \<Rightarrow> route \<Rightarrow> route list" where
  "route_up 0 r = [r]"
| "route_up (Suc n) r = (case getParentRoute r of Some p \<Rightarrow> route_up n p @ [r] | None \<Rightarrow> [r])"

definition route_chain :: "route \<Rightarrow> route list" where
  "route_chain = route_up 5"

definition fullPath :: "route \<Rightarrow> string list" where
  "fullPath r = concat (map route_path (route_chain r))"

text \<open>A parameter matches any non-empty segment.\<close>

fun path_matches :: "string list \<Rightarrow> string list \<Rightarrow> bool" where
  "path_matches [] [] = True"
| "path_matches (p # ps) (s # ss) = ((if starts_with ''$'' p then s \<noteq> [] else s = p) \<and> path_matches ps ss)"
| "path_matches _ _ = False"

definition route_matches :: "route \<Rightarrow> string \<Rightarrow> bool" where
  "route_matches r pathname = path_matches (fullPath r) (filter (\<lambda>s. s \<noteq> []) (js_split (CHR ''/'') pathname))"

section \<open>The guard\<close>

text \<open>What the code reads of a signed-in user.\<close>

record oidc_user =
  ou_expired :: bool
  ou_state :: "json option"
  ou_name :: "string option"
  ou_email :: "string option"

text \<open>
  \<open>beforeLoad\<close>: the user or the rejection, what \<open>signinRedirect\<close> does if it comes to that, the location.
  The page loads, the load fails, or it hangs until the browser leaves.
\<close>

datatype guard = PageLoads | LoadFails web_error | Hangs

definition beforeLoad ::
    "(web_error, oidc_user option) result \<Rightarrow> (web_error, unit) result \<Rightarrow> string \<Rightarrow> string \<Rightarrow> guard \<times> effect list" where
  "beforeLoad user redirected pathname searchStr = (case user of
     Inl e \<Rightarrow> (LoadFails e, [])
   | Inr u \<Rightarrow>
       (if (case u of None \<Rightarrow> True | Some x \<Rightarrow> ou_expired x)
        then (case redirected of Inl e \<Rightarrow> LoadFails e | Inr _ \<Rightarrow> Hangs, [SigninRedirect (pathname @ searchStr)])
        else (PageLoads, [])))"

datatype thrown_value = ThrownWeb web_error | ThrownOther

definition RouteError_view :: "thrown_value \<Rightarrow> 'm html" where
  "RouteError_view error =
     (case error of
        ThrownWeb (APIError s m c) \<Rightarrow>
          (if s = 403 then El ''div'' [] [El ''div'' []
             [El ''h1'' [] [tr ''common:errors.access_denied_title''], El ''p'' [] [tr ''common:errors.access_denied_body''],
              link ''/'' [tr ''common:errors.return_to_home'']]]
           else El ''div'' [] [El ''div'' [] [El ''h1'' [] [tr ''common:errors.something_went_wrong''], El ''p'' [] [lit m]]])
      | ThrownWeb (OtherError m) \<Rightarrow>
          El ''div'' [] [El ''div'' [] [El ''h1'' [] [tr ''common:errors.something_went_wrong''], El ''p'' [] [lit m]]]
      | ThrownOther \<Rightarrow>
          El ''div'' [] [El ''div'' [] [El ''h1'' [] [tr ''common:errors.something_went_wrong''], El ''p'' [] [tr ''common:errors.unexpected'']]])"

definition not_found_view :: "string \<Rightarrow> 'm html" where
  "not_found_view path = El ''div'' [] [El ''div'' []
     [El ''h1'' [] [tr ''common:not_found.title''], El ''p'' [] [Txt (T ''common:not_found.body'' [(''url'', path)])],
      link ''/'' [tr ''common:not_found.return_to_home'']]]"

definition NotFoundPage_view :: "string \<Rightarrow> 'm html" where
  "NotFoundPage_view = not_found_view"

definition InShellNotFoundPage_view :: "string \<Rightarrow> 'm html" where
  "InShellNotFoundPage_view = not_found_view"

section \<open>The sign-in callback\<close>

datatype shell_out =
    ShellEff effect
  | SigninRedirectCallback
  | NavigateReplace string
  | ClearQueries
  | SignoutRedirect
  | RemoveUser
  | GoTo string

record callback_page =
  cb_error :: "string option"
  cb_handled :: bool

definition cb_init :: callback_page where
  "cb_init = \<lparr>cb_error = None, cb_handled = False\<rparr>"

text \<open>The effect, which React runs twice in strict mode, and the outcome of the library's callback.\<close>

datatype callback_msg = CbEffect | CbUser oidc_user | CbRejected "string option"

definition callback_target :: "oidc_user \<Rightarrow> string" where
  "callback_target u = (case ou_state u of Some (JStr s) \<Rightarrow> if s \<noteq> [] then s else ''/'' | _ \<Rightarrow> ''/'')"

definition CallbackPage_update :: "callback_msg \<Rightarrow> callback_page \<Rightarrow> callback_page \<times> shell_out list" where
  "CallbackPage_update msg p = (case msg of
     CbEffect \<Rightarrow> if cb_handled p then (p, []) else (p\<lparr>cb_handled := True\<rparr>, [SigninRedirectCallback])
   | CbUser u \<Rightarrow> (p, [NavigateReplace (callback_target u)])
   | CbRejected err \<Rightarrow> (p\<lparr>cb_error := Some (case err of Some m \<Rightarrow> m | None \<Rightarrow> ''Authentication failed'')\<rparr>, []))"

definition CallbackPage_view :: "callback_page \<Rightarrow> 'm html" where
  "CallbackPage_view p = (case cb_error p of
     Some e \<Rightarrow> El ''div'' [] [El ''div'' [] [El ''h1'' [] [lit ''Authentication Error''], El ''p'' [] [lit e], link ''/'' [lit ''Return to home'']]]
   | None \<Rightarrow> El ''div'' [] [El ''p'' [] [lit (''Completing sign-in'' @ [CHR 0xE2, CHR 0x80, CHR 0xA6])]])"

section \<open>The side bar\<close>

text \<open>\<open>/^\/projects\/([^/]+)/\<close>; the pattern for the environment is the one of \<open>useActiveEnvSlug\<close>.\<close>

definition activeProjectSlug :: "string \<Rightarrow> string option" where
  "activeProjectSlug pathname =
     (if starts_with ''/projects/'' pathname then
        (let seg = takeWhile (\<lambda>c. c \<noteq> CHR ''/'') (drop 10 pathname) in if seg \<noteq> [] then Some seg else None)
      else None)"

record NavItemProps =
  ni_to :: string
  ni_label :: string
  ni_isActive :: bool

definition flagsPath :: "string \<Rightarrow> string option \<Rightarrow> string" where
  "flagsPath projectSlug envSlug = (case envSlug of
     Some e \<Rightarrow> if e \<noteq> [] then flags_page projectSlug e else ''/projects/'' @ projectSlug @ ''/flags''
   | None \<Rightarrow> ''/projects/'' @ projectSlug @ ''/flags'')"

definition envScopedItems :: "string \<Rightarrow> string option \<Rightarrow> string \<Rightarrow> NavItemProps list" where
  "envScopedItems projectSlug envSlug pathname =
     [\<lparr>ni_to = ''/projects/'' @ projectSlug @ ''/environments'', ni_label = ''common:nav.environments'',
        ni_isActive = (pathname = ''/projects/'' @ projectSlug @ ''/environments'')\<rparr>,
      \<lparr>ni_to = flagsPath projectSlug envSlug, ni_label = ''common:nav.flags'', ni_isActive = js_includes ''/flags'' pathname\<rparr>,
      \<lparr>ni_to = ''/projects/'' @ projectSlug @ ''/segments'', ni_label = ''common:nav.segments'', ni_isActive = js_includes ''/segments'' pathname\<rparr>]"

definition projectScopedItems :: "string \<Rightarrow> string \<Rightarrow> NavItemProps list" where
  "projectScopedItems projectSlug pathname =
     [\<lparr>ni_to = ''/projects/'' @ projectSlug @ ''/api-keys'', ni_label = ''common:nav.api_keys'', ni_isActive = js_includes ''/api-keys'' pathname\<rparr>,
      \<lparr>ni_to = ''/projects/'' @ projectSlug @ ''/members'', ni_label = ''common:nav.members'', ni_isActive = js_includes ''/members'' pathname\<rparr>,
      \<lparr>ni_to = ''/projects/'' @ projectSlug @ ''/audit'', ni_label = ''common:nav.audit'', ni_isActive = js_includes ''/audit'' pathname\<rparr>,
      \<lparr>ni_to = ''/projects/'' @ projectSlug @ ''/settings'', ni_label = ''common:nav.settings'', ni_isActive = js_includes ''/settings'' pathname\<rparr>]"

definition NavItem_view :: "NavItemProps \<Rightarrow> 'm html" where
  "NavItem_view item = El ''li'' []
     [El ''a'' ([At ''href'' (Lit (ni_to item))] @ (if ni_isActive item then [At ''aria-current'' (Lit ''page'')] else []))
        (show_if (ni_isActive item) (El ''span'' [Flag ''aria-hidden'' True] []) @
         [El ''svg'' [Flag ''aria-hidden'' True] [], tr (ni_label item)])]"

definition Sidebar_view :: "string \<Rightarrow> string option \<Rightarrow> string \<Rightarrow> 'm html" where
  "Sidebar_view projectSlug envSlug pathname =
     El ''aside'' [At ''aria-label'' (Lit ''Project navigation'')] [El ''nav'' []
       [El ''ul'' [] (map NavItem_view (envScopedItems projectSlug envSlug pathname)),
        El ''div'' [Flag ''aria-hidden'' True] [],
        El ''ul'' [] (map NavItem_view (projectScopedItems projectSlug pathname))]]"

section \<open>The project switcher\<close>

definition NEW_PROJECT_SENTINEL :: string where
  "NEW_PROJECT_SENTINEL = ''__new__''"

datatype switcher_msg = SwProject string | SwEnv string | SwNewProject | SwRetryProjects | SwRetryEnvs | SwCreateEnvs

definition handleProjectChange :: "string \<Rightarrow> project_provider \<Rightarrow> project_provider \<times> effect list" where
  "handleProjectChange v p =
     (if v = NEW_PROJECT_SENTINEL then (pp_handleOpen True p, [])
      else (p, if v \<noteq> [] then [Navigate (''/projects/'' @ v)] else []))"

definition handleEnvChange :: "string \<Rightarrow> string option \<Rightarrow> effect list" where
  "handleEnvChange v projectSlug = (case projectSlug of
     Some slug \<Rightarrow> if v \<noteq> [] \<and> slug \<noteq> [] then [Navigate (flags_page slug v)] else []
   | None \<Rightarrow> [])"

text \<open>The query of the environments has the project's slug in its key; without a project it is disabled.\<close>

definition envs_key :: "string option \<Rightarrow> string list" where
  "envs_key projectSlug = [''environments'', case projectSlug of Some s \<Rightarrow> s | None \<Rightarrow> ''null'']"

definition ProjectSwitcher_update :: "string \<Rightarrow> switcher_msg \<Rightarrow> project_provider \<Rightarrow> project_provider \<times> effect list" where
  "ProjectSwitcher_update pathname msg p = (case msg of
     SwProject v \<Rightarrow> handleProjectChange v p
   | SwEnv v \<Rightarrow> (p, handleEnvChange v (activeProjectSlug pathname))
   | SwNewProject \<Rightarrow> (pp_handleOpen True p, [])
   | SwRetryProjects \<Rightarrow> (p, [Refetch [''projects'']])
   | SwRetryEnvs \<Rightarrow> (p, [Refetch (envs_key (activeProjectSlug pathname))])
   | SwCreateEnvs \<Rightarrow> (p, [Navigate (''/projects/'' @ (case activeProjectSlug pathname of Some s \<Rightarrow> s | None \<Rightarrow> ''undefined'') @ ''/settings/environments'')]))"

definition noEnvironments :: "ProjectEnvironment list query \<Rightarrow> bool" where
  "noEnvironments q \<longleftrightarrow> \<not> isLoading q \<and> \<not> isError q \<and> (case q_data q of Some es \<Rightarrow> es = [] | None \<Rightarrow> True)"

definition project_switcher_view :: "string option \<Rightarrow> Project list query \<Rightarrow> switcher_msg html" where
  "project_switcher_view projectSlug q =
     (if isLoading q then El ''div'' [] []
      else if isError q then El ''span'' [] [tr ''projects:switcher.failed_to_load'',
        El ''button'' [On ''click'' SwRetryProjects] [tr ''projects:switcher.retry'']]
      else if q_data q = Some [] then El ''span'' [] [tr ''projects:switcher.no_projects_prefix'', lit '' '',
        El ''button'' [On ''click'' SwNewProject] [tr ''projects:switcher.create_one'']]
      else ui_Select (case projectSlug of Some s \<Rightarrow> s | None \<Rightarrow> []) SwProject False
        [At ''placeholder'' (T ''projects:switcher.select_project'' []), At ''aria-label'' (T ''projects:switcher.project_label'' [])]
        (map (\<lambda>p. ui_SelectItem (pr_slug p) [lit (pr_name p)]) (case q_data q of Some ps \<Rightarrow> ps | None \<Rightarrow> []) @
         [ui_SelectItem NEW_PROJECT_SENTINEL [tr ''projects:switcher.new_project_option'']]))"

definition env_switcher_view :: "string \<Rightarrow> ProjectEnvironment list query \<Rightarrow> switcher_msg html" where
  "env_switcher_view envSlug q =
     (if isLoading q then El ''div'' [] []
      else if isError q then El ''span'' [] [tr ''projects:switcher.failed_to_load'',
        El ''button'' [On ''click'' SwRetryEnvs] [tr ''projects:switcher.retry'']]
      else if noEnvironments q then El ''button'' [On ''click'' SwCreateEnvs]
        [tr ''projects:switcher.no_environments_nudge'', El ''span'' [Flag ''aria-hidden'' True] [lit [CHR 0xE2, CHR 0x86, CHR 0x92]]]
      else ui_Select envSlug SwEnv False
        [At ''placeholder'' (T ''projects:switcher.select_environment'' []), At ''aria-label'' (T ''projects:switcher.environment_label'' [])]
        (map (\<lambda>e. ui_SelectItem (pv_slug e) [lit (pv_name e)]) (case q_data q of Some es \<Rightarrow> es | None \<Rightarrow> [])))"

text \<open>\<open>rest\<close> is the theme toggle and the user menu.\<close>

definition ProjectSwitcher_view ::
    "BrandConfig \<Rightarrow> string \<Rightarrow> Project list query \<Rightarrow> ProjectEnvironment list query \<Rightarrow> switcher_msg html list \<Rightarrow> switcher_msg html" where
  "ProjectSwitcher_view brand pathname projects envs rest =
     El ''header'' []
       ([link ''/'' [El ''img'' [At ''src'' (Lit (case logo_url brand of Some u \<Rightarrow> u | None \<Rightarrow> ''/logo.svg'')), At ''alt'' (Lit (app_name brand))] [],
           El ''h1'' [] [lit (app_name brand)]],
         El ''div'' [Flag ''aria-hidden'' True] [],
         El ''div'' [] [project_switcher_view (activeProjectSlug pathname) projects]] @
        (case useActiveEnvSlug pathname of
           Some e \<Rightarrow> [El ''span'' [Flag ''aria-hidden'' True] [lit ''/''], El ''div'' [] [env_switcher_view e envs]]
         | None \<Rightarrow> []) @
        [El ''div'' [Flag ''aria-hidden'' True] []] @ rest)"

section \<open>The user menu\<close>

text \<open>\<open>split(/\s+/)\<close>\<close>

function split_ws :: "string \<Rightarrow> string list" where
  "split_ws [] = [[]]"
| "split_ws (c # s) =
     (let r = strip_start js_ws (c # s) in
      if r = c # s then (case split_ws s of w # ws \<Rightarrow> (c # w) # ws | [] \<Rightarrow> [[c]]) else [] # split_ws r)"
  by pat_completeness auto
termination
  by (relation "measure length") (auto dest: strip_start_shorter)

text \<open>
  \<open>charAt(0)\<close>: the first UTF-16 unit. A character of four UTF-8 bytes is a surrogate pair; its first half
  alone is no character and is written here in the three bytes of its code.
\<close>

definition continuation :: "char \<Rightarrow> bool" where
  "continuation c \<longleftrightarrow> 0x80 \<le> (of_char c :: nat) \<and> (of_char c :: nat) < 0xC0"

definition code_point :: "string \<Rightarrow> nat" where
  "code_point s = (case map (\<lambda>c. of_char c :: nat) s of
     [a, b, c, d] \<Rightarrow> (a - 0xF0) * 0x40000 + (b - 0x80) * 0x1000 + (c - 0x80) * 0x40 + (d - 0x80)
   | _ \<Rightarrow> 0)"

definition high_surrogate :: "nat \<Rightarrow> string" where
  "high_surrogate cp = (let u = 0xD800 + (cp - 0x10000) div 0x400 in
     map char_of [0xE0 + u div 0x1000, 0x80 + u div 0x40 mod 0x40, 0x80 + u mod (0x40 :: nat)])"

fun first_unit :: "string \<Rightarrow> string" where
  "first_unit [] = []"
| "first_unit (c # s) =
     (if (of_char c :: nat) < 0xF0 then c # takeWhile continuation s
      else high_surrogate (code_point (c # takeWhile continuation s)))"

text \<open>\<open>upper\<close> is \<open>toUpperCase\<close>.\<close>

definition deriveInitials :: "(string \<Rightarrow> string) \<Rightarrow> string option \<Rightarrow> string" where
  "deriveInitials upper name = (case name of
     None \<Rightarrow> ''?''
   | Some n \<Rightarrow>
       (if n = [] then ''?''
        else (case filter (\<lambda>w. w \<noteq> []) (split_ws (js_trim n)) of
            [] \<Rightarrow> ''?''
          | [w] \<Rightarrow> upper (first_unit w)
          | w # ws \<Rightarrow> upper (first_unit w @ first_unit (last ws)))))"

record user_menu =
  mu_initials :: string
  mu_email :: string
  mu_loggingOut :: bool

definition mu_init :: user_menu where
  "mu_init = \<lparr>mu_initials = ''?'', mu_email = [], mu_loggingOut = False\<rparr>"

text \<open>The user arrives; logging out; the redirect is rejected; the user has been removed.\<close>

datatype menu_msg = MenuUser "oidc_user option" | MenuLogout | MenuSignoutFailed | MenuRemoved

definition UserMenu_update :: "(string \<Rightarrow> string) \<Rightarrow> menu_msg \<Rightarrow> user_menu \<Rightarrow> user_menu \<times> shell_out list" where
  "UserMenu_update upper msg u = (case msg of
     MenuUser None \<Rightarrow> (u, [])
   | MenuUser (Some x) \<Rightarrow>
       (u\<lparr>mu_initials := deriveInitials upper (ou_name x), mu_email := (case ou_email x of Some e \<Rightarrow> e | None \<Rightarrow> [])\<rparr>, [])
   | MenuLogout \<Rightarrow> (if mu_loggingOut u then (u, []) else (u\<lparr>mu_loggingOut := True\<rparr>, [ClearQueries, SignoutRedirect]))
   | MenuSignoutFailed \<Rightarrow> (u, [RemoveUser])
   | MenuRemoved \<Rightarrow> (u, [GoTo ''/'']))"

definition UserMenu_view :: "user_menu \<Rightarrow> menu_msg html" where
  "UserMenu_view u = El ''menu'' []
     [El ''button'' [At ''aria-label'' (Lit (''User menu: '' @ mu_initials u))] [lit (mu_initials u)],
      El ''content'' []
        [El ''label'' [] [tr ''common:user_menu.logged_in_as''], El ''div'' [] [lit (mu_email u)], El ''separator'' [] [],
         El ''item'' [On ''select'' MenuLogout] [tr ''common:user_menu.log_out'']]]"

section \<open>The shell\<close>

text \<open>The effect on the path: the main region gets the focus after every navigation but the first rendering.\<close>

definition AppShell_effect :: "string \<Rightarrow> string option \<Rightarrow> string option \<times> bool" where
  "AppShell_effect pathname prev = (Some pathname, prev \<noteq> None \<and> prev \<noteq> Some pathname)"

definition AppShell_view :: "string \<Rightarrow> announcer \<Rightarrow> 'm html \<Rightarrow> 'm html \<Rightarrow> 'm html \<Rightarrow> 'm html list" where
  "AppShell_view pathname a switcher create_dialog outlet =
     LiveAnnouncer_view a
       [El ''div'' [] [switcher,
          El ''div'' []
            ((case activeProjectSlug pathname of
                Some slug \<Rightarrow> show_if (starts_with ''/projects/'' pathname) (Sidebar_view slug (useActiveEnvSlug pathname) pathname)
              | None \<Rightarrow> []) @
             [El ''main'' [At ''id'' (Lit ''main-content''), At ''tabindex'' (Lit ''-1'')] [outlet]])],
        create_dialog]"

end
