(* ===== verification/App_Spec.thy ===== *)
theory App_Spec
  imports App_Shell
begin

text \<open>
  What the shell guarantees: start-up ends in the application or in a message; no page but the sign-in callback
  loads without a valid user, and signing in leads back to where it started; the links of the navigation
  are pages of the route table; what the side bar highlights; the switcher keeps the path and its parameters in
  step; logging out happens once; the initials of a name.
\<close>

section \<open>Start-up\<close>

lemma boot_config_success:
  "boot_config b = Inr c \<longleftrightarrow> (\<exists>res. bi_response b = Inr res \<and> wr_ok res) \<and> bi_config b = Inr c \<and> bi_i18n b = Inr ()"
  by (cases "bi_response b"; cases c) (auto simp: boot_config_def await_eq_Inr)

text \<open>
  C26: start-up has one outcome. The application is rendered exactly when the configuration came with a success status, its body and
  the translations could be read and the root element is there, and then after the brand was applied and the user
  manager was created, in this order, for the brand of the configuration. Otherwise nothing is rendered, and if there is a root element
  it shows why.
\<close>

theorem main_outcome:
  "(RenderApp brand \<in> set (main b) \<longleftrightarrow> (\<exists>oidc res. bi_response b = Inr res \<and> wr_ok res \<and> bi_config b = Inr (oidc, brand) \<and> bi_i18n b = Inr ()
        \<and> bi_has_root b \<and> main b = [SetAccent (accent_colour brand), SetTitle (app_name brand), InitUserManager (initUserManager oidc), RenderApp brand]))
   \<and> ((\<exists>m. ShowFailure m \<in> set (main b)) \<longleftrightarrow> bi_has_root b \<and> (\<forall>brand. RenderApp brand \<notin> set (main b)))
   \<and> (bi_response b = Inr res \<longrightarrow> \<not> wr_ok res \<longrightarrow> bi_has_root b \<longrightarrow>
        ShowFailure (''Failed to start application: Failed to load config: '' @ show_nat (wr_status res)) \<in> set (main b))"
proof (cases "boot_config b")
  case (Inl m)
  then have "\<nexists>c. boot_config b = Inr c" by simp
  with Inl show ?thesis by (auto simp: main_def bootstrap_def boot_config_success) (simp add: boot_config_def await_def split: if_splits)
next
  case (Inr c)
  obtain oidc brand' where c: "c = (oidc, brand')" by (cases c)
  have "(\<exists>res. bi_response b = Inr res \<and> wr_ok res) \<and> bi_config b = Inr c \<and> bi_i18n b = Inr ()" using Inr boot_config_success by blast
  with Inr c show ?thesis by (auto simp: main_def bootstrap_def Let_def)
qed

definition demo_boot :: "nat \<Rightarrow> boot_inputs" where
  "demo_boot s = \<lparr>bi_response = Inr \<lparr>wr_status = s, wr_statusText = [], wr_text = None\<rparr>,
     bi_config = Inr (\<lparr>authority = ''a'', client_id = ''c'', redirect_uri = ''r''\<rparr>, defaultBrand), bi_i18n = Inr (), bi_body_first = True, bi_has_root = True\<rparr>"

theorem main_outcome_witness:
  "ShowFailure (''Failed to start application: Failed to load config: '' @ show_nat 503) \<in> set (main (demo_boot 503))"
  using main_outcome [of defaultBrand "demo_boot 503" "\<lparr>wr_status = 503, wr_statusText = [], wr_text = None\<rparr>"]
  by (simp add: demo_boot_def wr_ok_def)

text \<open>A rendering that throws shows the alert, and the fallback stays until the page is reloaded.\<close>

lemma boundary_contains:
  "render_in_boundary f False (Inr h) = (h, False)"
  "snd (render_in_boundary f b (Inl e)) = True" "clicks (fst (render_in_boundary f b (Inl e))) = [f BoundaryReload]"
  "clicks (fst (render_in_boundary f True r)) = [f BoundaryReload]"
  by (simp_all add: render_in_boundary_def ErrorBoundary_view_def getDerivedStateFromError_def split: sum.split)

section \<open>Routes and the guard\<close>

lemma route_chain_simps [simp]:
  "route_chain RootRoute = [RootRoute]" "route_chain AuthenticatedRoute = [RootRoute, AuthenticatedRoute]"
  "route_chain CallbackRoute = [RootRoute, CallbackRoute]" "route_chain IndexRoute = [RootRoute, AuthenticatedRoute, IndexRoute]"
  "route_chain ProjectRoute = [RootRoute, AuthenticatedRoute, ProjectRoute]"
  "route_chain FlagEvaluationsRoute = [RootRoute, AuthenticatedRoute, ProjectRoute, ProjectEnvRoute, FlagDetailRoute, FlagEvaluationsRoute]"
  "r \<in> {FlagListRoute, FlagDetailRoute, FlagRulesRoute} \<Longrightarrow> route_chain r = [RootRoute, AuthenticatedRoute, ProjectRoute, ProjectEnvRoute, r]"
  "r \<in> {ProjectIndexRoute, EnvironmentsOverviewRoute, SegmentListRoute, ProjectSettingsRoute, EnvironmentSettingsRoute, CompareRoute,
     ApiKeyListRoute, MemberListRoute, AuditRoute, ProjectFlagListRoute, ProjectEnvRoute} \<Longrightarrow> route_chain r = [RootRoute, AuthenticatedRoute, ProjectRoute, r]"
  by (auto simp: route_chain_def eval_nat_numeral)

text \<open>
  The router runs the guards of all routes of a chain before it renders anything of it, and puts each
  match into the outlet of the one before.
\<close>

definition route_loads :: "(web_error, oidc_user option) result \<Rightarrow> (web_error, unit) result \<Rightarrow> string \<Rightarrow> string \<Rightarrow> route \<Rightarrow> bool" where
  "route_loads user redirected pathname searchStr r \<longleftrightarrow>
     list_all (\<lambda>x. if x = AuthenticatedRoute then fst (beforeLoad user redirected pathname searchStr) = PageLoads else True) (route_chain r)"

definition route_shown :: "route \<Rightarrow> bool" where
  "route_shown r \<longleftrightarrow> list_all has_outlet (butlast (route_chain r))"

lemma createAppRouter_list: "createAppRouter = [RootRoute, AuthenticatedRoute, IndexRoute, ProjectRoute, ProjectIndexRoute, EnvironmentsOverviewRoute,
    SegmentListRoute, ProjectSettingsRoute, EnvironmentSettingsRoute, CompareRoute, ApiKeyListRoute, MemberListRoute, AuditRoute, ProjectFlagListRoute,
    ProjectEnvRoute, FlagListRoute, FlagDetailRoute, FlagRulesRoute, FlagEvaluationsRoute, CallbackRoute]"
  by (simp add: createAppRouter_def eval_nat_numeral)

lemma guard_passes: "fst (beforeLoad user redirected pathname searchStr) = PageLoads \<longleftrightarrow> (\<exists>u. user = Inr (Some u) \<and> \<not> ou_expired u)"
  by (auto simp: beforeLoad_def split: sum.splits option.splits if_splits)


text \<open>
  C38: signing in leads back. A visit without a valid user is redirected with its path and query as state, and so is one whose silent
  renewal fails after a 401. If the identity provider returns the state it was given, with a user whose session is
  valid, the callback, though its effect runs twice, completes the sign-in once and navigates to that path and
  query, which the guard then lets load.
\<close>

theorem signin_round_trip:
  assumes "\<And>s. ou_state (idp s) = Some (JStr s)" and "\<And>s. \<not> ou_expired (idp s)"
    and "pathname \<noteq> []" and "\<not> fst (beforeLoad user (Inr ()) pathname searchStr) = PageLoads" and "user = Inr u"
  shows "beforeLoad user (Inr ()) pathname searchStr = (Hangs, [SigninRedirect (pathname @ searchStr)])
    \<and> onQueryError (APIError 401 m c) = [SigninSilent] \<and> onSilentSettled False k (pathname @ searchStr) = [SigninRedirect (pathname @ searchStr)]
    \<and> dialog_run CallbackPage_update cb_init [CbEffect, CbEffect, CbUser (idp (pathname @ searchStr))] =
        (\<lparr>cb_error = None, cb_handled = True\<rparr>, [SigninRedirectCallback, NavigateReplace (pathname @ searchStr)])
    \<and> beforeLoad (Inr (Some (idp (pathname @ searchStr)))) r pathname searchStr = (PageLoads, [])"
  using assms
  by (auto simp: beforeLoad_def onQueryError_def onSilentSettled_def dialog_run_def CallbackPage_update_def cb_init_def callback_target_def
      split: option.splits if_splits)

theorem signin_round_trip_witness:
  "snd (dialog_run CallbackPage_update cb_init
     [CbEffect, CbEffect, CbUser \<lparr>ou_expired = False, ou_state = Some (JStr ''/projects/shop?tab=1''), ou_name = None, ou_email = None\<rparr>]) =
   [SigninRedirectCallback, NavigateReplace ''/projects/shop?tab=1'']"
  using signin_round_trip [of "\<lambda>s. \<lparr>ou_expired = False, ou_state = Some (JStr s), ou_name = None, ou_email = None\<rparr>" "''/projects/shop''"
      "Inr None" "''?tab=1''" None]
  by (simp add: beforeLoad_def)

section \<open>Links\<close>

definition path_segment :: "string \<Rightarrow> bool" where
  "path_segment s \<longleftrightarrow> s \<noteq> [] \<and> CHR ''/'' \<notin> set s"

definition pages_at :: "string \<Rightarrow> route list" where
  "pages_at path = filter (\<lambda>r. route_children r = [] \<and> route_matches r path) createAppRouter"

lemma split_project: "CHR ''/'' \<notin> set slug \<Longrightarrow> js_split (CHR ''/'') (''/projects/'' @ slug @ CHR ''/'' # t) = [] # ''projects'' # slug # js_split (CHR ''/'') t"
  "CHR ''/'' \<notin> set slug \<Longrightarrow> js_split (CHR ''/'') (''/projects/'' @ slug) = [[], ''projects'', slug]"
  by (simp_all add: js_split_append js_split_no_sep)

lemma fullPath_simps [simp]:
  "fullPath IndexRoute = []" "fullPath CallbackRoute = [''auth'', ''callback'']" "fullPath ProjectIndexRoute = [''projects'', ''$slug'']"
  "fullPath FlagListRoute = [''projects'', ''$slug'', ''environments'', ''$envSlug'', ''flags'']"
  "fullPath FlagDetailRoute = [''projects'', ''$slug'', ''environments'', ''$envSlug'', ''flags'', ''$key'']"
  "fullPath FlagRulesRoute = [''projects'', ''$slug'', ''environments'', ''$envSlug'', ''flags'', ''$key'', ''rules'']"
  "fullPath FlagEvaluationsRoute = [''projects'', ''$slug'', ''environments'', ''$envSlug'', ''flags'', ''$key'', ''evaluations'']"
  "r \<in> {EnvironmentsOverviewRoute, SegmentListRoute, ProjectSettingsRoute, EnvironmentSettingsRoute, CompareRoute,
     ApiKeyListRoute, MemberListRoute, AuditRoute, ProjectFlagListRoute} \<Longrightarrow> fullPath r = ''projects'' # ''$slug'' # route_path r"
  by (auto simp: fullPath_def)

lemma pages_at_flags: "path_segment slug \<Longrightarrow> path_segment e \<Longrightarrow> pages_at (flags_page slug e) = [FlagListRoute]"
proof -
  assume "path_segment slug" "path_segment e"
  then have "js_split (CHR ''/'') (flags_page slug e) = [[], ''projects'', slug, ''environments'', e, ''flags'']"
    using split_project(1) [of slug "''environments/'' @ e @ ''/flags''"] by (simp add: flags_page_def path_segment_def js_split_append js_split_no_sep)
  with \<open>path_segment slug\<close> \<open>path_segment e\<close> show ?thesis
    by (simp add: pages_at_def createAppRouter_list route_matches_def path_segment_def)
qed

lemma pages_at_index: "path_segment slug \<Longrightarrow> pages_at (''/projects/'' @ slug) = [ProjectIndexRoute]"
  by (simp add: pages_at_def createAppRouter_list route_matches_def path_segment_def js_split_no_sep)

lemma pages_at_settings: "path_segment slug \<Longrightarrow> pages_at (''/projects/'' @ slug @ ''/settings/environments'') = [EnvironmentSettingsRoute]"
  using split_project(1) [of slug "''settings/environments''"]
  by (simp add: pages_at_def createAppRouter_list route_matches_def path_segment_def)

text \<open>
  C39: the navigation has no dead links. For a project and an environment whose slugs are single path segments, every link of the side bar and every
  path that the project switcher navigates to is the path of exactly one page, the one that the label names.
\<close>

theorem links_resolve:
  assumes "path_segment slug" and "path_segment e"
  shows "map (\<lambda>i. (ni_label i, pages_at (ni_to i))) (envScopedItems slug (Some e) pathname) =
      [(''common:nav.environments'', [EnvironmentsOverviewRoute]), (''common:nav.flags'', [FlagListRoute]), (''common:nav.segments'', [SegmentListRoute])]
    \<and> map (\<lambda>i. (ni_label i, pages_at (ni_to i))) (envScopedItems slug None pathname) =
      [(''common:nav.environments'', [EnvironmentsOverviewRoute]), (''common:nav.flags'', [ProjectFlagListRoute]), (''common:nav.segments'', [SegmentListRoute])]
    \<and> map (\<lambda>i. (ni_label i, pages_at (ni_to i))) (projectScopedItems slug pathname) =
      [(''common:nav.api_keys'', [ApiKeyListRoute]), (''common:nav.members'', [MemberListRoute]), (''common:nav.audit'', [AuditRoute]),
       (''common:nav.settings'', [ProjectSettingsRoute])]
    \<and> snd (handleProjectChange slug p) = (if slug = NEW_PROJECT_SENTINEL then [] else [Navigate (''/projects/'' @ slug)])
    \<and> pages_at (''/projects/'' @ slug) = [ProjectIndexRoute]
    \<and> handleEnvChange e (Some slug) = [Navigate (flags_page slug e)] \<and> pages_at (flags_page slug e) = [FlagListRoute]
    \<and> pages_at (''/projects/'' @ slug @ ''/settings/environments'') = [EnvironmentSettingsRoute]"
proof -
  have e: "e \<noteq> []" "slug \<noteq> []" using assms by (simp_all add: path_segment_def)
  have p: "pages_at (''/projects/'' @ slug @ ''/environments'') = [EnvironmentsOverviewRoute]" "pages_at (''/projects/'' @ slug @ ''/flags'') = [ProjectFlagListRoute]"
    "pages_at (''/projects/'' @ slug @ ''/segments'') = [SegmentListRoute]" "pages_at (''/projects/'' @ slug @ ''/api-keys'') = [ApiKeyListRoute]"
    "pages_at (''/projects/'' @ slug @ ''/members'') = [MemberListRoute]" "pages_at (''/projects/'' @ slug @ ''/audit'') = [AuditRoute]"
    "pages_at (''/projects/'' @ slug @ ''/settings'') = [ProjectSettingsRoute]"
    using assms(1) by (simp_all add: pages_at_def createAppRouter_list route_matches_def path_segment_def js_split_append js_split_no_sep)
  show ?thesis
    by (simp only: envScopedItems_def projectScopedItems_def flagsPath_def list.map NavItemProps.simps option.case e simp_thms if_True p
        pages_at_flags [OF assms] pages_at_index [OF assms(1)] pages_at_settings [OF assms(1)])
      (simp add: handleProjectChange_def handleEnvChange_def e)
qed

theorem links_resolve_witness:
  "pages_at (flags_page ''shop'' ''prod'') = [FlagListRoute]
   \<and> map (\<lambda>i. (ni_label i, pages_at (ni_to i))) (projectScopedItems ''shop'' []) =
      [(''common:nav.api_keys'', [ApiKeyListRoute]), (''common:nav.members'', [MemberListRoute]), (''common:nav.audit'', [AuditRoute]),
       (''common:nav.settings'', [ProjectSettingsRoute])]"
proof -
  have "path_segment ''shop''" "path_segment ''prod''" by (simp_all add: path_segment_def)
  from links_resolve [OF this, of "[]"] show ?thesis by blast
qed

section \<open>What the side bar highlights\<close>

lemma starts_with_segment:
  "CHR ''/'' \<notin> set w \<Longrightarrow> starts_with w s \<longleftrightarrow> starts_with w (hd (js_split (CHR ''/'') s))"
proof (induction w arbitrary: s)
  case (Cons c w)
  show ?case
  proof (cases s)
    case (Cons x xs)
    obtain l ls where "js_split (CHR ''/'') xs = l # ls" by (cases "js_split (CHR ''/'') xs") auto
    with Cons Cons.IH [of xs] Cons.prems show ?thesis by auto
  qed simp
qed simp

lemma includes_segment:
  assumes "CHR ''/'' \<notin> set w"
  shows "js_includes (CHR ''/'' # w) s \<longleftrightarrow> (\<exists>x \<in> set (tl (js_split (CHR ''/'') s)). starts_with w x)"
proof (induction s)
  case (Cons c s)
  obtain l ls where sp: "js_split (CHR ''/'') s = l # ls" by (cases "js_split (CHR ''/'') s") auto
  show ?case
  proof (cases "c = CHR ''/''")
    case True
    with Cons sp starts_with_segment [OF assms, of s] show ?thesis by (auto simp: js_includes_def)
  qed (use Cons sp in \<open>auto simp: js_includes_def\<close>)
qed (simp add: js_includes_def)

definition sections :: "string list" where
  "sections = [''flags'', ''segments'', ''api-keys'', ''members'', ''audit'', ''settings'']"

text \<open>
  What the side bar highlights. On the page of a section of a project the entry of that section is marked as current, and so is every
  entry whose name the slug of the project begins with: in a project with the slug \<open>settings-app\<close> the settings are
  marked on every page.
\<close>

theorem sidebar_highlights:
  assumes "path_segment slug" and "w \<in> set sections"
  shows "map ni_isActive (tl (envScopedItems slug envSlug (''/projects/'' @ slug @ CHR ''/'' # w))) @
      map ni_isActive (projectScopedItems slug (''/projects/'' @ slug @ CHR ''/'' # w)) = map (\<lambda>v. v = w \<or> starts_with v slug) sections
    \<and> \<not> ni_isActive (hd (envScopedItems slug envSlug (''/projects/'' @ slug @ CHR ''/'' # w)))"
proof -
  let ?p = "''/projects/'' @ slug @ CHR ''/'' # w"
  have nos: "CHR ''/'' \<notin> set slug" using assms(1) by (simp add: path_segment_def)
  have now: "CHR ''/'' \<notin> set w" using assms(2) by (auto simp: sections_def)
  have sp: "tl (js_split (CHR ''/'') ?p) = [''projects'', slug, w]" by (subst split_project(1) [OF nos]) (simp add: js_split_no_sep [OF now])
  have inc: "js_includes (CHR ''/'' # v) ?p \<longleftrightarrow> v = w \<or> starts_with v slug" if v: "v \<in> set sections" for v
  proof -
    have "CHR ''/'' \<notin> set v" using v by (auto simp: sections_def)
    moreover have "\<not> starts_with v ''projects''" "starts_with v w \<longleftrightarrow> v = w" using v assms(2) by (auto simp: sections_def)
    ultimately show ?thesis using includes_segment [of v ?p] unfolding sp by auto
  qed
  have "?p \<noteq> ''/projects/'' @ slug @ ''/environments''" using assms(2) by (auto simp: sections_def)
  then have "\<not> ni_isActive (hd (envScopedItems slug envSlug ?p))" by (simp only: envScopedItems_def list.sel NavItemProps.simps simp_thms)
  moreover have "js_includes ''/flags'' ?p \<longleftrightarrow> ''flags'' = w \<or> starts_with ''flags'' slug" "js_includes ''/segments'' ?p \<longleftrightarrow> ''segments'' = w \<or> starts_with ''segments'' slug"
    "js_includes ''/api-keys'' ?p \<longleftrightarrow> ''api-keys'' = w \<or> starts_with ''api-keys'' slug" "js_includes ''/members'' ?p \<longleftrightarrow> ''members'' = w \<or> starts_with ''members'' slug"
    "js_includes ''/audit'' ?p \<longleftrightarrow> ''audit'' = w \<or> starts_with ''audit'' slug" "js_includes ''/settings'' ?p \<longleftrightarrow> ''settings'' = w \<or> starts_with ''settings'' slug"
    by (rule inc, simp add: sections_def)+
  ultimately show ?thesis
    by (simp only: envScopedItems_def projectScopedItems_def sections_def list.map list.sel NavItemProps.simps append.simps(1) append.simps(2) [of True]
        append_Cons [of "_ :: bool"] append_Nil simp_thms)
qed

theorem sidebar_highlights_witness:
  "map ni_isActive (projectScopedItems ''settings-app'' (''/projects/'' @ ''settings-app'' @ CHR ''/'' # ''members'')) = [False, True, False, True]"
proof -
  have "path_segment ''settings-app''" by (simp add: path_segment_def)
  moreover have "''members'' \<in> set sections" by (simp add: sections_def)
  ultimately have "map ni_isActive (tl (envScopedItems ''settings-app'' None (''/projects/'' @ ''settings-app'' @ CHR ''/'' # ''members''))) @
      map ni_isActive (projectScopedItems ''settings-app'' (''/projects/'' @ ''settings-app'' @ CHR ''/'' # ''members''))
      = map (\<lambda>v. v = ''members'' \<or> starts_with v ''settings-app'') sections"
    using sidebar_highlights by blast
  then show ?thesis by (simp add: envScopedItems_def sections_def)
qed

section \<open>The switcher\<close>

lemma take_segment: "CHR ''/'' \<notin> set s \<Longrightarrow> takeWhile (\<lambda>c. c \<noteq> CHR ''/'') (s @ CHR ''/'' # t) = s"
  "CHR ''/'' \<notin> set s \<Longrightarrow> takeWhile (\<lambda>c. c \<noteq> CHR ''/'') s = s"
  by (induction s) auto

lemma drop_segment: "CHR ''/'' \<notin> set s \<Longrightarrow> dropWhile (\<lambda>c. c \<noteq> CHR ''/'') (s @ CHR ''/'' # t) = CHR ''/'' # t"
  "CHR ''/'' \<notin> set s \<Longrightarrow> dropWhile (\<lambda>c. c \<noteq> CHR ''/'') s = []"
  by (induction s) auto

lemma active_params:
  assumes "path_segment slug" and "path_segment e"
  shows "activeProjectSlug (''/projects/'' @ slug) = Some slug" "useActiveEnvSlug (''/projects/'' @ slug) = None"
    "activeProjectSlug (flags_page slug e) = Some slug" "useActiveEnvSlug (flags_page slug e) = Some e"
  using assms by (simp_all add: path_segment_def activeProjectSlug_def useActiveEnvSlug_def flags_page_def take_segment drop_segment)

lemma slug_is_segment: "SLUG_PATTERN s \<Longrightarrow> path_segment s"
proof -
  assume p: "SLUG_PATTERN s"
  then have "s \<noteq> []" by (auto simp: SLUG_PATTERN_def)
  moreover have "CHR ''/'' \<notin> set s"
  proof
    assume "CHR ''/'' \<in> set s"
    then have "CHR ''/'' \<in> set (js_join [dash] (js_split dash s))" by (simp add: js_join_split)
    then obtain l where "l \<in> set (js_split dash s)" "CHR ''/'' \<in> set l" by (auto dest: js_join_set)
    with p have "slug_char (CHR ''/'')" by (auto simp: SLUG_PATTERN_def list_all_iff)
    then show False by (simp add: slug_char_def is_digit_def)
  qed
  ultimately show ?thesis by (simp add: path_segment_def)
qed

text \<open>
  The switcher and the path agree. Choosing a listed project navigates to the project, nowhere else, and the path
  then has that project selected and no environment; choosing an environment stays in the project of the path and selects that
  environment. The entry for a new project opens the dialog and navigates nowhere; no project the dialog
  can create has a slug that is taken for it.
\<close>

theorem switcher_follows_path:
  assumes "offered (project_switcher_view cur projects) (SwProject v)" and "q_data projects = Some ps"
    and "list_all (\<lambda>p. SLUG_PATTERN (pr_slug p)) ps" and "path_segment e"
  shows "if v = NEW_PROJECT_SENTINEL then ProjectSwitcher_update pathname (SwProject v) p = (pp_handleOpen True p, [])
    else (\<exists>x \<in> set ps. pr_slug x = v) \<and> ProjectSwitcher_update pathname (SwProject v) p = (p, [Navigate (''/projects/'' @ v)])
      \<and> activeProjectSlug (''/projects/'' @ v) = Some v \<and> useActiveEnvSlug (''/projects/'' @ v) = None
      \<and> ProjectSwitcher_update (''/projects/'' @ v) (SwEnv e) p = (p, [Navigate (flags_page v e)])
      \<and> activeProjectSlug (flags_page v e) = Some v \<and> useActiveEnvSlug (flags_page v e) = Some e"
proof (cases "v = NEW_PROJECT_SENTINEL")
  case True
  then show ?thesis by (simp add: ProjectSwitcher_update_def handleProjectChange_def)
next
  case False
  have "v \<in> pr_slug ` set ps" using assms(1,2) False
    by (auto simp: project_switcher_view_def split: if_splits)
  then obtain x where x: "x \<in> set ps" "pr_slug x = v" by blast
  then have "SLUG_PATTERN v" using assms(3) by (auto simp: list_all_iff)
  then have seg: "path_segment v" by (rule slug_is_segment)
  then have "v \<noteq> []" by (simp add: path_segment_def)
  moreover have "e \<noteq> []" using assms(4) by (simp add: path_segment_def)
  ultimately show ?thesis
    using False x active_params [OF seg assms(4)] by (auto simp: ProjectSwitcher_update_def handleProjectChange_def handleEnvChange_def)
qed

theorem switcher_follows_path_witness:
  "ProjectSwitcher_update ''/'' (SwProject ''shop'') \<lparr>pp_open = False, pp_trigger = False\<rparr> =
     (\<lparr>pp_open = False, pp_trigger = False\<rparr>, [Navigate ''/projects/shop''])
   \<and> useActiveEnvSlug (flags_page ''shop'' ''prod'') = Some ''prod''"
proof -
  let ?ps = "[\<lparr>pr_id = ''1'', pr_name = ''Shop'', pr_slug = ''shop'', pr_created_at = []\<rparr>]"
  let ?q = "\<lparr>isLoading = False, q_error = None, q_data = Some ?ps\<rparr>"
  have "offered (project_switcher_view None ?q) (SwProject ''shop'')"
    by (auto simp: project_switcher_view_def isError_def)
  moreover have "list_all (\<lambda>p. SLUG_PATTERN (pr_slug p)) ?ps" by (simp add: SLUG_PATTERN_def slug_char_def)
  moreover have "path_segment ''prod''" by (simp add: path_segment_def)
  ultimately show ?thesis
    using switcher_follows_path [of None ?q "''shop''" ?ps "''prod''" "''/''" "\<lparr>pp_open = False, pp_trigger = False\<rparr>"]
    by (simp add: NEW_PROJECT_SENTINEL_def)
qed

section \<open>The user menu\<close>

text \<open>
  Logging out happens once. However often it is chosen, and whatever happens besides, the cached queries are cleared once and
  then the provider is asked once to end the session; the local user is only removed when that failed, and the
  browser only leaves after the removal.
\<close>

theorem logout_once:
  "let outs = snd (dialog_run (UserMenu_update upper) mu_init msgs) in
   filter (\<lambda>x. x = ClearQueries \<or> x = SignoutRedirect) outs = (if MenuLogout \<in> set msgs then [ClearQueries, SignoutRedirect] else [])
   \<and> count_list outs RemoveUser = count_list msgs MenuSignoutFailed \<and> count_list outs (GoTo ''/'') = count_list msgs MenuRemoved"
proof -
  have "(mu_loggingOut (fst (dialog_run (UserMenu_update upper) mu_init msgs)) \<longleftrightarrow> MenuLogout \<in> set msgs)
    \<and> filter (\<lambda>x. x = ClearQueries \<or> x = SignoutRedirect) (snd (dialog_run (UserMenu_update upper) mu_init msgs)) =
        (if MenuLogout \<in> set msgs then [ClearQueries, SignoutRedirect] else [])
    \<and> count_list (snd (dialog_run (UserMenu_update upper) mu_init msgs)) RemoveUser = count_list msgs MenuSignoutFailed
    \<and> count_list (snd (dialog_run (UserMenu_update upper) mu_init msgs)) (GoTo ''/'') = count_list msgs MenuRemoved"
  proof (induction msgs rule: rev_induct)
    case Nil
    show ?case by (simp add: dialog_run_def mu_init_def)
  next
    case (snoc m msgs)
    obtain u outs where r: "dialog_run (UserMenu_update upper) mu_init msgs = (u, outs)" by fastforce
    have step: "dialog_run (UserMenu_update upper) mu_init (msgs @ [m]) = (fst (UserMenu_update upper m u), outs @ snd (UserMenu_update upper m u))"
      using r by (simp add: dialog_run_def split: prod.splits)
    from snoc.IH show ?case unfolding r step by (cases m) (auto simp: UserMenu_update_def split: option.splits)
  qed
  then show ?thesis by (simp add: Let_def)
qed

lemma split_ws_word: "visible c \<Longrightarrow> split_ws (c # s) = (c # hd (split_ws s)) # tl (split_ws s)"
proof -
  have ne: "split_ws s \<noteq> []" by (cases s) (simp_all add: Let_def split: list.splits)
  assume "visible c"
  with ne show ?thesis by (cases "split_ws s") (simp_all add: strip_start_visible)
qed

lemma split_ws_space: "visible c \<Longrightarrow> split_ws (CHR '' '' # c # s) = [] # split_ws (c # s)"
  by (subst split_ws.simps(2)) (simp add: Let_def strip_start_space strip_start_visible del: split_ws.simps(2))

declare split_ws.simps(2) [simp del]

lemma split_ws_visible:
  assumes "list_all visible w"
  shows "split_ws w = [w]" and "visible c \<Longrightarrow> split_ws (w @ CHR '' '' # c # s) = w # split_ws (c # s)"
  using assms by (induction w) (simp_all add: split_ws_word split_ws_space)

lemma trim_visible: "s \<noteq> [] \<Longrightarrow> visible (hd s) \<Longrightarrow> visible (last s) \<Longrightarrow> js_trim s = s"
proof -
  assume s: "s \<noteq> []" "visible (hd s)" "visible (last s)"
  then obtain c t where c: "s = c # t" by (cases s) auto
  show ?thesis
  proof (cases t rule: rev_cases)
    case Nil
    with c s show ?thesis by (simp add: js_trim_def strip_start_visible)
  next
    case (snoc u d)
    with c s js_trim_visible [of c d u] show ?thesis by simp
  qed
qed

lemma join_words:
  assumes "list_all (\<lambda>w. w \<noteq> [] \<and> list_all visible w) ws" and "ws \<noteq> []"
  shows "js_join '' '' ws \<noteq> [] \<and> hd (js_join '' '' ws) = hd (hd ws) \<and> visible (hd (js_join '' '' ws)) \<and> visible (last (js_join '' '' ws))
    \<and> split_ws (js_join '' '' ws) = ws"
  using assms
proof (induction ws rule: induct_list012)
  case (2 w)
  then show ?case by (cases w) (auto simp: list_all_iff split_ws_visible(1) intro: last_in_set)
next
  case (3 w v ws)
  let ?t = "js_join '' '' (v # ws)"
  have ih: "?t \<noteq> []" "visible (hd ?t)" "visible (last ?t)" "split_ws ?t = v # ws" using 3 by auto
  then obtain c t where t: "?t = c # t" "visible c" by (cases ?t) auto
  have w: "w \<noteq> []" "list_all visible w" "visible (hd w)" using 3 by (auto simp: list_all_iff)
  have j: "js_join '' '' (w # v # ws) = w @ CHR '' '' # c # t" using t(1) by simp
  have "split_ws (js_join '' '' (w # v # ws)) = w # v # ws"
    unfolding j using split_ws_visible(2) [OF w(2) t(2), of t] ih(4) t(1) by simp
  then show ?case using w ih t(1) unfolding j by simp
qed simp

lemma first_unit_visible: "w \<noteq> [] \<Longrightarrow> list_all visible w \<Longrightarrow> first_unit w = [hd w]"
proof (cases w)
  case (Cons c s)
  assume "list_all visible w"
  then have "visible c" "s = [] \<or> visible (hd s)" using Cons by (cases s; simp)+
  moreover from this have "takeWhile continuation s = []" by (cases s) (auto simp: continuation_def visible_def)
  ultimately show ?thesis using Cons by (simp add: visible_def)
qed simp

text \<open>
  The initials of a name of ASCII words are the first letters of its first and its last word, or of its only
  word; a missing or blank name has the question mark.
\<close>

theorem initials_of_words:
  assumes "list_all (\<lambda>w. w \<noteq> [] \<and> list_all visible w) ws" and "ws \<noteq> []"
  shows "deriveInitials upper (Some (js_join '' '' ws)) = upper (if tl ws = [] then [hd (hd ws)] else [hd (hd ws), hd (last ws)])
    \<and> deriveInitials upper None = ''?'' \<and> deriveInitials upper (Some (replicate k (CHR '' ''))) = ''?''"
proof -
  let ?n = "js_join '' '' ws"
  have n: "?n \<noteq> []" "js_trim ?n = ?n" "split_ws ?n = ws" using join_words [OF assms] trim_visible [of ?n] by blast+
  have f: "filter (\<lambda>w. w \<noteq> []) ws = ws" using assms(1) by (simp add: filter_id_conv list_all_iff)
  have "strip_start js_ws (replicate k (CHR '' '')) = []" by (induction k) (simp_all add: strip_start_space strip_start_Nil)
  then have blank: "js_trim (replicate k (CHR '' '')) = []" by (simp add: js_trim_def strip_start_Nil)
  obtain w vs where ws: "ws = w # vs" using assms(2) by (cases ws) auto
  have "first_unit w = [hd w]" "vs \<noteq> [] \<Longrightarrow> first_unit (last vs) = [hd (last vs)]"
    using assms(1) ws last_in_set [of vs] by (auto simp: list_all_iff intro!: first_unit_visible)
  then have "deriveInitials upper (Some ?n) = upper (if tl ws = [] then [hd (hd ws)] else [hd (hd ws), hd (last ws)])"
    using n f ws by (cases vs) (auto simp: deriveInitials_def)
  then show ?thesis by (simp add: deriveInitials_def blank)
qed

theorem initials_of_words_witness:
  "deriveInitials id (Some ''Ada de Vries'') = ''AV''"
  using initials_of_words [of "[''Ada'', ''de'', ''Vries'']" id] by (simp add: visible_def)

end
