(* ===== verification/Query_Cache.thy ===== *)
theory Query_Cache
  imports Audit_Page Compare_Page Evaluations_Page Rules_Page Members_Page Api_Keys Segments_Page App_Shell
begin

text \<open>
  The query cache all pages share. Every \<open>useQuery\<close> call of the web application is one
  definition, in the order of the files under \<open>web/src\<close>: its key, the path it requests, what it keeps
  of the response, for how long the cached value counts as fresh, and the conditions under which
  it is enabled, polled and retried. TanStack Query keeps one value per key, so two calls with
  one key show each other's data; an invalidation reaches every key that extends the
  given one (\<open>covers\<close>).
\<close>

section \<open>Queries\<close>

text \<open>
  What of the response a query keeps: all of it, a field, the length of a field, the API keys that
  are not revoked, the role of the signed-in user in a list of members, or the pages of a list
  (whose path is that of the first page).
\<close>

datatype kept = Whole | Field string | FieldLength string | LiveKeys | RoleOf | Pages

record query_def =
  qd_key :: "string list"
  qd_path :: string
  qd_kept :: kept
  qd_staleTime :: nat
  qd_refetchInterval :: "nat option"
  qd_enabled :: bool
  qd_retry :: "nat \<Rightarrow> web_error \<Rightarrow> bool"

text \<open>The application's defaults (\<open>queryClient.ts\<close>): no retry; the library's: stale at once, no polling.\<close>

definition app_defaults :: "string list \<Rightarrow> string \<Rightarrow> kept \<Rightarrow> query_def" where
  "app_defaults key path k = \<lparr>qd_key = key, qd_path = path, qd_kept = k, qd_staleTime = 0,
     qd_refetchInterval = None, qd_enabled = True, qd_retry = (\<lambda>_ _. False)\<rparr>"

definition projects_path :: string where
  "projects_path = ''/api/v1/projects''"

definition environments_path :: "string \<Rightarrow> string" where
  "environments_path slug = ''/api/v1/projects/'' @ slug @ ''/environments''"

definition project_flag_list_path :: "string \<Rightarrow> string" where
  "project_flag_list_path slug = ''/api/v1/projects/'' @ slug @ ''/flags''"

definition env_flag_list_path :: "string \<Rightarrow> string \<Rightarrow> string" where
  "env_flag_list_path slug envSlug = ''/api/v1/projects/'' @ slug @ ''/environments/'' @ envSlug @ ''/flags''"

subsection \<open>Components and hooks\<close>

definition FlagAnalyticsPanel_query :: "string \<Rightarrow> string \<Rightarrow> string \<Rightarrow> WindowOption \<Rightarrow> query_def" where
  "FlagAnalyticsPanel_query slug envSlug flagKey w =
     (app_defaults [''flag-analytics-buckets'', slug, envSlug, flagKey, window_value w] (buckets_path slug envSlug flagKey w) Whole)
     \<lparr>qd_refetchInterval := Some 60000\<rparr>"

definition ProjectSwitcher_projectsQuery :: query_def where
  "ProjectSwitcher_projectsQuery = app_defaults [''projects''] projects_path (Field ''projects'')"

text \<open>Without a project the slug is \<open>null\<close> in key and path, and the query is not enabled.\<close>

definition ProjectSwitcher_envsQuery :: "string option \<Rightarrow> query_def" where
  "ProjectSwitcher_envsQuery projectSlug =
     (app_defaults (envs_key projectSlug) (environments_path (case projectSlug of Some s \<Rightarrow> s | None \<Rightarrow> ''null'')) (Field ''environments''))
     \<lparr>qd_enabled := (projectSlug \<noteq> None)\<rparr>"

definition useProjectRole_query :: "string \<Rightarrow> query_def" where
  "useProjectRole_query projectSlug = app_defaults [''project-role'', projectSlug] (project_members_path projectSlug) RoleOf"

subsection \<open>Project pages\<close>

definition Home_projectsQuery :: query_def where
  "Home_projectsQuery = app_defaults [''projects''] projects_path (Field ''projects'')"

definition useProjectCount_query :: "string \<Rightarrow> string \<Rightarrow> string \<Rightarrow> query_def" where
  "useProjectCount_query slug resource key =
     (app_defaults [resource, slug, ''count''] (count_path slug resource) (FieldLength key)) \<lparr>qd_staleTime := 60000\<rparr>"

definition Dashboard_envsQuery :: "string \<Rightarrow> query_def" where
  "Dashboard_envsQuery slug = app_defaults [''environments'', slug] (environments_path slug) (Field ''environments'')"

definition Dashboard_flagsQuery :: "string \<Rightarrow> query_def" where
  "Dashboard_flagsQuery slug = app_defaults [''flags'', slug] (project_flag_list_path slug) (Field ''flags'')"

definition Compare_envsQuery :: "string \<Rightarrow> query_def" where
  "Compare_envsQuery slug = app_defaults [''environments'', slug] (environments_path slug) (Field ''environments'')"

definition Compare_flagsQuery :: "string \<Rightarrow> query_def" where
  "Compare_flagsQuery slug = app_defaults [''flags'', slug] (project_flag_list_path slug) (Field ''flags'')"

definition Compare_envFlagsQuery :: "string \<Rightarrow> Environment \<Rightarrow> query_def" where
  "Compare_envFlagsQuery slug env = app_defaults [''flags'', slug, en_slug env] (env_flag_list_path slug (en_slug env)) (Field ''flags'')"

definition Overview_envsQuery :: "string \<Rightarrow> query_def" where
  "Overview_envsQuery slug = app_defaults [''environments'', slug] (environments_path slug) (Field ''environments'')"

definition EnvironmentCard_flagsQuery :: "string \<Rightarrow> Environment \<Rightarrow> query_def" where
  "EnvironmentCard_flagsQuery projectSlug env =
     app_defaults [''flags'', projectSlug, en_slug env] (env_flag_list_path projectSlug (en_slug env)) (Field ''flags'')"

definition EnvironmentSettings_query :: "string \<Rightarrow> query_def" where
  "EnvironmentSettings_query slug = app_defaults [''environments'', slug] (environments_path slug) (Field ''environments'')"

definition Members_query :: "string \<Rightarrow> query_def" where
  "Members_query slug = app_defaults [''members'', slug] (project_members_path slug) (Field ''members'')"

definition Audit_query :: "string \<Rightarrow> audit_page \<Rightarrow> query_def" where
  "Audit_query slug p = app_defaults (audit_key slug p) (audit_path slug (au_debounced p) None) Pages"

definition APIKeys_envsQuery :: "string \<Rightarrow> query_def" where
  "APIKeys_envsQuery slug = app_defaults [''environments'', slug] (environments_path slug) (Field ''environments'')"

definition APIKeys_keysQuery :: "string \<Rightarrow> string option \<Rightarrow> query_def" where
  "APIKeys_keysQuery slug envSlug =
     (let e = (case envSlug of Some s \<Rightarrow> s | None \<Rightarrow> ''null'') in
      (app_defaults (keysKey slug e) (api_keys_path slug e) LiveKeys) \<lparr>qd_enabled := (envSlug \<noteq> None)\<rparr>)"

subsection \<open>Segments\<close>

definition SegmentList_query :: "string \<Rightarrow> query_def" where
  "SegmentList_query slug = app_defaults [''segments'', slug] (segments_path slug) (Field ''segments'')"

text \<open>
  Without a segment the third entry of the key is \<open>undefined\<close>, written empty, and no path can be
  computed (\<open>segment!.slug\<close>); the query is not enabled then.
\<close>

definition ManageMembers_query :: "bool \<Rightarrow> string \<Rightarrow> Segment option \<Rightarrow> query_def" where
  "ManageMembers_query is_open projectSlug s =
     (case s of
        Some sg \<Rightarrow> (app_defaults (membersKey projectSlug sg) (members_path projectSlug sg) (Field ''members'')) \<lparr>qd_enabled := is_open\<rparr>
      | None \<Rightarrow> (app_defaults [''segments'', projectSlug, [], ''members''] [] (Field ''members'')) \<lparr>qd_enabled := False\<rparr>)"

subsection \<open>Flag lists\<close>

definition useFlagStats_query :: "string \<Rightarrow> string \<Rightarrow> string \<Rightarrow> query_def" where
  "useFlagStats_query slug envSlug flagKey =
     (app_defaults [''flag-stats'', slug, envSlug, flagKey] (stats_path slug envSlug flagKey) Whole) \<lparr>qd_refetchInterval := Some 30000\<rparr>"

definition FlagList_query :: "string \<Rightarrow> string \<Rightarrow> query_def" where
  "FlagList_query slug envSlug = app_defaults (list_key slug envSlug) (env_flag_list_path slug envSlug) (Field ''flags'')"

definition FlagList_envsQuery :: "string \<Rightarrow> query_def" where
  "FlagList_envsQuery slug =
     (app_defaults [''environments'', slug] (environments_path slug) (Field ''environments'')) \<lparr>qd_staleTime := 5 * 60000\<rparr>"

definition ProjectFlagList_query :: "string \<Rightarrow> project_list \<Rightarrow> query_def" where
  "ProjectFlagList_query slug p = app_defaults (project_list_key slug p) (project_flags_path slug p) Whole"

definition ProjectFlagList_envsQuery :: "string \<Rightarrow> query_def" where
  "ProjectFlagList_envsQuery slug =
     (app_defaults [''environments'', slug] (environments_path slug) (Field ''environments'')) \<lparr>qd_staleTime := 5 * 60000\<rparr>"

definition EnvBadge_query :: "string \<Rightarrow> string \<Rightarrow> query_def" where
  "EnvBadge_query slug envSlug =
     (app_defaults [''env-flags'', slug, envSlug] (env_flag_list_path slug envSlug) (Field ''flags'')) \<lparr>qd_staleTime := 30000\<rparr>"

subsection \<open>Flag pages\<close>

definition FlagDetail_query :: "detail_ctx \<Rightarrow> query_def" where
  "FlagDetail_query c =
     (app_defaults [''flag'', dc_slug c, dc_envSlug c, dc_key c] (env_flag_path (dc_slug c) (dc_envSlug c) (dc_key c)) Whole)
     \<lparr>qd_retry := (\<lambda>failureCount err. case err of
         APIError st m code \<Rightarrow> if st = 404 then False else failureCount < 2
       | OtherError m \<Rightarrow> failureCount < 2)\<rparr>"

definition EnvironmentsSection_query :: "string \<Rightarrow> query_def" where
  "EnvironmentsSection_query slug = app_defaults [''environments'', slug] (environments_path slug) (Field ''environments'')"

definition EnvironmentToggleRow_query :: "string \<Rightarrow> Environment \<Rightarrow> string \<Rightarrow> query_def" where
  "EnvironmentToggleRow_query slug env flagKey =
     app_defaults (toggle_key slug env flagKey) (env_flag_path slug (en_slug env) flagKey) Whole"

definition FlagHistory_query :: "string \<Rightarrow> string \<Rightarrow> query_def" where
  "FlagHistory_query slug flagKey = app_defaults [''flag-history'', slug, flagKey] (history_path slug flagKey) Whole"

definition Evaluations_query :: "detail_ctx \<Rightarrow> query_def" where
  "Evaluations_query c = app_defaults [''evaluations'', dc_slug c, dc_envSlug c, dc_key c] (evaluations_path c None) Pages"

definition Rules_rulesQuery :: "rules_ctx \<Rightarrow> query_def" where
  "Rules_rulesQuery c = app_defaults (rulesKey c) (rules_path c) (Field ''rules'')"

definition Rules_segmentsQuery :: "rules_ctx \<Rightarrow> query_def" where
  "Rules_segmentsQuery c = app_defaults [''segments'', rc_slug c] (segments_path (rc_slug c)) (Field ''segments'')"

definition Rules_flagQuery :: "rules_ctx \<Rightarrow> query_def" where
  "Rules_flagQuery c = app_defaults [''flag'', rc_slug c, rc_envSlug c, rc_key c] (env_flag_path (rc_slug c) (rc_envSlug c) (rc_key c)) Whole"

section \<open>The queries of the application\<close>

text \<open>Every query a page can have; the home page counts environments, flags and members.\<close>

inductive app_query :: "query_def \<Rightarrow> bool" where
  aq_FlagAnalyticsPanel_query: "app_query (FlagAnalyticsPanel_query a b c d)"
| aq_ProjectSwitcher_projectsQuery: "app_query (ProjectSwitcher_projectsQuery)"
| aq_ProjectSwitcher_envsQuery: "app_query (ProjectSwitcher_envsQuery a)"
| aq_useProjectRole_query: "app_query (useProjectRole_query a)"
| aq_Home_projectsQuery: "app_query (Home_projectsQuery)"
| aq_useProjectCount_query: "resource \<in> {''environments'', ''flags'', ''members''} \<Longrightarrow> app_query (useProjectCount_query a resource resource)"
| aq_Dashboard_envsQuery: "app_query (Dashboard_envsQuery a)"
| aq_Dashboard_flagsQuery: "app_query (Dashboard_flagsQuery a)"
| aq_Compare_envsQuery: "app_query (Compare_envsQuery a)"
| aq_Compare_flagsQuery: "app_query (Compare_flagsQuery a)"
| aq_Compare_envFlagsQuery: "app_query (Compare_envFlagsQuery a b)"
| aq_Overview_envsQuery: "app_query (Overview_envsQuery a)"
| aq_EnvironmentCard_flagsQuery: "app_query (EnvironmentCard_flagsQuery a b)"
| aq_EnvironmentSettings_query: "app_query (EnvironmentSettings_query a)"
| aq_Members_query: "app_query (Members_query a)"
| aq_Audit_query: "app_query (Audit_query a b)"
| aq_APIKeys_envsQuery: "app_query (APIKeys_envsQuery a)"
| aq_APIKeys_keysQuery: "app_query (APIKeys_keysQuery a b)"
| aq_SegmentList_query: "app_query (SegmentList_query a)"
| aq_ManageMembers_query: "app_query (ManageMembers_query a b c)"
| aq_useFlagStats_query: "app_query (useFlagStats_query a b c)"
| aq_FlagList_query: "app_query (FlagList_query a b)"
| aq_FlagList_envsQuery: "app_query (FlagList_envsQuery a)"
| aq_ProjectFlagList_query: "app_query (ProjectFlagList_query a b)"
| aq_ProjectFlagList_envsQuery: "app_query (ProjectFlagList_envsQuery a)"
| aq_EnvBadge_query: "app_query (EnvBadge_query a b)"
| aq_FlagDetail_query: "app_query (FlagDetail_query a)"
| aq_EnvironmentsSection_query: "app_query (EnvironmentsSection_query a)"
| aq_EnvironmentToggleRow_query: "app_query (EnvironmentToggleRow_query a b c)"
| aq_FlagHistory_query: "app_query (FlagHistory_query a b)"
| aq_Evaluations_query: "app_query (Evaluations_query a)"
| aq_Rules_rulesQuery: "app_query (Rules_rulesQuery a)"
| aq_Rules_segmentsQuery: "app_query (Rules_segmentsQuery a)"
| aq_Rules_flagQuery: "app_query (Rules_flagQuery a)"

text \<open>
  What a key stands for: the path and the part of the response. An environment called
  \<open>count\<close> has no answer, see below.
\<close>

definition key_source :: "string list \<Rightarrow> (string \<times> kept) option" where
  "key_source key = (case key of
     [h] \<Rightarrow> if h = ''projects'' then Some (projects_path, Field ''projects'') else None
   | [h, s] \<Rightarrow>
       map_of [(''environments'', (environments_path s, Field ''environments'')), (''flags'', (project_flag_list_path s, Field ''flags'')),
         (''members'', (project_members_path s, Field ''members'')), (''project-role'', (project_members_path s, RoleOf)),
         (''segments'', (segments_path s, Field ''segments''))] h
   | [h, s, e] \<Rightarrow>
       if e = ''count'' \<and> h \<in> {''environments'', ''members'', ''flags''} then Some (count_path s h, FieldLength h)
       else map_of [(''flags'', (env_flag_list_path s e, Field ''flags'')), (''env-flags'', (env_flag_list_path s e, Field ''flags'')),
         (''api-keys'', (api_keys_path s e, LiveKeys)), (''flag-history'', (history_path s e, Whole)), (''audit'', (audit_path s e None, Pages))] h
   | [h, s, e, k] \<Rightarrow>
       if h = ''segments'' then Some (segments_path s @ ''/'' @ e @ ''/members'', Field ''members'')
       else map_of [(''flag'', (env_flag_path s e k, Whole)), (''flag-env-state'', (env_flag_path s e k, Whole)),
         (''flag-stats'', (stats_path s e k, Whole)),
         (''evaluations'', (evaluations_path \<lparr>dc_slug = s, dc_envSlug = e, dc_key = k\<rparr> None, Pages)),
         (''rules'', (rules_path \<lparr>rc_slug = s, rc_envSlug = e, rc_key = k\<rparr>, Field ''rules''))] h
   | [h, s, e, k, w] \<Rightarrow>
       if h = ''flag-analytics-buckets'' then Some (env_flag_path s e k @ ''/stats/buckets?window='' @ w @ ''&bucket=day'', Whole) else None
   | [h, s, pg, per, search, col, dir] \<Rightarrow>
       if h = ''project-flags'' then Some (''/api/v1/projects/'' @ s @ ''/flags?'' @ params_string
         ([(''page'', pg), (''per_page'', per)] @ (if search \<noteq> [] then [(''search'', search)] else []) @
          (case sortByMap col of Some apiCol \<Rightarrow> [(''sort_by'', apiCol), (''sort_dir'', dir)] | None \<Rightarrow> [])), Whole)
       else None
   | _ \<Rightarrow> None)"

lemmas query_defs = app_defaults_def FlagAnalyticsPanel_query_def ProjectSwitcher_projectsQuery_def ProjectSwitcher_envsQuery_def useProjectRole_query_def Home_projectsQuery_def useProjectCount_query_def Dashboard_envsQuery_def Dashboard_flagsQuery_def Compare_envsQuery_def Compare_flagsQuery_def Compare_envFlagsQuery_def Overview_envsQuery_def EnvironmentCard_flagsQuery_def EnvironmentSettings_query_def Members_query_def Audit_query_def APIKeys_envsQuery_def APIKeys_keysQuery_def SegmentList_query_def ManageMembers_query_def useFlagStats_query_def FlagList_query_def FlagList_envsQuery_def ProjectFlagList_query_def ProjectFlagList_envsQuery_def EnvBadge_query_def FlagDetail_query_def EnvironmentsSection_query_def EnvironmentToggleRow_query_def FlagHistory_query_def Evaluations_query_def Rules_rulesQuery_def Rules_segmentsQuery_def Rules_flagQuery_def

lemmas path_defs = buckets_path_def stats_path_def env_flag_path_def members_path_def rules_path_def
  evaluations_path_def project_flags_path_def list_params_def

text \<open>Every query requests what its key stands for, unless the key is that of an environment called \<open>count\<close>.\<close>

lemma query_source:
  assumes "app_query q" "qd_enabled q"
  shows "key_source (qd_key q) = Some (qd_path q, qd_kept q) \<or> (\<exists>slug. qd_key q = [''flags'', slug, ''count''])"
  using assms
  by cases (auto simp: key_source_def query_defs path_defs envs_key_def keysKey_def membersKey_def list_key_def project_list_key_def
      toggle_key_def rulesKey_def audit_key_def Let_def sortByMap_def split: option.splits if_splits)

text \<open>
  C24: pages that share a cache entry agree on it. Two enabled queries of the application, on whatever
  pages, that have one key request the same path and keep the same part of the response, so each
  shows what it would have fetched itself. The one exception is the key of the flag count of the home page,
  \<open>['flags', slug, 'count']\<close>, which is also that of the flags of an environment called \<open>count\<close>.
\<close>

theorem shared_keys_agree:
  assumes "app_query q" "app_query q'" "qd_enabled q" "qd_enabled q'"
    and "qd_key q = qd_key q'" and "\<forall>slug. qd_key q \<noteq> [''flags'', slug, ''count'']"
  shows "qd_path q = qd_path q' \<and> qd_kept q = qd_kept q'"
  using query_source [OF assms(1,3)] query_source [OF assms(2,4)] assms(5,6) by auto

theorem shared_keys_agree_witness:
  "qd_key (FlagDetail_query \<lparr>dc_slug = ''p'', dc_envSlug = ''prod'', dc_key = ''k''\<rparr>) =
     qd_key (Rules_flagQuery \<lparr>rc_slug = ''p'', rc_envSlug = ''prod'', rc_key = ''k''\<rparr>)
   \<and> qd_path (FlagDetail_query \<lparr>dc_slug = ''p'', dc_envSlug = ''prod'', dc_key = ''k''\<rparr>) =
     qd_path (Rules_flagQuery \<lparr>rc_slug = ''p'', rc_envSlug = ''prod'', rc_key = ''k''\<rparr>)"
  using shared_keys_agree [of "FlagDetail_query \<lparr>dc_slug = ''p'', dc_envSlug = ''prod'', dc_key = ''k''\<rparr>"
      "Rules_flagQuery \<lparr>rc_slug = ''p'', rc_envSlug = ''prod'', rc_key = ''k''\<rparr>"]
  by (simp add: app_query.intros query_defs)

text \<open>
  The exception is real: the dialog that creates environments accepts the slug \<open>count\<close>, and that environment's list of flags
  and the home page's number of flags then replace each other in the cache.
\<close>

theorem count_key_clash:
  "validateSlug ''count'' = None
   \<and> qd_key (FlagList_query slug ''count'') = qd_key (useProjectCount_query slug ''flags'' ''flags'')
   \<and> qd_kept (FlagList_query slug ''count'') \<noteq> qd_kept (useProjectCount_query slug ''flags'' ''flags'')
   \<and> qd_path (FlagList_query slug ''count'') \<noteq> qd_path (useProjectCount_query slug ''flags'' ''flags'')"
proof -
  have "validateSlug ''count'' = None" by code_simp
  then show ?thesis
    by (simp add: query_defs list_key_def env_flag_list_path_def count_path_def)
qed

section \<open>Which changes reach which pages\<close>

definition refreshed :: "effect list \<Rightarrow> query_def \<Rightarrow> bool" where
  "refreshed effs q \<longleftrightarrow> list_ex (\<lambda>eff. covers eff (qd_key q)) effs"

lemma refreshed_simps [simp]:
  "\<not> refreshed [] q"
  "refreshed (Invalidate k # effs) q \<longleftrightarrow> take (length k) (qd_key q) = k \<or> refreshed effs q"
  "refreshed (Announce a # effs) q = refreshed effs q"
  "refreshed (Navigate u # effs) q = refreshed effs q"
  by (simp_all add: refreshed_def covers_def)

lemma refreshed_append [simp]: "refreshed (effs @ effs') q \<longleftrightarrow> refreshed effs q \<or> refreshed effs' q"
  by (simp add: refreshed_def)

lemma refreshed_concat: "refreshed (concat effss) q \<longleftrightarrow> (\<exists>effs \<in> set effss. refreshed effs q)"
  by (induction effss) auto

text \<open>The length of the keys of flags, and with it the keys that extend those a change event invalidates.\<close>

lemma flag_key_length:
  assumes "app_query q"
  shows "case qd_key q of [] \<Rightarrow> True | h # _ \<Rightarrow>
    (h = ''flag'' \<or> h = ''flag-env-state'' \<longrightarrow> length (qd_key q) = 4) \<and> (h = ''flags'' \<longrightarrow> length (qd_key q) \<le> 3)"
  using assms
  by cases (auto simp: query_defs envs_key_def keysKey_def membersKey_def list_key_def project_list_key_def
      toggle_key_def rulesKey_def audit_key_def Let_def split: option.splits)

lemma flag_key_extends:
  assumes "app_query q"
  shows "take 4 (qd_key q) = [''flag'', p, e, k] \<longleftrightarrow> qd_key q = [''flag'', p, e, k]"
    and "take 4 (qd_key q) = [''flag-env-state'', p, e, k] \<longleftrightarrow> qd_key q = [''flag-env-state'', p, e, k]"
    and "take 2 (qd_key q) = [''flag-env-state'', p] \<longleftrightarrow> (\<exists>e' k'. qd_key q = [''flag-env-state'', p, e', k'])"
    and "take 3 (qd_key q) = [''flags'', p, e] \<longleftrightarrow> qd_key q = [''flags'', p, e]"
proof -
  obtain ks where ks: "qd_key q = ks" by blast
  have len: "hd ks = ''flag'' \<or> hd ks = ''flag-env-state'' \<Longrightarrow> ks = [] \<or> length ks = 4" "hd ks = ''flags'' \<Longrightarrow> ks = [] \<or> length ks \<le> 3"
    using flag_key_length [OF assms] by (auto simp: ks split: list.splits)
  show "take 4 (qd_key q) = [''flag'', p, e, k] \<longleftrightarrow> qd_key q = [''flag'', p, e, k]"
    "take 4 (qd_key q) = [''flag-env-state'', p, e, k] \<longleftrightarrow> qd_key q = [''flag-env-state'', p, e, k]"
    "take 2 (qd_key q) = [''flag-env-state'', p] \<longleftrightarrow> (\<exists>e' k'. qd_key q = [''flag-env-state'', p, e', k'])"
    "take 3 (qd_key q) = [''flags'', p, e] \<longleftrightarrow> qd_key q = [''flags'', p, e]"
    unfolding ks using len by (cases ks; auto simp: eval_nat_numeral take_Suc_Cons length_Suc_conv take_Cons' split: if_splits)+
qed

lemma change_refreshes:
  assumes "app_query q"
  shows "refreshed (web_change_effects p e k b) q \<longleftrightarrow>
    qd_key q = [''flag'', p, e, k] \<or> (\<exists>e' k'. qd_key q = [''flag-env-state'', p, e', k']) \<or> qd_key q = [''flags'', p, e]"
  using flag_key_extends [OF assms] by (simp add: web_change_effects_def eval_nat_numeral)

text \<open>
  C25: from the bytes of the event stream to the pages. Whatever way the network cuts a stream of change events
  into chunks, the queries that are fetched again, of all queries of the application, are
  exactly: those of a flag an event names (the flag's page and its rules page), the environment
  switches of the flag page in every environment of the project, and the flags of the environment (its list, its card in the
  overview, its column in the comparison). So the environment badges of the project's flag list are not: they keep their own copy
  of an environment's flags under \<open>env-flags\<close>, which counts as fresh for 30 seconds.
\<close>

theorem stream_refreshes:
  assumes "concat cs = concat (map (\<lambda>ev. frame (Event ev)) evs)"
    and "\<forall>ev \<in> set evs. ev_type ev = ''flag.state_changed''"
    and "app_query q"
  shows "(refreshed (web_read_loop p e [] (map (\<lambda>c. (False, Chunk c)) cs @ [(False, ReadDone)] @ later)) q \<longleftrightarrow>
      (\<exists>ev \<in> set evs. qd_key q = [''flag'', p, e, ev_flagKey ev]) \<or>
      evs \<noteq> [] \<and> ((\<exists>e' k. qd_key q = [''flag-env-state'', p, e', k]) \<or> qd_key q = [''flags'', p, e]))
    \<and> \<not> refreshed (web_read_loop p e [] (map (\<lambda>c. (False, Chunk c)) cs @ [(False, ReadDone)] @ later)) (EnvBadge_query p e)"
proof -
  have r: "refreshed (web_read_loop p e [] (map (\<lambda>c. (False, Chunk c)) cs @ [(False, ReadDone)] @ later)) q' \<longleftrightarrow>
      (\<exists>ev \<in> set evs. qd_key q' = [''flag'', p, e, ev_flagKey ev]) \<or>
      evs \<noteq> [] \<and> ((\<exists>e' k. qd_key q' = [''flag-env-state'', p, e', k]) \<or> qd_key q' = [''flags'', p, e])"
    if "app_query q'" for q'
    unfolding web_stream_invalidates [OF assms(1,2)] using change_refreshes [OF that]
    by (cases evs) (auto simp: refreshed_concat)
  have "qd_key (EnvBadge_query p e) = [''env-flags'', p, e]" by (simp add: query_defs)
  then show ?thesis using r [OF assms(3)] r [OF aq_EnvBadge_query] by simp
qed

theorem stream_refreshes_witness:
  "refreshed (web_read_loop ''p'' ''prod'' [] [(False, Chunk (frame (Event demo_event))), (False, ReadDone)]) (FlagList_query ''p'' ''prod'')
   \<and> \<not> refreshed (web_read_loop ''p'' ''prod'' [] [(False, Chunk (frame (Event demo_event))), (False, ReadDone)]) (EnvBadge_query ''p'' ''prod'')"
proof -
  have "qd_key (FlagList_query ''p'' ''prod'') = [''flags'', ''p'', ''prod'']" by (simp add: query_defs list_key_def)
  moreover have "ev_type demo_event = ''flag.state_changed''" by (simp add: demo_event_def)
  ultimately show ?thesis
    using stream_refreshes [of "[frame (Event demo_event)]" "[demo_event]" "FlagList_query ''p'' ''prod''" "''p''" "''prod''" "[]"]
      aq_FlagList_query [of "''p''" "''prod''"]
    by (simp del: web_read_loop.simps)
qed

text \<open>
  Deletions and the home page. No page that deletes a flag (the project's list, an environment's
  list, the flag's page) refreshes the number of flags on the home page, which counts as
  fresh for a minute; creating a flag on the dashboard does.
\<close>

theorem count_misses_deletions:
  assumes "e \<noteq> ''count''"
  shows "\<not> refreshed (snd (ProjectFlagListPage_update slug (ProjDelete (Deleted None)) pl)) (useProjectCount_query slug ''flags'' ''flags'')"
    and "\<not> refreshed (snd (FlagListPage_update slug e (ListDelete (Deleted None)) fl)) (useProjectCount_query slug ''flags'' ''flags'')"
    and "\<not> refreshed (snd (FlagDetailPage_update \<lparr>dc_slug = slug, dc_envSlug = e, dc_key = k\<rparr> f (PageDeleted None) fp))
        (useProjectCount_query slug ''flags'' ''flags'')"
    and "refreshed [Invalidate [''flags'', slug]] (useProjectCount_query slug ''flags'' ''flags'')"
    and "qd_staleTime (useProjectCount_query slug ''flags'' ''flags'') = 60000"
  using assms
  by (simp_all add: ProjectFlagListPage_update_def FlagListPage_update_def FlagDetailPage_update_def deletion_update_def
      query_defs project_list_key_def list_key_def split: option.splits)

text \<open>
  Switching a flag. A successful switch on an environment's list refreshes exactly the queries of that environment's flags, one on
  the flag's page exactly that switch; the other pages wait for the event stream, their next mount, or do not learn of it.
\<close>

theorem switch_refreshes:
  assumes "app_query q"
  shows "refreshed (snd (FlagListPage_update slug e (ListToggled k None) fl)) q \<longleftrightarrow> qd_key q = [''flags'', slug, e]"
    and "refreshed (EnvironmentToggleRow_update slug env k (ToggleSettled None)) q \<longleftrightarrow> qd_key q = toggle_key slug env k"
  using flag_key_extends [OF assms]
  by (simp_all add: FlagListPage_update_def EnvironmentToggleRow_update_def list_key_def toggle_key_def eval_nat_numeral)

end
