(* ===== verification/Frontend_Index.thy ===== *)
theory Frontend_Index
  imports App_Shell
begin

text \<open>
  \<open>web/scripts/gen-frontend-index.ts\<close>, which writes \<open>docs/frontend-index.md\<close>: the routes with the URL
  derived from each file's name, the exported components and hooks, the signatures of the API
  module. The file system is an argument: the paths below a directory (\<open>None\<close> if it does not exist) and
  the contents of a file. The regular expressions are written out as scanners; the lines of a source file end in LF
  or CR (the files have no U+2028 or U+2029).
\<close>

section \<open>Files\<close>

record file_system =
  fs_readdir :: "string \<Rightarrow> string list option"
  fs_read :: "string \<Rightarrow> string option"

definition ends_with :: "string \<Rightarrow> string \<Rightarrow> bool" where
  "ends_with ext f = starts_with (rev ext) (rev f)"

definition listFiles :: "file_system \<Rightarrow> string \<Rightarrow> string \<Rightarrow> string list" where
  "listFiles fs dir ext = (case fs_readdir fs dir of
     None \<Rightarrow> []
   | Some files \<Rightarrow> filter (\<lambda>f. ends_with ext f \<and> \<not> js_includes ''__tests__'' f \<and> \<not> js_includes ''/test/'' f) files)"

definition readFileSync :: "file_system \<Rightarrow> string \<Rightarrow> (string, string) result" where
  "readFileSync fs f = (case fs_read fs f of Some content \<Rightarrow> Inr content | None \<Rightarrow> Inl (''ENOENT: '' @ f))"

definition line_end :: "char \<Rightarrow> bool" where
  "line_end c \<longleftrightarrow> c = CHR 0x0A \<or> c = CHR 0x0D"

definition code_lines :: "string \<Rightarrow> string list" where
  "code_lines content = concat (map (js_split (CHR 0x0D)) (js_split (CHR 0x0A) content))"

text \<open>The first place where the marker is followed by something on its line.\<close>

fun index_match :: "string \<Rightarrow> string option" where
  "index_match [] = None"
| "index_match (c # s) =
     (let m = takeWhile (\<lambda>d. \<not> line_end d) (drop 10 (c # s)) in
      if starts_with ''// @index '' (c # s) \<and> m \<noteq> [] then Some m else index_match s)"

definition indexComment :: "string \<Rightarrow> string" where
  "indexComment content = (case index_match content of Some m \<Rightarrow> js_trim m | None \<Rightarrow> [])"

section \<open>Routes\<close>

definition routeUrl :: "string \<Rightarrow> string option" where
  "routeUrl rel =
     (let noExt = (if ends_with ''.tsx'' rel then take (length rel - 4) rel else rel);
          segments = concat (map (js_split (CHR ''.'')) (js_split (CHR ''/'') noExt))
      in if list_ex (starts_with ''_'') segments then None
         else Some (CHR ''/'' # js_join ''/''
           (map (\<lambda>s. if starts_with ''$'' s then CHR '':'' # drop 1 s else s) (filter (\<lambda>s. s \<noteq> ''index'') segments))))"

definition is_letter :: "char \<Rightarrow> bool" where
  "is_letter c \<longleftrightarrow> (CHR ''a'' \<le> c \<and> c \<le> CHR ''z'') \<or> (CHR ''A'' \<le> c \<and> c \<le> CHR ''Z'')"

function param_matches :: "string \<Rightarrow> string list" where
  "param_matches [] = []"
| "param_matches (c # s) =
     (if c = CHR ''$'' \<and> takeWhile is_letter s \<noteq> [] then (c # takeWhile is_letter s) # param_matches (dropWhile is_letter s)
      else param_matches s)"
  by pat_completeness auto
termination
  by (relation "measure length") (auto simp: le_imp_less_Suc length_dropWhile_le)

definition routeParams :: "string \<Rightarrow> string" where
  "routeParams rel = js_join '', '' (param_matches rel)"

section \<open>Exports\<close>

definition word_char :: "char \<Rightarrow> bool" where
  "word_char c \<longleftrightarrow> is_letter c \<or> is_digit c \<or> c = CHR ''_''"

definition word_after :: "string \<Rightarrow> string \<Rightarrow> string option" where
  "word_after prefix s =
     (let w = takeWhile word_char (drop (length prefix) s) in if starts_with prefix s \<and> w \<noteq> [] then Some w else None)"

definition after_async :: "string \<Rightarrow> string" where
  "after_async s = (if starts_with ''async '' s then drop 6 s else s)"

definition export_name :: "string \<Rightarrow> string option" where
  "export_name line =
     (if starts_with ''export '' line then
        (case word_after ''function '' (after_async (drop 7 line)) of
           Some w \<Rightarrow> Some w
         | None \<Rightarrow> word_after ''const '' (drop 7 line))
      else None)"

definition exportedNames :: "string \<Rightarrow> string list" where
  "exportedNames content = List.map_filter export_name (code_lines content)"

text \<open>A signature runs from the start of its line to the next opening brace, over lines.\<close>

definition signature_here :: "string \<Rightarrow> bool" where
  "signature_here s \<longleftrightarrow> starts_with ''export '' s \<and> word_after ''function '' (after_async (drop 7 s)) \<noteq> None"

function function_signatures :: "bool \<Rightarrow> string \<Rightarrow> string list" where
  "function_signatures bol [] = []"
| "function_signatures bol (c # s) =
     (if bol \<and> signature_here (c # s)
      then (c # takeWhile (\<lambda>d. d \<noteq> CHR ''{'') s) # function_signatures False (dropWhile (\<lambda>d. d \<noteq> CHR ''{'') s)
      else function_signatures (line_end c) s)"
  by pat_completeness auto
termination
  by (relation "measure (\<lambda>(b, s). length s)") (auto simp: le_imp_less_Suc length_dropWhile_le)

definition class_signature :: "string \<Rightarrow> string option" where
  "class_signature line = map_option (\<lambda>w. ''export class '' @ w) (word_after ''export class '' line)"

definition js_trimEnd :: "string \<Rightarrow> string" where
  "js_trimEnd s = rev (strip_start (map rev js_ws) (rev s))"

definition exportedSignatures :: "string \<Rightarrow> string list" where
  "exportedSignatures content = map js_trimEnd (function_signatures True content) @ List.map_filter class_signature (code_lines content)"

section \<open>The document\<close>

definition or_dash :: "string \<Rightarrow> string" where
  "or_dash s = (if s \<noteq> [] then s else [CHR 0xE2, CHR 0x80, CHR 0x94])"

definition quoted :: "string \<Rightarrow> string" where
  "quoted s = CHR 0x60 # s @ [CHR 0x60]"

text \<open>The rows of one file, and the rows of all; a file that cannot be read throws.\<close>

fun file_rows :: "(string \<Rightarrow> (string, string) result) \<Rightarrow> (string \<Rightarrow> string \<Rightarrow> string list) \<Rightarrow> string list \<Rightarrow> (string, string list) result" where
  "file_rows rd rows [] = Inr []"
| "file_rows rd rows (rel # rels) =
     await (rd rel) (\<lambda>content. await (file_rows rd rows rels) (\<lambda>more. Inr (rows rel content @ more)))"

definition export_rows :: "string \<Rightarrow> string \<Rightarrow> string list" where
  "export_rows rel content =
     map (\<lambda>name. ''| '' @ quoted name @ '' | '' @ quoted rel @ '' | '' @ or_dash (indexComment content) @ '' |'') (exportedNames content)"

definition appendExportTable :: "file_system \<Rightarrow> string list \<Rightarrow> string \<Rightarrow> string \<Rightarrow> string \<Rightarrow> string \<Rightarrow> (string, string list) result" where
  "appendExportTable fs out dir ext heading kind =
     await (file_rows (\<lambda>rel. readFileSync fs (dir @ ''/'' @ rel)) export_rows (sort (listFiles fs dir ext))) (\<lambda>rows.
       Inr (out @ [''## '' @ heading, [], ''| '' @ kind @ '' | File | Description |'', ''|---|---|---|''] @ rows @ [[]]))"

definition route_rows :: "string \<Rightarrow> string \<Rightarrow> string list" where
  "route_rows rel content = (case routeUrl rel of
     None \<Rightarrow> []
   | Some u \<Rightarrow> [''| '' @ quoted rel @ '' | '' @ quoted u @ '' | '' @ or_dash (routeParams rel) @ '' | '' @ or_dash (indexComment content) @ '' |''])"

text \<open>Layout files are skipped before they are read.\<close>

definition route_table :: "file_system \<Rightarrow> string \<Rightarrow> (string, string list) result" where
  "route_table fs routes_dir =
     await (file_rows (\<lambda>rel. readFileSync fs (routes_dir @ ''/'' @ rel)) route_rows
       (filter (\<lambda>rel. routeUrl rel \<noteq> None) (sort (listFiles fs routes_dir ''.tsx'')))) (\<lambda>rows.
     Inr ([''## Routes ('' @ quoted ''web/src/routes/'' @ '')'', [], ''| Route file | URL pattern | Params | Description |'', ''|---|---|---|---|'']
       @ rows @ [[]]))"

definition generated_line :: "int \<Rightarrow> string" where
  "generated_line now =
     (let d = take 16 (toISOString now) in
      ''_Generated '' @ takeWhile (\<lambda>c. c \<noteq> CHR ''T'') d @ (if CHR ''T'' \<in> set d then '' '' @ drop 1 (dropWhile (\<lambda>c. c \<noteq> CHR ''T'') d) else [])
      @ '' UTC. Read this at session start for frontend orientation._'')"

text \<open>The lines of the whole index; its file is their join and a final line feed.\<close>

definition index_lines :: "file_system \<Rightarrow> string \<Rightarrow> int \<Rightarrow> (string, string list) result" where
  "index_lines fs rootDir now =
     await (route_table fs (rootDir @ ''/web/src/routes'')) (\<lambda>routes.
     await (appendExportTable fs ([''# Frontend Index'', [], generated_line now, []] @ routes) (rootDir @ ''/web/src/components'') ''.tsx''
       (''Components ('' @ quoted ''web/src/components/'' @ '')'') ''Component'') (\<lambda>out.
     await (appendExportTable fs out (rootDir @ ''/web/src/hooks'') ''.ts'' (''Hooks ('' @ quoted ''web/src/hooks/'' @ '')'') ''Hook'') (\<lambda>out2.
     await (readFileSync fs (rootDir @ ''/web/src/api.ts'')) (\<lambda>api.
     Inr (out2 @ [''## API surface ('' @ quoted ''web/src/api.ts'' @ '')'', [], replicate 3 (CHR 0x60)]
       @ exportedSignatures api @ [replicate 3 (CHR 0x60), []])))))"

definition index_file :: "file_system \<Rightarrow> string \<Rightarrow> int \<Rightarrow> (string, string) result" where
  "index_file fs rootDir now = map_sum id (\<lambda>ls. js_join [CHR 0x0A] ls @ [CHR 0x0A]) (index_lines fs rootDir now)"

section \<open>The index and the router\<close>

text \<open>The module each route is imported from (\<open>router.tsx\<close>), as a path below \<open>web/src/routes\<close>.\<close>

fun route_file :: "route \<Rightarrow> string" where
  "route_file RootRoute = ''__root.tsx''"
| "route_file AuthenticatedRoute = ''_authenticated.tsx''"
| "route_file IndexRoute = ''index.tsx''"
| "route_file CallbackRoute = ''auth/callback.tsx''"
| "route_file ProjectRoute = ''projects/$slug.tsx''"
| "route_file ProjectIndexRoute = ''projects/$slug.index.tsx''"
| "route_file ProjectEnvRoute = ''projects/$slug.environments.$envSlug.tsx''"
| "route_file FlagListRoute = ''projects/$slug.environments.$envSlug.flags.tsx''"
| "route_file FlagDetailRoute = ''projects/$slug.environments.$envSlug.flags.$key.tsx''"
| "route_file FlagRulesRoute = ''projects/$slug.environments.$envSlug.flags.$key.rules.tsx''"
| "route_file FlagEvaluationsRoute = ''projects/$slug.environments.$envSlug.flags.$key.evaluations.tsx''"
| "route_file EnvironmentsOverviewRoute = ''projects/$slug.environments.tsx''"
| "route_file SegmentListRoute = ''projects/$slug.segments.tsx''"
| "route_file EnvironmentSettingsRoute = ''projects/$slug.settings.environments.tsx''"
| "route_file CompareRoute = ''projects/$slug.compare.tsx''"
| "route_file ProjectSettingsRoute = ''projects/$slug.settings.tsx''"
| "route_file ApiKeyListRoute = ''projects/$slug.api-keys.tsx''"
| "route_file MemberListRoute = ''projects/$slug.members.tsx''"
| "route_file AuditRoute = ''projects/$slug.audit.tsx''"
| "route_file ProjectFlagListRoute = ''projects/$slug.flags.tsx''"

text \<open>A route's path in the notation of the index.\<close>

definition index_url :: "string list \<Rightarrow> string" where
  "index_url ps = CHR ''/'' # js_join ''/'' (map (\<lambda>p. if starts_with ''$'' p then CHR '':'' # drop 1 p else p) ps)"

text \<open>
  The index tells the truth about the router. For every route of the application the URL derived from the name of its
  file is the path the router gives it, and the listed parameters are those of that path; only the two
  layouts have no row. A file below \<open>routes\<close> that is no route (\<open>flag-create-modal.tsx\<close>)
  is listed with a URL of its own.
\<close>

theorem index_agrees_with_router:
  "list_all (\<lambda>r. if r \<in> {RootRoute, AuthenticatedRoute} then routeUrl (route_file r) = None
       else routeUrl (route_file r) = Some (index_url (fullPath r)) \<and> param_matches (route_file r) = filter (starts_with ''$'') (fullPath r))
     createAppRouter"
  and "routeUrl ''projects/flag-create-modal.tsx'' = Some ''/projects/flag-create-modal''"
  by code_simp+

text \<open>
  What counts as an export: a name is listed exactly if a line of the file starts with the keywords and then has that
  whole word.
\<close>

lemma word_after_iff:
  "word_after prefix s = Some w \<longleftrightarrow>
     w \<noteq> [] \<and> (\<exists>rest. s = prefix @ w @ rest \<and> list_all word_char w \<and> (rest = [] \<or> \<not> word_char (hd rest)))"
proof
  assume "word_after prefix s = Some w"
  then have w: "w = takeWhile word_char (drop (length prefix) s)" "starts_with prefix s" "w \<noteq> []"
    by (auto simp: word_after_def Let_def split: if_splits)
  then have "s = prefix @ w @ dropWhile word_char (drop (length prefix) s)"
    by (auto simp: starts_with_iff)
  moreover have "list_all word_char w" using w(1) set_takeWhileD by (fastforce simp: list_all_iff)
  ultimately show "w \<noteq> [] \<and> (\<exists>rest. s = prefix @ w @ rest \<and> list_all word_char w \<and> (rest = [] \<or> \<not> word_char (hd rest)))"
    using w(3) hd_dropWhile by blast
next
  assume "w \<noteq> [] \<and> (\<exists>rest. s = prefix @ w @ rest \<and> list_all word_char w \<and> (rest = [] \<or> \<not> word_char (hd rest)))"
  then obtain rest where "w \<noteq> []" "s = prefix @ w @ rest" "list_all word_char w" "rest = [] \<or> \<not> word_char (hd rest)" by blast
  moreover then have "takeWhile word_char (w @ rest) = w"
    by (cases rest) (auto simp: list_all_iff takeWhile_append)
  ultimately show "word_after prefix s = Some w" by (simp add: word_after_def starts_with_iff)
qed

text \<open>
  Signatures: each begins an exported function, and runs up to a brace, so that it holds none; a parameter written
  as an object type cuts it short.
\<close>

lemma signature_prefix: "starts_with p s \<Longrightarrow> s = p @ drop (length p) s"
  by (auto simp: starts_with_iff)

lemma after_async_split: "s = (if starts_with ''async '' s then ''async '' else []) @ after_async s"
proof (cases "starts_with ''async '' s")
  case True
  have six: "length ''async '' = 6" by simp
  show ?thesis unfolding after_async_def if_P [OF True] by (rule signature_prefix [OF True, unfolded six])
next
  case False
  then show ?thesis by (simp add: after_async_def)
qed

lemma signature_here_iff:
  "signature_here s \<longleftrightarrow> (\<exists>a w rest. s = ''export '' @ a @ ''function '' @ w @ rest \<and> a \<in> {[], ''async ''} \<and> w \<noteq> [] \<and> list_all word_char w
     \<and> (rest = [] \<or> \<not> word_char (hd rest)))"
proof
  assume h: "signature_here s"
  then obtain w where e: "starts_with ''export '' s" and w: "word_after ''function '' (after_async (drop 7 s)) = Some w"
    by (auto simp: signature_here_def)
  from w obtain rest where r: "w \<noteq> []" "after_async (drop 7 s) = ''function '' @ w @ rest" "list_all word_char w" "rest = [] \<or> \<not> word_char (hd rest)"
    unfolding word_after_iff by blast
  let ?a = "if starts_with ''async '' (drop 7 s) then ''async '' else []"
  have seven: "length ''export '' = 7" by simp
  have "drop 7 s = ?a @ after_async (drop 7 s)" by (rule after_async_split)
  moreover have "s = ''export '' @ drop 7 s" using signature_prefix [OF e] unfolding seven .
  ultimately have "s = ''export '' @ ?a @ ''function '' @ w @ rest" unfolding r(2) by (rule trans [rotated, OF arg_cong])
  moreover have "?a \<in> {[], ''async ''}" by simp
  ultimately show "\<exists>a w rest. s = ''export '' @ a @ ''function '' @ w @ rest \<and> a \<in> {[], ''async ''} \<and> w \<noteq> [] \<and> list_all word_char w
     \<and> (rest = [] \<or> \<not> word_char (hd rest))"
    using r(1,3,4) by blast
next
  assume "\<exists>a w rest. s = ''export '' @ a @ ''function '' @ w @ rest \<and> a \<in> {[], ''async ''} \<and> w \<noteq> [] \<and> list_all word_char w
     \<and> (rest = [] \<or> \<not> word_char (hd rest))"
  then obtain a w rest where s: "s = ''export '' @ a @ ''function '' @ w @ rest" "a \<in> {[], ''async ''}" "w \<noteq> []" "list_all word_char w"
    "rest = [] \<or> \<not> word_char (hd rest)" by blast
  then have "after_async (drop 7 s) = ''function '' @ w @ rest" by (auto simp: after_async_def starts_with_def)
  then have "word_after ''function '' (after_async (drop 7 s)) = Some w" unfolding word_after_iff using s(3-5) by auto
  then show "signature_here s" using s(1) by (simp add: signature_here_def starts_with_def)
qed

lemma word_char_no_brace: "list_all word_char w \<Longrightarrow> CHR ''{'' \<notin> set w"
proof -
  have "\<not> word_char (CHR ''{'')" by code_simp
  then show "list_all word_char w \<Longrightarrow> CHR ''{'' \<notin> set w" by (auto simp: list_all_iff)
qed

lemma signature_upto_brace: "signature_here s \<Longrightarrow> signature_here (takeWhile (\<lambda>d. d \<noteq> CHR ''{'') s)"
proof -
  assume "signature_here s"
  then obtain a w rest where s: "s = ''export '' @ a @ ''function '' @ w @ rest" "a \<in> {[], ''async ''}" "w \<noteq> []" "list_all word_char w"
    "rest = [] \<or> \<not> word_char (hd rest)" unfolding signature_here_iff by blast
  let ?r = "takeWhile (\<lambda>d. d \<noteq> CHR ''{'') rest"
  have "takeWhile (\<lambda>d. d \<noteq> CHR ''{'') (w @ rest) = w @ ?r" using word_char_no_brace [OF s(4)] by (auto simp: takeWhile_append)
  then have "takeWhile (\<lambda>d. d \<noteq> CHR ''{'') s = ''export '' @ a @ ''function '' @ w @ ?r" using s(1,2) by auto
  moreover have "?r = [] \<or> \<not> word_char (hd ?r)" using s(5) by (cases rest) auto
  ultimately show ?thesis unfolding signature_here_iff using s(2-4) by blast
qed

lemma function_signatures_open:
  "g \<in> set (function_signatures bol s) \<Longrightarrow> signature_here g \<and> CHR ''{'' \<notin> set g"
proof (induction bol s rule: function_signatures.induct)
  case (2 bol c s)
  show ?case
  proof (cases "bol \<and> signature_here (c # s)")
    case True
    then have "c \<noteq> CHR ''{''" by (auto simp: signature_here_def starts_with_def)
    then have g: "c # takeWhile (\<lambda>d. d \<noteq> CHR ''{'') s = takeWhile (\<lambda>d. d \<noteq> CHR ''{'') (c # s)" by simp
    have "signature_here (c # takeWhile (\<lambda>d. d \<noteq> CHR ''{'') s)" "CHR ''{'' \<notin> set (c # takeWhile (\<lambda>d. d \<noteq> CHR ''{'') s)"
      unfolding g using True signature_upto_brace set_takeWhileD by fast+
    then show ?thesis using 2 True by auto
  next
    case False
    then show ?thesis using 2 by auto
  qed
qed simp

text \<open>The rows of a table are those of its files, in order; the only failure is a file that cannot be read.\<close>

lemma file_rows_iff:
  "file_rows rd rows rels = Inr out \<longleftrightarrow> (\<forall>rel \<in> set rels. \<exists>content. rd rel = Inr content) \<and> out = concat (map (\<lambda>rel. rows rel (projr (rd rel))) rels)"
  by (induction rels arbitrary: out) (auto simp: await_def split: sum.splits, blast)

text \<open>
  Completeness of the export tables: a table is written exactly if every listed file can be read, and it has, in the order of the
  file names, one row for each line of a file that exports a function or a constant, with that name and that file, and no other row.
\<close>

theorem export_table_complete:
  "appendExportTable fs out dir ext heading kind = Inr out' \<longleftrightarrow>
     (\<forall>rel \<in> set (listFiles fs dir ext). fs_read fs (dir @ ''/'' @ rel) \<noteq> None) \<and>
     out' = out @ [''## '' @ heading, [], ''| '' @ kind @ '' | File | Description |'', ''|---|---|---|'']
       @ concat (map (\<lambda>rel. export_rows rel (the (fs_read fs (dir @ ''/'' @ rel)))) (sort (listFiles fs dir ext))) @ [[]]"
proof -
  have rd: "(\<exists>content. readFileSync fs f = Inr content) \<longleftrightarrow> fs_read fs f \<noteq> None"
    and pr: "fs_read fs f \<noteq> None \<Longrightarrow> projr (readFileSync fs f) = the (fs_read fs f)" for f
    by (auto simp: readFileSync_def split: option.splits)
  have eq: "concat (map (\<lambda>rel. export_rows rel (projr (readFileSync fs (dir @ ''/'' @ rel)))) (sort (listFiles fs dir ext))) =
      concat (map (\<lambda>rel. export_rows rel (the (fs_read fs (dir @ ''/'' @ rel)))) (sort (listFiles fs dir ext)))"
    if "\<forall>rel \<in> set (listFiles fs dir ext). fs_read fs (dir @ ''/'' @ rel) \<noteq> None"
    using that pr by (intro arg_cong [of _ _ concat] map_cong) auto
  show ?thesis
  proof (cases "file_rows (\<lambda>rel. readFileSync fs (dir @ ''/'' @ rel)) export_rows (sort (listFiles fs dir ext))")
    case (Inl err)
    then have "\<not> (\<forall>rel \<in> set (listFiles fs dir ext). fs_read fs (dir @ ''/'' @ rel) \<noteq> None)"
      using file_rows_iff [of "\<lambda>rel. readFileSync fs (dir @ ''/'' @ rel)" export_rows "sort (listFiles fs dir ext)"]
      by (auto simp: rd)
    then show ?thesis using Inl by (auto simp: appendExportTable_def await_def)
  next
    case (Inr rows)
    then show ?thesis using Inr [unfolded file_rows_iff] eq by (auto simp: appendExportTable_def await_def rd)
  qed
qed

text \<open>The table of hooks takes the files that end in \<open>.ts\<close>: a hook in a \<open>.tsx\<close> file is in no table.\<close>

lemma tsx_hooks_missing: "f @ ''.tsx'' \<notin> set (listFiles fs dir ''.ts'')"
  by (auto simp: listFiles_def ends_with_def starts_with_def split: option.splits)

end
