(* ===== verification/Spec2Isabelle.thy ===== *)
theory Spec2Isabelle
  imports Open_Feature React_Sdk Rules_Spec Flag_Detail_Spec Flag_Lists_Spec Segments_Spec Members_Spec Api_Keys_Spec
    Settings_Spec Audit_Spec Evaluations_Page Compare_Page Overview_Spec App_Spec
    Query_Cache Frontend_Index
begin

text \<open>
  \<^bold>\<open>Cuttlegate: the TypeScript side of the feature-flag service.\<close>

  The repository has a server (Go), SDKs for several languages and a web application. This
  development models the JavaScript SDK (\<open>sdk/js/src\<close>) and the parts of the web application
  (\<open>web/src\<close>) that carry its logic. How they interact: a client evaluates flags over HTTP; the
  stream module keeps one server-sent-events connection alive and turns its bytes into flag
  events; the cached client seeds a cache by one HTTP hydration and keeps it current with
  those events; the mock client replaces a client in tests; the OpenFeature provider and the
  React bindings are adapters over the clients. The web application talks to the same service
  through \<open>api.ts\<close>, follows the same stream to invalidate its queries, and edits rules,
  flags, projects and environments.

  \<^bold>\<open>Foundations.\<close>
  \<^item> \<^verbatim>\<open>Js_Prelude\<close>: results (\<open>Inl\<close> thrown, \<open>Inr\<close> returned), insertion-ordered
    \<open>Map\<close> and \<open>Set\<close>, whose laws are the locales \<open>ordered_map\<close> and \<open>ordered_set\<close>.
  \<^item> \<^verbatim>\<open>Js_String\<close>: strings as UTF-8 byte lists, with \<open>indexOf\<close>, \<open>trim\<close>, \<open>split\<close>,
    \<open>encodeURIComponent\<close> (injective, no slash) and decimal numerals.
  \<^item> \<^verbatim>\<open>Json\<close>: \<open>JSON.parse\<close> and \<open>JSON.stringify\<close>, with their round trip. The parser has
    fuel, twice the length of its input, and \<open>json_fuel\<close> shows that more never
    matters.
  \<^item> \<^verbatim>\<open>Zod\<close>: the schema library is third-party code. It is the parameter
    \<open>safeParse\<close> with its documented behaviour as the locale \<open>zod\<close>; \<open>zod_parse\<close> is an
    instance, so the contract can be met.

  \<^bold>\<open>The SDK.\<close>
  \<^item> \<^verbatim>\<open>Sdk_Types\<close>: \<open>types.ts\<close>, thrown values and \<open>fetch\<close>; the network is a
    parameter that answers a request after some delay.
  \<^item> \<^verbatim>\<open>Client\<close>: \<open>client.ts\<close>. \<open>flag_client\<close> is the interface of a client (its
    operations agree with each other); the HTTP client, the cached client and the mock are
    interpretations of it. Shown: what the server lists is what the caller gets; which
    failures throw which error and which fall back to defaults.
  \<^item> \<^verbatim>\<open>Streaming\<close>: \<open>streaming.ts\<close>. A small action algebra orders callbacks, the abort
    flag and exceptions. The loops run over the list of what the network does (reads,
    attempts), so every finite behaviour is covered and no fuel is needed; a stream that is
    still open ends in \<open>Waiting\<close> or \<open>Running\<close>. Shown: exact in-order delivery for every
    chunking, silence after \<open>close()\<close>, the backoff schedule, when errors are terminal.
  \<^item> \<^verbatim>\<open>Cached_Client\<close>, \<^verbatim>\<open>Cached_Spec\<close>: \<open>cached-client.ts\<close>. The closure's variables
    are the record \<open>cc\<close>; each handler is a function on it and \<open>cc_step\<close> is their
    interleaving, one step per promise continuation. Shown: an invariant of all reachable
    states, that no update is lost around the hydration, that the hydration settles (at most
    three steps of it, by a measure), its failures, the exact effect of an event, the store's
    round trip, and that a closed client is inert.
  \<^item> \<^verbatim>\<open>Mock_Client\<close>: \<open>testing.ts\<close> refines a specification over the history of calls.
  \<^item> \<^verbatim>\<open>Open_Feature\<close>: \<open>openfeature.ts\<close>, proved once over \<open>flag_client\<close>; rounding of
    numbers to doubles is a parameter.
  \<^item> \<^verbatim>\<open>React_Sdk\<close>: \<open>react.ts\<close>, provider and hooks as step relations.

  \<^bold>\<open>The web application.\<close>
  \<^item> \<^verbatim>\<open>Web_Ui\<close>: element trees, queries, mutations, effects, and the primitives of
    \<open>components/ui\<close>. A page is a state, messages, an update that returns effects, and a
    view; \<open>clicks\<close> and \<open>texts\<close> say what a view offers and shows.
  \<^item> \<^verbatim>\<open>Web_Api\<close>: \<open>api.ts\<close>, \<open>auth.ts\<close>, \<open>queryClient.ts\<close> and the hooks, among them
    the page's own stream reader, which reuses the framing lemmas of \<^verbatim>\<open>Streaming\<close>.
  \<^item> \<^verbatim>\<open>Page_Runs\<close>: what a rendered tree offers (\<open>offered\<close>: enabled controls, fields, options, forms
    that can be submitted) and the runs of a page: \<open>page_run\<close> alternates offered messages
    and responses with the page's update, under an environment that may change at each step. The
    locales \<open>page\<close> and \<open>dialog\<close> lift an invariant of one step to all runs; each page that has one is
    an interpretation.
  \<^item> \<^verbatim>\<open>Js_Date\<close>: the calendar, ISO timestamps and \<open>utils/date.ts\<close>; what \<open>Intl\<close> renders is a value.
  \<^item> \<^verbatim>\<open>Data_Table\<close>: \<open>components/ui/DataTable.tsx\<close>: stable sorting, paging.
  \<^item> \<^verbatim>\<open>Analytics\<close>: \<open>FlagAnalyticsPanel.tsx\<close>: the filled window of days, the geometry of the bars.
  \<^item> \<^verbatim>\<open>Rules_Page\<close>, \<^verbatim>\<open>Rules_Spec\<close>: the targeting-rule page: reordering with
    optimistic renumbering and the patches it sends, the rule and rollout editors, the rows.
  \<^item> \<^verbatim>\<open>Dialogs\<close>, \<^verbatim>\<open>Dialogs_Spec\<close>: the dialogs that create projects, environments and
    flags and confirm deletions.
  \<^item> \<^verbatim>\<open>Flag_Detail\<close>, \<^verbatim>\<open>Flag_Detail_Spec\<close>: the page of one flag: the card with its editor, the toggles,
    the evaluation panel, the history. Shown: what Save can send in any run, that the editor overwrites
    newer values, what an evaluation sends.
  \<^item> \<^verbatim>\<open>Flag_Lists\<close>, \<^verbatim>\<open>Flag_Lists_Spec\<close>: the flags of an environment and of a project over the data table.
    Shown: the rows of a search and their order, the round trip of the query string, deletions only
    after the key was typed, the limits of paging.
  \<^item> \<^verbatim>\<open>Segments_Page\<close>, \<^verbatim>\<open>Segments_Spec\<close>: segments and their members: every saved list is clean; the bulk
    editor can overwrite another segment.
  \<^item> \<^verbatim>\<open>Members_Page\<close>, \<^verbatim>\<open>Members_Spec\<close>: the members of a project: nobody but an administrator sends a request.
  \<^item> \<^verbatim>\<open>Api_Keys\<close>, \<^verbatim>\<open>Api_Keys_Spec\<close>: API keys: valid requests; the key that is meant to be shown once is shown again.
  \<^item> \<^verbatim>\<open>Settings_Pages\<close>, \<^verbatim>\<open>Settings_Spec\<close>: the settings of a project and its environments: who can rename and
    delete, the name that cannot be taken back, the rename that is sent twice.
  \<^item> \<^verbatim>\<open>Project_Overview\<close>, \<^verbatim>\<open>Overview_Spec\<close>: the list of projects, the dashboard, the environments of a project:
    the newest flags are shown, every request is valid, and the gaps of the dashboard.
  \<^item> \<^verbatim>\<open>Audit_Page\<close>, \<^verbatim>\<open>Audit_Spec\<close>: the audit log: every entry is reached page by page, the states are printed faithfully.
  \<^item> \<^verbatim>\<open>Evaluations_Page\<close>, \<^verbatim>\<open>Compare_Page\<close>: the evaluations of a flag, the matrix of flags and environments.
  \<^item> \<^verbatim>\<open>App_Shell\<close>, \<^verbatim>\<open>App_Spec\<close>: start-up, the error boundary, the route table and its guard, the sign-in callback,
    side bar, switcher and user menu. Shown: no page without a user, signing in leads back, no dead links,
    what is highlighted.
  \<^item> \<^verbatim>\<open>Query_Cache\<close>: the composition of the pages through the cache they share: each \<open>useQuery\<close> call is a
    \<open>query_def\<close>, \<open>app_query\<close> collects them. Shown: queries with one key agree, with one exception; which
    queries a stream of change events, a switch and a deletion fetch again.
  \<^item> \<^verbatim>\<open>Frontend_Index\<close>: \<open>scripts/gen-frontend-index.ts\<close>: the URLs it derives are those of the router, its tables
    are complete.

  This theory joins the stream to the cached client: from the bytes of the server to the answer
  of a lookup.

  \<^bold>\<open>Not modelled.\<close> The Go server and the other SDKs (other languages); styling, icons and
  the texts of translations and their set-up; re-exporting modules; the documentation site; test
  harnesses. Third-party packages (zod, OIDC client, query and router libraries, Radix,
  OpenFeature's types) are parameters or inputs. A response whose JSON lies about the
  declared types where the code casts without checking is outside the model and marked so.

  \<^bold>\<open>Plan.\<close> All components of the SDK and of the web application are modelled. Left: the retry and
  refetch timing of the query library, and runs that span several pages.
\<close>

section \<open>From the server's bytes to a lookup\<close>

text \<open>
  The callbacks the cached client registers with the stream, and what a callback does to the
  client; \<open>we\<close> says whether the consumer gave \<open>onError\<close>.
\<close>

definition cached_options :: StreamOptions where
  "cached_options = \<lparr>has_onError = True, has_onConnected = True, has_onDisconnect = False\<rparr>"

definition cc_callback :: "bool \<Rightarrow> callback \<Rightarrow> cc \<Rightarrow> cc" where
  "cc_callback we cb st = (case cb of
     OnFlagChange e \<Rightarrow> fst (onFlagChange no_throw e st)
   | OnError e \<Rightarrow> onSSEError we e st
   | OnConnected r \<Rightarrow> onConnected r st
   | OnDisconnect \<Rightarrow> st)"

fun item_events :: "item list \<Rightarrow> FlagStateChangedEvent list" where
  "item_events [] = []"
| "item_events (Event e # is) = e # item_events is"
| "item_events (_ # is) = item_events is"

lemma live_callback:
  assumes "hydrationComplete st" and "\<not> closed st"
  shows "hydrationComplete (cc_callback we cb st) \<and> \<not> closed (cc_callback we cb st)
    \<and> map_get (cache (cc_callback we cb st)) k =
        (case cb of OnFlagChange e \<Rightarrow> map_option (overlay [e] k) (map_get (cache st) k) | _ \<Rightarrow> map_get (cache st) k)"
proof (cases cb)
  case (OnFlagChange e)
  obtain st' x where ap: "applyCacheEvent no_throw e st = (st', x)" by fastforce
  with applyCacheEvent_frame [OF ap] applyCacheEvent_get [of no_throw e st k] assms OnFlagChange
  show ?thesis by (simp add: cc_callback_def onFlagChange_def)
qed (use assms in \<open>simp_all add: cc_callback_def onSSEError_def onConnected_def report_def\<close>)

lemma overlay_none: "map_option (overlay [] k) x = x"
  by (cases x) simp_all

lemma live_item:
  assumes "hydrationComplete st" and "\<not> closed st"
  shows "hydrationComplete (fold (cc_callback we) (item_calls cached_options i) st)
    \<and> \<not> closed (fold (cc_callback we) (item_calls cached_options i) st)
    \<and> map_get (cache (fold (cc_callback we) (item_calls cached_options i) st)) k =
        map_option (overlay (item_events [i]) k) (map_get (cache st) k)"
proof (cases i)
  case (Event e)
  with live_callback [OF assms, of we "OnFlagChange e" k] show ?thesis by simp
next
  case (Comment c)
  with assms show ?thesis by (simp add: overlay_none)
next
  case (Malformed m)
  with live_callback [OF assms, of we "OnError (CuttlegateError ''invalid_response'' ''SSE data is not valid JSON'')" k]
  show ?thesis by (simp add: cached_options_def overlay_none)
qed

lemma item_events_Cons: "item_events (i # items) = item_events [i] @ item_events items"
  by (cases i) simp_all

lemma live_callbacks:
  assumes "hydrationComplete st" and "\<not> closed st"
  shows "map_get (cache (fold (cc_callback we) (concat (map (item_calls cached_options) items)) st)) k =
    map_option (overlay (item_events items) k) (map_get (cache st) k)"
  using assms
proof (induction items arbitrary: st)
  case Nil
  then show ?case by (simp add: overlay_none option.map_ident)
next
  case (Cons i items)
  let ?st = "fold (cc_callback we) (item_calls cached_options i) st"
  have live: "hydrationComplete ?st" "\<not> closed ?st"
    "map_get (cache ?st) k = map_option (overlay (item_events [i]) k) (map_get (cache st) k)"
    using live_item [OF Cons.prems] by simp_all
  show ?case
    unfolding item_events_Cons [of i items]
    using Cons.IH [OF live(1,2)] live(3) by (simp add: overlay_append option.map_comp o_def)
qed

text \<open>
  C8: from bytes to lookups. Let a hydrated, open cached client read a stream in which the
  server wrote events, comments and malformed lines, cut into chunks in any way. Afterwards a
  lookup of a key gives its previous result with the state of the last event for that key, and
  \<open>not_found\<close> exactly for the keys that were not cached before.
\<close>

theorem bytes_to_lookup:
  assumes "zod safeParse" and "\<And>cb. \<not> closes (react cb) \<and> \<not> throws (react cb)"
    and "list_all item_ok items" and "list_all chunk_step es"
    and "concat (map chunk_bytes es) = concat (map frame items)"
    and "hydrationComplete st" and "\<not> closed st"
  shows "let cbs = fst (readSSEStream (processSSEBlock safeParse cached_options react) [] es False);
             st' = fold (cc_callback we) cbs st
         in (case map_get (cache st) k of
               Some r \<Rightarrow> cc_evaluate k ctx st' = overlay (item_events items) k r
             | None \<Rightarrow> r_reason (cc_evaluate k ctx st') = ''not_found'')"
proof -
  have "fst (readSSEStream (processSSEBlock safeParse cached_options react) [] es False) =
      concat (map (item_calls cached_options) items)"
    using sse_blocks_frames [OF assms(3)] for_each_items [OF assms(1,2,3)] assms(5)
    by (simp add: readSSEStream_zod [OF assms(1,2,4)])
  then show ?thesis
    using live_callbacks [OF assms(6,7), of we items k] by (simp add: Let_def cc_evaluate_def split: option.split)
qed

theorem bytes_to_lookup_witness:
  "let cbs = fst (readSSEStream (processSSEBlock zod_parse cached_options plain_reaction) []
         (map (\<lambda>c. demo_read [c]) (frame (Event demo_off_event))) False)
   in \<not> r_enabled (cc_evaluate ''dark'' demo_context (fold (cc_callback True) cbs demo_live))"
proof -
  let ?s = "frame (Event demo_off_event)"
  have bytes: "concat (map chunk_bytes (map (\<lambda>c. demo_read [c]) ?s)) = concat (map frame [Event demo_off_event])"
    by (simp add: o_def demo_read_ok)
  have chunks: "list_all chunk_step (map (\<lambda>c. demo_read [c]) ?s)" by (auto simp: list_all_iff demo_read_ok)
  have items: "list_all item_ok [Event demo_off_event]" by (simp add: demo_off_event_def)
  have react: "\<And>cb. \<not> closes (plain_reaction cb) \<and> \<not> throws (plain_reaction cb)" by (simp add: plain_reaction_def)
  have live: "hydrationComplete demo_live" "\<not> closed demo_live" by (simp_all add: demo_live_def cc_init_def)
  have get: "map_get (cache demo_live) ''dark'' = Some (to_result ''now'' demo_flag)"
    by (simp add: demo_live_def map_get_def)
  from bytes_to_lookup [OF zp.zod_axioms react items chunks bytes live, where k = "''dark''" and we = True and ctx = demo_context] get
  show ?thesis by (simp add: Let_def overlay_single demo_off_event_def)
qed

end
